(* ===== verification/ConfigTypes.thy ===== *)
theory ConfigTypes
  imports Prelude Complex_Main
begin

text \<open>
  The configuration as data (\<open>internal/config/config.go\<close>): one record per struct, with the
  source's fields. A nil pointer is \<open>None\<close>; \<open>[]*Pool\<close> may hold nil entries before
  validation, so the pool list is a list of options. Maps whose iteration order reaches a
  result (the extra environment) are association lists in that order. A duration is an
  integer number of nanoseconds. \<open>cpus\<close>, a float64, is a rational.
\<close>

section \<open>Durations and provider kinds\<close>

definition Second :: int where "Second = 1000000000"
definition Millisecond :: int where "Millisecond = 1000000"
definition Minute :: int where "Minute = 60 * Second"
definition Hour :: int where "Hour = 60 * Minute"

lemmas duration_defs = Second_def Millisecond_def Minute_def Hour_def

definition ProviderDocker :: string where "ProviderDocker = ''docker''"
definition ProviderProcess :: string where "ProviderProcess = ''process''"

definition DefaultPollInterval :: int where "DefaultPollInterval = 15 * Second"
definition DefaultWebhookPoll :: int where "DefaultWebhookPoll = 2 * Minute"
definition DefaultOwnerActiveWithin :: int where "DefaultOwnerActiveWithin = 720 * Hour"
definition DefaultMaxRunners :: int where "DefaultMaxRunners = 4"
definition DefaultIdleTimeout :: int where "DefaultIdleTimeout = 5 * Minute"
definition DefaultJobTimeout :: int where "DefaultJobTimeout = 6 * Hour"
definition DefaultRepoRefresh :: int where "DefaultRepoRefresh = 10 * Minute"
definition DefaultAddr :: string where "DefaultAddr = ''127.0.0.1:8730''"
definition DefaultDockerWorkDir :: string where "DefaultDockerWorkDir = ''/home/runner/_work''"
definition DefaultWinDockerWorkDir :: string where
  "DefaultWinDockerWorkDir = ''C:'' @ [CHR 0x5C] @ ''actions-runner'' @ [CHR 0x5C] @ ''_work''"

lemmas default_defs =
  DefaultPollInterval_def DefaultWebhookPoll_def DefaultOwnerActiveWithin_def
  DefaultMaxRunners_def DefaultIdleTimeout_def DefaultJobTimeout_def DefaultRepoRefresh_def

section \<open>Records\<close>

record AppAuth =
  app_AppID :: int
  app_InstallationID :: int
  app_PrivateKey :: string
  app_PrivateKeyPath :: string

record RepoFilter =
  rf_Include :: "string list"
  rf_Exclude :: "string list"
  rf_ActiveWithin :: int
  rf_RefreshInterval :: int
  rf_Archived :: bool

record GitHub =
  gh_Org :: string
  gh_Owner :: string
  gh_Token :: string
  gh_App :: "AppAuth option"
  gh_Webhook :: bool
  gh_APIURL :: string
  gh_WebURL :: string
  gh_RunnerGroup :: string
  gh_PollInterval :: int
  gh_Repos :: RepoFilter

record Server =
  srv_Addr :: string
  srv_StateDir :: string
  srv_Token :: string

record Log =
  log_Level :: string
  log_Format :: string

record DockerTLS =
  tls_CAFile :: string
  tls_CertFile :: string
  tls_KeyFile :: string
  tls_SkipVerify :: bool

record RegistryAuth =
  ra_Username :: string
  ra_Password :: string
  ra_Server :: string

record DockerSpec =
  d_Host :: string
  d_Image :: string
  d_Pull :: string
  d_Platform :: string
  d_Privileged :: bool
  d_Network :: string
  d_Isolation :: string
  d_Volumes :: "string list"
  d_Env :: "(string \<times> string) list"
  d_WorkTmpfs :: bool
  d_WorkTmpfsSize :: string
  d_WorkDir :: string
  d_CPUs :: rat
  d_Memory :: string
  d_ShmSize :: string
  d_DockerInDocker :: bool
  d_TLS :: "DockerTLS option"
  d_RegistryAuth :: "RegistryAuth option"

record ProcessSpec =
  p_TemplateDir :: string
  p_InstancesDir :: string
  p_Env :: "(string \<times> string) list"
  p_User :: string
  p_PreflightScript :: string

record Pool =
  pool_Name :: string
  pool_Labels :: "string list"
  pool_Provider :: string
  pool_Min :: int
  pool_Max :: int
  pool_IdleTimeout :: int
  pool_JobTimeout :: int
  pool_RunnerGroup :: string
  pool_Docker :: "DockerSpec option"
  pool_Process :: "ProcessSpec option"

record Config =
  cfg_GitHub :: GitHub
  cfg_Server :: Server
  cfg_Pools :: "Pool option list"
  cfg_Log :: Log
  cfg_Path :: string

text \<open>Go's zero values of the structs the program builds field by field.\<close>

definition empty_process :: ProcessSpec where
  "empty_process = \<lparr> p_TemplateDir = [], p_InstancesDir = [], p_Env = [], p_User = [],
     p_PreflightScript = [] \<rparr>"

definition empty_repos :: RepoFilter where
  "empty_repos = \<lparr> rf_Include = [], rf_Exclude = [], rf_ActiveWithin = 0,
     rf_RefreshInterval = 0, rf_Archived = False \<rparr>"

definition empty_github :: GitHub where
  "empty_github = \<lparr> gh_Org = [], gh_Owner = [], gh_Token = [], gh_App = None, gh_Webhook = False,
     gh_APIURL = [], gh_WebURL = [], gh_RunnerGroup = [], gh_PollInterval = 0,
     gh_Repos = empty_repos \<rparr>"

definition empty_docker :: DockerSpec where
  "empty_docker = \<lparr> d_Host = [], d_Image = [], d_Pull = [], d_Platform = [], d_Privileged = False,
     d_Network = [], d_Isolation = [], d_Volumes = [], d_Env = [], d_WorkTmpfs = False,
     d_WorkTmpfsSize = [], d_WorkDir = [], d_CPUs = 0, d_Memory = [], d_ShmSize = [],
     d_DockerInDocker = False, d_TLS = None, d_RegistryAuth = None \<rparr>"

definition empty_config :: Config where
  "empty_config = \<lparr> cfg_GitHub = empty_github,
     cfg_Server = \<lparr> srv_Addr = [], srv_StateDir = [], srv_Token = [] \<rparr>,
     cfg_Pools = [], cfg_Log = \<lparr> log_Level = [], log_Format = [] \<rparr>, cfg_Path = [] \<rparr>"

section \<open>Accessors\<close>

text \<open>The pools of a loaded configuration: \<open>Validate\<close> refuses nil entries.\<close>

definition pools :: "Config \<Rightarrow> Pool list" where
  "pools c = List.map_filter id (cfg_Pools c)"

text \<open>\<open>GitHub.Entity\<close>.\<close>

definition Entity :: "GitHub \<Rightarrow> string" where
  "Entity g = (if gh_Owner g \<noteq> [] then gh_Owner g else gh_Org g)"

text \<open>\<open>Config.Pool\<close>: the first pool with the name, if any.\<close>

definition config_Pool :: "Config \<Rightarrow> string \<Rightarrow> Pool option" where
  "config_Pool c name = find (\<lambda>p. pool_Name p = name) (pools c)"

definition EffectiveRunnerGroup :: "Config \<Rightarrow> Pool \<Rightarrow> string" where
  "EffectiveRunnerGroup c p =
     (if pool_RunnerGroup p \<noteq> [] then pool_RunnerGroup p else gh_RunnerGroup (cfg_GitHub c))"

definition isWindowsPool :: "Pool \<Rightarrow> bool" where
  "isWindowsPool p = list_ex (\<lambda>l. equal_fold l ''windows'') (pool_Labels p)"

definition isMacPool :: "Pool \<Rightarrow> bool" where
  "isMacPool p = list_ex (\<lambda>l. List.member [''macos'', ''macos-latest'', ''darwin'', ''osx''] (to_lower l))
     (pool_Labels p)"

lemma config_Pool_Some:
  "config_Pool c name = Some p \<Longrightarrow> p \<in> set (pools c) \<and> pool_Name p = name"
  by (auto simp: config_Pool_def find_Some_iff)

lemma config_Pool_None:
  "config_Pool c name = None \<longleftrightarrow> name \<notin> pool_Name ` set (pools c)"
  by (auto simp: config_Pool_def find_None_iff)

end
