(* ===== verification/Paths.thy ===== *)
theory Paths
  imports Prelude
begin

text \<open>
  The lexical path functions of Go's \<open>path/filepath\<close> that the providers and the
  configuration use, for a Unix host: \<open>Clean\<close>, \<open>Join\<close>, \<open>Base\<close>, \<open>Dir\<close>.
\<close>

fun clean_step :: "bool \<Rightarrow> string list \<Rightarrow> string \<Rightarrow> string list" where
  "clean_step rooted stk e =
     (if e = [] \<or> e = ''.'' then stk
      else if e = ''..'' then
        (case stk of
           [] \<Rightarrow> (if rooted then [] else [''..''])
         | t # r \<Rightarrow> (if t = ''..'' then ''..'' # stk else r))
      else e # stk)"

definition path_clean :: "string \<Rightarrow> string" where
  "path_clean p =
     (let rooted = (case p of c # _ \<Rightarrow> c = CHR ''/'' | [] \<Rightarrow> False);
          body = join_str ''/'' (rev (foldl (clean_step rooted) [] (split_char (CHR ''/'') p)))
      in if rooted then CHR ''/'' # body else if body = [] then ''.'' else body)"

definition filepath_join :: "string list \<Rightarrow> string" where
  "filepath_join es = (let ne = filter (\<lambda>e. e \<noteq> []) es
                       in if ne = [] then [] else path_clean (join_str ''/'' ne))"

definition filepath_base :: "string \<Rightarrow> string" where
  "filepath_base p =
     (if p = [] then ''.''
      else (let q = rev (dropWhile (\<lambda>c. c = CHR ''/'') (rev p))
            in if q = [] then ''/'' else last (split_char (CHR ''/'') q)))"

lemma split_char_nonempty [simp]: "split_char d s \<noteq> []"
  by (induction d s rule: split_char.induct) (auto split: list.splits)

lemma split_char_no_sep: "x \<in> set (split_char d s) \<Longrightarrow> d \<notin> set x"
  by (induction d s arbitrary: x rule: split_char.induct) (fastforce split: list.splits if_splits)+

lemma join_split [simp]: "join_str [d] (split_char d s) = s"
proof (induction d s rule: split_char.induct)
  case (2 d c s)
  show ?case
  proof (cases "split_char d s")
    case (Cons x xs)
    then show ?thesis using 2 by (cases xs) auto
  qed simp
qed simp

lemma split_char_id: "d \<notin> set s \<Longrightarrow> split_char d s = [s]"
  by (induction d s rule: split_char.induct) auto

text \<open>A base name is a single path element: it never holds a separator, but for \<open>"/"\<close> itself.\<close>

lemma last_split_no_sep: "d \<notin> set (last (split_char d s))"
  by (rule split_char_no_sep [OF last_in_set [OF split_char_nonempty]])

lemma filepath_base_elem: "filepath_base p \<noteq> ''/'' \<Longrightarrow> CHR ''/'' \<notin> set (filepath_base p)"
  using last_split_no_sep by (auto simp: filepath_base_def Let_def split: if_splits)

end
