(* ===== verification/ConfigLoad.thy ===== *)
theory ConfigLoad
  imports ConfigTypes Paths
begin

text \<open>
  Loading a configuration (\<open>internal/config/config.go\<close>, \<open>edit.go\<close>): the expansion of
  environment references outside YAML comments, the defaults, and the validation. The YAML
  decoder is third-party code and is the parameter \<open>decode\<close> of \<open>Parse\<close>; the platform, the
  home directory and the process environment are fields of a \<open>host\<close> record.
\<close>

record host =
  GOOS :: string
  GOARCH :: string
  UserHomeDir :: "string option"
  UserConfigDir :: "string option"
  LookupEnv :: "string \<Rightarrow> string option"

section \<open>YAML comments\<close>

text \<open>
  The loop of \<open>splitYAMLComment\<close>: \<open>done\<close> is \<open>line[:i]\<close> reversed, so its head is
  \<open>line[i-1]\<close>.
\<close>

fun split_comment_from :: "bool \<Rightarrow> bool \<Rightarrow> string \<Rightarrow> string \<Rightarrow> string \<times> string" where
  "split_comment_from inSingle inDouble seen [] = (rev seen, [])"
| "split_comment_from inSingle inDouble seen (c # r) =
     (if c = CHR 0x27 \<and> \<not> inDouble then split_comment_from (\<not> inSingle) inDouble (c # seen) r
      else if c = CHR 0x22 \<and> \<not> inSingle then
        (case seen of
           p # _ \<Rightarrow> if p = CHR 0x5C then split_comment_from inSingle inDouble (c # seen) r
                    else split_comment_from inSingle (\<not> inDouble) (c # seen) r
         | [] \<Rightarrow> split_comment_from inSingle (\<not> inDouble) (c # seen) r)
      else if c = CHR ''#'' \<and> \<not> inSingle \<and> \<not> inDouble then
        (case seen of
           [] \<Rightarrow> ([], c # r)
         | p # _ \<Rightarrow> if p = CHR '' '' \<or> p = CHR 0x09 then (rev seen, c # r)
                    else split_comment_from inSingle inDouble (c # seen) r)
      else split_comment_from inSingle inDouble (c # seen) r)"

definition splitYAMLComment :: "string \<Rightarrow> string \<times> string" where
  "splitYAMLComment line = split_comment_from False False [] line"

section \<open>Environment references\<close>

definition name_start :: "char \<Rightarrow> bool" where
  "name_start c = (is_upper_alpha c \<or> is_lower_alpha c \<or> c = CHR ''_'')"

definition name_char :: "char \<Rightarrow> bool" where
  "name_char c = (name_start c \<or> is_digit c)"

text \<open>
  One match of \<open>envRE\<close> at the start of a text: the name, the default if there is one, and
  the text after the closing brace.
\<close>

definition match_env :: "string \<Rightarrow> (string \<times> string option \<times> string) option" where
  "match_env s =
     (if \<not> has_prefix s (CHR ''$'' # ''{'') then None
      else (let r = drop 2 s; name = takeWhile name_char r; t = dropWhile name_char r
            in if name = [] \<or> \<not> name_start (hd name) then None
               else (case t of
                  [] \<Rightarrow> None
                | c # u \<Rightarrow>
                    if c = CHR ''}'' then Some (name, None, u)
                    else if has_prefix t '':-'' then
                      (let v = drop 2 t; d = takeWhile (\<lambda>c. c \<noteq> CHR ''}'') v
                       in case dropWhile (\<lambda>c. c \<noteq> CHR ''}'') v of
                            [] \<Rightarrow> None
                          | _ # w \<Rightarrow> Some (name, Some d, w))
                    else None)))"

lemma match_env_shorter:
  assumes "match_env s = Some (n, d, r)"
  shows "length r < length s"
proof -
  have le: "length (dropWhile P xs) \<le> length xs" for P and xs :: string
    by (rule length_dropWhile_le)
  from assms obtain c u where t: "dropWhile name_char (drop 2 s) = c # u"
    by (auto simp: match_env_def Let_def split: if_splits list.splits)
  with le [of name_char "drop 2 s"] have cu: "Suc (length u) \<le> length s - 2" "length s > 2" by auto
  show ?thesis
  proof (cases "c = CHR ''}''")
    case True
    with assms t cu show ?thesis by (auto simp: match_env_def Let_def split: if_splits)
  next
    case False
    with assms t obtain x where
      w: "dropWhile (\<lambda>c. c \<noteq> CHR ''}'') (drop 2 (c # u)) = x # r"
      by (auto simp: match_env_def Let_def split: if_splits list.splits)
    have "length (x # r) \<le> length (drop 2 (c # u))" unfolding w [symmetric] by (rule le)
    with cu show ?thesis by simp
  qed
qed

text \<open>
  \<open>envRE.ReplaceAllStringFunc\<close> over the code part of a line: leftmost matches, left to
  right, with the names that were not set and had no default, in order.
\<close>

function expand_code :: "(string \<Rightarrow> string option) \<Rightarrow> string \<Rightarrow> string \<times> string list" where
  "expand_code env s =
     (case s of
        [] \<Rightarrow> ([], [])
      | c # r \<Rightarrow>
          (case match_env s of
             None \<Rightarrow> (let (o', m) = expand_code env r in (c # o', m))
           | Some (name, dflt, rest) \<Rightarrow>
               (let (o', m) = expand_code env rest
                in case env name of
                     Some v \<Rightarrow> (v @ o', m)
                   | None \<Rightarrow> (case dflt of Some d \<Rightarrow> (d @ o', m) | None \<Rightarrow> (o', name # m)))))"
  by pat_completeness auto
termination
  by (relation "measure (\<lambda>(env, s). length s)") (auto dest: match_env_shorter)

declare expand_code.simps [simp del]

lemma expand_code_Nil [simp]: "expand_code env [] = ([], [])"
  by (simp add: expand_code.simps)

text \<open>\<open>dedupe\<close>: the first occurrence of each string, in order.\<close>

fun dedupe_from :: "string list \<Rightarrow> string list \<Rightarrow> string list" where
  "dedupe_from seen [] = []"
| "dedupe_from seen (s # r) =
     (if List.member seen s then dedupe_from seen r else s # dedupe_from (s # seen) r)"

definition dedupe :: "string list \<Rightarrow> string list" where
  "dedupe xs = dedupe_from [] xs"

definition expand_line :: "(string \<Rightarrow> string option) \<Rightarrow> string \<Rightarrow> string \<times> string list" where
  "expand_line env line =
     (let (code, comment) = splitYAMLComment line; (o', m) = expand_code env code
      in (o' @ comment, m))"

definition nl :: char where "nl = CHR 0x0A"

text \<open>\<open>expandEnv\<close>: \<open>Inl\<close> carries the undefined names, deduplicated.\<close>

definition expandEnv :: "(string \<Rightarrow> string option) \<Rightarrow> string \<Rightarrow> string list + string" where
  "expandEnv env s =
     (let rs = map (expand_line env) (split_char nl s); missing = concat (map snd rs)
      in if missing \<noteq> [] then Inl (dedupe missing) else Inr (join_str [nl] (map fst rs)))"

text \<open>\<open>IsEnvRef\<close>.\<close>

definition IsEnvRef :: "string \<Rightarrow> bool" where
  "IsEnvRef s = (has_prefix s (CHR ''$'' # ''{'') \<and> has_suffix s ''}'')"

section \<open>Defaults\<close>

definition defaultStateDir :: "host \<Rightarrow> string" where
  "defaultStateDir h = (case UserConfigDir h of
      Some dir \<Rightarrow> filepath_join [dir, ''action-runner-cluster'']
    | None \<Rightarrow> ''.arc-state'')"

definition defaultDockerHost :: "host \<Rightarrow> string" where
  "defaultDockerHost h = (case LookupEnv h ''DOCKER_HOST'' of
      Some (c # v) \<Rightarrow> c # v
    | _ \<Rightarrow> if GOOS h = ''windows'' then ''npipe:////./pipe/docker_engine''
           else ''unix:///var/run/docker.sock'')"

text \<open>
  Each conditional assignment \<open>if x.F == "" { x.F = v }\<close> of the source is the update of
  field \<open>F\<close> with \<open>or_default\<close> of its old value.
\<close>

definition or_default :: "'a \<Rightarrow> 'a \<Rightarrow> 'a \<Rightarrow> 'a" where
  "or_default zero v x = (if x = zero then v else x)"

definition github_defaults :: "GitHub \<Rightarrow> GitHub" where
  "github_defaults g = g\<lparr>
     gh_PollInterval := or_default 0 (if gh_Webhook g then DefaultWebhookPoll else DefaultPollInterval)
                          (gh_PollInterval g),
     gh_APIURL := or_default [] ''https://api.github.com'' (gh_APIURL g),
     gh_WebURL := or_default [] ''https://github.com'' (gh_WebURL g),
     gh_Repos := (gh_Repos g)\<lparr>
       rf_ActiveWithin := (if gh_Owner g \<noteq> [] \<and> rf_Include (gh_Repos g) = []
                           then or_default 0 DefaultOwnerActiveWithin (rf_ActiveWithin (gh_Repos g))
                           else rf_ActiveWithin (gh_Repos g)),
       rf_RefreshInterval := or_default 0 DefaultRepoRefresh (rf_RefreshInterval (gh_Repos g))\<rparr>\<rparr>"

definition server_defaults :: "host \<Rightarrow> Server \<Rightarrow> Server" where
  "server_defaults h s = s\<lparr>
     srv_Addr := or_default [] DefaultAddr (srv_Addr s),
     srv_StateDir := or_default [] (defaultStateDir h) (srv_StateDir s)\<rparr>"

definition log_defaults :: "Log \<Rightarrow> Log" where
  "log_defaults l = l\<lparr>
     log_Level := or_default [] ''info'' (log_Level l),
     log_Format := or_default [] ''text'' (log_Format l)\<rparr>"

definition docker_defaults :: "host \<Rightarrow> Pool \<Rightarrow> DockerSpec \<Rightarrow> DockerSpec" where
  "docker_defaults h p d = d\<lparr>
     d_Pull := or_default [] ''missing'' (d_Pull d),
     d_WorkDir := or_default [] (if isWindowsPool p then DefaultWinDockerWorkDir else DefaultDockerWorkDir)
                    (d_WorkDir d),
     d_Host := or_default [] (defaultDockerHost h) (d_Host d)\<rparr>"

definition process_defaults :: "host \<Rightarrow> string \<Rightarrow> string \<Rightarrow> ProcessSpec \<Rightarrow> ProcessSpec" where
  "process_defaults h stateDir name s = s\<lparr>
     p_TemplateDir := or_default []
       (case UserHomeDir h of Some home \<Rightarrow> filepath_join [home, ''.arc'', ''runner-template''] | None \<Rightarrow> [])
       (p_TemplateDir s),
     p_InstancesDir := or_default []
       (case UserHomeDir h of
          Some home \<Rightarrow> filepath_join [home, ''.arc'', ''instances'', name]
        | None \<Rightarrow> filepath_join [stateDir, ''instances'', name])
       (p_InstancesDir s)\<rparr>"

definition default_provider :: "host \<Rightarrow> string" where
  "default_provider h = (if GOOS h = ''darwin'' then ProviderProcess else ProviderDocker)"

definition pool_defaults :: "host \<Rightarrow> GitHub \<Rightarrow> string \<Rightarrow> Pool \<Rightarrow> Pool" where
  "pool_defaults h g stateDir p =
     (let prov = or_default [] (default_provider h) (pool_Provider p)
      in p\<lparr>
     pool_Provider := prov,
     pool_IdleTimeout := or_default 0 DefaultIdleTimeout (pool_IdleTimeout p),
     pool_JobTimeout := or_default 0 DefaultJobTimeout (pool_JobTimeout p),
     pool_RunnerGroup := or_default [] (gh_RunnerGroup g) (pool_RunnerGroup p),
     pool_Docker := map_option (docker_defaults h p) (pool_Docker p),
     pool_Process :=
       (if prov = ProviderProcess
        then Some (process_defaults h stateDir (pool_Name p)
                     (case pool_Process p of None \<Rightarrow> empty_process | Some s \<Rightarrow> s))
        else pool_Process p)\<rparr>)"

text \<open>\<open>Config.applyDefaults\<close>.\<close>

definition applyDefaults :: "host \<Rightarrow> Config \<Rightarrow> Config" where
  "applyDefaults h c =
     (let g = github_defaults (cfg_GitHub c); s = server_defaults h (cfg_Server c)
      in c\<lparr>cfg_GitHub := g, cfg_Server := s, cfg_Log := log_defaults (cfg_Log c),
           cfg_Pools := map (map_option (pool_defaults h g (srv_StateDir s))) (cfg_Pools c)\<rparr>)"

section \<open>Validation\<close>

text \<open>\<open>poolNameRE\<close>: \<open>^[a-z0-9][a-z0-9-]{0,38}[a-z0-9]$\<close>.\<close>

definition name_edge :: "char \<Rightarrow> bool" where
  "name_edge c = (is_lower_alpha c \<or> is_digit c)"

definition pool_name_ok :: "string \<Rightarrow> bool" where
  "pool_name_ok s = (2 \<le> length s \<and> length s \<le> 40 \<and> name_edge (hd s) \<and> name_edge (last s)
                     \<and> list_all (\<lambda>c. name_edge c \<or> c = CHR ''-'') s)"

text \<open>How a message names a pool: by name, or by position when it has none.\<close>

datatype pool_ref = ByName string | ByIndex nat

text \<open>One constructor per message of \<open>Validate\<close>, in the order they are added.\<close>

datatype cfg_error =
    NoAccount | OrgAndOwner
  | NoCredential | TokenAndApp
  | OwnerApp | OwnerRunnerGroup
  | NoAppID | NoInstallationID | NoAppKey
  | PollTooFast int
  | NoPools
  | EmptyPool nat
  | NameRequired pool_ref | BadName pool_ref | DuplicateName pool_ref
  | NoLabels pool_ref | BadLabel pool_ref string
  | NegativeMin pool_ref | OwnerMin pool_ref | SmallMax pool_ref | MinOverMax pool_ref int int
  | ProcessForDocker pool_ref | NoDockerBlock pool_ref | NoImage pool_ref | BadPull pool_ref
  | IsolationNotWindows pool_ref | MacOnDocker pool_ref
  | DockerForProcess pool_ref | UnknownProvider pool_ref string

definition github_errors :: "GitHub \<Rightarrow> cfg_error list" where
  "github_errors g =
     (if gh_Org g = [] \<and> gh_Owner g = [] then [NoAccount]
      else if gh_Org g \<noteq> [] \<and> gh_Owner g \<noteq> [] then [OrgAndOwner] else [])
   @ (if gh_Token g = [] \<and> gh_App g = None then [NoCredential]
      else if gh_Token g \<noteq> [] \<and> gh_App g \<noteq> None then [TokenAndApp] else [])
   @ (if gh_Owner g \<noteq> [] then
        (if gh_App g \<noteq> None then [OwnerApp] else [])
      @ (if gh_RunnerGroup g \<noteq> [] then [OwnerRunnerGroup] else []) else [])
   @ (case gh_App g of None \<Rightarrow> []
      | Some a \<Rightarrow>
          (if app_AppID a = 0 then [NoAppID] else [])
        @ (if app_InstallationID a = 0 then [NoInstallationID] else [])
        @ (if app_PrivateKey a = [] \<and> app_PrivateKeyPath a = [] then [NoAppKey] else []))
   @ (if gh_PollInterval g < Second then [PollTooFast (gh_PollInterval g)] else [])"

definition label_ok :: "string \<Rightarrow> bool" where
  "label_ok l = (trim_space l = l \<and> l \<noteq> [])"

definition provider_errors :: "pool_ref \<Rightarrow> Pool \<Rightarrow> cfg_error list" where
  "provider_errors w p =
     (if pool_Provider p = ProviderDocker then
        (if pool_Process p \<noteq> None then [ProcessForDocker w] else [])
      @ (case pool_Docker p of
           None \<Rightarrow> [NoDockerBlock w]
         | Some d \<Rightarrow>
             (if d_Image d = [] then [NoImage w] else [])
           @ (if List.member [''always'', ''missing'', ''never''] (d_Pull d) then [] else [BadPull w])
           @ (if d_Isolation d \<noteq> [] \<and> \<not> isWindowsPool p then [IsolationNotWindows w] else [])
           @ (if isMacPool p then [MacOnDocker w] else []))
      else if pool_Provider p = ProviderProcess then
        (if pool_Docker p \<noteq> None then [DockerForProcess w] else [])
      else [UnknownProvider w (pool_Provider p)])"

definition pool_errors :: "string \<Rightarrow> string list \<Rightarrow> nat \<Rightarrow> Pool \<Rightarrow> cfg_error list" where
  "pool_errors owner seen i p =
     (let w = (if pool_Name p = [] then ByIndex i else ByName (pool_Name p))
      in (if pool_Name p = [] then [NameRequired w]
          else if \<not> pool_name_ok (pool_Name p) then [BadName w] else [])
       @ (if List.member seen (pool_Name p) then [DuplicateName w] else [])
       @ (if pool_Labels p = [] then [NoLabels w] else [])
       @ map (BadLabel w) (filter (\<lambda>l. \<not> label_ok l) (pool_Labels p))
       @ (if pool_Min p < 0 then [NegativeMin w] else [])
       @ (if owner \<noteq> [] \<and> pool_Min p > 0 then [OwnerMin w] else [])
       @ (if pool_Max p < 1 then [SmallMax w] else [])
       @ (if pool_Min p > pool_Max p then [MinOverMax w (pool_Min p) (pool_Max p)] else [])
       @ provider_errors w p)"

fun pools_errors :: "string \<Rightarrow> string list \<Rightarrow> nat \<Rightarrow> Pool option list \<Rightarrow> cfg_error list" where
  "pools_errors owner seen i [] = []"
| "pools_errors owner seen i (None # ps) = EmptyPool i # pools_errors owner seen (Suc i) ps"
| "pools_errors owner seen i (Some p # ps) =
     pool_errors owner seen i p @ pools_errors owner (pool_Name p # seen) (Suc i) ps"

text \<open>\<open>Config.Validate\<close>: the list of messages; the configuration is accepted when it is empty.\<close>

definition Validate :: "Config \<Rightarrow> cfg_error list" where
  "Validate c =
     github_errors (cfg_GitHub c)
   @ (if cfg_Pools c = [] then [NoPools] else [])
   @ pools_errors (gh_Owner (cfg_GitHub c)) [] 0 (cfg_Pools c)"

datatype load_error = UndefinedEnv "string list" | YamlError string | Invalid "cfg_error list"

text \<open>\<open>Parse\<close>, and the editor's \<open>CheckBytes\<close>, which skips the expansion.\<close>

definition Parse :: "host \<Rightarrow> (string \<Rightarrow> string + Config) \<Rightarrow> string \<Rightarrow> load_error + Config" where
  "Parse h decode raw =
     (case expandEnv (LookupEnv h) raw of
        Inl missing \<Rightarrow> Inl (UndefinedEnv missing)
      | Inr expanded \<Rightarrow>
          (case decode expanded of
             Inl e \<Rightarrow> Inl (YamlError e)
           | Inr cfg \<Rightarrow>
               (let c = applyDefaults h cfg
                in if Validate c \<noteq> [] then Inl (Invalid (Validate c)) else Inr c)))"

definition CheckBytes :: "host \<Rightarrow> (string \<Rightarrow> string + Config) \<Rightarrow> string \<Rightarrow> load_error option" where
  "CheckBytes h decode raw =
     (case decode raw of
        Inl e \<Rightarrow> Some (YamlError e)
      | Inr cfg \<Rightarrow> (let c = applyDefaults h cfg
                    in if Validate c \<noteq> [] then Some (Invalid (Validate c)) else None))"

text \<open>\<open>Load\<close>: the file at a path, which is made absolute where that works.\<close>

datatype load_failure = CannotRead string | AtPath string load_error

definition config_Load ::
  "host \<Rightarrow> (string \<Rightarrow> string + string) \<Rightarrow> (string \<Rightarrow> string option) \<Rightarrow> (string \<Rightarrow> string + Config) \<Rightarrow> string
    \<Rightarrow> load_failure + Config" where
  "config_Load h read absolute decode path =
     (case read path of
        Inl e \<Rightarrow> Inl (CannotRead e)
      | Inr raw \<Rightarrow> (case Parse h decode raw of
            Inl e \<Rightarrow> Inl (AtPath path e)
          | Inr cfg \<Rightarrow> Inr (cfg\<lparr>cfg_Path := (case absolute path of Some p \<Rightarrow> p | None \<Rightarrow> path)\<rparr>)))"

text \<open>\<open>DefaultUserPath\<close>: \<open>None\<close> when the home directory is not known.\<close>

definition DefaultUserPath :: "string option \<Rightarrow> string option" where
  "DefaultUserPath home = map_option (\<lambda>h. filepath_join [h, ''.config'', ''arc'', ''arc.yaml'']) home"

text \<open>\<open>HostPool\<close>: the pool for this machine.\<close>

definition HostPool :: "host \<Rightarrow> int \<Rightarrow> Pool" where
  "HostPool h mx =
     (let m = (if mx < 1 then DefaultMaxRunners else mx);
          name = (if GOOS h = ''darwin'' then ''macos'' else if GOOS h = ''windows'' then ''windows''
                  else ''linux'');
          arch = (if GOARCH h = ''amd64'' then ''x64'' else GOARCH h)
      in \<lparr> pool_Name = name, pool_Labels = [''self-hosted'', name, arch],
           pool_Provider = ProviderProcess, pool_Min = 0, pool_Max = m,
           pool_IdleTimeout = 0, pool_JobTimeout = 0, pool_RunnerGroup = [],
           pool_Docker = None, pool_Process = None \<rparr>)"

end
