(* ===== verification/ConfigProps.thy ===== *)
theory ConfigProps
  imports ConfigLoad
begin

text \<open>
  What loading a configuration guarantees: comments are left alone, expansion reports every
  undefined reference, defaults are idempotent, and validation accepts exactly the
  configurations that satisfy the declarative predicate \<open>valid_config\<close>.
\<close>

section \<open>Comments\<close>

lemma split_comment_from_append:
  "split_comment_from s d seen r = (code, comment) \<Longrightarrow> code @ comment = rev seen @ r"
  by (induction s d seen r arbitrary: code comment rule: split_comment_from.induct)
     (auto split: if_splits list.splits)

lemma split_comment_from_hash:
  "split_comment_from s d seen r = (code, comment) \<Longrightarrow> comment = [] \<or> hd comment = CHR ''#''"
  by (induction s d seen r arbitrary: code comment rule: split_comment_from.induct)
     (auto split: if_splits list.splits)

lemma split_comment_from_blank:
  "split_comment_from s d seen r = (code, comment) \<Longrightarrow> comment = [] \<or> code = []
     \<or> last code = CHR '' '' \<or> last code = CHR 0x09"
  by (induction s d seen r arbitrary: code comment rule: split_comment_from.induct)
     (auto split: if_splits list.splits)

lemma split_comment_from_no_hash:
  "CHR ''#'' \<notin> set r \<Longrightarrow> split_comment_from s d seen r = (rev seen @ r, [])"
  by (induction s d seen r rule: split_comment_from.induct) (auto split: list.splits)

text \<open>
  \<open>splitYAMLComment\<close> only cuts the line: code and comment put back together are the line,
  and a comment that is cut off starts with a hash sign which stands at the start of the line
  or after a blank or a tab.
\<close>

lemma splitYAMLComment_partition:
  "fst (splitYAMLComment line) @ snd (splitYAMLComment line) = line
   \<and> (snd (splitYAMLComment line) = []
      \<or> (hd (snd (splitYAMLComment line)) = CHR ''#''
         \<and> (fst (splitYAMLComment line) = [] \<or> last (fst (splitYAMLComment line)) \<in> {CHR '' '', CHR 0x09})))"
proof -
  obtain code comment where eq: "split_comment_from False False [] line = (code, comment)"
    by (cases "split_comment_from False False [] line")
  show ?thesis
    using split_comment_from_append [OF eq] split_comment_from_hash [OF eq]
      split_comment_from_blank [OF eq]
    by (auto simp: splitYAMLComment_def eq)
qed

section \<open>Expansion\<close>

lemma match_env_None: "CHR ''$'' \<notin> set s \<Longrightarrow> match_env s = None"
  by (cases s) (auto simp: match_env_def has_prefix_def)

lemma expand_code_no_dollar: "CHR ''$'' \<notin> set s \<Longrightarrow> expand_code env s = (s, [])"
proof (induction s)
  case (Cons c r)
  then have "match_env (c # r) = None" by (intro match_env_None)
  with Cons show ?case by (subst expand_code.simps) simp
qed simp

lemma split_comment_set:
  "splitYAMLComment line = (code, comment) \<Longrightarrow> set code \<subseteq> set line"
  using split_comment_from_append [of False False "[]" line code comment]
  by (auto simp: splitYAMLComment_def)

lemma expand_line_no_dollar:
  assumes "CHR ''$'' \<notin> set line"
  shows "expand_line env line = (line, [])"
proof -
  obtain code comment where eq: "splitYAMLComment line = (code, comment)"
    by (cases "splitYAMLComment line")
  then have "CHR ''$'' \<notin> set code" using split_comment_set assms by blast
  moreover have "code @ comment = line"
    using split_comment_from_append [of False False "[]" line code comment] eq
    by (simp add: splitYAMLComment_def)
  ultimately show ?thesis by (simp add: expand_line_def eq expand_code_no_dollar)
qed

lemma split_char_subset: "\<Union> (set ` set (split_char d s)) \<subseteq> set s"
  by (induction d s rule: split_char.induct) (auto split: list.splits; blast)+

text \<open>The names reported by a line are exactly unset names, in order of their references.\<close>

lemma expand_code_missing: "n \<in> set (snd (expand_code env s)) \<Longrightarrow> env n = None"
proof (induction env s rule: expand_code.induct)
  case (1 env s)
  show ?case
  proof (cases s)
    case Nil
    then show ?thesis using 1 by simp
  next
    case (Cons c r)
    show ?thesis
    proof (cases "match_env s")
      case None
      with 1 Cons show ?thesis by (subst (asm) expand_code.simps) (auto split: prod.splits)
    next
      case (Some m)
      obtain a b d where "m = (a, b, d)" by (cases m)
      with 1 Cons Some show ?thesis
        by (subst (asm) expand_code.simps) (auto split: prod.splits option.splits)
    qed
  qed
qed

lemma expand_line_missing: "n \<in> set (snd (expand_line env line)) \<Longrightarrow> env n = None"
  using expand_code_missing [of n env "fst (splitYAMLComment line)"]
  by (auto simp: expand_line_def split: prod.splits)

lemma dedupe_from_props:
  "distinct (dedupe_from seen xs) \<and> set (dedupe_from seen xs) = set xs - set seen"
  by (induction seen xs rule: dedupe_from.induct) auto

lemma set_dedupe [simp]: "set (dedupe xs) = set xs" "distinct (dedupe xs)"
  using dedupe_from_props [of "[]" xs] by (simp_all add: dedupe_def)

text \<open>
  A configuration text without a dollar sign is passed to the decoder byte for byte,
  whatever the environment holds.
\<close>

lemma expandEnv_identity:
  assumes "CHR ''$'' \<notin> set s"
  shows "expandEnv env s = Inr s"
proof -
  have "map (expand_line env) (split_char nl s) = map (\<lambda>l. (l, [])) (split_char nl s)"
    using assms split_char_subset [of nl s]
    by (intro map_cong) (auto intro!: expand_line_no_dollar)
  then show ?thesis
    by (simp only: expandEnv_def Let_def map_map comp_def) (simp add: comp_def)
qed

lemma expandEnv_identity_witness:
  "expandEnv (\<lambda>_. None) ''min: 1 # a'' = Inr ''min: 1 # a''"
  by (rule expandEnv_identity) simp

text \<open>
  A failed expansion reports a non-empty list of distinct names, each of them really
  unset in the environment, and it fails whenever some line refers to an unset name with no
  default.
\<close>

lemma expandEnv_error:
  "(case expandEnv env s of
      Inl ms \<Rightarrow> ms \<noteq> [] \<and> distinct ms \<and> set ms \<subseteq> {n. env n = None}
              \<and> set ms = (\<Union>l \<in> set (split_char nl s). set (snd (expand_line env l)))
    | Inr t \<Rightarrow> (\<Union>l \<in> set (split_char nl s). set (snd (expand_line env l))) = {})"
proof -
  let ?m = "concat (map snd (map (expand_line env) (split_char nl s)))"
  have m: "set ?m = (\<Union>l \<in> set (split_char nl s). set (snd (expand_line env l)))" by auto
  have "set ?m \<subseteq> {n. env n = None}" by (auto dest: expand_line_missing)
  moreover have "?m \<noteq> [] \<Longrightarrow> dedupe ?m \<noteq> []"
    using set_dedupe(1) [of ?m] by (metis set_empty)
  ultimately show ?thesis by (auto simp: expandEnv_def Let_def m simp del: map_map)
qed

text \<open>
  The comment exemption has a gap: an apostrophe in a plain YAML scalar is taken for an
  opening quote, so the comment behind it is not seen and an undefined reference inside that
  comment makes the configuration unloadable.
\<close>

definition apostrophe_line :: string where
  "apostrophe_line = ''t: it'' @ [CHR 0x27] @ ''s # $'' @ ''{X}''"

lemma apostrophe_hides_comment:
  "splitYAMLComment apostrophe_line = (apostrophe_line, [])
   \<and> expandEnv (\<lambda>_. None) apostrophe_line = Inl [''X'']"
  by code_simp

section \<open>Defaults\<close>

lemma or_default_idem [simp]: "or_default z v (or_default z v x) = or_default z v x"
  by (simp add: or_default_def)

lemma github_defaults_idem: "github_defaults (github_defaults g) = github_defaults g"
  by (simp add: github_defaults_def)

lemma server_defaults_idem: "server_defaults h (server_defaults h s) = server_defaults h s"
  by (simp add: server_defaults_def)

lemma log_defaults_idem: "log_defaults (log_defaults l) = log_defaults l"
  by (simp add: log_defaults_def)

lemma docker_defaults_idem:
  "isWindowsPool p = isWindowsPool q \<Longrightarrow>
   docker_defaults h p (docker_defaults h q d) = docker_defaults h q d"
  by (simp add: docker_defaults_def)

lemma process_defaults_idem:
  "process_defaults h sd n (process_defaults h sd n s) = process_defaults h sd n s"
  by (simp add: process_defaults_def)

lemma default_provider_idem [simp]:
  "or_default [] (default_provider h) x = [] \<longleftrightarrow> False"
  by (simp add: or_default_def default_provider_def ProviderDocker_def ProviderProcess_def)

lemma pool_defaults_idem: "pool_defaults h g sd (pool_defaults h g sd p) = pool_defaults h g sd p"
  by (cases "pool_Docker p"; cases "pool_Process p")
     (simp_all add: pool_defaults_def Let_def docker_defaults_idem process_defaults_idem
       isWindowsPool_def)

text \<open>
  \<open>applyDefaults\<close> is idempotent: rendering a loaded configuration and loading it again
  (\<open>Resolve\<close>) finds nothing left to default.
\<close>

lemma applyDefaults_idem: "applyDefaults h (applyDefaults h c) = applyDefaults h c"
proof -
  have "gh_RunnerGroup (github_defaults g) = gh_RunnerGroup g" for g
    by (simp add: github_defaults_def)
  then show ?thesis
    by (simp add: applyDefaults_def Let_def github_defaults_idem server_defaults_idem
        log_defaults_idem option.map_comp comp_def pool_defaults_idem)
qed

section \<open>Validation\<close>

text \<open>The specification of an acceptable configuration, clause by clause.\<close>

definition valid_app :: "AppAuth \<Rightarrow> bool" where
  "valid_app a = (app_AppID a \<noteq> 0 \<and> app_InstallationID a \<noteq> 0
                  \<and> (app_PrivateKey a \<noteq> [] \<or> app_PrivateKeyPath a \<noteq> []))"

definition valid_github :: "GitHub \<Rightarrow> bool" where
  "valid_github g =
     ((gh_Org g = []) \<noteq> (gh_Owner g = []) \<and> (gh_Token g = []) \<noteq> (gh_App g = None)
      \<and> (gh_Owner g \<noteq> [] \<longrightarrow> gh_App g = None \<and> gh_RunnerGroup g = [])
      \<and> pred_option valid_app (gh_App g) \<and> Second \<le> gh_PollInterval g)"

definition valid_docker :: "Pool \<Rightarrow> DockerSpec \<Rightarrow> bool" where
  "valid_docker p d =
     (d_Image d \<noteq> [] \<and> d_Pull d \<in> {''always'', ''missing'', ''never''}
      \<and> (d_Isolation d = [] \<or> isWindowsPool p) \<and> \<not> isMacPool p)"

definition valid_provider :: "Pool \<Rightarrow> bool" where
  "valid_provider p =
     (pool_Provider p = ProviderDocker \<and> pool_Process p = None
        \<and> (\<exists>d. pool_Docker p = Some d \<and> valid_docker p d)
      \<or> pool_Provider p = ProviderProcess \<and> pool_Docker p = None)"

definition valid_pool :: "string \<Rightarrow> Pool \<Rightarrow> bool" where
  "valid_pool owner p =
     (pool_name_ok (pool_Name p) \<and> pool_Labels p \<noteq> [] \<and> list_all label_ok (pool_Labels p)
      \<and> 0 \<le> pool_Min p \<and> (owner \<noteq> [] \<longrightarrow> pool_Min p = 0) \<and> 1 \<le> pool_Max p
      \<and> pool_Min p \<le> pool_Max p \<and> valid_provider p)"

definition valid_config :: "Config \<Rightarrow> bool" where
  "valid_config c =
     (valid_github (cfg_GitHub c) \<and> cfg_Pools c \<noteq> [] \<and> None \<notin> set (cfg_Pools c)
      \<and> distinct (map pool_Name (pools c))
      \<and> list_all (valid_pool (gh_Owner (cfg_GitHub c))) (pools c))"

lemma append_Nil_iff: "xs @ ys = [] \<longleftrightarrow> xs = [] \<and> ys = []"
  by simp

lemma if_Nil_iff: "(if b then xs else []) = [] \<longleftrightarrow> b \<longrightarrow> xs = []"
  by simp

lemma github_errors_Nil: "github_errors g = [] \<longleftrightarrow> valid_github g"
  by (cases "gh_App g")
     (auto simp: github_errors_def valid_github_def valid_app_def)

lemma pool_name_ok_nonempty [simp]: "\<not> pool_name_ok []"
  by (simp add: pool_name_ok_def)

lemma provider_errors_Nil: "provider_errors w p = [] \<longleftrightarrow> valid_provider p"
  by (cases "pool_Docker p")
     (auto simp: provider_errors_def valid_provider_def valid_docker_def ProviderDocker_def
       ProviderProcess_def)

lemma pool_errors_Nil:
  "pool_errors owner seen i p = [] \<longleftrightarrow> pool_Name p \<notin> set seen \<and> valid_pool owner p"
proof -
  have f: "map f (filter Q xs) = [] \<longleftrightarrow> list_all (\<lambda>x. \<not> Q x) xs" for f :: "string \<Rightarrow> cfg_error" and Q xs
    by (simp add: filter_empty_conv list_all_iff)
  show ?thesis
    unfolding pool_errors_def Let_def append_Nil_iff if_Nil_iff provider_errors_Nil f
    by (auto simp: valid_pool_def)
qed

lemma pools_errors_Nil:
  "pools_errors owner seen i ps = [] \<longleftrightarrow>
     None \<notin> set ps \<and> distinct (map pool_Name (List.map_filter id ps))
     \<and> list_all (\<lambda>p. pool_Name p \<notin> set seen \<and> valid_pool owner p) (List.map_filter id ps)"
proof (induction owner seen i ps rule: pools_errors.induct)
  case (3 owner seen i p ps)
  then show ?case
    by (auto simp: map_filter_simps pool_errors_Nil list_all_iff image_iff)
qed (auto simp: map_filter_simps)

lemma Validate_valid: "Validate c = [] \<longleftrightarrow> valid_config c"
  unfolding Validate_def append_Nil_iff if_Nil_iff github_errors_Nil pools_errors_Nil
    valid_config_def pools_def
  by (simp add: list_all_iff)

text \<open>
  C14. The checks of \<open>Validate\<close>, run in sequence over mutable bookkeeping, accept a
  configuration if and only if it satisfies the declarative specification.
\<close>

theorem Validate_iff_valid: "Validate c = [] \<longleftrightarrow> valid_config c"
  by (rule Validate_valid)

section \<open>What a loaded configuration promises the rest of the program\<close>

lemma map_filter_map_option:
  "List.map_filter id (map (map_option f) xs) = map f (List.map_filter id xs)"
  by (induction xs) (auto simp: map_filter_simps split: option.splits)

lemma pools_applyDefaults:
  "pools (applyDefaults h c) =
     map (pool_defaults h (github_defaults (cfg_GitHub c)) (srv_StateDir (server_defaults h (cfg_Server c))))
       (pools c)"
  by (simp add: pools_def applyDefaults_def Let_def map_filter_map_option)

lemma pool_defaults_process:
  "pool_Provider (pool_defaults h g sd p) = ProviderProcess \<Longrightarrow>
   pool_Process (pool_defaults h g sd p) \<noteq> None"
  by (simp add: pool_defaults_def Let_def)

lemma pool_defaults_timeouts:
  "pool_IdleTimeout (pool_defaults h g sd p) \<noteq> 0 \<and> pool_JobTimeout (pool_defaults h g sd p) \<noteq> 0"
  by (simp add: pool_defaults_def Let_def or_default_def default_defs duration_defs)

text \<open>A pool of a loaded configuration: its provider block is there and its bounds are ordered.\<close>

definition runnable_pool :: "Pool \<Rightarrow> bool" where
  "runnable_pool p =
     (0 \<le> pool_Min p \<and> pool_Min p \<le> pool_Max p \<and> 1 \<le> pool_Max p
      \<and> pool_IdleTimeout p \<noteq> 0 \<and> pool_JobTimeout p \<noteq> 0 \<and> pool_name_ok (pool_Name p)
      \<and> (pool_Provider p = ProviderDocker \<and> pool_Docker p \<noteq> None
         \<or> pool_Provider p = ProviderProcess \<and> pool_Process p \<noteq> None))"

lemma Parse_Inr:
  "Parse h decode raw = Inr c \<Longrightarrow> valid_config c \<and> (\<exists>c0. c = applyDefaults h c0)"
  by (auto simp: Parse_def Let_def Validate_valid split: sum.splits if_splits)


definition sample_host :: host where
  "sample_host = \<lparr> GOOS = ''linux'', GOARCH = ''amd64'', UserHomeDir = Some ''/root'',
     UserConfigDir = None, LookupEnv = (\<lambda>_. None) \<rparr>"

definition sample_config :: Config where
  "sample_config = empty_config\<lparr>
     cfg_GitHub := empty_github\<lparr>gh_Org := ''acme'', gh_Token := ''t''\<rparr>,
     cfg_Pools := [Some (HostPool sample_host 2)]\<rparr>"


end
