(* ===== verification/Duration.thy ===== *)
theory Duration
  imports Complex_Main Prelude
begin

text \<open>
  Durations as text (\<open>internal/config/duration.go\<close>): \<open>String\<close>, which \<open>MarshalYAML\<close> and \<open>MarshalJSON\<close>
  write, and \<open>ParseDuration\<close>, which \<open>UnmarshalYAML\<close> reads with. Both are functions of the standard
  library's \<open>time\<close> and are written out here as it has them, with the 64-bit unsigned arithmetic
  and the floating point of the fractions. The YAML node is the string it decodes to, or the
  error of that.
\<close>

section \<open>Floating point\<close>

text \<open>
  A \<open>float64\<close> is the rational it stands for, rounded to 53 binary digits, ties to even. The
  exponent is unbounded: a fraction long enough to leave the range of the exponents adds nothing
  to the duration, in floating point as here.
\<close>

fun floor_log2 :: "nat \<Rightarrow> nat" where
  "floor_log2 n = (if n < 2 then 0 else Suc (floor_log2 (n div 2)))"

declare floor_log2.simps [simp del]

definition pow2 :: "int \<Rightarrow> rat" where
  "pow2 e = (if 0 \<le> e then 2 ^ nat e else 1 / 2 ^ nat (- e))"

definition binary_exponent :: "rat \<Rightarrow> int" where
  "binary_exponent x =
     (let (p, q) = quotient_of x; k = int (floor_log2 (nat p)) - int (floor_log2 (nat q))
      in if pow2 k \<le> x then k else k - 1)"

definition round_even :: "rat \<Rightarrow> int" where
  "round_even x =
     (let n = \<lfloor>x\<rfloor>; r = x - of_int n
      in if r < 1 / 2 then n else if 1 / 2 < r then n + 1 else if even n then n else n + 1)"

definition f64 :: "rat \<Rightarrow> rat" where
  "f64 x = (if x \<le> 0 then 0 else (let u = pow2 (binary_exponent x - 52) in of_int (round_even (x / u)) * u))"

section \<open>Parsing (\<open>time.ParseDuration\<close>)\<close>

datatype duration_error =
    InvalidDuration string
  | MissingUnit string
  | UnknownUnit string string

definition ns_Microsecond :: nat where "ns_Microsecond = 1000"
definition ns_Millisecond :: nat where "ns_Millisecond = 1000 * ns_Microsecond"
definition ns_Second :: nat where "ns_Second = 1000 * ns_Millisecond"
definition ns_Minute :: nat where "ns_Minute = 60 * ns_Second"
definition ns_Hour :: nat where "ns_Hour = 60 * ns_Minute"

lemmas ns_defs = ns_Hour_def ns_Minute_def ns_Second_def ns_Millisecond_def ns_Microsecond_def

text \<open>The micro sign and the Greek letter, in UTF-8.\<close>

definition micro_sign :: string where "micro_sign = [CHR 0xC2, CHR 0xB5]"
definition greek_mu :: string where "greek_mu = [CHR 0xCE, CHR 0xBC]"

definition unitMap :: "string \<Rightarrow> nat option" where
  "unitMap u =
     (if u = ''ns'' then Some 1
      else if u = ''us'' \<or> u = micro_sign @ ''s'' \<or> u = greek_mu @ ''s'' then Some ns_Microsecond
      else if u = ''ms'' then Some ns_Millisecond
      else if u = ''s'' then Some ns_Second
      else if u = ''m'' then Some ns_Minute
      else if u = ''h'' then Some ns_Hour
      else None)"

text \<open>The digits at the head, as a number of at most \<open>2 ^ 63\<close>.\<close>

fun leadingInt :: "nat \<Rightarrow> string \<Rightarrow> (nat \<times> string) option" where
  "leadingInt x [] = Some (x, [])"
| "leadingInt x (c # s) =
     (if \<not> is_digit c then Some (x, c # s)
      else if x > 2 ^ 63 div 10 then None
      else (let y = x * 10 + digit_val c in if y > 2 ^ 63 then None else leadingInt y s))"

text \<open>The digits after the point: those that no longer fit are read and dropped.\<close>

fun leadingFraction :: "nat \<Rightarrow> rat \<Rightarrow> bool \<Rightarrow> string \<Rightarrow> nat \<times> rat \<times> string" where
  "leadingFraction x scale overflow [] = (x, scale, [])"
| "leadingFraction x scale overflow (c # s) =
     (if \<not> is_digit c then (x, scale, c # s)
      else if overflow then leadingFraction x scale True s
      else if x > (2 ^ 63 - 1) div 10 then leadingFraction x scale True s
      else (let y = x * 10 + digit_val c
            in if y > 2 ^ 63 then leadingFraction x scale True s
               else leadingFraction y (f64 (scale * 10)) False s))"

definition unit_char :: "char \<Rightarrow> bool" where
  "unit_char c = (c \<noteq> CHR ''.'' \<and> \<not> is_digit c)"

text \<open>\<open>v += uint64(float64(f) * (float64(unit) / scale))\<close>.\<close>

definition add_fraction :: "nat \<Rightarrow> nat \<Rightarrow> nat \<Rightarrow> rat \<Rightarrow> nat" where
  "add_fraction v unit f scale =
     (v + nat \<lfloor>f64 (f64 (of_nat f) * f64 (f64 (of_nat unit) / scale))\<rfloor>) mod 2 ^ 64"

text \<open>The number, and the fraction with its scale, of one term.\<close>

definition leadingNumber :: "string \<Rightarrow> (nat \<times> nat \<times> rat \<times> string) option" where
  "leadingNumber s =
     (if \<not> (hd s = CHR ''.'' \<or> is_digit (hd s)) then None
      else case leadingInt 0 s of
          None \<Rightarrow> None
        | Some (v, s1) \<Rightarrow>
            (let pre = (length s \<noteq> length s1)
             in if s1 \<noteq> [] \<and> hd s1 = CHR ''.'' then
                  (let s2 = tl s1; (f, scale, s3) = leadingFraction 0 1 False s2; post = (length s2 \<noteq> length s3)
                   in if \<not> pre \<and> \<not> post then None else Some (v, f, scale, s3))
                else (if \<not> pre then None else Some (v, 0, 1, s1))))"

text \<open>One round of the loop: the nanoseconds of a term and the rest of the text.\<close>

definition duration_term :: "string \<Rightarrow> string \<Rightarrow> duration_error + nat \<times> string" where
  "duration_term orig s =
     (case leadingNumber s of
        None \<Rightarrow> Inl (InvalidDuration orig)
      | Some (v, f, scale, s1) \<Rightarrow>
          (let u = takeWhile unit_char s1; s2 = dropWhile unit_char s1
           in if u = [] then Inl (MissingUnit orig)
              else case unitMap u of
                  None \<Rightarrow> Inl (UnknownUnit u orig)
                | Some unit \<Rightarrow>
                    if v > 2 ^ 63 div unit then Inl (InvalidDuration orig)
                    else if f > 0
                      then (let v' = add_fraction (v * unit) unit f scale
                            in if v' > 2 ^ 63 then Inl (InvalidDuration orig) else Inr (v', s2))
                      else Inr (v * unit, s2)))"

lemma leadingInt_shorter: "leadingInt x s = Some (y, r) \<Longrightarrow> length r \<le> length s"
  by (induction x s rule: leadingInt.induct) (auto simp: Let_def split: if_splits)

lemma leadingFraction_shorter: "leadingFraction x sc ov s = (f, sc', r) \<Longrightarrow> length r \<le> length s"
  by (induction x sc ov s rule: leadingFraction.induct) (fastforce simp: Let_def split: if_splits)+

lemma leadingNumber_shorter: "leadingNumber s = Some (v, f, sc, r) \<Longrightarrow> length r \<le> length s"
  by (auto simp: leadingNumber_def Let_def split: if_splits option.splits prod.splits
      dest!: leadingInt_shorter leadingFraction_shorter)

lemma duration_term_shorter: "duration_term orig s = Inr (v, r) \<Longrightarrow> length r < length s"
proof -
  assume a: "duration_term orig s = Inr (v, r)"
  then obtain w f sc s1 where n: "leadingNumber s = Some (w, f, sc, s1)"
    by (auto simp: duration_term_def split: option.splits)
  with a have u: "takeWhile unit_char s1 \<noteq> []" and r: "r = dropWhile unit_char s1"
    by (auto simp: duration_term_def Let_def split: if_splits option.splits)
  have "length s1 = length (takeWhile unit_char s1) + length (dropWhile unit_char s1)"
    by (metis length_append takeWhile_dropWhile_id)
  with u r leadingNumber_shorter [OF n] show ?thesis by (cases "takeWhile unit_char s1") auto
qed

function duration_terms :: "string \<Rightarrow> nat \<Rightarrow> string \<Rightarrow> duration_error + nat" where
  "duration_terms orig d s =
     (if s = [] then Inr d
      else case duration_term orig s of
          Inl e \<Rightarrow> Inl e
        | Inr (v, s') \<Rightarrow>
            (let d' = (d + v) mod 2 ^ 64
             in if d' > 2 ^ 63 then Inl (InvalidDuration orig) else duration_terms orig d' s'))"
  by pat_completeness auto

termination duration_terms
  by (relation "measure (\<lambda>(_, _, s). length s)") (auto dest: duration_term_shorter)

declare duration_terms.simps [simp del]

definition ParseDuration :: "string \<Rightarrow> duration_error + int" where
  "ParseDuration orig =
     (let signed = (orig \<noteq> [] \<and> (hd orig = CHR ''-'' \<or> hd orig = CHR ''+''));
          neg = (signed \<and> hd orig = CHR ''-'');
          s = (if signed then tl orig else orig)
      in if s = ''0'' then Inr 0
         else if s = [] then Inl (InvalidDuration orig)
         else case duration_terms orig 0 s of
             Inl e \<Rightarrow> Inl e
           | Inr d \<Rightarrow> if neg then Inr (- int d)
                     else if d > 2 ^ 63 - 1 then Inl (InvalidDuration orig)
                     else Inr (int d))"

section \<open>Printing (\<open>Duration.String\<close>)\<close>

definition digit_of :: "nat \<Rightarrow> char" where
  "digit_of d = char_of (48 + d)"

text \<open>The last \<open>prec\<close> digits as a fraction without its trailing zeros, before \<open>acc\<close>, and the rest.\<close>

fun fmtFrac :: "nat \<Rightarrow> bool \<Rightarrow> string \<Rightarrow> nat \<Rightarrow> string \<times> nat" where
  "fmtFrac 0 print acc v = ((if print then CHR ''.'' # acc else acc), v)"
| "fmtFrac (Suc p) print acc v =
     (let digit = v mod 10; print' = (print \<or> digit \<noteq> 0)
      in fmtFrac p print' (if print' then digit_of digit # acc else acc) (v div 10))"

definition format_small :: "nat \<Rightarrow> string" where
  "format_small u =
     (if u = 0 then ''0s''
      else let (prec, suffix) =
             (if u < ns_Microsecond then (0, ''ns'')
              else if u < ns_Millisecond then (3, micro_sign @ ''s'')
              else (6, ''ms''));
             (frac, v) = fmtFrac prec False [] u
           in digits_of v @ frac @ suffix)"

definition format_large :: "nat \<Rightarrow> string" where
  "format_large u =
     (let (frac, secs) = fmtFrac 9 False [] u;
          sec_text = digits_of (secs mod 60) @ frac @ ''s'';
          mins = secs div 60; hours = mins div 60
      in (if mins > 0
          then (if hours > 0 then digits_of hours @ ''h'' else []) @ digits_of (mins mod 60) @ ''m'' @ sec_text
          else sec_text))"

definition duration_String :: "int \<Rightarrow> string" where
  "duration_String d =
     (let u = nat \<bar>d\<bar>; text = (if u < ns_Second then format_small u else format_large u)
      in if d < 0 then CHR ''-'' # text else text)"

section \<open>The codec (\<open>duration.go\<close>)\<close>

datatype unmarshal_error = NotAString string | BadDuration string duration_error

text \<open>\<open>node\<close> is the outcome of decoding the YAML node into a string.\<close>

definition UnmarshalYAML :: "string + string \<Rightarrow> unmarshal_error + int" where
  "UnmarshalYAML node =
     (case node of
        Inl e \<Rightarrow> Inl (NotAString e)
      | Inr s \<Rightarrow> (case ParseDuration s of Inl e \<Rightarrow> Inl (BadDuration s e) | Inr d \<Rightarrow> Inr d))"

definition MarshalYAML :: "int \<Rightarrow> string" where
  "MarshalYAML d = duration_String d"

definition MarshalJSON :: "int \<Rightarrow> string" where
  "MarshalJSON d = CHR 0x22 # duration_String d @ [CHR 0x22]"

end
