(* ===== verification/DurationProps.thy ===== *)
theory DurationProps
  imports Duration
begin

text \<open>
  Every duration, over the whole range of 64 bits, is read back from its text as the same
  duration: what the program writes into a configuration is what it will load.
\<close>

section \<open>Exact floating point\<close>

lemma floor_log2_less: "n < 2 ^ k \<Longrightarrow> 0 < k \<Longrightarrow> floor_log2 n < k"
proof (induction n arbitrary: k rule: floor_log2.induct)
  case (1 n)
  show ?case
  proof (cases "n < 2")
    case False
    then have k: "1 < k" using 1(2,3) by (cases k; cases "k - 1") auto
    have "n div 2 < 2 ^ (k - 1)" using 1(2) k by (cases k) (auto simp: less_mult_imp_div_less mult.commute)
    with 1(1) [OF False, of "k - 1"] k show ?thesis by (subst floor_log2.simps) auto
  qed (use 1 in \<open>simp add: floor_log2.simps\<close>)
qed

lemma binary_exponent_nat: "0 < n \<Longrightarrow> n < 2 ^ 53 \<Longrightarrow> binary_exponent (of_nat n) \<le> 52"
proof -
  assume n: "0 < n" "n < 2 ^ 53"
  have q: "quotient_of (of_nat n) = (int n, 1)"
    using quotient_of_int [of "int n"] by simp
  have "floor_log2 n < 53" using n by (intro floor_log2_less) auto
  moreover have "floor_log2 1 = 0" by (simp add: floor_log2.simps)
  ultimately show ?thesis using q by (simp add: binary_exponent_def Let_def)
qed

lemma round_even_int [simp]: "round_even (of_int k) = k"
  by (simp add: round_even_def Let_def)

text \<open>A whole number below \<open>2 ^ 53\<close> is a float.\<close>

lemma f64_exact: "n < 2 ^ 53 \<Longrightarrow> f64 (of_nat n) = of_nat n"
proof (cases "n = 0")
  case False
  assume n: "n < 2 ^ 53"
  define e where "e = binary_exponent (of_nat n) - 52"
  have e: "e \<le> 0" using binary_exponent_nat [of n] n False by (simp add: e_def)
  have u: "pow2 e = 1 / 2 ^ nat (- e)" using e by (cases "e = 0") (simp_all add: pow2_def)
  have "(of_nat n :: rat) / pow2 e = of_int (int n * 2 ^ nat (- e))" by (simp add: u)
  then show "f64 (of_nat n) = of_nat n"
    using False unfolding f64_def Let_def e_def [symmetric] by (simp only: round_even_int) (simp add: u)
qed (simp add: f64_def)

lemma f64_numeral:
  "f64 1 = 1" "numeral k < (2::nat) ^ 53 \<Longrightarrow> f64 (numeral k) = numeral k"
  using f64_exact [of 1] f64_exact [of "numeral k"] by simp_all

section \<open>Digits\<close>

definition digits_val :: "nat \<Rightarrow> string \<Rightarrow> nat" where
  "digits_val x s = foldl (\<lambda>a c. a * 10 + digit_val c) x s"

lemma digits_val_simps [simp]:
  "digits_val x [] = x" "digits_val x (c # s) = digits_val (x * 10 + digit_val c) s"
  by (simp_all add: digits_val_def)

lemma digits_val_ge: "x \<le> digits_val x s"
proof (induction s arbitrary: x)
  case (Cons c s)
  have "x \<le> x * 10 + digit_val c" by simp
  also have "\<dots> \<le> digits_val (x * 10 + digit_val c) s" by (rule Cons.IH)
  finally show ?case by simp
qed simp

lemma digits_val_start: "digits_val x s = x * 10 ^ length s + digits_val 0 s"
proof (induction s arbitrary: x)
  case (Cons c s)
  show ?case using Cons [of "x * 10 + digit_val c"] Cons [of "digit_val c"] by (simp add: algebra_simps)
qed simp

lemma digits_val_digits_of [simp]: "digits_val 0 (digits_of n) = n"
  using digits_of_value [of n] by (simp add: digits_val_def mult.commute)

text \<open>A text that does not go on with a digit.\<close>

definition no_digit :: "string \<Rightarrow> bool" where
  "no_digit s = (s = [] \<or> \<not> is_digit (hd s))"

lemma leadingInt_digits:
  "list_all is_digit ds \<Longrightarrow> no_digit r \<Longrightarrow> digits_val x ds \<le> 2 ^ 63 \<Longrightarrow>
   leadingInt x (ds @ r) = Some (digits_val x ds, r)"
proof (induction ds arbitrary: x)
  case Nil
  then show ?case by (cases r) (auto simp: no_digit_def)
next
  case (Cons c ds)
  have "x * 10 + digit_val c \<le> 2 ^ 63"
    using Cons.prems(3) digits_val_ge [of "x * 10 + digit_val c" ds] by simp
  moreover from this have "x \<le> 2 ^ 63 div 10" by simp
  ultimately show ?case using Cons by simp
qed

lemma leadingFraction_digits:
  assumes "list_all is_digit ds" and "no_digit r" and "j + length ds \<le> 9" and "x < 10 ^ j"
    and "\<And>c. c \<in> set ds \<Longrightarrow> digit_val c < 10"
  shows "leadingFraction x (10 ^ j) False (ds @ r) = (digits_val x ds, 10 ^ (j + length ds), r)"
  using assms
proof (induction ds arbitrary: x j)
  case Nil
  then show ?case by (cases r) (auto simp: no_digit_def)
next
  case (Cons c ds)
  have d: "digit_val c < 10" using Cons.prems(5) by simp
  have j: "j \<le> 8" using Cons.prems(3) by simp
  have "(10::nat) ^ j \<le> 10 ^ 8" using j by (intro power_increasing) auto
  then have x: "x < 10 ^ 8" using Cons.prems(4) by linarith
  have y: "x * 10 + digit_val c < 10 ^ Suc j" using d Cons.prems(4) by simp
  have "(10::nat) ^ Suc j \<le> 10 ^ 9" using j by (intro power_increasing) auto
  then have "f64 (10 ^ j * 10) = 10 ^ Suc j" using f64_exact [of "10 ^ Suc j"] by (simp add: mult.commute)
  moreover have "leadingFraction (x * 10 + digit_val c) (10 ^ Suc j) False (ds @ r)
      = (digits_val (x * 10 + digit_val c) ds, 10 ^ (Suc j + length ds), r)"
    using Cons.prems y by (intro Cons.IH) auto
  ultimately show ?case using Cons.prems(1) x d by (simp add: mult.commute)
qed

section \<open>The text of the fraction\<close>

fun fixed_digits :: "nat \<Rightarrow> nat \<Rightarrow> string" where
  "fixed_digits 0 v = []"
| "fixed_digits (Suc p) v = fixed_digits p (v div 10) @ [digit_of (v mod 10)]"

lemma digit_of [simp]: "is_digit (digit_of (v mod 10))" "digit_val (digit_of (v mod 10)) = v mod 10"
  by (simp_all add: digit_of_def)

lemma length_fixed_digits [simp]: "length (fixed_digits p v) = p"
  by (induction p v rule: fixed_digits.induct) simp_all

lemma fixed_digits_digits: "list_all is_digit (fixed_digits p v)"
  by (induction p v rule: fixed_digits.induct) simp_all

lemma fixed_digits_small: "c \<in> set (fixed_digits p v) \<Longrightarrow> digit_val c < 10"
  by (induction p v rule: fixed_digits.induct) auto

lemma mod_power_Suc: "(v::nat) mod 10 ^ Suc p = (v div 10) mod 10 ^ p * 10 + v mod 10"
  by (metis add.commute mod_mult2_eq mult.commute power_Suc)

lemma digits_val_fixed: "digits_val 0 (fixed_digits p v) = v mod 10 ^ p"
proof (induction p v rule: fixed_digits.induct)
  case (2 p v)
  then show ?case unfolding mod_power_Suc by (simp add: digits_val_def)
qed simp

lemma fmtFrac_printing: "fmtFrac p True acc v = (CHR ''.'' # fixed_digits p v @ acc, v div 10 ^ p)"
  by (induction p arbitrary: acc v) (simp_all add: Let_def div_mult2_eq mult.commute)

text \<open>The fraction that is printed has \<open>k\<close> digits, and the zeros after them are left out.\<close>

lemma fmtFrac_text:
  "\<exists>k\<le>p. \<exists>w. fmtFrac p False [] v = ((if k = 0 then [] else CHR ''.'' # fixed_digits k w), v div 10 ^ p)
     \<and> v mod 10 ^ p = w mod 10 ^ k * 10 ^ (p - k)"
proof (induction p arbitrary: v)
  case (Suc p)
  show ?case
  proof (cases "v mod 10 = 0")
    case True
    from Suc [of "v div 10"] obtain k w where k: "k \<le> p"
      "fmtFrac p False [] (v div 10) = ((if k = 0 then [] else CHR ''.'' # fixed_digits k w), v div 10 div 10 ^ p)"
      "v div 10 mod 10 ^ p = w mod 10 ^ k * 10 ^ (p - k)" by blast
    have "fmtFrac (Suc p) False [] v = ((if k = 0 then [] else CHR ''.'' # fixed_digits k w), v div 10 ^ Suc p)"
      using k(2) True by (simp add: Let_def div_mult2_eq)
    moreover have "v mod 10 ^ Suc p = w mod 10 ^ k * 10 ^ (Suc p - k)"
      unfolding mod_power_Suc using k(1,3) True by (simp add: Suc_diff_le)
    ultimately show ?thesis using k(1) by (metis le_SucI)
  next
    case False
    then have "fmtFrac (Suc p) False [] v = (CHR ''.'' # fixed_digits (Suc p) v, v div 10 ^ Suc p)"
      by (simp add: Let_def fmtFrac_printing div_mult2_eq)
    then show ?thesis by (intro exI [of _ "Suc p"] conjI exI [of _ v]) simp_all
  qed
qed simp

section \<open>The terms\<close>

lemma leadingNumber_whole:
  assumes "n \<le> 2 ^ 63" and "no_digit r" and "r = [] \<or> hd r \<noteq> CHR ''.''"
  shows "leadingNumber (digits_of n @ r) = Some (n, 0, 1, r)"
proof -
  have "is_digit (hd (digits_of n @ r))" by (simp add: hd_digits_of)
  moreover have "leadingInt 0 (digits_of n @ r) = Some (n, r)"
    using assms by (simp add: leadingInt_digits digits_of_digits)
  ultimately show ?thesis using assms(3) by (auto simp: leadingNumber_def Let_def)
qed

lemma leadingNumber_fraction:
  assumes "n \<le> 2 ^ 63" and "no_digit r" and "0 < k" and "k \<le> 9"
  shows "leadingNumber (digits_of n @ CHR ''.'' # fixed_digits k w @ r) = Some (n, w mod 10 ^ k, 10 ^ k, r)"
proof -
  let ?t = "fixed_digits k w @ r"
  have d: "is_digit (hd (digits_of n @ CHR ''.'' # ?t))" by (simp add: hd_digits_of)
  have "no_digit (CHR ''.'' # ?t)" by (simp add: no_digit_def is_digit_def Let_def)
  then have i: "leadingInt 0 (digits_of n @ CHR ''.'' # ?t) = Some (n, CHR ''.'' # ?t)"
    using assms(1) by (simp add: leadingInt_digits digits_of_digits)
  have f: "leadingFraction 0 1 False ?t = (w mod 10 ^ k, 10 ^ k, r)"
    using leadingFraction_digits [of "fixed_digits k w" r 0 0] assms
    by (simp add: fixed_digits_digits digits_val_fixed) (metis fixed_digits_small)
  show ?thesis using d i f assms(3) by (simp add: leadingNumber_def Let_def)
qed

text \<open>A fraction of at most nine digits is exact in floating point.\<close>

lemma add_fraction_exact:
  assumes "k \<le> p" and "p \<le> 9" and "f < 10 ^ k" and "v + f * 10 ^ (p - k) < 2 ^ 64"
  shows "add_fraction v (10 ^ p) f (10 ^ k) = v + f * 10 ^ (p - k)"
proof -
  have p9: "(10::nat) ^ p \<le> 10 ^ 9" using assms(2) by (intro power_increasing) auto
  have p53: "(10::nat) ^ 9 < 2 ^ 53" by simp
  have "f * 10 ^ (p - k) < 10 ^ k * 10 ^ (p - k)" using assms(3) by simp
  also have "\<dots> = 10 ^ p" using assms(1) by (metis le_add_diff_inverse power_add)
  finally have prod: "f * 10 ^ (p - k) < 10 ^ p" .
  have "f \<le> f * 10 ^ (p - k)" "(10::nat) ^ (p - k) \<le> 10 ^ p" using assms(1) by (auto intro: power_increasing)
  with prod p9 have b: "f < 2 ^ 53" "(10::nat) ^ p < 2 ^ 53" "(10::nat) ^ (p - k) < 2 ^ 53" "f * 10 ^ (p - k) < 2 ^ 53"
    using p53 by linarith+
  have q: "(of_nat (10 ^ p) :: rat) / 10 ^ k = of_nat (10 ^ (p - k))"
    using assms(1) by (simp add: field_simps flip: power_add)
  have "f64 (f64 (of_nat f) * f64 (f64 (of_nat (10 ^ p)) / 10 ^ k)) = of_nat (f * 10 ^ (p - k))"
    unfolding f64_exact [OF b(1)] f64_exact [OF b(2)] q f64_exact [OF b(3)]
    using f64_exact [OF b(4)] by (simp only: of_nat_mult)
  then show ?thesis using assms(4) unfolding add_fraction_def by (simp only: floor_of_nat nat_int mod_less)
qed

text \<open>A suffix that is a unit's name to its end.\<close>

definition unit_text :: "string \<Rightarrow> bool" where
  "unit_text u = (u \<noteq> [] \<and> list_all unit_char u)"

lemma unit_text_split:
  "unit_text u \<Longrightarrow> r = [] \<or> \<not> unit_char (hd r) \<Longrightarrow> takeWhile unit_char (u @ r) = u \<and> dropWhile unit_char (u @ r) = r"
  by (cases r) (auto simp: unit_text_def list_all_iff takeWhile_append2 dropWhile_append2)

lemma unit_text_start: "unit_text u \<Longrightarrow> no_digit (u @ r) \<and> hd (u @ r) \<noteq> CHR ''.''"
  by (cases u) (auto simp: unit_text_def no_digit_def unit_char_def)

lemma duration_term_whole:
  assumes "unit_text u" and "unitMap u = Some unit" and "0 < unit" and "n * unit \<le> 2 ^ 63"
    and "r = [] \<or> \<not> unit_char (hd r)"
  shows "duration_term orig (digits_of n @ u @ r) = Inr (n * unit, r)"
proof -
  have n: "n \<le> 2 ^ 63 div unit" using assms(3,4) by (simp add: less_eq_div_iff_mult_less_eq)
  also have "\<dots> \<le> 2 ^ 63" by (rule div_le_dividend)
  finally have "leadingNumber (digits_of n @ u @ r) = Some (n, 0, 1, u @ r)"
    using unit_text_start [OF assms(1)] by (intro leadingNumber_whole) auto
  then show ?thesis using unit_text_split [OF assms(1,5)] assms(1,2) n
    by (simp add: duration_term_def Let_def unit_text_def)
qed

lemma duration_term_fraction:
  assumes "unit_text u" and "unitMap u = Some (10 ^ p)" and "p \<le> 9" and "n * 10 ^ p + v mod 10 ^ p \<le> 2 ^ 63"
  shows "duration_term orig (digits_of n @ fst (fmtFrac p False [] v) @ u) = Inr (n * 10 ^ p + v mod 10 ^ p, [])"
proof -
  obtain k w where k: "k \<le> p" "fst (fmtFrac p False [] v) = (if k = 0 then [] else CHR ''.'' # fixed_digits k w)"
    "v mod 10 ^ p = w mod 10 ^ k * 10 ^ (p - k)" using fmtFrac_text [of p v] by auto
  have total: "n * 10 ^ p \<le> 2 ^ 63" using assms(4) by linarith
  show ?thesis
  proof (cases "k = 0")
    case True
    with k duration_term_whole [OF assms(1,2) _ total, of "[]"] show ?thesis by simp
  next
    case False
    have n: "n \<le> 2 ^ 63 div 10 ^ p" using total by (simp add: less_eq_div_iff_mult_less_eq)
    also have "\<dots> \<le> 2 ^ 63" by (rule div_le_dividend)
    finally have num: "leadingNumber (digits_of n @ CHR ''.'' # fixed_digits k w @ u) = Some (n, w mod 10 ^ k, 10 ^ k, u)"
      using unit_text_start [OF assms(1), of "[]"] False k(1) assms(3) by (intro leadingNumber_fraction) auto
    have add: "add_fraction (n * 10 ^ p) (10 ^ p) (w mod 10 ^ k) (10 ^ k) = n * 10 ^ p + v mod 10 ^ p"
      using k(1,3) assms(3,4) add_fraction_exact [of k p "w mod 10 ^ k" "n * 10 ^ p"] by simp
    have u: "takeWhile unit_char u = u" "dropWhile unit_char u = []" "u \<noteq> []"
      using unit_text_split [OF assms(1), of "[]"] assms(1) by (auto simp: unit_text_def)
    show ?thesis
      using num add n k(2,3) False assms(2,4) by (simp add: duration_term_def Let_def u)
  qed
qed

section \<open>The round trip\<close>

lemma unit_texts:
  "unit_text ''h''" "unit_text ''m''" "unit_text ''s''" "unit_text ''ms''" "unit_text (micro_sign @ ''s'')" "unit_text ''ns''"
  by (simp_all add: unit_text_def unit_char_def is_digit_def micro_sign_def Let_def)

lemma unitMap_values:
  "unitMap ''h'' = Some ns_Hour" "unitMap ''m'' = Some ns_Minute" "unitMap ''s'' = Some (10 ^ 9)"
  "unitMap ''ms'' = Some (10 ^ 6)" "unitMap (micro_sign @ ''s'') = Some (10 ^ 3)" "unitMap ''ns'' = Some (10 ^ 0)"
  by (simp_all add: unitMap_def ns_defs micro_sign_def greek_mu_def)

lemma duration_terms_last:
  "s \<noteq> [] \<Longrightarrow> duration_term orig s = Inr (v, []) \<Longrightarrow> d + v \<le> 2 ^ 63 \<Longrightarrow> duration_terms orig d s = Inr (d + v)"
  by (subst duration_terms.simps) (simp add: duration_terms.simps [of _ _ "[]"])

lemma duration_terms_next:
  "s \<noteq> [] \<Longrightarrow> duration_term orig s = Inr (v, r) \<Longrightarrow> d + v \<le> 2 ^ 63 \<Longrightarrow>
   duration_terms orig d s = duration_terms orig (d + v) r"
  by (subst duration_terms.simps) simp

lemma duration_terms_fraction:
  assumes "unit_text u" and "unitMap u = Some (10 ^ p)" and "p \<le> 9" and "d + (n * 10 ^ p + v mod 10 ^ p) \<le> 2 ^ 63"
  shows "duration_terms orig d (digits_of n @ fst (fmtFrac p False [] v) @ u) = Inr (d + (n * 10 ^ p + v mod 10 ^ p))"
  by (rule duration_terms_last) (use duration_term_fraction [OF assms(1-3)] assms(4) in \<open>simp_all\<close>)

lemma duration_terms_whole:
  assumes "unit_text u" and "unitMap u = Some unit" and "0 < unit" and "d + n * unit \<le> 2 ^ 63"
    and "\<not> unit_char (hd r)"
  shows "duration_terms orig d (digits_of n @ u @ r) = duration_terms orig (d + n * unit) r"
  by (rule duration_terms_next) (use duration_term_whole [OF assms(1-3)] assms(4,5) in \<open>simp_all\<close>)

lemma snd_fmtFrac: "snd (fmtFrac p b acc v) = v div 10 ^ p"
  by (induction p b acc v rule: fmtFrac.induct) (simp_all add: Let_def div_mult2_eq)

lemma digits_not_unit [simp]: "\<not> unit_char (hd (digits_of n @ r))" "\<not> unit_char (hd (digits_of n))"
  using hd_digits_of [of n] by (simp_all add: unit_char_def)

lemma ns_values: "ns_Hour = 3600000000000" "ns_Minute = 60000000000"
  by (simp_all add: ns_defs)

lemma ten9: "(10::nat) ^ 9 = 1000000000"
  by simp

lemma format_small_terms:
  assumes "u < ns_Second" and "u \<noteq> 0"
  shows "duration_terms orig 0 (format_small u) = Inr u"
proof -
  have split: "u div 10 ^ p * 10 ^ p + u mod 10 ^ p = u" for p by (rule div_mult_mod_eq)
  have "u < 10 ^ 9" using assms(1) by (simp add: ns_defs)
  then have b: "u \<le> 2 ^ 63" by simp
  have "duration_terms orig 0 (digits_of (u div 10 ^ p) @ fst (fmtFrac p False [] u) @ sfx) = Inr u"
    if "unit_text sfx" "unitMap sfx = Some (10 ^ p)" "p \<le> 9" for p sfx
    using duration_terms_fraction [OF that, of 0 "u div 10 ^ p" u orig] split [of p] b by simp
  from this [OF unit_texts(4) unitMap_values(4)] this [OF unit_texts(5) unitMap_values(5)]
    this [OF unit_texts(6) unitMap_values(6)]
  show ?thesis using assms(2) by (simp add: format_small_def split_beta Let_def snd_fmtFrac)
qed

lemma format_large_terms:
  assumes "u \<le> 2 ^ 63"
  shows "duration_terms orig 0 (format_large u) = Inr u"
proof -
  define secs where "secs = u div 10 ^ 9"
  let ?sec = "digits_of (secs mod 60) @ fst (fmtFrac 9 False [] u) @ ''s''"
  have u: "u = secs div 60 div 60 * ns_Hour + secs div 60 mod 60 * ns_Minute + (secs mod 60 * 10 ^ 9 + u mod 10 ^ 9)"
    using div_mult_mod_eq [of u "10 ^ 9", folded secs_def] div_mult_mod_eq [of secs 60]
      div_mult_mod_eq [of "secs div 60" 60] unfolding ns_values ten9 by linarith
  have sec: "duration_terms orig d ?sec = Inr (d + (secs mod 60 * 10 ^ 9 + u mod 10 ^ 9))"
    if "d + (secs mod 60 * 10 ^ 9 + u mod 10 ^ 9) \<le> 2 ^ 63" for d
    by (rule duration_terms_fraction [OF unit_texts(3) unitMap_values(3) _ that]) simp
  have min: "duration_terms orig d (digits_of (secs div 60 mod 60) @ ''m'' @ ?sec)
      = duration_terms orig (d + secs div 60 mod 60 * ns_Minute) ?sec"
    if "d + secs div 60 mod 60 * ns_Minute \<le> 2 ^ 63" for d
    by (rule duration_terms_whole [OF unit_texts(2) unitMap_values(2) _ that]) (simp_all add: ns_defs)
  have hour: "duration_terms orig 0 (digits_of (secs div 60 div 60) @ ''h'' @ digits_of (secs div 60 mod 60) @ ''m'' @ ?sec)
      = duration_terms orig (secs div 60 div 60 * ns_Hour) (digits_of (secs div 60 mod 60) @ ''m'' @ ?sec)"
    using duration_terms_whole [OF unit_texts(1) unitMap_values(1), of 0 "secs div 60 div 60"] u assms
    by (simp add: ns_defs)
  have s9: "snd (fmtFrac 9 False [] u) = secs" by (simp only: snd_fmtFrac secs_def)
  consider "secs div 60 = 0" | "secs div 60 > 0" "secs div 60 div 60 = 0" | "secs div 60 div 60 > 0" by auto
  then show ?thesis
  proof cases
    case 1
    with u sec [of 0] assms show ?thesis
      by (simp add: format_large_def split_beta Let_def s9)
  next
    case 2
    with u min [of 0] sec [of "secs div 60 mod 60 * ns_Minute"] assms show ?thesis
      by (simp add: format_large_def split_beta Let_def s9)
  next
    case 3
    then have "secs div 60 \<noteq> 0" by (intro notI) simp
    with 3 u hour min [of "secs div 60 div 60 * ns_Hour"] assms
      sec [of "secs div 60 div 60 * ns_Hour + secs div 60 mod 60 * ns_Minute"] show ?thesis
      by (simp add: format_large_def split_beta Let_def s9)
  qed
qed

lemma digits_zero: "digits_of 0 = ''0''"
proof -
  have "char_of (48 :: nat) = CHR ''0''" by (rule trans [OF _ char_of_char [of "CHR ''0''"]]) simp
  then show ?thesis by (simp add: digits_of.simps [of 0])
qed

lemma is_digit_zero: "is_digit (CHR ''0'')"
  by (simp add: is_digit_def Let_def)

lemma format_ends:
  "is_digit (hd (format_small u)) \<and> last (format_small u) = CHR ''s'' \<and> format_small u \<noteq> []"
  "is_digit (hd (format_large u)) \<and> last (format_large u) = CHR ''s'' \<and> format_large u \<noteq> []"
  using is_digit_zero
  by (auto simp: format_small_def format_large_def split_beta Let_def hd_append hd_digits_of micro_sign_def)

lemma ParseDuration_String:
  assumes "in_int64 d"
  shows "ParseDuration (duration_String d) = Inr d"
proof -
  define u where "u = nat \<bar>d\<bar>"
  define body where "body = (if u < ns_Second then format_small u else format_large u)"
  have u: "u \<le> 2 ^ 63" "0 \<le> d \<Longrightarrow> u \<le> 2 ^ 63 - 1"
    using assms by (auto simp: in_int64_def u_def nat_le_iff)
  have str: "duration_String d = (if d < 0 then CHR ''-'' # body else body)"
    by (simp add: duration_String_def body_def u_def Let_def)
  have ends: "is_digit (hd body)" "last body = CHR ''s''" "body \<noteq> []"
    using format_ends [of u] by (simp_all add: body_def)
  then have shape: "hd body \<noteq> CHR ''-''" "hd body \<noteq> CHR ''+''" "body \<noteq> ''0''"
    by (auto simp: is_digit_def Let_def)
  have terms: "duration_terms orig 0 body = Inr u" for orig
  proof (cases "u = 0")
    case True
    then have "body = ''0s''" by (simp add: body_def format_small_def ns_defs)
    moreover have "duration_term orig ''0s'' = Inr (0, [])"
      using duration_term_whole [OF unit_texts(3) unitMap_values(3), of 0 "[]" orig]
      by (simp add: digits_zero)
    ultimately show ?thesis using True duration_terms_last [of body orig 0 0] by simp
  next
    case False
    then show ?thesis using format_small_terms format_large_terms [OF u(1)] by (simp add: body_def)
  qed
  show ?thesis
  proof (cases "d < 0")
    case True
    then show ?thesis using str ends(3) shape terms [of "CHR ''-'' # body"] by (simp add: ParseDuration_def Let_def u_def)
  next
    case False
    with u(2) have "\<not> 2 ^ 63 - 1 < u" by simp
    with False show ?thesis using str ends(3) shape terms [of body] by (simp add: ParseDuration_def Let_def u_def)
  qed
qed

text \<open>
  C15. The text of a duration, as the program writes it into YAML, is read back as that duration,
  for every value of 64 bits, the smallest one included, although the reader takes the fraction
  through floating point and the sum through wrapping 64-bit additions.
\<close>

theorem duration_roundtrip:
  "in_int64 d \<Longrightarrow> UnmarshalYAML (Inr (MarshalYAML d)) = Inr d"
  by (simp add: UnmarshalYAML_def MarshalYAML_def ParseDuration_String)

theorem duration_roundtrip_witness:
  "UnmarshalYAML (Inr (MarshalYAML (- (2 ^ 63)))) = Inr (- (2 ^ 63))"
  by (rule duration_roundtrip) (simp add: in_int64_def)

text \<open>What is read is within the range of 64 bits.\<close>

lemma duration_terms_bound: "d \<le> 2 ^ 63 \<Longrightarrow> duration_terms orig d s = Inr e \<Longrightarrow> e \<le> 2 ^ 63"
proof (induction orig d s rule: duration_terms.induct)
  case (1 orig d s)
  show ?case
  proof (cases "s = []")
    case True
    with 1(2,3) show ?thesis by (simp add: duration_terms.simps [of _ _ "[]"])
  next
    case False
    with 1(3) obtain v r where t: "duration_term orig s = Inr (v, r)" and le: "(d + v) mod 2 ^ 64 \<le> 2 ^ 63"
      and e: "duration_terms orig ((d + v) mod 2 ^ 64) r = Inr e"
      by (subst (asm) duration_terms.simps) (auto simp: Let_def split: sum.splits if_splits)
    show ?thesis by (rule 1(1) [OF False t refl refl _ le e]) (use le in simp)
  qed
qed

lemma ParseDuration_range: "ParseDuration s = Inr d \<Longrightarrow> in_int64 d"
  by (auto simp: ParseDuration_def in_int64_def Let_def split: sum.splits if_splits dest!: duration_terms_bound [of 0, simplified])

end
