(* ===== verification/GhTypes.thy ===== *)
theory GhTypes
  imports Prelude
begin

text \<open>
  What the program knows of GitHub (\<open>internal/ghapi\<close>): runners, repositories, jobs and the
  errors its client returns, with the classification of jobs that decides which ones are
  demand at all. Times are integers (nanoseconds); 0 is Go's zero time.
\<close>

record Runner =
  r_ID :: int
  r_Name :: string
  r_OS :: string
  r_Status :: string
  r_Busy :: bool
  r_Labels :: "string list"
  r_Repo :: string

definition Online :: "Runner \<Rightarrow> bool" where
  "Online r = (r_Status r = ''online'')"

record JITConfig =
  jit_Runner :: Runner
  jit_Encoded :: string

record RateLimit =
  rl_Limit :: int
  rl_Remaining :: int
  rl_Reset :: int
  rl_Seen :: int

record Repo =
  repo_Name :: string
  repo_FullName :: string
  repo_Archived :: bool
  repo_Disabled :: bool
  repo_Fork :: bool
  repo_PushedAt :: int
  repo_OwnerLogin :: string

record Job =
  job_ID :: int
  job_RunID :: int
  job_Repo :: string
  job_Name :: string
  job_Labels :: "string list"
  job_Status :: string
  job_Started :: int
  job_QueuedAt :: int

record RepoFilterOpts =
  fo_Include :: "string list"
  fo_Exclude :: "string list"
  fo_ActiveWithin :: int
  fo_Archived :: bool

text \<open>
  The errors of the client: a non-2xx response, the sentinel for a busy runner, the partial
  failure of a poll, any other error by its text, and an error wrapped in a message. \<open>errors.Is\<close>
  and \<open>errors.As\<close> look through the wrappings, at the cause.
\<close>

datatype gherr =
    APIError (err_Status: int) (err_Message: string) (err_URL: string)
  | ErrRunnerBusy
  | PartialError "string list"
  | OtherError string
  | Wrapped string gherr

fun cause :: "gherr \<Rightarrow> gherr" where
  "cause (Wrapped _ e) = cause e"
| "cause e = e"

definition refused_busy :: "gherr option \<Rightarrow> bool" where
  "refused_busy e = (map_option cause e = Some ErrRunnerBusy)"

lemma cause_idem [simp]: "cause (cause e) = cause e"
  by (induction e) auto

definition IsNotFound :: "gherr \<Rightarrow> bool" where
  "IsNotFound e = (case cause e of APIError s _ _ \<Rightarrow> s = 404 | _ \<Rightarrow> False)"

definition IsForbidden :: "gherr \<Rightarrow> bool" where
  "IsForbidden e = (case cause e of APIError s _ _ \<Rightarrow> s = 403 | _ \<Rightarrow> False)"

section \<open>Which jobs are self-hosted\<close>

definition githubHostedLabel :: "string \<Rightarrow> bool" where
  "githubHostedLabel l =
     (let l = to_lower l
      in list_ex (has_prefix l)
           [''ubuntu-'', ''windows-'', ''macos-'', ''ubuntu_'', ''windows_'', ''macos_'']
         \<or> List.member [''ubuntu'', ''windows'', ''macos''] l)"

definition SelfHosted :: "Job \<Rightarrow> bool" where
  "SelfHosted j =
     (if job_Labels j = [] then False
      else if list_ex (\<lambda>l. equal_fold l ''self-hosted'') (job_Labels j) then True
      else list_ex (\<lambda>l. \<not> githubHostedLabel l) (job_Labels j))"

end
