(* ===== verification/Scale.thy ===== *)
theory Scale
  imports ConfigTypes GhTypes
begin

text \<open>
  The scaling logic (\<open>internal/orchestrator/scale.go\<close>): which pools can serve a job, how
  queued jobs are distributed over pools, and the decision for one pool.
\<close>

section \<open>Matching jobs to pools\<close>

record PoolMatcher =
  m_pools :: "Pool list"
  m_labelSets :: "string \<rightharpoonup> string set"

definition label_set :: "Pool \<Rightarrow> string set" where
  "label_set p = insert ''self-hosted'' (to_lower ` set (pool_Labels p))"

definition NewPoolMatcher :: "Pool list \<Rightarrow> PoolMatcher" where
  "NewPoolMatcher ps =
     \<lparr> m_pools = ps,
       m_labelSets = foldl (\<lambda>m p. m(pool_Name p \<mapsto> label_set p)) Map.empty ps \<rparr>"

definition CanServe :: "PoolMatcher \<Rightarrow> Pool \<Rightarrow> Job \<Rightarrow> bool" where
  "CanServe m p j = (case m_labelSets m (pool_Name p) of
      None \<Rightarrow> False
    | Some S \<Rightarrow> list_all (\<lambda>want. to_lower want \<in> S) (job_Labels j))"

definition fit_size :: "PoolMatcher \<Rightarrow> Pool \<Rightarrow> nat" where
  "fit_size m p = (case m_labelSets m (pool_Name p) of None \<Rightarrow> 0 | Some S \<Rightarrow> card S)"

definition Candidates :: "PoolMatcher \<Rightarrow> Job \<Rightarrow> Pool list" where
  "Candidates m j = sort_key (fit_size m) (filter (\<lambda>p. CanServe m p j) (m_pools m))"

section \<open>Distributing queued jobs\<close>

record Limits =
  lim_Min :: int
  lim_Max :: int

record Demand =
  ByPool :: "string \<Rightarrow> int"
  Jobs :: "string \<Rightarrow> Job list"
  Unassigned :: "Job list"

definition empty_demand :: Demand where
  "empty_demand = \<lparr> ByPool = (\<lambda>_. 0), Jobs = (\<lambda>_. []), Unassigned = [] \<rparr>"

text \<open>\<open>headroom\<close>: how many more runners each pool may create, never negative.\<close>

definition initial_headroom :: "Pool list \<Rightarrow> (string \<Rightarrow> int) \<Rightarrow> (string \<Rightarrow> Limits) \<Rightarrow> string \<Rightarrow> int" where
  "initial_headroom ps live limits =
     foldl (\<lambda>h p. h(pool_Name p := max 0 (lim_Max (limits (pool_Name p)) - live (pool_Name p))))
       (\<lambda>_. 0) ps"

definition add_job :: "string \<Rightarrow> Job \<Rightarrow> Demand \<Rightarrow> Demand" where
  "add_job n j d = d\<lparr>ByPool := (ByPool d)(n := ByPool d n + 1), Jobs := (Jobs d)(n := Jobs d n @ [j])\<rparr>"

text \<open>The inner loop over a job's candidates: the first one with headroom left.\<close>

definition place :: "(string \<Rightarrow> int) \<Rightarrow> Pool list \<Rightarrow> Pool option" where
  "place headroom cs = find (\<lambda>p. headroom (pool_Name p) > 0) cs"

definition assign_job ::
  "PoolMatcher \<Rightarrow> (string \<Rightarrow> int) \<times> Demand \<Rightarrow> Job \<Rightarrow> (string \<Rightarrow> int) \<times> Demand" where
  "assign_job m st j =
     (let (headroom, d) = st; candidates = Candidates m j
      in case candidates of
           [] \<Rightarrow> (headroom, d\<lparr>Unassigned := Unassigned d @ [j]\<rparr>)
         | c # _ \<Rightarrow>
             (case place headroom candidates of
                Some p \<Rightarrow> (headroom(pool_Name p := headroom (pool_Name p) - 1),
                           add_job (pool_Name p) j d)
              | None \<Rightarrow> (headroom, add_job (pool_Name c) j d)))"

definition AssignDemand ::
  "PoolMatcher \<Rightarrow> Job list \<Rightarrow> (string \<Rightarrow> int) \<Rightarrow> (string \<Rightarrow> Limits) \<Rightarrow> Demand" where
  "AssignDemand m jobs live limits =
     snd (foldl (assign_job m) (initial_headroom (m_pools m) live limits, empty_demand) jobs)"

section \<open>The decision for one pool\<close>

datatype reason = NoReason | ScalingUp | ToppingUp | CullingIdle | AtTarget

record Decision =
  dec_Pool :: string
  dec_Desired :: int
  dec_Create :: int
  dec_Cull :: int
  dec_Reason :: reason

record PoolState =
  st_Live :: int
  st_Busy :: int
  st_Idle :: int
  st_Starting :: int

definition desired_count :: "PoolState \<Rightarrow> int \<Rightarrow> Limits \<Rightarrow> int" where
  "desired_count st demand lm =
     (let desired = st_Busy st + demand;
          desired = (if desired < lim_Min lm then lim_Min lm else desired)
      in if desired > lim_Max lm then lim_Max lm else desired)"

definition Plan :: "string \<Rightarrow> PoolState \<Rightarrow> int \<Rightarrow> Limits \<Rightarrow> Decision" where
  "Plan pool st demand lm =
     (let desired = desired_count st demand lm;
          d = \<lparr> dec_Pool = pool, dec_Desired = desired, dec_Create = 0, dec_Cull = 0,
                dec_Reason = NoReason \<rparr>
      in if st_Live st < desired then
           d\<lparr>dec_Create := desired - st_Live st,
             dec_Reason := (if demand = 0 then ToppingUp else ScalingUp)\<rparr>
         else if st_Live st > desired then
           (let cull = (if st_Live st - desired > st_Idle st then st_Idle st else st_Live st - desired)
            in d\<lparr>dec_Cull := cull, dec_Reason := (if cull > 0 then CullingIdle else NoReason)\<rparr>)
         else d\<lparr>dec_Reason := AtTarget\<rparr>)"

end
