(* ===== verification/ScaleProps.thy ===== *)
theory ScaleProps
  imports Scale
begin

text \<open>
  Correctness of the scaling logic: candidates come tightest first, every queued job is
  counted exactly once and only for a pool that can serve it, a job waits behind a full pool
  only if every pool it fits is full, and the decision for one pool reaches a target between
  the limits in one step without touching busy or starting runners.
\<close>

section \<open>Candidates\<close>

lemma NewPoolMatcher_fields [simp]: "m_pools (NewPoolMatcher ps) = ps"
  by (simp add: NewPoolMatcher_def)

lemma foldl_upd_in:
  "foldl (\<lambda>m p. m(f p \<mapsto> g p)) m0 ps n =
     (case find (\<lambda>p. f p = n) (rev ps) of Some p \<Rightarrow> Some (g p) | None \<Rightarrow> m0 n)"
  by (induction ps rule: rev_induct) auto

lemma find_name_distinct:
  "distinct (map f ps) \<Longrightarrow> p \<in> set ps \<Longrightarrow> find (\<lambda>q. f q = f p) ps = Some p"
  by (induction ps) force+

lemma labelSets_lookup:
  assumes "distinct (map pool_Name ps)" and "p \<in> set ps"
  shows "m_labelSets (NewPoolMatcher ps) (pool_Name p) = Some (label_set p)"
proof -
  have "distinct (map pool_Name (rev ps))" using assms(1) by (simp add: rev_map [symmetric])
  then have "find (\<lambda>q. pool_Name q = pool_Name p) (rev ps) = Some p"
    using assms(2) find_name_distinct [of pool_Name "rev ps" p] by simp
  then show ?thesis by (simp add: NewPoolMatcher_def foldl_upd_in)
qed

lemma set_Candidates [simp]: "set (Candidates m j) = {p \<in> set (m_pools m). CanServe m p j}"
  by (auto simp: Candidates_def)

lemma sorted_Candidates: "sorted (map (fit_size m) (Candidates m j))"
  by (simp add: Candidates_def)

text \<open>
  A pool is a candidate for a job exactly when its labels, \<open>self-hosted\<close> included, cover
  the labels the job asks for, letter case aside.
\<close>

lemma Candidates_superset:
  assumes "distinct (map pool_Name ps)"
  shows "set (Candidates (NewPoolMatcher ps) j)
         = {p \<in> set ps. to_lower ` set (job_Labels j) \<subseteq> label_set p}"
  using assms by (auto simp: CanServe_def labelSets_lookup list_all_iff image_subset_iff)

text \<open>Two pools and a few jobs for the concrete instances below.\<close>

definition example_pool :: "string \<Rightarrow> string list \<Rightarrow> int \<Rightarrow> Pool" where
  "example_pool name labels mx = \<lparr> pool_Name = name, pool_Labels = labels,
     pool_Provider = ProviderProcess, pool_Min = 0, pool_Max = mx,
     pool_IdleTimeout = DefaultIdleTimeout, pool_JobTimeout = DefaultJobTimeout,
     pool_RunnerGroup = [], pool_Docker = None, pool_Process = Some empty_process \<rparr>"

definition linux_pool :: Pool where "linux_pool = example_pool ''linux'' [''linux''] 2"
definition gpu_pool :: Pool where "gpu_pool = example_pool ''linux-gpu'' [''linux'', ''gpu''] 1"

definition example_job :: "int \<Rightarrow> string list \<Rightarrow> Job" where
  "example_job i labels = \<lparr> job_ID = i, job_RunID = i, job_Repo = ''app'', job_Name = ''build'',
     job_Labels = labels, job_Status = ''queued'', job_Started = 0, job_QueuedAt = 0 \<rparr>"

lemma Candidates_superset_witness:
  "set (Candidates (NewPoolMatcher [gpu_pool, linux_pool]) (example_job 1 [''LINUX'']))
   = {p \<in> set [gpu_pool, linux_pool]. to_lower ` set (job_Labels (example_job 1 [''LINUX''])) \<subseteq> label_set p}"
  by (rule Candidates_superset) code_simp

text \<open>
  Tightest fit first, and stable: the head of the candidates has no more labels than any
  other pool that can serve the job, and pools with equally many labels keep their
  configuration order.
\<close>

lemma Candidates_tightest:
  "sorted (map (fit_size m) (Candidates m j))
   \<and> mset (Candidates m j) = mset (filter (\<lambda>p. CanServe m p j) (m_pools m))
   \<and> filter (\<lambda>p. fit_size m p = k) (Candidates m j)
      = filter (\<lambda>p. fit_size m p = k) (filter (\<lambda>p. CanServe m p j) (m_pools m))"
  by (simp add: Candidates_def sort_key_stable)

section \<open>The assignment loop\<close>

lemma place_Some:
  "place h cs = Some p \<Longrightarrow> p \<in> set cs \<and> h (pool_Name p) > 0"
  by (auto simp: place_def find_Some_iff)

lemma place_None: "place h cs = None \<longleftrightarrow> (\<forall>p \<in> set cs. h (pool_Name p) \<le> 0)"
  by (auto simp: place_def find_None_iff not_less)

lemma add_job_fields [simp]:
  "ByPool (add_job n j d) = (ByPool d)(n := ByPool d n + 1)"
  "Jobs (add_job n j d) = (Jobs d)(n := Jobs d n @ [j])"
  "Unassigned (add_job n j d) = Unassigned d"
  by (simp_all add: add_job_def)

text \<open>
  The step of the loop, by cases: the job is refused, takes a free slot, or is counted on the
  head candidate because no candidate has a slot left.
\<close>

lemma assign_job_cases:
  obtains (refuse) "Candidates m j = []"
      "assign_job m (h, d) j = (h, d\<lparr>Unassigned := Unassigned d @ [j]\<rparr>)"
  | (take) p where "p \<in> set (m_pools m)" "CanServe m p j" "h (pool_Name p) > 0"
      "assign_job m (h, d) j = (h(pool_Name p := h (pool_Name p) - 1), add_job (pool_Name p) j d)"
  | (overflow) p where "p \<in> set (m_pools m)" "CanServe m p j"
      "\<forall>q \<in> set (m_pools m). CanServe m q j \<longrightarrow> h (pool_Name q) \<le> 0"
      "assign_job m (h, d) j = (h, add_job (pool_Name p) j d)"
proof (cases "Candidates m j")
  case Nil
  then show ?thesis by (intro refuse) (simp_all add: assign_job_def Let_def)
next
  case (Cons c cs)
  then have c: "c \<in> set (m_pools m)" "CanServe m c j"
    using set_Candidates [of m j] by auto
  show ?thesis
  proof (cases "place h (Candidates m j)")
    case None
    then have "\<forall>q \<in> set (m_pools m). CanServe m q j \<longrightarrow> h (pool_Name q) \<le> 0"
      by (simp add: place_None)
    with None Cons c show ?thesis
      by (intro overflow [of c]) (simp_all add: assign_job_def Let_def)
  next
    case (Some p)
    then have "p \<in> set (m_pools m) \<and> CanServe m p j" "h (pool_Name p) > 0"
      using place_Some [OF Some] by simp_all
    with Some Cons show ?thesis
      by (intro take [of p]) (simp_all add: assign_job_def Let_def)
  qed
qed

definition assign_inv ::
  "PoolMatcher \<Rightarrow> (string \<Rightarrow> int) \<Rightarrow> Job list \<Rightarrow> (string \<Rightarrow> int) \<times> Demand \<Rightarrow> bool" where
  "assign_inv m h0 js st =
     (let (h, d) = st in
        (\<forall>n. ByPool d n = int (length (Jobs d n)))
      \<and> (\<forall>n. h n = max 0 (h0 n - int (length (Jobs d n))))
      \<and> mset js = mset (Unassigned d) + (\<Sum>n \<in> pool_Name ` set (m_pools m). mset (Jobs d n))
      \<and> (\<forall>n j. j \<in> set (Jobs d n) \<longrightarrow> (\<exists>p \<in> set (m_pools m). pool_Name p = n \<and> CanServe m p j))
      \<and> (\<forall>j. j \<in> set (Unassigned d) \<longrightarrow> Candidates m j = [])
      \<and> (\<forall>n. subseq (Jobs d n) js)
      \<and> (\<forall>n. \<forall>j \<in> set (drop (nat (h0 n)) (Jobs d n)). \<forall>q \<in> set (m_pools m).
            CanServe m q j \<longrightarrow> h (pool_Name q) = 0))"

lemma sum_mset_upd:
  assumes "finite A" "n \<in> A"
  shows "(\<Sum>x \<in> A. mset ((f(n := f n @ [j])) x)) = (\<Sum>x \<in> A. mset (f x)) + {#j#}"
proof -
  have "(\<Sum>x \<in> A. mset ((f(n := f n @ [j])) x)) = (\<Sum>x \<in> A. mset (f x) + (if x = n then {#j#} else {#}))"
    by (intro sum.cong) auto
  then show ?thesis using assms by (simp add: sum.distrib)
qed

lemma assign_invI:
  assumes "\<And>n. ByPool d n = int (length (Jobs d n))"
    and "\<And>n. h n = max 0 (h0 n - int (length (Jobs d n)))"
    and "mset js = mset (Unassigned d) + (\<Sum>n \<in> pool_Name ` set (m_pools m). mset (Jobs d n))"
    and "\<And>n j. j \<in> set (Jobs d n) \<Longrightarrow> \<exists>p \<in> set (m_pools m). pool_Name p = n \<and> CanServe m p j"
    and "\<And>j. j \<in> set (Unassigned d) \<Longrightarrow> Candidates m j = []"
    and "\<And>n. subseq (Jobs d n) js"
    and "\<And>n j q. j \<in> set (drop (nat (h0 n)) (Jobs d n)) \<Longrightarrow> q \<in> set (m_pools m) \<Longrightarrow>
           CanServe m q j \<Longrightarrow> h (pool_Name q) = 0"
  shows "assign_inv m h0 js (h, d)"
  using assms by (auto simp: assign_inv_def)

lemma assign_invD:
  assumes "assign_inv m h0 js (h, d)"
  shows "ByPool d n = int (length (Jobs d n))"
    and "h n = max 0 (h0 n - int (length (Jobs d n)))"
    and "mset js = mset (Unassigned d) + (\<Sum>n \<in> pool_Name ` set (m_pools m). mset (Jobs d n))"
    and "i \<in> set (Jobs d n) \<Longrightarrow> \<exists>p \<in> set (m_pools m). pool_Name p = n \<and> CanServe m p i"
    and "i \<in> set (Unassigned d) \<Longrightarrow> Candidates m i = []"
    and "subseq (Jobs d n) js"
    and "i \<in> set (drop (nat (h0 n)) (Jobs d n)) \<Longrightarrow> q \<in> set (m_pools m) \<Longrightarrow>
           CanServe m q i \<Longrightarrow> h (pool_Name q) = 0"
  using assms unfolding assign_inv_def Let_def prod.case by blast+

lemma assign_inv_step:
  assumes inv: "assign_inv m h0 js (h, d)"
  shows "assign_inv m h0 (js @ [j]) (assign_job m (h, d) j)"
proof -
  note cnt = assign_invD(1) [OF inv] and hd = assign_invD(2) [OF inv]
    and ms = assign_invD(3) [OF inv] and srv = assign_invD(4) [OF inv]
    and un = assign_invD(5) [OF inv] and sub = assign_invD(6) [OF inv]
    and ov = assign_invD(7) [OF inv]
  have sub': "subseq (Jobs d n) (js @ [j])" and sub'': "subseq (Jobs d n @ [j]) (js @ [j])" for n
    using list_emb_append_mono [OF sub [of n], of "[]" "[j]"] sub [of n] by simp_all
  show ?thesis
  proof (cases rule: assign_job_cases [of m j h d])
    case refuse
    show ?thesis
      unfolding refuse(2) by (rule assign_invI) (use cnt hd ms srv un sub' ov refuse in auto)
  next
    case (take p)
    let ?n = "pool_Name p" and ?J = "(Jobs d)(pool_Name p := Jobs d (pool_Name p) @ [j])"
    have room: "int (length (Jobs d ?n)) < h0 ?n" using hd [of ?n] take(3) by simp
    have left: "(h(?n := h ?n - 1)) n = max 0 (h0 n - int (length (?J n)))" for n
      using hd [of n] room by auto
    have over: "(h(?n := h ?n - 1)) (pool_Name q) = 0"
      if "i \<in> set (drop (nat (h0 n)) (?J n))" "q \<in> set (m_pools m)" "CanServe m q i" for i n q
    proof -
      have "i \<in> set (drop (nat (h0 n)) (Jobs d n))" using that(1) room by (auto split: if_splits)
      then have "h (pool_Name q) = 0" using ov that by blast
      with take(3) show ?thesis by auto
    qed
    have "mset (js @ [j]) = mset (Unassigned d) + (\<Sum>n \<in> pool_Name ` set (m_pools m). mset (?J n))"
      using ms take(1) by (simp add: sum_mset_upd del: fun_upd_apply)
    then show ?thesis
      unfolding take(4)
      by (intro assign_invI)
         (use cnt left srv un sub' sub'' over take in \<open>auto simp del: fun_upd_apply simp: fun_upd_def split: if_splits\<close>)
  next
    case (overflow p)
    let ?n = "pool_Name p" and ?J = "(Jobs d)(pool_Name p := Jobs d (pool_Name p) @ [j])"
    have zero: "h (pool_Name q) = 0" if "q \<in> set (m_pools m)" "CanServe m q j" for q
      using that overflow(3) hd [of "pool_Name q"] by auto
    have full: "h0 ?n \<le> int (length (Jobs d ?n))"
      using zero [OF overflow(1,2)] hd [of ?n] by simp
    have left: "h n = max 0 (h0 n - int (length (?J n)))" for n
      using hd [of n] full by auto
    have over: "h (pool_Name q) = 0"
      if "i \<in> set (drop (nat (h0 n)) (?J n))" "q \<in> set (m_pools m)" "CanServe m q i" for i n q
    proof -
      have "i \<in> set (drop (nat (h0 n)) (Jobs d n)) \<or> i = j"
        using that(1) full by (auto split: if_splits)
      then show ?thesis using ov zero that by blast
    qed
    have "mset (js @ [j]) = mset (Unassigned d) + (\<Sum>n \<in> pool_Name ` set (m_pools m). mset (?J n))"
      using ms overflow(1) by (simp add: sum_mset_upd del: fun_upd_apply)
    then show ?thesis
      unfolding overflow(4)
      by (intro assign_invI)
         (use cnt left srv un sub' sub'' over overflow(1,2) in
           \<open>auto simp del: fun_upd_apply simp: fun_upd_def split: if_splits\<close>)
  qed
qed

lemma initial_headroom_nonneg: "0 \<le> initial_headroom ps live limits n"
proof -
  have "0 \<le> h0 n \<Longrightarrow> 0 \<le> foldl (\<lambda>h p. h(pool_Name p := max 0 (g p))) h0 ps n" for h0 :: "string \<Rightarrow> int" and g
    by (induction ps rule: rev_induct) auto
  then show ?thesis by (simp add: initial_headroom_def)
qed

lemma initial_headroom_pool:
  "p \<in> set ps \<Longrightarrow>
   initial_headroom ps live limits (pool_Name p) = max 0 (lim_Max (limits (pool_Name p)) - live (pool_Name p))"
  by (induction ps rule: rev_induct) (auto simp: initial_headroom_def)

lemma assign_inv_foldl:
  assumes "\<And>n. 0 \<le> h0 n"
  shows "assign_inv m h0 js (foldl (assign_job m) (h0, empty_demand) js)"
proof (induction js rule: rev_induct)
  case Nil
  then show ?case using assms by (auto simp: assign_inv_def empty_demand_def)
next
  case (snoc j js)
  then show ?case
    by (cases "foldl (assign_job m) (h0, empty_demand) js") (simp add: assign_inv_step)
qed

lemma AssignDemand_inv:
  obtains h where "assign_inv m (initial_headroom (m_pools m) live limits) jobs
                     (h, AssignDemand m jobs live limits)"
  using assign_inv_foldl [of "initial_headroom (m_pools m) live limits" m jobs]
  by (cases "foldl (assign_job m) (initial_headroom (m_pools m) live limits, empty_demand) jobs")
     (simp add: AssignDemand_def initial_headroom_nonneg)

lemma AssignDemand_mset:
  "mset jobs = mset (Unassigned (AssignDemand m jobs live limits))
      + (\<Sum>n \<in> pool_Name ` set (m_pools m). mset (Jobs (AssignDemand m jobs live limits) n))"
  by (rule AssignDemand_inv [of m live limits jobs]) (auto simp: assign_inv_def)

text \<open>
  C5. No job is lost or counted twice: the queued jobs are, as a multiset, the unassigned
  ones and the ones counted on the pools, the counts are the lengths of the job lists, and
  each pool's jobs keep their queue order.
\<close>

theorem AssignDemand_conserves:
  "mset jobs = mset (Unassigned (AssignDemand m jobs live limits))
      + (\<Sum>n \<in> pool_Name ` set (m_pools m). mset (Jobs (AssignDemand m jobs live limits) n))
   \<and> (\<forall>n. ByPool (AssignDemand m jobs live limits) n
            = int (length (Jobs (AssignDemand m jobs live limits) n)))
   \<and> (\<forall>n. subseq (Jobs (AssignDemand m jobs live limits) n) jobs)"
  by (rule AssignDemand_inv [of m live limits jobs]) (auto simp: assign_inv_def)

text \<open>
  C27. Demand only goes where it can be served: a job counted on a pool name is one that a
  configured pool of that name can serve, and the unassigned jobs are exactly the queued jobs
  no pool can serve.
\<close>

theorem AssignDemand_serves:
  "(j \<in> set (Jobs (AssignDemand m jobs live limits) n)
      \<longrightarrow> (\<exists>p \<in> set (m_pools m). pool_Name p = n \<and> CanServe m p j))
   \<and> set (Unassigned (AssignDemand m jobs live limits)) = {j \<in> set jobs. Candidates m j = []}"
proof (rule AssignDemand_inv [of m live limits jobs])
  fix h
  let ?d = "AssignDemand m jobs live limits"
  assume inv: "assign_inv m (initial_headroom (m_pools m) live limits) jobs (h, ?d)"
  have "set jobs = set (Unassigned ?d) \<union> (\<Union>n \<in> pool_Name ` set (m_pools m). set (Jobs ?d n))"
    using AssignDemand_mset [of jobs m live limits]
    by (simp add: set_mset_sum flip: set_mset_mset)
  moreover have "Candidates m i \<noteq> []" if "i \<in> set (Jobs ?d k)" for i k
  proof -
    from assign_invD(4) [OF inv that] obtain p where "p \<in> set (Candidates m i)" by auto
    then show ?thesis by (auto simp del: set_Candidates)
  qed
  ultimately show ?thesis using assign_invD(4,5) [OF inv] by blast
qed

definition small_limits :: "string \<Rightarrow> Limits" where
  "small_limits n = \<lparr> lim_Min = 0, lim_Max = (if n = ''linux'' then 1 else 1) \<rparr>"

theorem AssignDemand_serves_witness:
  "(example_job 2 [''linux''] \<in> set (Jobs (AssignDemand (NewPoolMatcher [linux_pool, gpu_pool])
        [example_job 1 [''gpu''], example_job 2 [''linux''], example_job 3 [''arm'']]
        (\<lambda>_. 0) small_limits) ''linux''))
   \<and> (\<exists>p \<in> set [linux_pool, gpu_pool]. pool_Name p = ''linux''
        \<and> CanServe (NewPoolMatcher [linux_pool, gpu_pool]) p (example_job 2 [''linux'']))"
proof -
  have j: "example_job 2 [''linux''] \<in> set (Jobs (AssignDemand (NewPoolMatcher [linux_pool, gpu_pool])
        [example_job 1 [''gpu''], example_job 2 [''linux''], example_job 3 [''arm'']]
        (\<lambda>_. 0) small_limits) ''linux'')"
    by code_simp
  then show ?thesis
    using AssignDemand_serves [of "example_job 2 [''linux'']" "NewPoolMatcher [linux_pool, gpu_pool]"
        "[example_job 1 [''gpu''], example_job 2 [''linux''], example_job 3 [''arm'']]" "\<lambda>_. 0"
        small_limits "''linux''"]
    by (simp only: NewPoolMatcher_fields)
qed

text \<open>
  A job waits on a full pool only when there is nowhere else to go: the jobs counted on a
  pool beyond its headroom can only be served by pools whose own headroom is used up too.
\<close>

lemma AssignDemand_spills:
  assumes p: "p \<in> set (m_pools m)" and q: "q \<in> set (m_pools m)"
    and over: "j \<in> set (drop (nat (max 0 (lim_Max (limits (pool_Name p)) - live (pool_Name p))))
                         (Jobs (AssignDemand m jobs live limits) (pool_Name p)))"
    and serve: "CanServe m q j"
  shows "lim_Max (limits (pool_Name q)) - live (pool_Name q)
           \<le> ByPool (AssignDemand m jobs live limits) (pool_Name q)"
proof (rule AssignDemand_inv [of m live limits jobs])
  fix h
  let ?d = "AssignDemand m jobs live limits" and ?h0 = "initial_headroom (m_pools m) live limits"
  assume inv: "assign_inv m ?h0 jobs (h, ?d)"
  have "h (pool_Name q) = 0"
    using assign_invD(7) [OF inv, of j "pool_Name p" q] over q serve
    by (simp add: initial_headroom_pool [OF p])
  moreover have "h (pool_Name q) = max 0 (?h0 (pool_Name q) - ByPool ?d (pool_Name q))"
    using assign_invD(1,2) [OF inv] by simp
  ultimately show ?thesis by (simp add: initial_headroom_pool [OF q])
qed

definition spill_jobs :: "Job list" where
  "spill_jobs = map (\<lambda>i. example_job i [''linux'']) [1, 2, 3]"

lemma AssignDemand_spills_witness:
  "lim_Max (small_limits ''linux-gpu'') - 0
     \<le> ByPool (AssignDemand (NewPoolMatcher [linux_pool, gpu_pool]) spill_jobs (\<lambda>_. 0) small_limits)
         ''linux-gpu''"
proof -
  have g: "pool_Name gpu_pool = ''linux-gpu''" by code_simp
  have "lim_Max (small_limits (pool_Name gpu_pool)) - 0
     \<le> ByPool (AssignDemand (NewPoolMatcher [linux_pool, gpu_pool]) spill_jobs (\<lambda>_. 0) small_limits)
         (pool_Name gpu_pool)"
    by (rule AssignDemand_spills [where p = linux_pool and j = "example_job 3 [''linux'']"
          and live = "\<lambda>_. 0"]; code_simp)
  then show ?thesis by (simp only: g)
qed

section \<open>The decision\<close>

lemmas plan_defs = Plan_def desired_count_def Let_def

text \<open>A pool's counts are consistent: every live runner is busy, idle or starting.\<close>

definition consistent :: "PoolState \<Rightarrow> bool" where
  "consistent st = (0 \<le> st_Busy st \<and> 0 \<le> st_Idle st \<and> 0 \<le> st_Starting st
                    \<and> st_Live st = st_Busy st + st_Idle st + st_Starting st)"

text \<open>
  The target is the documented clamp: \<open>desired = clamp(max(min, busy + queued), min, max)\<close>,
  so it lies between the limits whenever they are ordered.
\<close>

lemma Plan_desired_clamp:
  assumes "lim_Min lm \<le> lim_Max lm"
  shows "dec_Desired (Plan pool st demand lm)
           = max (lim_Min lm) (min (lim_Max lm) (max (lim_Min lm) (st_Busy st + demand)))
         \<and> lim_Min lm \<le> dec_Desired (Plan pool st demand lm)
         \<and> dec_Desired (Plan pool st demand lm) \<le> lim_Max lm"
  using assms by (simp add: plan_defs)

lemma Plan_desired_clamp_witness:
  "dec_Desired (Plan ''linux'' \<lparr> st_Live = 2, st_Busy = 2, st_Idle = 0, st_Starting = 0 \<rparr> 50
      \<lparr> lim_Min = 1, lim_Max = 4 \<rparr>) = 4"
  using Plan_desired_clamp [of "\<lparr> lim_Min = 1, lim_Max = 4 \<rparr>" "''linux''"
      "\<lparr> st_Live = 2, st_Busy = 2, st_Idle = 0, st_Starting = 0 \<rparr>" 50]
  by simp

text \<open>
  C4. The decision is safe: it never creates and culls at once, never lets the pool grow past
  its maximum unless it already was, never culls below the target, and never asks for more
  removals than there are idle runners, so busy and starting runners are not counted on.
\<close>

theorem Plan_safe:
  assumes "consistent st" and "0 \<le> demand"
  shows "let d = Plan pool st demand lm in
           0 \<le> dec_Create d \<and> 0 \<le> dec_Cull d \<and> (dec_Create d = 0 \<or> dec_Cull d = 0)
         \<and> st_Live st + dec_Create d \<le> max (st_Live st) (lim_Max lm)
         \<and> dec_Cull d \<le> st_Idle st
         \<and> st_Busy st + st_Starting st \<le> st_Live st - dec_Cull d
         \<and> min (st_Live st) (dec_Desired d) \<le> st_Live st + dec_Create d - dec_Cull d"
  using assms by (auto simp: plan_defs consistent_def)

theorem Plan_safe_witness:
  "let d = Plan ''linux'' \<lparr> st_Live = 5, st_Busy = 3, st_Idle = 2, st_Starting = 0 \<rparr> 0
             \<lparr> lim_Min = 1, lim_Max = 8 \<rparr> in
     0 \<le> dec_Create d \<and> 0 \<le> dec_Cull d \<and> (dec_Create d = 0 \<or> dec_Cull d = 0)
   \<and> 5 + dec_Create d \<le> max 5 8 \<and> dec_Cull d \<le> 2 \<and> 3 + 0 \<le> 5 - dec_Cull d
   \<and> min 5 (dec_Desired d) \<le> 5 + dec_Create d - dec_Cull d"
  using Plan_safe [of "\<lparr> st_Live = 5, st_Busy = 3, st_Idle = 2, st_Starting = 0 \<rparr>" 0 "''linux''"
      "\<lparr> lim_Min = 1, lim_Max = 8 \<rparr>"]
  by (simp add: consistent_def)

text \<open>The pool's counts after a decision has been carried out in full.\<close>

definition after :: "Decision \<Rightarrow> PoolState \<Rightarrow> PoolState" where
  "after d st = st\<lparr>st_Live := st_Live st + dec_Create d - dec_Cull d,
                   st_Idle := st_Idle st - dec_Cull d,
                   st_Starting := st_Starting st + dec_Create d\<rparr>"

text \<open>
  One pass converges: after a decision has been carried out the counts are still
  consistent, the next decision for the same demand neither creates nor culls, and a pool
  that had enough idle runners to give up is exactly at its target.
\<close>

lemma Plan_converges:
  assumes "consistent st" and "0 \<le> demand"
  shows "consistent (after (Plan pool st demand lm) st)
       \<and> dec_Create (Plan pool (after (Plan pool st demand lm) st) demand lm) = 0
       \<and> dec_Cull (Plan pool (after (Plan pool st demand lm) st) demand lm) = 0
       \<and> (st_Live st - st_Idle st \<le> dec_Desired (Plan pool st demand lm) \<longrightarrow>
            st_Live (after (Plan pool st demand lm) st) = dec_Desired (Plan pool st demand lm))"
  using assms by (auto simp: plan_defs consistent_def after_def)

lemma Plan_converges_witness:
  "st_Live (after (Plan ''linux'' \<lparr> st_Live = 5, st_Busy = 3, st_Idle = 2, st_Starting = 0 \<rparr> 0
      \<lparr> lim_Min = 1, lim_Max = 8 \<rparr>) \<lparr> st_Live = 5, st_Busy = 3, st_Idle = 2, st_Starting = 0 \<rparr>) = 3"
proof -
  let ?st = "\<lparr> st_Live = 5, st_Busy = 3, st_Idle = 2, st_Starting = 0 \<rparr>"
    and ?lm = "\<lparr> lim_Min = 1, lim_Max = 8 \<rparr>"
  have d: "dec_Desired (Plan ''linux'' ?st 0 ?lm) = 3" by (simp add: plan_defs)
  show ?thesis
    using Plan_converges [of ?st 0 "''linux''" ?lm] by (simp add: consistent_def d)
qed

end
