(* ===== verification/Naming.thy ===== *)
theory Naming
  imports ConfigLoad "HOL-Library.Word"
begin

text \<open>
  Runner names (\<open>internal/hostid/hostid.go\<close>, the end of \<open>orchestrator.go\<close>,
  \<open>truncateHostname\<close> of \<open>docker.go\<close>): how a host mints them, and how it recognises its own.
  SHA-256 is a parameter, its hexadecimal digest as a function of the host name.
\<close>

section \<open>Definitions\<close>

definition hostid_Length :: nat where "hostid_Length = 6"

text \<open>\<open>hostid.ID\<close>; \<open>None\<close> is a failing \<open>os.Hostname\<close>.\<close>

definition hostid_ID :: "(string \<Rightarrow> string) \<Rightarrow> string option \<Rightarrow> string" where
  "hostid_ID sha256hex hostname =
     (case hostname of
        None \<Rightarrow> ''000000''
      | Some n \<Rightarrow> if n = [] then ''000000'' else take hostid_Length (sha256hex n))"

definition hex_digit :: "nat \<Rightarrow> char" where
  "hex_digit n = (if n < 10 then char_of (48 + n) else char_of (87 + n))"

definition hex_encode :: "8 word list \<Rightarrow> string" where
  "hex_encode bs = concat (map (\<lambda>b. [hex_digit (unat b div 16), hex_digit (unat b mod 16)]) bs)"

definition is_hex :: "char \<Rightarrow> bool" where
  "is_hex c = (is_digit c \<or> (let n = (of_char c :: nat) in 97 \<le> n \<and> n \<le> 102))"

definition runnerSuffixLen :: nat where "runnerSuffixLen = 8"

text \<open>The fixed part of a runner name, and the name minted from \<open>runnerSuffixLen / 2\<close> random bytes.\<close>

definition runner_prefix :: "string \<Rightarrow> string \<Rightarrow> string" where
  "runner_prefix host pool = ''arc-'' @ pool @ ''-'' @ host @ ''-''"

definition runnerName :: "string \<Rightarrow> 8 word list \<Rightarrow> string \<Rightarrow> string" where
  "runnerName host bytes pool = runner_prefix host pool @ hex_encode bytes"

definition belongsToPool :: "string \<Rightarrow> string \<Rightarrow> string \<Rightarrow> bool" where
  "belongsToPool host runner pool =
     (let prefix = runner_prefix host pool
      in if \<not> has_prefix runner prefix then False
         else (let suffix = drop (length prefix) runner
               in if length suffix \<noteq> runnerSuffixLen then False
                  else list_all is_hex suffix))"

definition instanceKey :: "string \<Rightarrow> string \<Rightarrow> string" where
  "instanceKey pool runner = pool @ ''/'' @ runner"

definition truncateHostname :: "string \<Rightarrow> string" where
  "truncateHostname name = (if length name \<le> 63 then name else take 63 name)"

section \<open>Properties\<close>

lemma hex_digit_is_hex: "n < 16 \<Longrightarrow> is_hex (hex_digit n)"
  by (auto simp: is_hex_def is_digit_def hex_digit_def Let_def)

lemma unat_byte: "unat (b :: 8 word) < 256"
proof -
  have "unat b < 2 ^ LENGTH(8)" by (rule unsigned_less)
  then show ?thesis by simp
qed

lemma hex_encode_is_hex: "list_all is_hex (hex_encode bs)"
proof -
  have "unat b div 16 < 16" for b :: "8 word"
    using unat_byte [of b] by (simp add: less_mult_imp_div_less)
  then show ?thesis by (auto simp: hex_encode_def list_all_iff intro!: hex_digit_is_hex)
qed

lemma length_hex_encode [len_simps, simp]: "length (hex_encode bs) = 2 * length bs"
  by (induction bs) (auto simp: hex_encode_def)

lemma length_runner_prefix [len_simps, simp]:
  "length (runner_prefix host pool) = length pool + length host + 6"
  by (simp add: runner_prefix_def)

lemma belongsToPool_iff:
  "belongsToPool host runner pool \<longleftrightarrow>
     (\<exists>s. runner = runner_prefix host pool @ s \<and> length s = runnerSuffixLen \<and> list_all is_hex s)"
  by (auto simp: belongsToPool_def Let_def has_prefix_iff)

lemma length_hostid:
  assumes "\<And>n. length (sha256hex n) = 64"
  shows "length (hostid_ID sha256hex hostname) = hostid_Length"
  using assms by (auto simp: hostid_ID_def hostid_Length_def split: option.split)

lemma belongs_own: "length bytes = 4 \<Longrightarrow> belongsToPool host (runnerName host bytes pool) pool"
  by (auto simp: belongsToPool_iff runnerName_def hex_encode_is_hex runnerSuffixLen_def)

text \<open>
  A host recognises every name it mints, for the pool it minted it for.
\<close>

lemma runnerName_belongs:
  assumes "length bytes = runnerSuffixLen div 2"
  shows "belongsToPool host (runnerName host bytes pool) pool"
  using assms by (intro belongs_own) (simp add: runnerSuffixLen_def)

lemma runnerName_belongs_witness:
  "belongsToPool ''ab12ef'' (runnerName ''ab12ef'' [1, 2, 3, 255] ''linux'') ''linux''"
  by (rule runnerName_belongs) (simp add: runnerSuffixLen_def)

text \<open>
  C17. A name belongs to at most one pool of at most one host: if two hosts (their identifiers
  having the fixed length) both claim a runner for pools \<open>p\<close> and \<open>q\<close>, then they are the same
  host and the same pool. A pool never reaps the runners of a pool whose name extends its own.
\<close>

theorem belongsToPool_unique:
  assumes "belongsToPool h r p" and "belongsToPool h' r q" and "length h = length h'"
  shows "p = q \<and> h = h'"
proof -
  from assms(1,2) obtain s s' where
    "p @ ''-'' @ h @ ''-'' @ s = q @ ''-'' @ h' @ ''-'' @ s'" and "length s = length s'"
    by (auto simp: belongsToPool_iff runner_prefix_def)
  moreover from this have "length p = length q"
    using assms(3) by (auto dest!: arg_cong [where f = length])
  ultimately show ?thesis using assms(3) by simp
qed

theorem belongsToPool_unique_witness:
  "belongsToPool ''ab12ef'' (runnerName ''ab12ef'' [0, 0, 0, 0] ''linux-gpu'') ''linux-gpu''
   \<and> \<not> belongsToPool ''ab12ef'' (runnerName ''ab12ef'' [0, 0, 0, 0] ''linux-gpu'') ''linux''"
proof -
  have b: "belongsToPool ''ab12ef'' (runnerName ''ab12ef'' [0, 0, 0, 0] ''linux-gpu'') ''linux-gpu''"
    by code_simp
  then show ?thesis
    using belongsToPool_unique [of "''ab12ef''" _ "''linux''" "''ab12ef''" "''linux-gpu''"] by auto
qed

text \<open>
  Every runner of a configuration that validates has a name of at most 60 bytes, so the
  hostname a container gets is the runner name itself, never a truncation of it.
\<close>

lemma runnerName_fits_hostname:
  assumes "pool_name_ok pool" and "\<And>n. length (sha256hex n) = 64"
    and "length bytes = runnerSuffixLen div 2"
  shows "length (runnerName (hostid_ID sha256hex hostname) bytes pool) \<le> 60
         \<and> truncateHostname (runnerName (hostid_ID sha256hex hostname) bytes pool)
            = runnerName (hostid_ID sha256hex hostname) bytes pool"
proof -
  have "length (runnerName (hostid_ID sha256hex hostname) bytes pool) \<le> 60"
    using assms length_hostid [OF assms(2), where hostname = hostname]
    by (auto simp: runnerName_def pool_name_ok_def hostid_Length_def runnerSuffixLen_def)
  then show ?thesis by (simp add: truncateHostname_def)
qed

lemma runnerName_fits_hostname_witness:
  "length (runnerName (hostid_ID (\<lambda>n. replicate 64 (CHR ''a'')) (Some ''mac'')) [1, 2, 3, 4]
      (replicate 40 (CHR ''p''))) \<le> 60
   \<and> truncateHostname (runnerName (hostid_ID (\<lambda>n. replicate 64 (CHR ''a'')) (Some ''mac'')) [1, 2, 3, 4]
      (replicate 40 (CHR ''p'')))
     = runnerName (hostid_ID (\<lambda>n. replicate 64 (CHR ''a'')) (Some ''mac'')) [1, 2, 3, 4]
      (replicate 40 (CHR ''p''))"
proof (rule runnerName_fits_hostname)
  show "pool_name_ok (replicate 40 CHR ''p'')" by code_simp
qed (simp_all add: runnerSuffixLen_def)

end
