(* ===== verification/Overrides.thy ===== *)
theory Overrides
  imports Paths
begin

text \<open>
  Live limit overrides (\<open>internal/state/overrides.go\<close>): the map in memory, its operations,
  and the file that keeps it across restarts, written to a temporary name and renamed. The
  JSON codec is a pair of parameters, an encoder and a decoder of the map. The disk maps
  paths to contents; a crash may stop a sequence of disk operations anywhere and leave the
  file being written with arbitrary contents.
\<close>

section \<open>The map\<close>

record Override =
  ov_Min :: "int option"
  ov_Max :: "int option"

type_synonym ovmap = "string \<rightharpoonup> Override"

text \<open>A key that is not in Go's map reads as the zero \<open>Override\<close>.\<close>

definition no_override :: Override where
  "no_override = \<lparr> ov_Min = None, ov_Max = None \<rparr>"

definition Get :: "ovmap \<Rightarrow> string \<Rightarrow> Override option" where
  "Get m pool = m pool"

definition All :: "ovmap \<Rightarrow> ovmap" where
  "All m = m"

text \<open>The locked section of \<open>Set\<close>: the new map, which is also the snapshot to persist.\<close>

definition set_mem :: "string \<Rightarrow> int option \<Rightarrow> int option \<Rightarrow> ovmap \<Rightarrow> ovmap" where
  "set_mem pool mn mx m =
     (let existing = (case m pool of None \<Rightarrow> no_override | Some ov \<Rightarrow> ov);
          updated = \<lparr> ov_Min = (if mn \<noteq> None then mn else ov_Min existing),
                      ov_Max = (if mx \<noteq> None then mx else ov_Max existing) \<rparr>
      in if ov_Min updated = None \<and> ov_Max updated = None then m(pool := None)
         else m(pool \<mapsto> updated))"

definition clear_mem :: "string \<Rightarrow> ovmap \<Rightarrow> ovmap" where
  "clear_mem pool m = m(pool := None)"

section \<open>The file\<close>

type_synonym disk = "string \<rightharpoonup> string"

datatype diskop = WriteFile string string | Rename string string

text \<open>Each operation succeeds or fails with an error and no effect: a rename needs its source.\<close>

fun exec_op :: "diskop \<Rightarrow> disk \<Rightarrow> disk option" where
  "exec_op (WriteFile p data) d = Some (d(p \<mapsto> data))"
| "exec_op (Rename a b) d =
     (case d a of None \<Rightarrow> None | Some c \<Rightarrow> Some ((d(a := None))(b \<mapsto> c)))"

definition overrides_path :: "string \<Rightarrow> string" where
  "overrides_path dir = filepath_join [dir, ''overrides.json'']"

definition tmp_path :: "string \<Rightarrow> string" where
  "tmp_path path = path @ ''.tmp''"

text \<open>\<open>persist\<close> as the sequence of its disk operations; an operation that fails ends it.\<close>

definition persist_ops :: "(ovmap \<Rightarrow> string) \<Rightarrow> string \<Rightarrow> ovmap \<Rightarrow> diskop list" where
  "persist_ops enc path snapshot =
     [WriteFile (tmp_path path) (enc snapshot), Rename (tmp_path path) path]"

datatype save_error = WriteFailed string | ReplaceFailed string

text \<open>
  \<open>persist\<close> itself. The host decides how its two system calls end: a write may be refused
  before it touched the file or fail half way, and the rename may be refused.
\<close>

datatype write_outcome = Written | Refused | Partial string

definition persist ::
  "(ovmap \<Rightarrow> string) \<Rightarrow> string \<Rightarrow> write_outcome \<Rightarrow> bool \<Rightarrow> ovmap \<Rightarrow> disk \<Rightarrow> save_error option \<times> disk" where
  "persist enc path wfail rfail snapshot d =
     (case wfail of
        Refused \<Rightarrow> (Some (WriteFailed (tmp_path path)), d)
      | Partial part \<Rightarrow> (Some (WriteFailed (tmp_path path)), d(tmp_path path \<mapsto> part))
      | Written \<Rightarrow>
          (let d1 = d(tmp_path path \<mapsto> enc snapshot)
           in if rfail then (Some (ReplaceFailed path), d1)
              else (case exec_op (Rename (tmp_path path) path) d1 of
                      None \<Rightarrow> (Some (ReplaceFailed path), d1)
                    | Some d2 \<Rightarrow> (None, d2))))"

datatype read_error = NotExist | ReadFailed string
datatype ov_load_error = MkdirFailed | ReadError string | ParseError

text \<open>\<open>LoadOverrides\<close>, with the outcome of \<open>MkdirAll\<close> and of reads the host refuses as arguments.\<close>

definition read_file :: "(string \<Rightarrow> bool) \<Rightarrow> disk \<Rightarrow> string \<Rightarrow> read_error + string" where
  "read_file unreadable d p =
     (if unreadable p then Inl (ReadFailed p)
      else case d p of None \<Rightarrow> Inl NotExist | Some c \<Rightarrow> Inr c)"

definition LoadOverrides ::
  "(string \<Rightarrow> ovmap option) \<Rightarrow> bool \<Rightarrow> (string \<Rightarrow> bool) \<Rightarrow> string \<Rightarrow> disk \<Rightarrow> ov_load_error + ovmap" where
  "LoadOverrides dec mkdir_ok unreadable dir d =
     (if \<not> mkdir_ok then Inl MkdirFailed
      else (case read_file unreadable d (overrides_path dir) of
              Inl NotExist \<Rightarrow> Inr Map.empty
            | Inl (ReadFailed p) \<Rightarrow> Inl (ReadError p)
            | Inr data \<Rightarrow> (case dec data of None \<Rightarrow> Inl ParseError | Some m \<Rightarrow> Inr m)))"

text \<open>
  \<open>Set\<close> and \<open>Clear\<close> when no other call runs at the same time: the memory changes even when
  persisting it fails.
\<close>

definition Set ::
  "(ovmap \<Rightarrow> string) \<Rightarrow> string \<Rightarrow> write_outcome \<Rightarrow> bool \<Rightarrow> string \<Rightarrow> int option \<Rightarrow> int option \<Rightarrow> ovmap \<times> disk
     \<Rightarrow> save_error option \<times> ovmap \<times> disk" where
  "Set enc path wfail rfail pool mn mx st =
     (let (m, d) = st; m' = set_mem pool mn mx m; (e, d') = persist enc path wfail rfail m' d
      in (e, m', d'))"

definition Clear ::
  "(ovmap \<Rightarrow> string) \<Rightarrow> string \<Rightarrow> write_outcome \<Rightarrow> bool \<Rightarrow> string \<Rightarrow> ovmap \<times> disk
     \<Rightarrow> save_error option \<times> ovmap \<times> disk" where
  "Clear enc path wfail rfail pool st =
     (let (m, d) = st; m' = clear_mem pool m; (e, d') = persist enc path wfail rfail m' d
      in (e, m', d'))"

section \<open>Crashes and concurrent callers\<close>

text \<open>The disks a machine may come back with when it stops during a sequence of operations.\<close>

inductive crash :: "diskop list \<Rightarrow> disk \<Rightarrow> disk \<Rightarrow> bool" where
  stop: "crash ops d d"
| torn: "crash (WriteFile p data # ops) d (d(p \<mapsto> partial))"
| step: "exec_op x d = Some d1 \<Longrightarrow> crash ops d1 d2 \<Longrightarrow> crash (x # ops) d d2"

inductive_cases crash_Nil: "crash [] d d'"
inductive_cases crash_Cons: "crash (x # ops) d d'"

text \<open>
  Several HTTP handlers may be inside \<open>Set\<close> or \<open>Clear\<close>. The map is changed under the lock,
  the lock is released, and each caller's \<open>persist\<close> then runs interleaved with the others'.
\<close>

record osys =
  o_mem :: ovmap
  o_disk :: disk
  o_pending :: "diskop list list"

inductive osys_step :: "(ovmap \<Rightarrow> string) \<Rightarrow> string \<Rightarrow> osys \<Rightarrow> osys \<Rightarrow> bool" for enc path where
  set: "osys_step enc path s (s\<lparr>o_mem := set_mem pool mn mx (o_mem s),
          o_pending := o_pending s @ [persist_ops enc path (set_mem pool mn mx (o_mem s))]\<rparr>)"
| clear: "osys_step enc path s (s\<lparr>o_mem := clear_mem pool (o_mem s),
          o_pending := o_pending s @ [persist_ops enc path (clear_mem pool (o_mem s))]\<rparr>)"
| io: "i < length (o_pending s) \<Longrightarrow> o_pending s ! i = x # ops \<Longrightarrow> exec_op x (o_disk s) = Some d \<Longrightarrow>
       osys_step enc path s (s\<lparr>o_disk := d, o_pending := (o_pending s)[i := ops]\<rparr>)"
| io_error: "i < length (o_pending s) \<Longrightarrow> o_pending s ! i = x # ops \<Longrightarrow> exec_op x (o_disk s) = None \<Longrightarrow>
       osys_step enc path s (s\<lparr>o_pending := (o_pending s)[i := []]\<rparr>)"

section \<open>Properties\<close>

text \<open>No pool maps to an override with neither bound: such entries are deleted.\<close>

definition ov_wf :: "ovmap \<Rightarrow> bool" where
  "ov_wf m = (\<forall>p ov. m p = Some ov \<longrightarrow> ov_Min ov \<noteq> None \<or> ov_Max ov \<noteq> None)"

lemma ov_wf_empty [simp]: "ov_wf Map.empty"
  by (simp add: ov_wf_def)

lemma ov_wf_set [intro]: "ov_wf m \<Longrightarrow> ov_wf (set_mem pool mn mx m)"
  by (simp add: ov_wf_def set_mem_def Let_def split: if_splits)

lemma ov_wf_clear [intro]: "ov_wf m \<Longrightarrow> ov_wf (clear_mem pool m)"
  by (auto simp: ov_wf_def clear_mem_def)

lemma tmp_path_neq [simp]: "tmp_path path \<noteq> path" "path \<noteq> tmp_path path"
  by (simp_all add: tmp_path_def)

text \<open>
  \<open>Set\<close> changes exactly the bounds it is given: a given bound is the one recorded, a
  missing one keeps its previous value (so raising the ceiling does not pin the floor), other
  pools are untouched, and no empty override is ever stored.
\<close>

lemma set_mem_spec:
  fixes pool :: string
  assumes "ov_wf m" and "old = (case m pool of None \<Rightarrow> no_override | Some ov \<Rightarrow> ov)"
  shows "(case set_mem pool mn mx m pool of
            None \<Rightarrow> mn = None \<and> mx = None \<and> m pool = None
          | Some ov \<Rightarrow> ov_Min ov = (if mn = None then ov_Min old else mn)
                     \<and> ov_Max ov = (if mx = None then ov_Max old else mx))
         \<and> (\<forall>q. q \<noteq> pool \<longrightarrow> set_mem pool mn mx m q = m q)
         \<and> ov_wf (set_mem pool mn mx m)"
proof (intro conjI)
  show "ov_wf (set_mem pool mn mx m)" using assms(1) by (rule ov_wf_set)
  show "\<forall>q. q \<noteq> pool \<longrightarrow> set_mem pool mn mx m q = m q" by (simp add: set_mem_def Let_def)
  show "case set_mem pool mn mx m pool of
          None \<Rightarrow> mn = None \<and> mx = None \<and> m pool = None
        | Some ov \<Rightarrow> ov_Min ov = (if mn = None then ov_Min old else mn)
                   \<and> ov_Max ov = (if mx = None then ov_Max old else mx)"
    using assms by (cases "m pool"; cases mn; cases mx)
      (auto simp: set_mem_def Let_def no_override_def ov_wf_def)
qed

lemma set_mem_spec_witness:
  "(case set_mem ''linux'' None (Some 12) [''linux'' \<mapsto> \<lparr> ov_Min = Some 2, ov_Max = None \<rparr>] ''linux'' of
      None \<Rightarrow> False | Some ov \<Rightarrow> ov_Min ov = Some 2 \<and> ov_Max ov = Some 12)"
  using set_mem_spec [of "[''linux'' \<mapsto> \<lparr> ov_Min = Some 2, ov_Max = None \<rparr>]"
          "\<lparr> ov_Min = Some 2, ov_Max = None \<rparr>" "''linux''" None "Some 12"]
  by (simp add: ov_wf_def set_mem_def Let_def)

text \<open>
  The comment on \<open>Set\<close> says that a nil min and a nil max clear the override; the code
  leaves a stored override exactly as it is.
\<close>

lemma set_nil_keeps_override:
  assumes "ov_wf m"
  shows "set_mem pool None None m = m"
proof (cases "m pool")
  case None
  then show ?thesis by (auto simp: set_mem_def Let_def no_override_def)
next
  case (Some ov)
  with assms have "\<not> (ov_Min ov = None \<and> ov_Max ov = None)"
    unfolding ov_wf_def by blast
  then have "set_mem pool None None m = m(pool \<mapsto> ov)"
    using Some by (cases ov) (auto simp: set_mem_def Let_def)
  with Some show ?thesis by (simp add: fun_upd_idem)
qed

lemma set_nil_keeps_override_witness:
  "set_mem ''linux'' None None [''linux'' \<mapsto> \<lparr> ov_Min = Some 2, ov_Max = None \<rparr>]
     = [''linux'' \<mapsto> \<lparr> ov_Min = Some 2, ov_Max = None \<rparr>]"
  by (rule set_nil_keeps_override) (simp add: ov_wf_def)

text \<open>A file written beside and renamed is, after a crash, the one before or the whole new one.\<close>

lemma crash_write_rename:
  assumes "crash [WriteFile t data, Rename t path] d d'" and "t \<noteq> path"
  shows "d' path = d path \<or> d' path = Some data"
proof -
  from assms(1) have "d' = d \<or> (\<exists>partial. d' = d(t \<mapsto> partial)) \<or> crash [Rename t path] (d(t \<mapsto> data)) d'"
    by (auto elim: crash_Cons)
  then show ?thesis
    using assms(2) by (elim disjE exE crash_Cons) (auto elim: crash_Nil split: option.splits)
qed

lemma crash_persist:
  assumes "crash (persist_ops enc path m) d d'"
  shows "d' path = d path \<or> d' path = Some (enc m)"
  using crash_write_rename [OF assms [unfolded persist_ops_def]] by simp

text \<open>
  C18. Persisting is atomic: wherever the machine stops while a single caller persists a map,
  the next start loads either the map that was on disk before or the new one, and never a
  torn file.
\<close>

theorem persist_crash_atomic:
  assumes codec: "dec (enc m) = Some m"
    and before: "LoadOverrides dec True (\<lambda>_. False) dir d = Inr old"
    and crash: "crash (persist_ops enc (overrides_path dir) m) d d'"
  shows "LoadOverrides dec True (\<lambda>_. False) dir d' \<in> {Inr old, Inr m}"
  using crash_persist [OF crash] before
  by (auto simp: LoadOverrides_def read_file_def codec split: option.splits)

definition linux_max :: "int \<Rightarrow> ovmap" where
  "linux_max n = [''linux'' \<mapsto> \<lparr> ov_Min = None, ov_Max = Some n \<rparr>]"

text \<open>A codec for the maps of the examples, and a disk torn while the temporary file was written.\<close>

definition example_enc :: "ovmap \<Rightarrow> string" where
  "example_enc m = (case m ''linux'' of
      Some ov \<Rightarrow> (case ov_Max ov of Some n \<Rightarrow> itoa n | None \<Rightarrow> []) | None \<Rightarrow> [])"

definition example_dec :: "string \<Rightarrow> ovmap option" where
  "example_dec s = (if s = [] then Some Map.empty else map_option linux_max (atoi s))"

lemma example_codec: "in_int64 n \<Longrightarrow> example_dec (example_enc (linux_max n)) = Some (linux_max n)"
proof -
  assume "in_int64 n"
  moreover have "itoa n \<noteq> []" by (simp add: itoa_def)
  ultimately show ?thesis by (simp add: example_enc_def example_dec_def linux_max_def atoi_itoa)
qed

theorem persist_crash_atomic_witness:
  "LoadOverrides example_dec True (\<lambda>_. False) ''/s'' (Map.empty(tmp_path (overrides_path ''/s'') \<mapsto> ''9''))
     \<in> {Inr Map.empty, Inr (linux_max 12)}"
proof (rule persist_crash_atomic [where d = Map.empty])
  show "example_dec (example_enc (linux_max 12)) = Some (linux_max 12)"
    by (rule example_codec) (simp add: in_int64_def)
  show "LoadOverrides example_dec True (\<lambda>_. False) ''/s'' Map.empty = Inr Map.empty"
    by (simp add: LoadOverrides_def read_file_def)
  show "crash (persist_ops example_enc (overrides_path ''/s'') (linux_max 12)) Map.empty
          (Map.empty(tmp_path (overrides_path ''/s'') \<mapsto> ''9''))"
    by (simp add: persist_ops_def crash.torn)
qed

text \<open>
  A call that reports success has been persisted: when \<open>Set\<close>, alone in the process,
  returns no error, a restart loads exactly the map in memory; when it returns an error, the
  file is the one before while the memory has changed.
\<close>

lemma Set_durable:
  assumes codec: "dec (enc (set_mem pool mn mx m)) = Some (set_mem pool mn mx m)"
  shows "case Set enc (overrides_path dir) wfail rfail pool mn mx (m, d) of
           (None, m', d') \<Rightarrow> m' = set_mem pool mn mx m
              \<and> LoadOverrides dec True (\<lambda>_. False) dir d' = Inr m'
         | (Some e, m', d') \<Rightarrow> m' = set_mem pool mn mx m
              \<and> d' (overrides_path dir) = d (overrides_path dir)"
  using codec
  by (auto simp: Set_def persist_def Let_def LoadOverrides_def read_file_def
      split: option.splits write_outcome.splits)

lemma Set_durable_witness:
  "case Set example_enc (overrides_path ''/s'') Written False ''linux'' None (Some 12) (Map.empty, Map.empty) of
     (None, m', d') \<Rightarrow> m' = linux_max 12
        \<and> LoadOverrides example_dec True (\<lambda>_. False) ''/s'' d' = Inr m'
   | (Some e, m', d') \<Rightarrow> m' = linux_max 12
        \<and> d' (overrides_path ''/s'') = Map.empty (overrides_path ''/s'')"
proof -
  have m: "set_mem ''linux'' None (Some 12) Map.empty = linux_max 12"
    by (simp add: set_mem_def linux_max_def no_override_def Let_def)
  have "example_dec (example_enc (linux_max 12)) = Some (linux_max 12)"
    by (rule example_codec) (simp add: in_int64_def)
  then show ?thesis
    using Set_durable [of example_dec example_enc "''linux''" None "Some 12" Map.empty "''/s''"
            Map.empty Written False]
    by (simp only: m)
qed

text \<open>
  Atomicity does not survive concurrent callers, because the lock is released before
  \<open>persist\<close>: two overlapping calls of \<open>Set\<close> can leave the file with the older map for good
  while the memory has the newer one.
\<close>

lemma concurrent_Set_stale:
  assumes "dec (enc (linux_max 1)) = Some (linux_max 1)"
  shows "\<exists>s. (osys_step enc (overrides_path dir))\<^sup>*\<^sup>*
           \<lparr> o_mem = Map.empty, o_disk = Map.empty, o_pending = [] \<rparr> s
         \<and> (\<forall>ops \<in> set (o_pending s). ops = [])
         \<and> o_mem s = linux_max 2
         \<and> LoadOverrides dec True (\<lambda>_. False) dir (o_disk s) = Inr (linux_max 1)"
proof -
  let ?p = "overrides_path dir" and ?t = "tmp_path (overrides_path dir)"
  let ?w = "\<lambda>n. WriteFile ?t (enc (linux_max n))" and ?r = "Rename ?t ?p"
  let ?S = "\<lambda>m d q. \<lparr> o_mem = m, o_disk = d, o_pending = q \<rparr>"
  let ?step = "osys_step enc ?p"
  have set1: "set_mem ''linux'' None (Some n) Map.empty = linux_max n"
    and set2: "set_mem ''linux'' None (Some n) (linux_max k) = linux_max n" for n k
    by (simp_all add: set_mem_def linux_max_def no_override_def Let_def)
  have a: "?step (?S Map.empty Map.empty []) (?S (linux_max 1) Map.empty [[?w 1, ?r]])"
    using osys_step.set [of enc ?p "?S Map.empty Map.empty []" "''linux''" None "Some 1"]
    by (simp add: set1 persist_ops_def)
  have b: "?step (?S (linux_max 1) Map.empty [[?w 1, ?r]])
                 (?S (linux_max 2) Map.empty [[?w 1, ?r], [?w 2, ?r]])"
    using osys_step.set [of enc ?p "?S (linux_max 1) Map.empty [[?w 1, ?r]]" "''linux''" None "Some 2"]
    by (simp add: set2 persist_ops_def)
  have io: "?step (?S m d q) (?S m d' (q[i := ops]))"
    if "i < length q" "q ! i = x # ops" "exec_op x d = Some d'" for m d q i x ops d'
    using that osys_step.io [of i "?S m d q" x ops d' enc ?p] by simp
  let ?d2 = "Map.empty(?t \<mapsto> enc (linux_max 2))" let ?e2 = "Map.empty(?p \<mapsto> enc (linux_max 2))"
  have c: "?step (?S (linux_max 2) Map.empty [[?w 1, ?r], [?w 2, ?r]]) (?S (linux_max 2) ?d2 [[?w 1, ?r], [?r]])"
    using io [of 1 "[[?w 1, ?r], [?w 2, ?r]]" "?w 2" "[?r]"] by simp
  have d: "?step (?S (linux_max 2) ?d2 [[?w 1, ?r], [?r]]) (?S (linux_max 2) ?e2 [[?w 1, ?r], []])"
    using io [of 1 "[[?w 1, ?r], [?r]]" ?r "[]" ?d2 ?e2] by (simp add: fun_upd_idem)
  have e: "?step (?S (linux_max 2) ?e2 [[?w 1, ?r], []]) (?S (linux_max 2) (?e2(?t \<mapsto> enc (linux_max 1))) [[?r], []])"
    using io [of 0 "[[?w 1, ?r], []]" "?w 1" "[?r]" ?e2] by simp
  have f: "?step (?S (linux_max 2) (?e2(?t \<mapsto> enc (linux_max 1))) [[?r], []])
      (?S (linux_max 2) ((?e2(?t := None))(?p \<mapsto> enc (linux_max 1))) [[], []])"
    using io [of 0 "[[?r], []]" ?r "[]" "?e2(?t \<mapsto> enc (linux_max 1))"] by simp
  have "?step\<^sup>*\<^sup>* (?S Map.empty Map.empty [])
      (?S (linux_max 2) ((?e2(?t := None))(?p \<mapsto> enc (linux_max 1))) [[], []])"
    by (rule rtranclp_trans [OF _ r_into_rtranclp [of ?step, OF f]],
        rule rtranclp_trans [OF _ r_into_rtranclp [of ?step, OF e]],
        rule rtranclp_trans [OF _ r_into_rtranclp [of ?step, OF d]],
        rule rtranclp_trans [OF _ r_into_rtranclp [of ?step, OF c]],
        rule rtranclp_trans [OF r_into_rtranclp [of ?step, OF a] r_into_rtranclp [of ?step, OF b]])
  moreover have "LoadOverrides dec True (\<lambda>_. False) dir ((?e2(?t := None))(?p \<mapsto> enc (linux_max 1)))
      = Inr (linux_max 1)"
    by (simp add: LoadOverrides_def read_file_def assms)
  ultimately show ?thesis by (intro exI conjI) (assumption | simp)+
qed

lemma concurrent_Set_stale_witness:
  "\<exists>s. (osys_step example_enc (overrides_path ''/s''))\<^sup>*\<^sup>*
      \<lparr> o_mem = Map.empty, o_disk = Map.empty, o_pending = [] \<rparr> s
    \<and> o_mem s = linux_max 2
    \<and> LoadOverrides example_dec True (\<lambda>_. False) ''/s'' (o_disk s) = Inr (linux_max 1)"
proof -
  have "example_dec (example_enc (linux_max 1)) = Some (linux_max 1)"
    by (rule example_codec) (simp add: in_int64_def)
  then show ?thesis using concurrent_Set_stale [of example_dec example_enc "''/s''"] by blast
qed

end
