(* ===== verification/Effects.thy ===== *)
theory Effects
  imports Prelude "HOL-Library.State_Monad"
begin

text \<open>
  Stateful code: the operations of the state monad the models use, and a small calculus for
  the calls a piece of code makes. A state carries a world that external calls change; in a
  traced world every call is recorded, and \<open>trace_pred\<close> proves predicates of the recorded calls
  by going through the code once.
\<close>

section \<open>Operations\<close>

abbreviation ret :: "'a \<Rightarrow> ('s, 'a) state" where
  "ret \<equiv> State_Monad.return"

definition gets :: "('s \<Rightarrow> 'a) \<Rightarrow> ('s, 'a) state" where
  "gets f = State (\<lambda>s. (f s, s))"

definition modify :: "('s \<Rightarrow> 's) \<Rightarrow> ('s, unit) state" where
  "modify f = State (\<lambda>s. ((), f s))"

fun for_each :: "('a \<Rightarrow> ('s, unit) state) \<Rightarrow> 'a list \<Rightarrow> ('s, unit) state" where
  "for_each f [] = ret ()"
| "for_each f (x # xs) = do { _ \<leftarrow> f x; for_each f xs }"

text \<open>
  Go leaves the order of a map's iteration, of equal elements under \<open>sort.Slice\<close> and of
  goroutines open. \<open>reorder p xs\<close> is \<open>xs\<close> in the order \<open>p\<close>, a list of positions; a \<open>p\<close> that is no
  permutation of the positions changes nothing, so the elements are the same for every \<open>p\<close>.
\<close>

definition reorder :: "nat list \<Rightarrow> 'a list \<Rightarrow> 'a list" where
  "reorder p xs = (if sort p = [0..<length xs] then map (nth xs) p else xs)"

lemma mset_reorder [simp]: "mset (reorder p xs) = mset xs"
proof (cases "sort p = [0..<length xs]")
  case True
  then have "mset p = mset [0..<length xs]" by (metis mset_sort)
  then have "mset (map (nth xs) p) = mset (map (nth xs) [0..<length xs])" by simp
  then show ?thesis using True by (simp add: reorder_def map_nth)
qed (simp add: reorder_def)

lemma set_reorder [simp]: "set (reorder p xs) = set xs"
  by (metis mset_reorder set_mset_mset)

lemma length_reorder [simp]: "length (reorder p xs) = length xs"
  by (metis mset_reorder size_mset)

lemma run_gets [simp]: "run_state (gets f) s = (f s, s)"
  by (simp add: gets_def)

lemma run_modify [simp]: "run_state (modify f) s = ((), f s)"
  by (simp add: modify_def)

section \<open>Worlds\<close>

text \<open>A state with a world in it, which is what an external call changes.\<close>

record 'w worldly =
  world :: 'w

definition call :: "('w \<Rightarrow> 'a \<times> 'w) \<Rightarrow> (('w, 'z) worldly_scheme, 'a) state" where
  "call f = State (\<lambda>s. (let (r, w) = f (world s) in (r, s\<lparr>world := w\<rparr>)))"

definition look :: "('w \<Rightarrow> 'a) \<Rightarrow> (('w, 'z) worldly_scheme, 'a) state" where
  "look f = gets (\<lambda>s. f (world s))"

lemma run_call: "run_state (call f) s = (fst (f (world s)), s\<lparr>world := snd (f (world s))\<rparr>)"
  by (simp add: call_def split_beta Let_def)

lemma run_look [simp]: "run_state (look f) s = (f (world s), s)"
  by (simp add: look_def)

section \<open>Traced calls\<close>

text \<open>A traced world is a world with the events so far; \<open>record_call\<close> lifts a call to it.\<close>

definition record_call :: "('w \<Rightarrow> 'a \<times> 'w) \<Rightarrow> ('a \<Rightarrow> 'e) \<Rightarrow> 'w \<times> 'e list \<Rightarrow> 'a \<times> ('w \<times> 'e list)" where
  "record_call f ev we = (let (r, w) = f (fst we) in (r, (w, snd we @ [ev r])))"

text \<open>A call that is not recorded.\<close>

definition silent_call :: "('w \<Rightarrow> 'a \<times> 'w) \<Rightarrow> 'w \<times> 'e list \<Rightarrow> 'a \<times> ('w \<times> 'e list)" where
  "silent_call f we = (let (r, w) = f (fst we) in (r, (w, snd we)))"

abbreviation trace :: "('w \<times> 'e list, 'z) worldly_scheme \<Rightarrow> 'e list" where
  "trace s \<equiv> snd (world s)"

text \<open>
  \<open>spec m Q\<close>: from every state \<open>s\<close>, \<open>m\<close> returns some \<open>a\<close> in a state \<open>s'\<close> after the further events
  \<open>es\<close>, with \<open>Q s a s' es\<close>.
\<close>

definition spec ::
  "(('w \<times> 'e list, 'z) worldly_scheme, 'a) state
     \<Rightarrow> (('w \<times> 'e list, 'z) worldly_scheme \<Rightarrow> 'a \<Rightarrow> ('w \<times> 'e list, 'z) worldly_scheme \<Rightarrow> 'e list \<Rightarrow> bool) \<Rightarrow> bool" where
  "spec m Q = (\<forall>s. \<exists>es. trace (snd (run_state m s)) = trace s @ es
                       \<and> Q s (fst (run_state m s)) (snd (run_state m s)) es)"

lemma specI:
  "(\<And>s. \<exists>es. trace (snd (run_state m s)) = trace s @ es
            \<and> Q s (fst (run_state m s)) (snd (run_state m s)) es) \<Longrightarrow> spec m Q"
  by (simp add: spec_def)

lemma specE:
  assumes "spec m Q"
  obtains es where "trace (snd (run_state m s)) = trace s @ es"
    "Q s (fst (run_state m s)) (snd (run_state m s)) es"
  using assms by (auto simp: spec_def)

lemma spec_weaken: "spec m Q \<Longrightarrow> (\<And>s a s' es. Q s a s' es \<Longrightarrow> R s a s' es) \<Longrightarrow> spec m R"
  unfolding spec_def by blast

lemma spec_bind_dep:
  assumes "spec m Q" and "\<And>s a s1 es. Q s a s1 es \<Longrightarrow> spec (f a) (R a)"
    and "\<And>s a s1 es b s2 fs. Q s a s1 es \<Longrightarrow> R a s1 b s2 fs \<Longrightarrow> S s b s2 (es @ fs)"
  shows "spec (State_Monad.bind m f) S"
proof (rule specI)
  fix s
  obtain a s1 where 1: "run_state m s = (a, s1)" by fastforce
  obtain b s2 where 2: "run_state (f a) s1 = (b, s2)" by fastforce
  obtain es where es: "trace s1 = trace s @ es" "Q s a s1 es"
    using specE [OF assms(1), of s] 1 by auto
  obtain fs where fs: "trace s2 = trace s1 @ fs" "R a s1 b s2 fs"
    using specE [OF assms(2) [OF es(2)], of s1] 2 by auto
  have "run_state (State_Monad.bind m f) s = (b, s2)" by (simp add: 1 2)
  with es fs assms(3) show "\<exists>es. trace (snd (run_state (State_Monad.bind m f) s)) = trace s @ es
      \<and> S s (fst (run_state (State_Monad.bind m f) s)) (snd (run_state (State_Monad.bind m f) s)) es"
    by force
qed

lemma spec_bind:
  assumes "spec m Q" and "\<And>a. spec (f a) (R a)"
    and "\<And>s a s1 es b s2 fs. Q s a s1 es \<Longrightarrow> R a s1 b s2 fs \<Longrightarrow> S s b s2 (es @ fs)"
  shows "spec (State_Monad.bind m f) S"
  using assms(1)
proof (rule spec_bind_dep)
  show "spec (f a) (R a)" for a by (rule assms(2))
qed (rule assms(3))

text \<open>\<open>yields m R\<close>: every value \<open>m\<close> returns satisfies \<open>R\<close>.\<close>

definition yields :: "('s, 'a) state \<Rightarrow> ('a \<Rightarrow> bool) \<Rightarrow> bool" where
  "yields m R = (\<forall>s. R (fst (run_state m s)))"

lemma yields_ret [intro]: "R x \<Longrightarrow> yields (ret x) R"
  by (simp add: yields_def)

lemma yields_bind: "yields m S \<Longrightarrow> (\<And>a. S a \<Longrightarrow> yields (f a) R) \<Longrightarrow> yields (State_Monad.bind m f) R"
  by (auto simp: yields_def split_beta)

lemma yields_bind_any: "(\<And>a. yields (f a) R) \<Longrightarrow> yields (State_Monad.bind m f) R"
  by (auto simp: yields_def split_beta)

lemma yields_if [intro]: "(b \<Longrightarrow> yields m R) \<Longrightarrow> (\<not> b \<Longrightarrow> yields m' R) \<Longrightarrow> yields (if b then m else m') R"
  by simp

lemma spec_yields: "spec m Q \<Longrightarrow> yields m R \<Longrightarrow> spec m (\<lambda>s a s' es. Q s a s' es \<and> R a)"
  by (auto simp: spec_def yields_def)

text \<open>\<open>hoare P m Q\<close>: from a state satisfying \<open>P\<close>, \<open>m\<close> returns a value and a state satisfying \<open>Q\<close>.\<close>

definition hoare :: "('s \<Rightarrow> bool) \<Rightarrow> ('s, 'a) state \<Rightarrow> ('a \<Rightarrow> 's \<Rightarrow> bool) \<Rightarrow> bool" where
  "hoare P m Q = (\<forall>s. P s \<longrightarrow> Q (fst (run_state m s)) (snd (run_state m s)))"

lemma hoare_ret: "(\<And>s. P s \<Longrightarrow> Q x s) \<Longrightarrow> hoare P (ret x) Q"
  by (simp add: hoare_def)

lemma hoare_gets: "(\<And>s. P s \<Longrightarrow> Q (f s) s) \<Longrightarrow> hoare P (gets f) Q"
  by (simp add: hoare_def)

lemma hoare_look: "(\<And>s. P s \<Longrightarrow> Q (f (world s)) s) \<Longrightarrow> hoare P (look f) Q"
  by (simp add: hoare_def)

lemma hoare_modify: "(\<And>s. P s \<Longrightarrow> Q () (f s)) \<Longrightarrow> hoare P (modify f) Q"
  by (simp add: hoare_def)

lemma hoare_call:
  "(\<And>s. P s \<Longrightarrow> Q (fst (f (world s))) (s\<lparr>world := snd (f (world s))\<rparr>)) \<Longrightarrow> hoare P (call f) Q"
  by (simp add: hoare_def run_call)

lemma hoare_bind: "hoare P m R \<Longrightarrow> (\<And>a. hoare (R a) (f a) Q) \<Longrightarrow> hoare P (State_Monad.bind m f) Q"
  by (simp add: hoare_def split_beta)

lemma hoare_if: "(b \<Longrightarrow> hoare P m Q) \<Longrightarrow> (\<not> b \<Longrightarrow> hoare P m' Q) \<Longrightarrow> hoare P (if b then m else m') Q"
  by simp

lemma hoare_weaken: "hoare P m Q \<Longrightarrow> (\<And>a s. Q a s \<Longrightarrow> R a s) \<Longrightarrow> hoare P m R"
  by (simp add: hoare_def)

lemma hoare_strengthen: "hoare P m Q \<Longrightarrow> (\<And>s. P' s \<Longrightarrow> P s) \<Longrightarrow> hoare P' m Q"
  by (simp add: hoare_def)

lemma hoareD: "hoare P m Q \<Longrightarrow> P s \<Longrightarrow> run_state m s = (a, s') \<Longrightarrow> Q a s'"
  by (metis fst_conv hoare_def snd_conv)

section \<open>Predicates of the calls a piece of code makes\<close>

text \<open>A predicate of traces that holds of none and is kept when one trace follows another.\<close>

locale trace_pred =
  fixes P :: "'e list \<Rightarrow> bool"
  assumes nil: "P []"
    and app: "P xs \<Longrightarrow> P ys \<Longrightarrow> P (xs @ ys)"
begin

definition does :: "(('w \<times> 'e list, 'z) worldly_scheme, 'a) state \<Rightarrow> bool" where
  "does m = spec m (\<lambda>_ _ _ es. P es)"

lemma does_spec: "spec m (\<lambda>_ _ _ es. P es) \<Longrightarrow> does m"
  by (simp add: does_def)

lemma does_D: "does m \<Longrightarrow> \<exists>es. trace (snd (run_state m s)) = trace s @ es \<and> P es"
  by (auto simp: does_def spec_def)

lemma does_ret [intro]: "does (ret x)"
  by (auto simp: does_def spec_def nil)

lemma does_gets [intro]: "does (gets f)"
  by (auto simp: does_def spec_def nil)

lemma does_look [intro]: "does (look f)"
  by (auto simp: does_def spec_def nil)

lemma does_modify: "(\<And>s. world (f s) = world s) \<Longrightarrow> does (modify f)"
  by (auto simp: does_def spec_def nil)

lemma does_bind [intro]: "does m \<Longrightarrow> (\<And>a. does (f a)) \<Longrightarrow> does (State_Monad.bind m f)"
  unfolding does_def
  by (rule spec_bind [where Q = "\<lambda>_ _ _. P" and R = "\<lambda>_ _ _ _. P"]) (auto intro: app)

lemma does_if [intro]: "(b \<Longrightarrow> does m) \<Longrightarrow> (\<not> b \<Longrightarrow> does m') \<Longrightarrow> does (if b then m else m')"
  by simp

lemma does_sum [intro]:
  "(\<And>a. x = Inl a \<Longrightarrow> does (f a)) \<Longrightarrow> (\<And>b. x = Inr b \<Longrightarrow> does (g b)) \<Longrightarrow> does (case_sum f g x)"
  by (cases x) auto

lemma does_option [intro]:
  "(x = None \<Longrightarrow> does m) \<Longrightarrow> (\<And>b. x = Some b \<Longrightarrow> does (g b)) \<Longrightarrow> does (case_option m g x)"
  by (cases x) auto

lemma does_prod [intro]: "(\<And>a b. x = (a, b) \<Longrightarrow> does (f a b)) \<Longrightarrow> does (case_prod f x)"
  by (cases x) auto

lemma does_Let [intro]: "(\<And>y. y = x \<Longrightarrow> does (f y)) \<Longrightarrow> does (Let x f)"
  by simp

lemma does_for_each [intro]: "(\<And>x. x \<in> set xs \<Longrightarrow> does (f x)) \<Longrightarrow> does (for_each f xs)"
  by (induction xs) auto

lemma does_record: "(\<And>r. P [ev r]) \<Longrightarrow> does (call (record_call f ev))"
  by (auto simp: does_def spec_def run_call record_call_def split_beta Let_def)

lemma does_silent: "does (call (silent_call f))"
  by (auto simp: does_def spec_def run_call silent_call_def split_beta Let_def nil)

lemma does_record_then:
  assumes "\<And>r. spec (f r) (\<lambda>_ _ _ es. P (ev r # es))"
  shows "does (State_Monad.bind (call (record_call g ev)) f)"
  unfolding does_def
  by (rule spec_bind [where Q = "\<lambda>_ a _ es. es = [ev a]", OF _ assms])
    (auto simp: spec_def run_call record_call_def split_beta Let_def)

end

text \<open>Every call satisfies a predicate.\<close>

lemma trace_pred_all: "trace_pred (list_all Q)"
  by unfold_locales auto

end
