(* ===== verification/Provider.thy ===== *)
theory Provider
  imports Prelude
begin

text \<open>
  The provider interface (\<open>internal/provider/provider.go\<close>): the states of an instance, the
  instance as a provider lists it, the specification of one to create, and Go's arithmetic on
  times. Times and durations are integers in nanoseconds, times counted from Go's zero time.
\<close>

datatype State = StateStarting | StateRunning | StateExited | StateUnknown

record Instance =
  i_ID :: string
  i_Pool :: string
  i_RunnerName :: string
  i_RunnerID :: int
  i_State :: State
  i_CreatedAt :: int
  i_ExitCode :: int
  i_Detail :: string

record Spec =
  spec_Pool :: string
  spec_RunnerName :: string
  spec_RunnerID :: int
  spec_JITConfig :: string

text \<open>\<open>time.Since\<close>: the difference of two times as an \<open>int64\<close> duration, saturating at its ends.\<close>

definition clamp64 :: "int \<Rightarrow> int" where
  "clamp64 d = max (- (2 ^ 63)) (min (2 ^ 63 - 1) d)"

definition since :: "int \<Rightarrow> int \<Rightarrow> int" where
  "since now t = clamp64 (now - t)"

definition Age :: "int \<Rightarrow> Instance \<Rightarrow> int" where
  "Age now i = since now (i_CreatedAt i)"

text \<open>\<open>Duration.Round(time.Second)\<close>: to the nearest second, halves away from zero.\<close>

definition round_second :: "int \<Rightarrow> int" where
  "round_second d = clamp64 (sgn d * ((\<bar>d\<bar> + 500000000) div 1000000000 * 1000000000))"

lemma since_mono: "t \<le> t' \<Longrightarrow> since now t' \<le> since now t"
  by (auto simp: since_def clamp64_def)

lemma since_less: "since now t > d \<Longrightarrow> d \<ge> - (2 ^ 63) \<Longrightarrow> t + d < now"
  by (auto simp: since_def clamp64_def split: if_splits)

end
