(* ===== verification/OrchTypes.thy ===== *)
theory OrchTypes
  imports Effects Provider Scale Naming Overrides
begin

text \<open>
  The orchestrator's state and what it calls (\<open>internal/orchestrator/orchestrator.go\<close>). The
  calls into the GitHub client, the providers, the clock and the random source are the fields
  of \<open>ext\<close>, functions on a world of any type; the snapshot types are those of the source.
  Logging is left out, and so is the cancellation of a context: a call that is cancelled is a
  call that returns an error.
\<close>

section \<open>External calls\<close>

record 'w ext =
  x_now :: "'w \<Rightarrow> int"
  x_order :: "'w \<Rightarrow> nat list"
  x_host :: string
  x_kitchen :: "int \<Rightarrow> string"
  x_rand :: "'w \<Rightarrow> 8 word list \<times> 'w"
  api_RateLimit :: "'w \<Rightarrow> RateLimit"
  api_RepoLevel :: bool
  api_ListRepos :: "RepoFilterOpts \<Rightarrow> 'w \<Rightarrow> (gherr + Repo list) \<times> 'w"
  api_ListRunners :: "Repo list \<Rightarrow> 'w \<Rightarrow> (gherr + Runner list) \<times> 'w"
  api_PendingJobs :: "Repo list \<Rightarrow> int \<Rightarrow> 'w \<Rightarrow> (Job list \<times> gherr option) \<times> 'w"
  api_RunnerGroupID :: "string \<Rightarrow> 'w \<Rightarrow> (gherr + int) \<times> 'w"
  api_GenerateJITConfig ::
    "string \<Rightarrow> string \<Rightarrow> string list \<Rightarrow> int \<Rightarrow> string \<Rightarrow> 'w \<Rightarrow> (gherr + JITConfig) \<times> 'w"
  api_RemoveRunner :: "string \<Rightarrow> int \<Rightarrow> 'w \<Rightarrow> gherr option \<times> 'w"
  api_SweepCache :: "int \<Rightarrow> 'w \<Rightarrow> unit \<times> 'w"
  pv_Preflight :: "string \<Rightarrow> 'w \<Rightarrow> string option \<times> 'w"
  pv_List :: "string \<Rightarrow> 'w \<Rightarrow> (string + Instance list) \<times> 'w"
  pv_Create :: "string \<Rightarrow> Spec \<Rightarrow> 'w \<Rightarrow> (string + Instance) \<times> 'w"
  pv_Destroy :: "string \<Rightarrow> string \<Rightarrow> 'w \<Rightarrow> string option \<times> 'w"
  pv_Logs :: "string \<Rightarrow> string \<Rightarrow> int \<Rightarrow> 'w \<Rightarrow> (string + string) \<times> 'w"
  pv_Prune :: "string \<Rightarrow> 'w \<Rightarrow> (string + int) \<times> 'w"

text \<open>The errors' texts, as their \<open>Error\<close> methods give them.\<close>

fun err_text :: "gherr \<Rightarrow> string" where
  "err_text (APIError status msg url) = ''github '' @ url @ '': '' @ itoa status @ '' '' @ msg"
| "err_text ErrRunnerBusy = ''runner is executing a job''"
| "err_text (PartialError fs) =
     itoa (int (length fs)) @ '' repo poll(s) failed: '' @ join_str ''; '' fs"
| "err_text (OtherError s) = s"
| "err_text (Wrapped msg e) = msg @ '': '' @ err_text e"

section \<open>Snapshots\<close>

record InstanceSnapshot =
  is_Name :: string
  is_ID :: string
  is_RunnerID :: int
  is_State :: State
  is_Online :: bool
  is_Busy :: bool
  is_Age :: int
  is_CreatedAt :: int
  is_Detail :: string

record PoolSnapshot =
  ps_Name :: string
  ps_Provider :: string
  ps_Labels :: "string list"
  ps_Min :: int
  ps_Max :: int
  ps_Desired :: int
  ps_Live :: int
  ps_Busy :: int
  ps_Idle :: int
  ps_Starting :: int
  ps_Queued :: int
  ps_Drained :: bool
  ps_Reason :: reason
  ps_Error :: string
  ps_Instances :: "InstanceSnapshot list"

text \<open>\<open>sn_UpdatedAt\<close> is \<open>None\<close> for the zero time of a snapshot no pass has written.\<close>

record Snapshot =
  sn_UpdatedAt :: "int option"
  sn_Org :: string
  sn_Pools :: "PoolSnapshot list"
  sn_Unassigned :: "Job list"
  sn_RateLimit :: RateLimit
  sn_ReposWatched :: int
  sn_LastError :: string
  sn_ConsecutiveFailures :: int

definition no_rate :: RateLimit where
  "no_rate = \<lparr> rl_Limit = 0, rl_Remaining = 0, rl_Reset = 0, rl_Seen = 0 \<rparr>"

definition empty_snapshot :: Snapshot where
  "empty_snapshot = \<lparr> sn_UpdatedAt = None, sn_Org = [], sn_Pools = [], sn_Unassigned = [],
     sn_RateLimit = no_rate, sn_ReposWatched = 0, sn_LastError = [], sn_ConsecutiveFailures = 0 \<rparr>"

section \<open>The orchestrator\<close>

text \<open>
  The mutable fields of \<open>Orchestrator\<close>; the configuration and the calls are arguments. A nil
  \<open>repos\<close> slice is the empty list: the client returns nil when no repository is left.
\<close>

record 'w orch = "'w worldly" +
  o_snapshot :: Snapshot
  o_repos :: "Repo list"
  o_reposFetched :: int
  o_idleSince :: "string \<rightharpoonup> int"
  o_drained :: "string \<Rightarrow> bool"
  o_overrides :: "ovmap option"

type_synonym ('w, 'a) orc = "('w orch, 'a) state"

datatype provider_kind = DockerProvider | ProcessProvider

definition buildProvider :: "Pool \<Rightarrow> string + provider_kind" where
  "buildProvider pool =
     (if pool_Provider pool = ProviderDocker then Inr DockerProvider
      else if pool_Provider pool = ProviderProcess then Inr ProcessProvider
      else Inl (''pool '' @ pool_Name pool @ '': unknown provider '' @ pool_Provider pool))"

text \<open>
  \<open>New\<close>: the providers by pool name and the fresh state. The constructors of the providers may
  fail themselves, with the error \<open>build\<close> gives.
\<close>

fun build_all ::
  "(Pool \<Rightarrow> provider_kind \<Rightarrow> string option) \<Rightarrow> Pool list \<Rightarrow> (string \<rightharpoonup> provider_kind)
     \<Rightarrow> string + (string \<rightharpoonup> provider_kind)" where
  "build_all build [] ps = Inr ps"
| "build_all build (pool # rest) ps =
     (case buildProvider pool of
        Inl e \<Rightarrow> Inl e
      | Inr k \<Rightarrow> (case build pool k of
          Some e \<Rightarrow> Inl e
        | None \<Rightarrow> build_all build rest (ps(pool_Name pool \<mapsto> k))))"

definition New ::
  "(Pool \<Rightarrow> provider_kind \<Rightarrow> string option) \<Rightarrow> Config \<Rightarrow> ovmap option \<Rightarrow> 'w
     \<Rightarrow> string + (string \<rightharpoonup> provider_kind) \<times> PoolMatcher \<times> 'w orch" where
  "New build cfg ovs w =
     (case build_all build (pools cfg) Map.empty of
        Inl e \<Rightarrow> Inl e
      | Inr ps \<Rightarrow> Inr (ps, NewPoolMatcher (pools cfg),
          \<lparr> world = w, o_snapshot = empty_snapshot, o_repos = [], o_reposFetched = 0,
            o_idleSince = Map.empty, o_drained = (\<lambda>_. False), o_overrides = ovs \<rparr>))"

end
