(* ===== verification/Orchestrator.thy ===== *)
theory Orchestrator
  imports OrchTypes "HOL-Library.AList"
begin

text \<open>
  The reconcile loop of \<open>internal/orchestrator/orchestrator.go\<close>, method by method, in the state
  monad over the orchestrator's state and its world. Map iterations, \<open>sort.Slice\<close> on equal
  elements and the scheduling of launches take their order from \<open>x_order\<close>.
\<close>

section \<open>Limits, repositories, failures\<close>

definition cap_min :: "Limits \<Rightarrow> Limits" where
  "cap_min lm = (if lim_Min lm > lim_Max lm then lm\<lparr>lim_Min := lim_Max lm\<rparr> else lm)"

definition limitsFor :: "ovmap option \<Rightarrow> Pool \<Rightarrow> Limits" where
  "limitsFor overrides pool =
     (let cfg = \<lparr> lim_Min = pool_Min pool, lim_Max = pool_Max pool \<rparr>
      in cap_min (case overrides of
           None \<Rightarrow> cfg
         | Some m \<Rightarrow> (case Get m (pool_Name pool) of
             None \<Rightarrow> cfg
           | Some ov \<Rightarrow> \<lparr> lim_Min = (case ov_Min ov of Some v \<Rightarrow> v | None \<Rightarrow> pool_Min pool),
                          lim_Max = (case ov_Max ov of Some v \<Rightarrow> v | None \<Rightarrow> pool_Max pool) \<rparr>)))"

definition isDrained :: "string \<Rightarrow> ('w, bool) orc" where
  "isDrained pool = gets (\<lambda>s. o_drained s pool)"

definition SetDrained :: "Config \<Rightarrow> string \<Rightarrow> bool \<Rightarrow> ('w, string option) orc" where
  "SetDrained cfg pool drained =
     (if config_Pool cfg pool = None then ret (Some (''unknown pool '' @ pool))
      else do {
        _ \<leftarrow> modify (\<lambda>s. s\<lparr>o_drained := (o_drained s)(pool := drained)\<rparr>);
        ret None })"

definition recordFailure :: "'w ext \<Rightarrow> Config \<Rightarrow> string \<Rightarrow> ('w, unit) orc" where
  "recordFailure X cfg msg =
     modify (\<lambda>s. s\<lparr>o_snapshot := (o_snapshot s)
       \<lparr>sn_Org := Entity (cfg_GitHub cfg), sn_LastError := msg,
        sn_UpdatedAt := Some (x_now X (world s)),
        sn_ConsecutiveFailures := sn_ConsecutiveFailures (o_snapshot s) + 1\<rparr>\<rparr>)"

definition repo_filter :: "Config \<Rightarrow> RepoFilterOpts" where
  "repo_filter cfg = (let r = gh_Repos (cfg_GitHub cfg)
     in \<lparr> fo_Include = rf_Include r, fo_Exclude = rf_Exclude r,
          fo_ActiveWithin = rf_ActiveWithin r, fo_Archived = rf_Archived r \<rparr>)"

definition pollableRepos :: "'w ext \<Rightarrow> Config \<Rightarrow> ('w, gherr + Repo list) orc" where
  "pollableRepos X cfg = do {
     now \<leftarrow> look (x_now X);
     repos \<leftarrow> gets o_repos;
     fetched \<leftarrow> gets o_reposFetched;
     if since now fetched < rf_RefreshInterval (gh_Repos (cfg_GitHub cfg)) \<and> repos \<noteq> []
     then ret (Inr repos)
     else do {
       r \<leftarrow> call (api_ListRepos X (repo_filter cfg));
       case r of
         Inl e \<Rightarrow> ret (if repos \<noteq> [] then Inr repos else Inl e)
       | Inr fresh \<Rightarrow> do {
           now' \<leftarrow> look (x_now X);
           _ \<leftarrow> modify (\<lambda>s. s\<lparr>o_repos := fresh, o_reposFetched := now'\<rparr>);
           ret (Inr fresh) } } }"

section \<open>Destroying and reaping\<close>

text \<open>\<open>byName\<close>: the last runner listed with a name, as Go's map assignment has it.\<close>

type_synonym runners_by_name = "(string \<times> Runner) list"

definition by_name :: "Runner list \<Rightarrow> runners_by_name" where
  "by_name rs = foldl (\<lambda>m r. AList.update (r_Name r) r m) [] rs"

definition destroyInstance ::
  "'w ext \<Rightarrow> Pool \<Rightarrow> Instance \<Rightarrow> runners_by_name \<Rightarrow> ('w, unit) orc" where
  "destroyInstance X pool inst byName = do {
     busy \<leftarrow> (case map_of byName (i_RunnerName inst) of
       None \<Rightarrow> ret False
     | Some r \<Rightarrow> do {
         e \<leftarrow> call (api_RemoveRunner X (r_Repo r) (r_ID r));
         ret (refused_busy e) });
     if busy then ret ()
     else do {
       e \<leftarrow> call (pv_Destroy X (pool_Name pool) (i_ID inst));
       if e \<noteq> None then ret ()
       else modify (\<lambda>s. s\<lparr>o_idleSince :=
              (o_idleSince s)(instanceKey (pool_Name pool) (i_RunnerName inst) := None)\<rparr>) } }"

text \<open>The loop of \<open>reap\<close> over the instances, which returns the live ones.\<close>

fun reap_instances ::
  "'w ext \<Rightarrow> Pool \<Rightarrow> runners_by_name \<Rightarrow> Instance list \<Rightarrow> ('w, Instance list) orc" where
  "reap_instances X pool byName [] = ret []"
| "reap_instances X pool byName (inst # rest) = do {
     now \<leftarrow> look (x_now X);
     if i_State inst = StateExited \<or> i_State inst = StateUnknown
        \<or> Age now inst > pool_JobTimeout pool
     then do {
       _ \<leftarrow> destroyInstance X pool inst byName;
       reap_instances X pool byName rest }
     else do {
       live \<leftarrow> reap_instances X pool byName rest;
       ret (inst # live) } }"

text \<open>One step of its loop over \<open>byName\<close>.\<close>

definition reap_orphan ::
  "'w ext \<Rightarrow> Pool \<Rightarrow> Instance list \<Rightarrow> string \<times> Runner \<Rightarrow> ('w, unit) orc" where
  "reap_orphan X pool instances nr =
     (let (name, r) = nr
      in if list_ex (\<lambda>i. i_RunnerName i = name) instances \<or> \<not> belongsToPool (x_host X) name (pool_Name pool)
         then ret ()
         else if r_Busy r then ret ()
         else do {
           _ \<leftarrow> call (api_RemoveRunner X (r_Repo r) (r_ID r));
           ret () })"

definition reap ::
  "'w ext \<Rightarrow> Pool \<Rightarrow> Instance list \<Rightarrow> runners_by_name \<Rightarrow> ('w, Instance list) orc" where
  "reap X pool instances byName = do {
     live \<leftarrow> reap_instances X pool byName instances;
     p \<leftarrow> look (x_order X);
     _ \<leftarrow> for_each (reap_orphan X pool instances) (reorder p byName);
     ret live }"

section \<open>Scaling up\<close>

definition rand_buf :: "8 word list \<Rightarrow> 8 word list" where
  "rand_buf bs = take (runnerSuffixLen div 2) (bs @ replicate (runnerSuffixLen div 2) 0)"

definition launchOne :: "'w ext \<Rightarrow> Pool \<Rightarrow> int \<Rightarrow> string \<Rightarrow> ('w, string option) orc" where
  "launchOne X pool groupID repo = do {
     bs \<leftarrow> call (x_rand X);
     let name = runnerName (x_host X) (rand_buf bs) (pool_Name pool);
     j \<leftarrow> call (api_GenerateJITConfig X repo name (pool_Labels pool) groupID ''_work'');
     case j of
       Inl e \<Rightarrow> ret (Some (err_text e))
     | Inr jit \<Rightarrow> do {
         c \<leftarrow> call (pv_Create X (pool_Name pool)
                \<lparr> spec_Pool = pool_Name pool, spec_RunnerName = name,
                  spec_RunnerID = r_ID (jit_Runner jit), spec_JITConfig = jit_Encoded jit \<rparr>);
         case c of
           Inl e \<Rightarrow> do {
             _ \<leftarrow> call (api_RemoveRunner X (r_Repo (jit_Runner jit)) (r_ID (jit_Runner jit)));
             ret (Some e) }
         | Inr inst \<Rightarrow> ret None } }"

text \<open>The repository each launch registers on, or \<open>None\<close> when there is none to choose.\<close>

definition target_repos :: "bool \<Rightarrow> Job list \<Rightarrow> nat \<Rightarrow> string list option" where
  "target_repos repoLevel jobs n =
     (if \<not> repoLevel then Some (replicate n [])
      else if n > 0 \<and> jobs = [] then None
      else Some (map (\<lambda>i. if i < length jobs then job_Repo (jobs ! i) else job_Repo (last jobs)) [0..<n]))"

text \<open>
  The launches run one at a time here, in the order the scheduler picks; the interleaved
  execution under the semaphore is the subject of the theory \<open>Launch\<close>.
\<close>

definition scaleUp :: "'w ext \<Rightarrow> Config \<Rightarrow> Pool \<Rightarrow> int \<Rightarrow> Job list \<Rightarrow> ('w, unit) orc" where
  "scaleUp X cfg pool n jobs = do {
     g \<leftarrow> call (api_RunnerGroupID X (EffectiveRunnerGroup cfg pool));
     case g of
       Inl e \<Rightarrow> ret ()
     | Inr groupID \<Rightarrow>
         (case target_repos (api_RepoLevel X) jobs (nat n) of
            None \<Rightarrow> ret ()
          | Some repos \<Rightarrow> do {
              p \<leftarrow> look (x_order X);
              for_each (\<lambda>repo. do { _ \<leftarrow> launchOne X pool groupID repo; ret () }) (reorder p repos) }) }"

section \<open>Scaling down\<close>

text \<open>
  The locked loop: the new idle clocks, and the instances that have been idle for the whole
  timeout, each with its idle time.
\<close>

fun idle_scan ::
  "int \<Rightarrow> Pool \<Rightarrow> runners_by_name \<Rightarrow> Instance list \<Rightarrow> (string \<rightharpoonup> int)
     \<Rightarrow> (Instance \<times> int) list \<times> (string \<rightharpoonup> int)" where
  "idle_scan now pool byName [] idle = ([], idle)"
| "idle_scan now pool byName (inst # rest) idle =
     (let key = instanceKey (pool_Name pool) (i_RunnerName inst);
          available = (case map_of byName (i_RunnerName inst) of
                         None \<Rightarrow> False | Some r \<Rightarrow> \<not> r_Busy r \<and> Online r)
      in if \<not> available then idle_scan now pool byName rest (idle(key := None))
         else (case idle key of
                 None \<Rightarrow> idle_scan now pool byName rest (idle(key \<mapsto> now))
               | Some t \<Rightarrow>
                   (let (el, idle') = idle_scan now pool byName rest idle
                    in if since now t \<ge> pool_IdleTimeout pool
                       then ((inst, since now t) # el, idle') else (el, idle'))))"

definition scaleDown ::
  "'w ext \<Rightarrow> Pool \<Rightarrow> Instance list \<Rightarrow> runners_by_name \<Rightarrow> int \<Rightarrow> ('w, unit) orc" where
  "scaleDown X pool live byName n = do {
     now \<leftarrow> look (x_now X);
     idle \<leftarrow> gets o_idleSince;
     let (eligible, idle') = idle_scan now pool byName live idle;
     _ \<leftarrow> modify (\<lambda>s. s\<lparr>o_idleSince := idle'\<rparr>);
     p \<leftarrow> look (x_order X);
     let oldest = sort_key (\<lambda>c. - snd c) (reorder p eligible);
     for_each (\<lambda>c. destroyInstance X pool (fst c) byName) (take (nat n) oldest) }"

section \<open>One pool\<close>

text \<open>The class of a live instance, and what the loop of \<open>applyPool\<close> counts.\<close>

datatype liveness = IsBusy | IsIdle | IsStarting

definition classify :: "runners_by_name \<Rightarrow> Instance \<Rightarrow> liveness" where
  "classify byName inst =
     (case map_of byName (i_RunnerName inst) of
        None \<Rightarrow> IsStarting
      | Some r \<Rightarrow> if r_Busy r then IsBusy else if Online r then IsIdle else IsStarting)"

definition count_class :: "runners_by_name \<Rightarrow> liveness \<Rightarrow> Instance list \<Rightarrow> int" where
  "count_class byName c live = int (length (filter (\<lambda>i. classify byName i = c) live))"

definition pool_state :: "runners_by_name \<Rightarrow> Instance list \<Rightarrow> PoolState" where
  "pool_state byName live =
     \<lparr> st_Live = int (length live), st_Busy = count_class byName IsBusy live,
       st_Idle = count_class byName IsIdle live, st_Starting = count_class byName IsStarting live \<rparr>"

definition instance_snapshot :: "int \<Rightarrow> runners_by_name \<Rightarrow> Instance \<Rightarrow> InstanceSnapshot" where
  "instance_snapshot now byName inst =
     \<lparr> is_Name = i_RunnerName inst, is_ID = i_ID inst, is_RunnerID = i_RunnerID inst,
       is_State = i_State inst, is_Online = (classify byName inst \<noteq> IsStarting),
       is_Busy = (classify byName inst = IsBusy), is_Age = round_second (Age now inst),
       is_CreatedAt = i_CreatedAt inst, is_Detail = i_Detail inst \<rparr>"

definition applyPool ::
  "'w ext \<Rightarrow> Config \<Rightarrow> Pool \<Rightarrow> Instance list \<Rightarrow> runners_by_name \<Rightarrow> int \<Rightarrow> Job list
     \<Rightarrow> ('w, PoolSnapshot) orc" where
  "applyPool X cfg pool live byName demand0 jobs = do {
     overrides \<leftarrow> gets o_overrides;
     drained \<leftarrow> isDrained (pool_Name pool);
     let lm = (if drained then \<lparr> lim_Min = 0, lim_Max = 0 \<rparr> else limitsFor overrides pool);
     let demand = (if drained then 0 else demand0);
     now \<leftarrow> look (x_now X);
     let st = pool_state byName live;
     let decision = Plan (pool_Name pool) st demand lm;
     _ \<leftarrow> (if dec_Create decision > 0 \<and> \<not> drained then scaleUp X cfg pool (dec_Create decision) jobs
          else if dec_Cull decision > 0 then scaleDown X pool live byName (dec_Cull decision)
          else ret ());
     p \<leftarrow> look (x_order X);
     ret \<lparr> ps_Name = pool_Name pool, ps_Provider = pool_Provider pool, ps_Labels = pool_Labels pool,
           ps_Min = lim_Min lm, ps_Max = lim_Max lm, ps_Desired = dec_Desired decision,
           ps_Live = st_Live st, ps_Busy = st_Busy st, ps_Idle = st_Idle st,
           ps_Starting = st_Starting st, ps_Queued = demand, ps_Drained = drained,
           ps_Reason = dec_Reason decision, ps_Error = [],
           ps_Instances = sort_key is_CreatedAt (reorder p (map (instance_snapshot now byName) live)) \<rparr> }"

end
