(* ===== verification/Reconcile.thy ===== *)
theory Reconcile
  imports Orchestrator
begin

text \<open>
  The whole pass \<open>reconcileOnce\<close>, the discount for runners of other hosts, housekeeping, the
  health check, and the loop \<open>Run\<close> with its wake-up channel, from
  \<open>internal/orchestrator/orchestrator.go\<close>.
\<close>

section \<open>Runners of other hosts\<close>

record slot =
  slot_labels :: "string list"
  slot_repo :: string

definition covers :: "slot \<Rightarrow> Job \<Rightarrow> bool" where
  "covers s j =
     (if slot_repo s \<noteq> [] \<and> \<not> equal_fold (slot_repo s) (job_Repo j) then False
      else list_all (\<lambda>want. to_lower want \<in> set (slot_labels s)) (job_Labels j))"

text \<open>Who runs on this host: the live instances of every pool, and names minted here.\<close>

definition ours :: "Pool list \<Rightarrow> (string \<Rightarrow> Instance list) \<Rightarrow> string \<Rightarrow> bool" where
  "ours ps liveByPool name =
     list_ex (\<lambda>p. list_ex (\<lambda>i. i_RunnerName i = name) (liveByPool (pool_Name p))) ps"

definition isOurDebris :: "string \<Rightarrow> Pool list \<Rightarrow> string \<Rightarrow> bool" where
  "isOurDebris host ps name = list_ex (\<lambda>p. belongsToPool host name (pool_Name p)) ps"

definition foreign_idle ::
  "string \<Rightarrow> Pool list \<Rightarrow> (string \<Rightarrow> Instance list) \<Rightarrow> Runner \<Rightarrow> bool" where
  "foreign_idle host ps liveByPool r =
     (\<not> (ours ps liveByPool (r_Name r) \<or> r_Busy r \<or> \<not> Online r \<or> isOurDebris host ps (r_Name r)))"

definition free_slots ::
  "string \<Rightarrow> Pool list \<Rightarrow> (string \<Rightarrow> Instance list) \<Rightarrow> Runner list \<Rightarrow> slot list" where
  "free_slots host ps liveByPool runners =
     map (\<lambda>r. \<lparr> slot_labels = map to_lower (r_Labels r), slot_repo = r_Repo r \<rparr>)
       (filter (foreign_idle host ps liveByPool) runners)"

text \<open>The first free slot that covers a job is taken out of the list.\<close>

fun take_slot :: "slot list \<Rightarrow> Job \<Rightarrow> slot list option" where
  "take_slot [] j = None"
| "take_slot (s # free) j =
     (if covers s j then Some free else map_option ((#) s) (take_slot free j))"

fun discount_jobs :: "slot list \<Rightarrow> Job list \<Rightarrow> slot list \<times> Job list" where
  "discount_jobs free [] = (free, [])"
| "discount_jobs free (j # jobs) =
     (case take_slot free j of
        Some free' \<Rightarrow> discount_jobs free' jobs
      | None \<Rightarrow> (let (free', remaining) = discount_jobs free jobs in (free', j # remaining)))"

definition set_jobs :: "string \<Rightarrow> Job list \<Rightarrow> Demand \<Rightarrow> Demand" where
  "set_jobs n remaining d =
     d\<lparr>Jobs := (Jobs d)(n := remaining), ByPool := (ByPool d)(n := int (length remaining))\<rparr>"

fun discount_pools :: "slot list \<Rightarrow> Pool list \<Rightarrow> Demand \<Rightarrow> Demand" where
  "discount_pools free [] d = d"
| "discount_pools free (p # ps) d =
     (let (free', remaining) = discount_jobs free (Jobs d (pool_Name p))
      in discount_pools free' ps (set_jobs (pool_Name p) remaining d))"

definition discountForeignIdle ::
  "string \<Rightarrow> Pool list \<Rightarrow> Demand \<Rightarrow> Runner list \<Rightarrow> (string \<Rightarrow> Instance list) \<Rightarrow> Demand" where
  "discountForeignIdle host ps d runners liveByPool =
     (let free = free_slots host ps liveByPool runners
      in if free = [] then d else discount_pools free ps d)"

section \<open>One pass\<close>

text \<open>Step 3: each provider's instances, with the errors of the listings that failed.\<close>

fun list_pools ::
  "'w ext \<Rightarrow> runners_by_name \<Rightarrow> Pool list
     \<Rightarrow> (string \<Rightarrow> Instance list) \<times> (string \<Rightarrow> string)
     \<Rightarrow> ('w, (string \<Rightarrow> Instance list) \<times> (string \<Rightarrow> string)) orc" where
  "list_pools X byName [] acc = ret acc"
| "list_pools X byName (pool # ps) acc = do {
     r \<leftarrow> call (pv_List X (pool_Name pool));
     case r of
       Inl e \<Rightarrow> list_pools X byName ps (fst acc, (snd acc)(pool_Name pool := e))
     | Inr instances \<Rightarrow> do {
         live \<leftarrow> reap X pool instances byName;
         list_pools X byName ps ((fst acc)(pool_Name pool := live), snd acc) } }"

text \<open>Step 5: the decisions, one pool at a time.\<close>

fun apply_pools ::
  "'w ext \<Rightarrow> Config \<Rightarrow> runners_by_name \<Rightarrow> (string \<Rightarrow> Instance list) \<Rightarrow> (string \<Rightarrow> string)
     \<Rightarrow> Demand \<Rightarrow> Pool list \<Rightarrow> ('w, PoolSnapshot list) orc" where
  "apply_pools X cfg byName liveByPool poolErr d [] = ret []"
| "apply_pools X cfg byName liveByPool poolErr d (pool # ps) = do {
     snap \<leftarrow> applyPool X cfg pool (liveByPool (pool_Name pool)) byName
              (ByPool d (pool_Name pool)) (Jobs d (pool_Name pool));
     rest \<leftarrow> apply_pools X cfg byName liveByPool poolErr d ps;
     let e = poolErr (pool_Name pool);
     ret ((if e \<noteq> [] then snap\<lparr>ps_Error := e\<rparr> else snap) # rest) }"

definition exhausted :: "int \<Rightarrow> RateLimit \<Rightarrow> bool" where
  "exhausted start rl = (rl_Limit rl > 0 \<and> rl_Remaining rl < 50 \<and> start < rl_Reset rl)"

text \<open>Steps 4 and 5, once repositories, runners, instances and jobs are known.\<close>

definition act ::
  "'w ext \<Rightarrow> Config \<Rightarrow> PoolMatcher \<Rightarrow> int \<Rightarrow> Repo list \<Rightarrow> Runner list \<Rightarrow> runners_by_name
     \<Rightarrow> (string \<Rightarrow> Instance list) \<Rightarrow> (string \<Rightarrow> string) \<Rightarrow> Job list \<Rightarrow> string \<Rightarrow> ('w, unit) orc" where
  "act X cfg m start repos runners byName liveByPool poolErr jobs lastError = do {
     overrides \<leftarrow> gets o_overrides;
     let live = (\<lambda>n. int (length (liveByPool n)));
     let limits = (\<lambda>n. case config_Pool cfg n of
                     Some p \<Rightarrow> limitsFor overrides p | None \<Rightarrow> \<lparr> lim_Min = 0, lim_Max = 0 \<rparr>);
     let demand = AssignDemand m jobs live limits;
     let demand' = discountForeignIdle (x_host X) (pools cfg) demand runners liveByPool;
     ps \<leftarrow> apply_pools X cfg byName liveByPool poolErr demand' (pools cfg);
     rl \<leftarrow> look (api_RateLimit X);
     modify (\<lambda>s. s\<lparr>o_snapshot :=
       \<lparr> sn_UpdatedAt = Some start, sn_Org = Entity (cfg_GitHub cfg), sn_Pools = ps,
         sn_Unassigned = Unassigned demand, sn_RateLimit = rl,
         sn_ReposWatched = int (length repos), sn_LastError = lastError,
         sn_ConsecutiveFailures = 0 \<rparr>\<rparr>) }"

definition observe ::
  "'w ext \<Rightarrow> Config \<Rightarrow> PoolMatcher \<Rightarrow> int \<Rightarrow> Repo list \<Rightarrow> Runner list \<Rightarrow> ('w, unit) orc" where
  "observe X cfg m start repos runners = do {
     let byName = by_name runners;
     acc \<leftarrow> list_pools X byName (pools cfg) (\<lambda>_. [], \<lambda>_. []);
     pj \<leftarrow> call (api_PendingJobs X repos 8);
     case snd pj of
       None \<Rightarrow> act X cfg m start repos runners byName (fst acc) (snd acc) (fst pj) []
     | Some e \<Rightarrow> (case cause e of
         PartialError fs \<Rightarrow>
           act X cfg m start repos runners byName (fst acc) (snd acc) (fst pj) (err_text (cause e))
       | _ \<Rightarrow> recordFailure X cfg (''poll jobs: '' @ err_text e)) }"

definition reconcileOnce :: "'w ext \<Rightarrow> Config \<Rightarrow> PoolMatcher \<Rightarrow> ('w, unit) orc" where
  "reconcileOnce X cfg m = do {
     start \<leftarrow> look (x_now X);
     rl \<leftarrow> look (api_RateLimit X);
     if exhausted start rl
     then recordFailure X cfg (''rate limit nearly exhausted ('' @ itoa (rl_Remaining rl)
            @ '' left); paused until '' @ x_kitchen X (rl_Reset rl))
     else do {
       rr \<leftarrow> pollableRepos X cfg;
       case rr of
         Inl e \<Rightarrow> recordFailure X cfg (''list repos: '' @ err_text e)
       | Inr repos \<Rightarrow> do {
           lr \<leftarrow> call (api_ListRunners X repos);
           case lr of
             Inl e \<Rightarrow> recordFailure X cfg (''list runners: '' @ err_text e)
           | Inr runners \<Rightarrow> observe X cfg m start repos runners } } }"

section \<open>The other entry points\<close>

definition PreflightPool :: "'w ext \<Rightarrow> (string \<rightharpoonup> provider_kind) \<Rightarrow> string \<Rightarrow> ('w, string option) orc" where
  "PreflightPool X providers pool =
     (if providers pool = None then ret (Some (''unknown pool '' @ pool))
      else call (pv_Preflight X pool))"

fun preflight_errors ::
  "'w ext \<Rightarrow> (string \<rightharpoonup> provider_kind) \<Rightarrow> Pool list \<Rightarrow> ('w, string list) orc" where
  "preflight_errors X providers [] = ret []"
| "preflight_errors X providers (pool # ps) = do {
     e \<leftarrow> PreflightPool X providers (pool_Name pool);
     rest \<leftarrow> preflight_errors X providers ps;
     ret (case e of None \<Rightarrow> rest | Some msg \<Rightarrow> (''pool '' @ pool_Name pool @ '': '' @ msg) # rest) }"

definition joinLines :: "string list \<Rightarrow> string" where
  "joinLines s = join_str (CHR 0x0A # ''  - '') s"

definition Preflight :: "'w ext \<Rightarrow> Config \<Rightarrow> (string \<rightharpoonup> provider_kind) \<Rightarrow> ('w, string option) orc" where
  "Preflight X cfg providers = do {
     errs \<leftarrow> preflight_errors X providers (pools cfg);
     ret (if errs \<noteq> [] then Some (''provider preflight failed:'' @ CHR 0x0A # ''  - '' @ joinLines errs)
          else None) }"

definition Logs ::
  "'w ext \<Rightarrow> (string \<rightharpoonup> provider_kind) \<Rightarrow> string \<Rightarrow> string \<Rightarrow> int \<Rightarrow> ('w, string + string) orc" where
  "Logs X providers pool ident lines =
     (if providers pool = None then ret (Inl (''unknown pool '' @ pool))
      else call (pv_Logs X pool ident lines))"

definition forget_old :: "int \<Rightarrow> (string \<rightharpoonup> int) \<Rightarrow> string \<rightharpoonup> int" where
  "forget_old now idle = (\<lambda>k. case idle k of
     None \<Rightarrow> None | Some t \<Rightarrow> if since now t > 24 * Hour then None else Some t)"

definition housekeep :: "'w ext \<Rightarrow> Config \<Rightarrow> ('w, unit) orc" where
  "housekeep X cfg = do {
     _ \<leftarrow> for_each (\<lambda>pool. do { _ \<leftarrow> call (pv_Prune X (pool_Name pool)); ret () }) (pools cfg);
     _ \<leftarrow> call (api_SweepCache X Hour);
     now \<leftarrow> look (x_now X);
     modify (\<lambda>s. s\<lparr>o_idleSince := forget_old now (o_idleSince s)\<rparr>) }"

text \<open>The answer of \<open>Healthy\<close>, with the data of its message.\<close>

datatype health = Healthy_ok | No_reconcile | Failing int string | Stale int

definition Healthy :: "Config \<Rightarrow> int \<Rightarrow> Snapshot \<Rightarrow> health" where
  "Healthy cfg now sn =
     (case sn_UpdatedAt sn of
        None \<Rightarrow> No_reconcile
      | Some t \<Rightarrow>
          if sn_ConsecutiveFailures sn \<ge> 3 then Failing (sn_ConsecutiveFailures sn) (sn_LastError sn)
          else (let stale = max Minute (5 * gh_PollInterval (cfg_GitHub cfg));
                    age = since now t
                in if age > stale then Stale (round_second age) else Healthy_ok))"

section \<open>The loop\<close>

text \<open>
  \<open>Run\<close> and its channels: the wake-up channel and the two tickers hold at most one pending
  value each. \<open>lp_busy\<close> says that a pass or housekeeping is in progress; a wake-up may arrive at
  any time, and the loop takes one of the ready channels, whichever \<open>select\<close> picks.
\<close>

datatype activity = Waiting | Reconciling | Housekeeping | Stopped

record 'w loop =
  lp_orch :: "'w orch"
  lp_poke :: bool
  lp_tick :: bool
  lp_house :: bool
  lp_cancelled :: bool
  lp_now :: activity

datatype loop_event =
  EvPoke | EvTick | EvHouseTick | EvCancel | EvStart | EvHousekeep | EvDone | EvStop

definition start_loop :: "'w orch \<Rightarrow> 'w loop" where
  "start_loop s = \<lparr> lp_orch = s, lp_poke = False, lp_tick = False, lp_house = False,
     lp_cancelled = False, lp_now = Reconciling \<rparr>"

definition Poke :: "'w loop \<Rightarrow> 'w loop" where
  "Poke l = (if lp_poke l then l else l\<lparr>lp_poke := True\<rparr>)"

inductive run_step ::
  "'w ext \<Rightarrow> Config \<Rightarrow> PoolMatcher \<Rightarrow> 'w loop \<Rightarrow> loop_event \<Rightarrow> 'w loop \<Rightarrow> bool" for X cfg m where
  poke: "run_step X cfg m l EvPoke (Poke l)"
| tick: "lp_now l \<noteq> Stopped \<Longrightarrow> run_step X cfg m l EvTick (l\<lparr>lp_tick := True\<rparr>)"
| house_tick: "lp_now l \<noteq> Stopped \<Longrightarrow> run_step X cfg m l EvHouseTick (l\<lparr>lp_house := True\<rparr>)"
| cancel: "run_step X cfg m l EvCancel (l\<lparr>lp_cancelled := True\<rparr>)"
| stop: "lp_now l = Waiting \<Longrightarrow> lp_cancelled l \<Longrightarrow> run_step X cfg m l EvStop (l\<lparr>lp_now := Stopped\<rparr>)"
| take_tick: "lp_now l = Waiting \<Longrightarrow> lp_tick l \<Longrightarrow>
    run_step X cfg m l EvStart (l\<lparr>lp_tick := False, lp_now := Reconciling\<rparr>)"
| take_poke: "lp_now l = Waiting \<Longrightarrow> lp_poke l \<Longrightarrow>
    run_step X cfg m l EvStart (l\<lparr>lp_poke := False, lp_now := Reconciling\<rparr>)"
| take_house: "lp_now l = Waiting \<Longrightarrow> lp_house l \<Longrightarrow>
    run_step X cfg m l EvHousekeep (l\<lparr>lp_house := False, lp_now := Housekeeping\<rparr>)"
| reconciled: "lp_now l = Reconciling \<Longrightarrow>
    run_step X cfg m l EvDone
      (l\<lparr>lp_orch := snd (run_state (reconcileOnce X cfg m) (lp_orch l)), lp_now := Waiting\<rparr>)"
| housekept: "lp_now l = Housekeeping \<Longrightarrow>
    run_step X cfg m l EvDone
      (l\<lparr>lp_orch := snd (run_state (housekeep X cfg) (lp_orch l)), lp_now := Waiting\<rparr>)"

inductive run_steps ::
  "'w ext \<Rightarrow> Config \<Rightarrow> PoolMatcher \<Rightarrow> 'w loop \<Rightarrow> loop_event list \<Rightarrow> 'w loop \<Rightarrow> bool" for X cfg m where
  none: "run_steps X cfg m l [] l"
| more: "run_steps X cfg m l es l' \<Longrightarrow> run_step X cfg m l' e l'' \<Longrightarrow> run_steps X cfg m l (es @ [e]) l''"

inductive_cases run_step_pokeE: "run_step X cfg m l EvPoke l'"
inductive_cases run_step_startE: "run_step X cfg m l EvStart l'"
inductive_simps run_step_stop: "run_step X cfg m l EvStop l'"

end
