(* ===== verification/OrchTrace.thy ===== *)
theory OrchTrace
  imports Reconcile
begin

text \<open>
  The calls a pass makes: a world that records them, and what each method of the orchestrator
  contributes to the record. The theorems about passes rest on these lemmas.
\<close>

section \<open>Recorded calls\<close>

datatype event =
    EvRunners "gherr + Runner list"
  | EvList string "string + Instance list"
  | EvRemove string int "gherr option"
  | EvJIT string string "gherr + JITConfig"
  | EvCreate string Spec "string + Instance"
  | EvDestroy string string "string option"
  | EvPrune string

definition traced :: "'w ext \<Rightarrow> ('w \<times> event list) ext" where
  "traced X = \<lparr>
     x_now = x_now X \<circ> fst, x_order = x_order X \<circ> fst, x_host = x_host X, x_kitchen = x_kitchen X,
     x_rand = silent_call (x_rand X), api_RateLimit = api_RateLimit X \<circ> fst,
     api_RepoLevel = api_RepoLevel X,
     api_ListRepos = (\<lambda>f. silent_call (api_ListRepos X f)),
     api_ListRunners = (\<lambda>repos. record_call (api_ListRunners X repos) EvRunners),
     api_PendingJobs = (\<lambda>repos n. silent_call (api_PendingJobs X repos n)),
     api_RunnerGroupID = (\<lambda>name. silent_call (api_RunnerGroupID X name)),
     api_GenerateJITConfig = (\<lambda>repo name labels g work.
        record_call (api_GenerateJITConfig X repo name labels g work) (EvJIT repo name)),
     api_RemoveRunner = (\<lambda>repo n. record_call (api_RemoveRunner X repo n) (EvRemove repo n)),
     api_SweepCache = (\<lambda>n. silent_call (api_SweepCache X n)),
     pv_Preflight = (\<lambda>p. silent_call (pv_Preflight X p)),
     pv_List = (\<lambda>p. record_call (pv_List X p) (EvList p)),
     pv_Create = (\<lambda>p sp. record_call (pv_Create X p sp) (EvCreate p sp)),
     pv_Destroy = (\<lambda>p i. record_call (pv_Destroy X p i) (EvDestroy p i)),
     pv_Logs = (\<lambda>p i n. silent_call (pv_Logs X p i n)),
     pv_Prune = (\<lambda>p. record_call (pv_Prune X p) (\<lambda>_. EvPrune p)) \<rparr>"

lemma traced_simps [simp]:
  "x_now (traced X) = x_now X \<circ> fst" "x_order (traced X) = x_order X \<circ> fst"
  "x_host (traced X) = x_host X" "x_kitchen (traced X) = x_kitchen X"
  "x_rand (traced X) = silent_call (x_rand X)"
  "api_RateLimit (traced X) = api_RateLimit X \<circ> fst" "api_RepoLevel (traced X) = api_RepoLevel X"
  "api_ListRepos (traced X) f = silent_call (api_ListRepos X f)"
  "api_ListRunners (traced X) rs = record_call (api_ListRunners X rs) EvRunners"
  "api_PendingJobs (traced X) rs n = silent_call (api_PendingJobs X rs n)"
  "api_RunnerGroupID (traced X) g = silent_call (api_RunnerGroupID X g)"
  "api_GenerateJITConfig (traced X) repo name labels k work =
     record_call (api_GenerateJITConfig X repo name labels k work) (EvJIT repo name)"
  "api_RemoveRunner (traced X) repo i = record_call (api_RemoveRunner X repo i) (EvRemove repo i)"
  "api_SweepCache (traced X) n = silent_call (api_SweepCache X n)"
  "pv_List (traced X) p = record_call (pv_List X p) (EvList p)"
  "pv_Create (traced X) p sp = record_call (pv_Create X p sp) (EvCreate p sp)"
  "pv_Destroy (traced X) p ident = record_call (pv_Destroy X p ident) (EvDestroy p ident)"
  "pv_Prune (traced X) p = record_call (pv_Prune X p) (\<lambda>_. EvPrune p)"
  by (simp_all add: traced_def)

text \<open>The events of one run from a state whose record is empty.\<close>

definition events :: "('w \<times> event list, 'a) orc \<Rightarrow> ('w \<times> event list) orch \<Rightarrow> event list" where
  "events m s = drop (length (trace s)) (trace (snd (run_state m s)))"

lemma events_spec: "spec m Q \<Longrightarrow> Q s (fst (run_state m s)) (snd (run_state m s)) (events m s)"
proof -
  assume "spec m Q"
  then obtain es where "trace (snd (run_state m s)) = trace s @ es"
    "Q s (fst (run_state m s)) (snd (run_state m s)) es" by (rule specE)
  then show ?thesis by (simp add: events_def)
qed

section \<open>Orders and maps\<close>

lemma map_of_foldl_update:
  "map_of (foldl (\<lambda>m r. AList.update (r_Name r) r m) al rs) n
     = (case find (\<lambda>r. r_Name r = n) (rev rs) of Some r \<Rightarrow> Some r | None \<Rightarrow> map_of al n)"
  by (induction rs rule: rev_induct) (auto simp: update_conv')

lemma find_rev_Some: "find P (rev xs) = Some x \<Longrightarrow> x \<in> set xs \<and> P x"
  by (auto simp: find_Some_iff) (metis length_rev nth_mem set_rev)

lemma find_rev_None: "find P (rev xs) = None \<longleftrightarrow> (\<forall>x \<in> set xs. \<not> P x)"
  by (auto simp: find_None_iff)

lemma by_name_find: "map_of (by_name rs) n = find (\<lambda>r. r_Name r = n) (rev rs)"
  by (simp add: by_name_def map_of_foldl_update split: option.split)

lemma by_name_Some: "map_of (by_name rs) n = Some r \<Longrightarrow> r \<in> set rs \<and> r_Name r = n"
  unfolding by_name_find by (rule find_rev_Some)

lemma by_name_None: "map_of (by_name rs) n = None \<longleftrightarrow> (\<forall>r \<in> set rs. r_Name r \<noteq> n)"
  unfolding by_name_find by (rule find_rev_None)

lemma distinct_by_name: "distinct (map fst (by_name rs))"
proof -
  have "distinct (map fst al) \<Longrightarrow> distinct (map fst (foldl (\<lambda>m r. AList.update (r_Name r) r m) al rs))" for al
    by (induction rs arbitrary: al) (auto simp: distinct_update)
  then show ?thesis by (simp add: by_name_def)
qed

lemma by_name_mem: "(n, r) \<in> set (by_name rs) \<Longrightarrow> r \<in> set rs \<and> r_Name r = n"
  using by_name_Some map_of_is_SomeI [OF distinct_by_name] by blast

section \<open>What a pass may do\<close>

text \<open>The instances the listings of a trace returned, by pool.\<close>

definition listed :: "event list \<Rightarrow> (string \<times> Instance) set" where
  "listed es = {(p, i). \<exists>is. EvList p (Inr is) \<in> set es \<and> i \<in> set is}"

lemma listed_append [simp]: "listed (xs @ ys) = listed xs \<union> listed ys"
  by (auto simp: listed_def)

text \<open>
  \<open>guarded\<close>: an instance is destroyed only when it was listed for the pool, and when GitHub knows
  its runner, only right after GitHub was asked to deregister that runner and did not answer
  that it is busy.
\<close>

definition guarded :: "runners_by_name \<Rightarrow> (string \<times> Instance) set \<Rightarrow> event list \<Rightarrow> bool" where
  "guarded bn L es = (\<forall>xs p ident r ys. es = xs @ EvDestroy p ident r # ys \<longrightarrow>
     (\<exists>i. (p, i) \<in> L \<and> i_ID i = ident \<and>
        (\<forall>rn. map_of bn (i_RunnerName i) = Some rn \<longrightarrow>
           (\<exists>e xs'. xs = xs' @ [EvRemove (r_Repo rn) (r_ID rn) e] \<and> \<not> refused_busy e))))"

text \<open>
  \<open>justified\<close>: a registration is removed only if it is that of a listed instance, an idle
  one this host minted for one of its pools, or one made in the same pass.
\<close>

definition may_remove ::
  "runners_by_name \<Rightarrow> string \<Rightarrow> Pool list \<Rightarrow> (string \<times> Instance) set \<Rightarrow> event set \<Rightarrow> string \<Rightarrow> int \<Rightarrow> bool" where
  "may_remove bn host ps L E repo rid =
     ((\<exists>n rn. (n, rn) \<in> set bn \<and> r_Repo rn = repo \<and> r_ID rn = rid
         \<and> ((\<exists>p i. (p, i) \<in> L \<and> i_RunnerName i = n)
            \<or> (\<not> r_Busy rn \<and> (\<exists>p \<in> set ps. belongsToPool host n (pool_Name p)))))
      \<or> (\<exists>rp n jit. EvJIT rp n (Inr jit) \<in> E \<and> r_Repo (jit_Runner jit) = repo
           \<and> r_ID (jit_Runner jit) = rid))"

definition justified ::
  "runners_by_name \<Rightarrow> string \<Rightarrow> Pool list \<Rightarrow> (string \<times> Instance) set \<Rightarrow> event list \<Rightarrow> bool" where
  "justified bn host ps L es =
     (\<forall>repo rid e. EvRemove repo rid e \<in> set es \<longrightarrow> may_remove bn host ps L (set es) repo rid)"

definition pass_ok ::
  "runners_by_name \<Rightarrow> string \<Rightarrow> Pool list \<Rightarrow> (string \<times> Instance) set \<Rightarrow> event list \<Rightarrow> bool" where
  "pass_ok bn host ps L es = (guarded bn L es \<and> justified bn host ps L es)"

lemma guarded_append: "guarded bn L xs \<Longrightarrow> guarded bn L ys \<Longrightarrow> guarded bn L (xs @ ys)"
proof (unfold guarded_def [of _ _ "xs @ ys"], intro allI impI)
  fix us p ident r vs
  assume x: "guarded bn L xs" and y: "guarded bn L ys"
    and eq: "xs @ ys = us @ EvDestroy p ident r # vs"
  from eq consider (l) vs' where "xs = us @ EvDestroy p ident r # vs'"
    | (r) us' where "us = xs @ us'" "ys = us' @ EvDestroy p ident r # vs"
    by (auto simp: append_eq_append_conv2 Cons_eq_append_conv append_eq_Cons_conv)
  then show "\<exists>i. (p, i) \<in> L \<and> i_ID i = ident \<and> (\<forall>rn. map_of bn (i_RunnerName i) = Some rn \<longrightarrow>
      (\<exists>e us'. us = us' @ [EvRemove (r_Repo rn) (r_ID rn) e] \<and> \<not> refused_busy e))"
  proof cases
    case l
    with x show ?thesis unfolding guarded_def by blast
  next
    case r
    from y [unfolded guarded_def, rule_format, OF r(2)] r(1) show ?thesis by (metis append_assoc)
  qed
qed

lemma may_remove_mono: "may_remove bn host ps L E repo rid \<Longrightarrow> E \<subseteq> F \<Longrightarrow> may_remove bn host ps L F repo rid"
  unfolding may_remove_def by blast

lemma justified_append:
  "justified bn host ps L xs \<Longrightarrow> justified bn host ps L ys \<Longrightarrow> justified bn host ps L (xs @ ys)"
  unfolding justified_def by (metis Un_iff Un_upper1 Un_upper2 may_remove_mono set_append)

lemma pass_ok_nil: "pass_ok bn host ps L []"
  by (simp add: pass_ok_def guarded_def justified_def)

interpretation pass: trace_pred "pass_ok bn host ps L" for bn host ps L
  by unfold_locales (auto simp: pass_ok_def pass_ok_nil [unfolded pass_ok_def]
      intro: guarded_append justified_append)

lemma pass_ok_other:
  "(\<And>p i r. x \<noteq> EvDestroy p i r) \<Longrightarrow> (\<And>repo rid e. x \<noteq> EvRemove repo rid e) \<Longrightarrow> pass_ok bn host ps L [x]"
  by (cases x) (auto simp: pass_ok_def guarded_def justified_def Cons_eq_append_conv)

lemma pass_ok_remove: "may_remove bn host ps L {} repo rid \<Longrightarrow> pass_ok bn host ps L [EvRemove repo rid e]"
  by (auto simp: pass_ok_def guarded_def justified_def Cons_eq_append_conv intro: may_remove_mono)

section \<open>Destroying and reaping\<close>

lemmas run_defs = run_call record_call_def silent_call_def split_beta Let_def

text \<open>The calls of \<open>destroyInstance\<close>: the deregistration first, if there is one to make.\<close>

definition destroy_calls :: "string \<Rightarrow> Instance \<Rightarrow> Runner option \<Rightarrow> event list \<Rightarrow> bool" where
  "destroy_calls p inst r es =
     (case r of
        None \<Rightarrow> (\<exists>d. es = [EvDestroy p (i_ID inst) d])
      | Some rn \<Rightarrow> (\<exists>e. refused_busy e \<and> es = [EvRemove (r_Repo rn) (r_ID rn) e])
          \<or> (\<exists>e d. \<not> refused_busy e
               \<and> es = [EvRemove (r_Repo rn) (r_ID rn) e, EvDestroy p (i_ID inst) d]))"

lemma spec_destroyInstance:
  "spec (destroyInstance (traced X) pool inst bn)
     (\<lambda>_ _ _ es. destroy_calls (pool_Name pool) inst (map_of bn (i_RunnerName inst)) es)"
  by (rule specI, cases "map_of bn (i_RunnerName inst)")
     (auto simp: destroyInstance_def destroy_calls_def run_defs)

lemma destroy_calls_ok:
  assumes "destroy_calls p inst (map_of bn (i_RunnerName inst)) es" "(p, inst) \<in> L"
  shows "pass_ok bn host ps L es"
proof (cases "map_of bn (i_RunnerName inst)")
  case None
  with assms show ?thesis
    by (auto simp: destroy_calls_def pass_ok_def guarded_def justified_def Cons_eq_append_conv)
next
  case (Some rn)
  then have m: "may_remove bn host ps L E (r_Repo rn) (r_ID rn)" for E
    using assms(2) map_of_SomeD [OF Some] unfolding may_remove_def by blast
  with Some assms show ?thesis
    by (fastforce simp: destroy_calls_def pass_ok_def guarded_def justified_def Cons_eq_append_conv)
qed

lemma does_destroyInstance:
  "(pool_Name pool, inst) \<in> L \<Longrightarrow> pass.does bn host ps L (destroyInstance (traced X) pool inst bn)"
  by (rule pass.does_spec, rule spec_weaken [OF spec_destroyInstance]) (rule destroy_calls_ok)

lemma does_reap_instances:
  "(\<And>i. i \<in> set is \<Longrightarrow> (pool_Name pool, i) \<in> L) \<Longrightarrow>
     pass.does bn host ps L (reap_instances (traced X) pool bn is)"
  by (induction "is") (auto intro!: does_destroyInstance)

lemma does_reap_orphan:
  assumes "(n, r) \<in> set bn" "pool \<in> set ps"
  shows "pass.does bn (x_host X) ps L (reap_orphan (traced X) pool is (n, r))"
proof -
  have "may_remove bn (x_host X) ps L {} (r_Repo r) (r_ID r)"
    if "\<not> r_Busy r" "belongsToPool (x_host X) n (pool_Name pool)"
    using assms that unfolding may_remove_def by blast
  then show ?thesis
    by (auto simp: reap_orphan_def intro!: pass.does_record pass_ok_remove)
qed

lemma does_reap:
  assumes "\<And>i. i \<in> set is \<Longrightarrow> (pool_Name pool, i) \<in> L" "pool \<in> set ps"
  shows "pass.does bn (x_host X) ps L (reap (traced X) pool is bn)"
  unfolding reap_def
  by (intro pass.does_bind pass.does_look pass.does_ret does_reap_instances assms(1) pass.does_for_each)
     (use assms(2) in \<open>auto intro!: does_reap_orphan\<close>)

section \<open>Scaling\<close>

lemma idle_scan_mem:
  assumes "(i, t) \<in> set (fst (idle_scan now pool bn live idle))"
  shows "i \<in> set live \<and> t \<ge> pool_IdleTimeout pool
     \<and> (\<exists>rn. map_of bn (i_RunnerName i) = Some rn \<and> \<not> r_Busy rn \<and> Online rn)"
  using assms
  by (induction now pool bn live idle rule: idle_scan.induct)
     (auto simp: Let_def split_beta split: if_splits option.splits)

lemma does_scaleDown:
  assumes "\<And>i. i \<in> set live \<Longrightarrow> (pool_Name pool, i) \<in> L"
  shows "pass.does bn host ps L (scaleDown (traced X) pool live bn n)"
proof -
  have "(pool_Name pool, fst c) \<in> L"
    if "c \<in> set (take k (sort_key f (reorder p (fst (idle_scan now pool bn live idle)))))"
    for c k f p now idle
    using assms idle_scan_mem [of "fst c" "snd c"] set_take_subset that by fastforce
  then show ?thesis
    unfolding scaleDown_def
    by (intro pass.does_bind pass.does_look pass.does_gets pass.does_Let pass.does_prod
          pass.does_modify pass.does_for_each does_destroyInstance) (auto simp: prod_eq_iff)
qed

text \<open>The calls of one launch: a registration that no instance will claim is removed again.\<close>

definition launch_calls :: "string \<Rightarrow> string \<Rightarrow> string \<Rightarrow> string option \<Rightarrow> event list \<Rightarrow> bool" where
  "launch_calls p name repo err es =
     ((\<exists>e. es = [EvJIT repo name (Inl e)] \<and> err = Some (err_text e))
      \<or> (\<exists>jit c. let sp = \<lparr> spec_Pool = p, spec_RunnerName = name,
             spec_RunnerID = r_ID (jit_Runner jit), spec_JITConfig = jit_Encoded jit \<rparr>
           in (\<exists>i. c = Inr i \<and> err = None \<and> es = [EvJIT repo name (Inr jit), EvCreate p sp c])
            \<or> (\<exists>e r. c = Inl e \<and> err = Some e \<and> es = [EvJIT repo name (Inr jit), EvCreate p sp c,
                 EvRemove (r_Repo (jit_Runner jit)) (r_ID (jit_Runner jit)) r])))"

lemma spec_launchOne:
  "spec (launchOne (traced X) pool g repo)
     (\<lambda>s err _ es. launch_calls (pool_Name pool)
        (runnerName (x_host X) (rand_buf (fst (x_rand X (fst (world s))))) (pool_Name pool)) repo err es)"
  by (rule specI) (auto simp: launchOne_def launch_calls_def run_defs split: sum.splits)

lemma launch_calls_ok: "launch_calls p name repo err es \<Longrightarrow> pass_ok bn host ps L es"
  by (auto simp: launch_calls_def Let_def pass_ok_def guarded_def justified_def may_remove_def
      Cons_eq_append_conv)

lemma does_launchOne: "pass.does bn host ps L (launchOne (traced X) pool g repo)"
  by (rule pass.does_spec, rule spec_weaken [OF spec_launchOne]) (rule launch_calls_ok)

lemma does_scaleUp: "pass.does bn host ps L (scaleUp (traced X) cfg pool n jobs)"
  unfolding scaleUp_def
  by (simp, intro pass.does_bind pass.does_silent pass.does_sum pass.does_option pass.does_ret
      pass.does_look pass.does_for_each does_launchOne)

lemma does_applyPool:
  assumes "\<And>i. i \<in> set live \<Longrightarrow> (pool_Name pool, i) \<in> L"
  shows "pass.does bn host ps L (applyPool (traced X) cfg pool live bn demand jobs)"
  unfolding applyPool_def isDrained_def
  by (intro pass.does_bind pass.does_gets pass.does_Let pass.does_look pass.does_if pass.does_ret
      does_scaleUp does_scaleDown assms)

lemma does_apply_pools:
  assumes "\<And>p i. p \<in> set ps' \<Longrightarrow> i \<in> set (live (pool_Name p)) \<Longrightarrow> (pool_Name p, i) \<in> L"
  shows "pass.does bn host ps L (apply_pools (traced X) cfg bn live perr d ps')"
  using assms
  by (induction ps')
     (auto simp del: split_paired_All intro!: pass.does_bind pass.does_Let pass.does_ret does_applyPool)

section \<open>A whole pass\<close>

lemma yields_reap_instances:
  "yields (reap_instances X pool bn is) (\<lambda>live. set live \<subseteq> set is)"
proof (induction "is")
  case (Cons i "is")
  then have sub: "yields (reap_instances X pool bn is) (\<lambda>live. set live \<subseteq> set (i # is))"
    unfolding yields_def by auto
  show ?case
    unfolding reap_instances.simps
    by (rule yields_bind_any, rule yields_if, rule yields_bind_any, rule sub,
        rule yields_bind [OF Cons.IH], rule yields_ret) auto
qed auto

lemma yields_reap: "yields (reap X pool is bn) (\<lambda>live. set live \<subseteq> set is)"
  unfolding reap_def
  by (rule yields_bind [OF yields_reap_instances]) (intro yields_bind_any yields_ret)

text \<open>The live instances an accumulator of \<open>list_pools\<close> holds.\<close>

definition live_in :: "(string \<Rightarrow> Instance list) \<times> (string \<Rightarrow> string) \<Rightarrow> (string \<times> Instance) set" where
  "live_in acc = {(p, i). i \<in> set (fst acc p)}"

lemma live_in_update:
  "set live \<subseteq> set is \<Longrightarrow>
     live_in ((fst acc)(n := live), e) \<subseteq> live_in acc \<union> {(p, i). p = n \<and> i \<in> set is}"
  by (auto simp: live_in_def split: if_splits)

lemma spec_list_pools:
  assumes "set ps' \<subseteq> set ps"
  shows "spec (list_pools (traced X) bn ps' acc)
    (\<lambda>_ acc' _ es. live_in acc' \<subseteq> live_in acc \<union> listed es
       \<and> (listed es \<subseteq> L \<longrightarrow> pass_ok bn (x_host X) ps L es))"
  using assms
proof (induction ps' arbitrary: acc)
  case Nil
  then show ?case by (auto simp: spec_def pass_ok_nil)
next
  case (Cons pool ps')
  let ?n = "pool_Name pool"
  let ?Q = "\<lambda>acc _ acc' _ es. live_in acc' \<subseteq> live_in acc \<union> listed es
       \<and> (listed es \<subseteq> L \<longrightarrow> pass_ok bn (x_host X) ps L es)"
  have IH: "spec (list_pools (traced X) bn ps' acc) (?Q acc)" for acc
    using Cons by simp
  have reap: "spec (reap (traced X) pool is bn) (\<lambda>_ live _ es.
      ((\<lambda>i. (?n, i)) ` set is \<subseteq> L \<longrightarrow> pass_ok bn (x_host X) ps L es) \<and> set live \<subseteq> set is)" for "is"
  proof (cases "(\<lambda>i. (?n, i)) ` set is \<subseteq> L")
    case True
    then have "pass.does bn (x_host X) ps L (reap (traced X) pool is bn)"
      using Cons.prems by (intro does_reap) auto
    then have "spec (reap (traced X) pool is bn) (\<lambda>_ _ _ es. pass_ok bn (x_host X) ps L es)"
      by (simp add: pass.does_def)
    from spec_yields [OF this yields_reap] show ?thesis by (rule spec_weaken) blast
  next
    case False
    have "pass.does bn (x_host X) ps UNIV (reap (traced X) pool is bn)"
      using Cons.prems by (intro does_reap) auto
    then have "spec (reap (traced X) pool is bn) (\<lambda>_ _ _ es. pass_ok bn (x_host X) ps UNIV es)"
      by (simp add: pass.does_def)
    from spec_yields [OF this yields_reap] show ?thesis by (rule spec_weaken) (use False in blast)
  qed
  show ?case
    unfolding list_pools.simps
  proof (rule spec_bind [where Q = "\<lambda>_ r _ es. es = [EvList ?n r]"
        and R = "\<lambda>r _ acc' _ es. case r of Inl e \<Rightarrow> ?Q (fst acc, (snd acc)(?n := e)) () acc' () es
          | Inr is \<Rightarrow> live_in acc' \<subseteq> live_in acc \<union> {(p, i). p = ?n \<and> i \<in> set is} \<union> listed es
              \<and> ((\<lambda>i. (?n, i)) ` set is \<subseteq> L \<and> listed es \<subseteq> L \<longrightarrow> pass_ok bn (x_host X) ps L es)"])
    show "spec (call (pv_List (traced X) ?n)) (\<lambda>_ r _ es. es = [EvList ?n r])"
      by (auto simp: spec_def run_defs)
  next
    fix r
    show "spec (case r of Inl e \<Rightarrow> list_pools (traced X) bn ps' (fst acc, (snd acc)(?n := e))
      | Inr instances \<Rightarrow> State_Monad.bind (reap (traced X) pool instances bn)
          (\<lambda>live. list_pools (traced X) bn ps' ((fst acc)(?n := live), snd acc)))
      (\<lambda>_ acc' _ es. case r of Inl e \<Rightarrow> ?Q (fst acc, (snd acc)(?n := e)) () acc' () es
          | Inr is \<Rightarrow> live_in acc' \<subseteq> live_in acc \<union> {(p, i). p = ?n \<and> i \<in> set is} \<union> listed es
              \<and> ((\<lambda>i. (?n, i)) ` set is \<subseteq> L \<and> listed es \<subseteq> L \<longrightarrow> pass_ok bn (x_host X) ps L es))"
    proof (cases r)
      case (Inl e)
      then show ?thesis using IH by simp
    next
      case (Inr "is")
      show ?thesis
        unfolding Inr sum.case
      proof (rule spec_bind [OF reap IH])
        fix s live s1 es acc' s2 fs
        assume a: "((\<lambda>i. (?n, i)) ` set is \<subseteq> L \<longrightarrow> pass_ok bn (x_host X) ps L es) \<and> set live \<subseteq> set is"
          and b: "?Q ((fst acc)(?n := live), snd acc) s1 acc' s2 fs"
        from live_in_update [of live "is" acc ?n "snd acc"] a b
        have "live_in acc' \<subseteq> live_in acc \<union> {(p, i). p = ?n \<and> i \<in> set is} \<union> listed (es @ fs)"
          unfolding listed_append by blast
        moreover have "pass_ok bn (x_host X) ps L (es @ fs)"
          if "(\<lambda>i. (?n, i)) ` set is \<subseteq> L \<and> listed (es @ fs) \<subseteq> L"
          using that a b unfolding listed_append by (blast intro: pass.app)
        ultimately show "live_in acc' \<subseteq> live_in acc \<union> {(p, i). p = ?n \<and> i \<in> set is} \<union> listed (es @ fs)
              \<and> ((\<lambda>i. (?n, i)) ` set is \<subseteq> L \<and> listed (es @ fs) \<subseteq> L
                   \<longrightarrow> pass_ok bn (x_host X) ps L (es @ fs))" by blast
      qed
    qed
  next
    fix r s1 es s2 acc' fs
    assume "es = [EvList ?n r]" and "case r of Inl e \<Rightarrow> ?Q (fst acc, (snd acc)(?n := e)) () acc' () fs
          | Inr is \<Rightarrow> live_in acc' \<subseteq> live_in acc \<union> {(p, i). p = ?n \<and> i \<in> set is} \<union> listed fs
              \<and> ((\<lambda>i. (?n, i)) ` set is \<subseteq> L \<and> listed fs \<subseteq> L \<longrightarrow> pass_ok bn (x_host X) ps L fs)"
    moreover have "pass_ok bn (x_host X) ps L [EvList ?n r]" by (rule pass_ok_other) auto
    moreover have "listed [EvList ?n r] = (case r of Inl e \<Rightarrow> {} | Inr is \<Rightarrow> {(p, i). p = ?n \<and> i \<in> set is})"
      by (auto simp: listed_def split: sum.splits)
    moreover have "live_in (fst acc, e) = live_in acc" for e by (simp add: live_in_def)
    ultimately show "?Q acc s1 acc' s2 (es @ fs)"
      unfolding listed_append
      by (cases r) (auto intro: pass.app [where xs = "[_]", unfolded append_Cons append_Nil])
  qed
qed

lemma spec_all:
  assumes "\<And>L. spec m (\<lambda>s a s' es. Q L s a s' es)"
  shows "spec m (\<lambda>s a s' es. \<forall>L. Q L s a s' es)"
proof (rule specI)
  fix s
  obtain es where es: "trace (snd (run_state m s)) = trace s @ es"
    using specE [OF assms] by metis
  then have "Q L s (fst (run_state m s)) (snd (run_state m s)) es" for L
    using specE [OF assms, of s L] by (metis same_append_eq)
  with es show "\<exists>es. trace (snd (run_state m s)) = trace s @ es
      \<and> (\<forall>L. Q L s (fst (run_state m s)) (snd (run_state m s)) es)" by blast
qed

lemma does_act:
  assumes "\<And>p i. i \<in> set (live p) \<Longrightarrow> (p, i) \<in> L"
  shows "pass.does bn host ps L (act (traced X) cfg m start repos runners bn live perr jobs e)"
  unfolding act_def
  by (intro pass.does_bind pass.does_gets pass.does_Let pass.does_look does_apply_pools assms
      pass.does_modify) simp_all

lemma does_recordFailure: "pass.does bn host ps L (recordFailure X cfg msg)"
  unfolding recordFailure_def by (rule pass.does_modify) simp

lemma spec_observe:
  "spec (observe (traced X) cfg m start repos runners)
     (\<lambda>_ _ _ es. pass_ok (by_name runners) (x_host X) (pools cfg) (listed es) es)"
proof -
  let ?bn = "by_name runners" and ?ok = "pass_ok (by_name runners) (x_host X) (pools cfg)"
  have first: "spec (list_pools (traced X) ?bn (pools cfg) (\<lambda>_. [], \<lambda>_. []))
     (\<lambda>_ acc _ es. \<forall>L. live_in acc \<subseteq> listed es \<and> (listed es \<subseteq> L \<longrightarrow> ?ok L es))"
    by (rule spec_all, rule spec_weaken [OF spec_list_pools]) (auto simp: live_in_def)
  define rest where "rest acc = State_Monad.bind (call (silent_call (api_PendingJobs X repos 8)))
     (\<lambda>pj. case snd pj of
       None \<Rightarrow> act (traced X) cfg m start repos runners ?bn (fst acc) (snd acc) (fst pj) []
     | Some e \<Rightarrow> (case cause e of
         PartialError fs \<Rightarrow>
           act (traced X) cfg m start repos runners ?bn (fst acc) (snd acc) (fst pj) (err_text (cause e))
       | _ \<Rightarrow> recordFailure (traced X) cfg (''poll jobs: '' @ err_text e)))" for acc
  have obs: "observe (traced X) cfg m start repos runners
      = State_Monad.bind (list_pools (traced X) ?bn (pools cfg) (\<lambda>_. [], \<lambda>_. [])) rest"
    by (simp add: observe_def rest_def [abs_def] Let_def cong: option.case_cong gherr.case_cong)
  have does: "pass.does ?bn (x_host X) (pools cfg) L (rest acc)" if "live_in acc \<subseteq> L" for acc L
    unfolding rest_def using that
    by (intro pass.does_bind pass.does_silent pass.does_option does_act does_recordFailure)
       (auto simp: live_in_def split: gherr.split intro: does_act does_recordFailure)
  have "spec (rest acc) (\<lambda>_ _ _ es. live_in acc \<subseteq> L \<longrightarrow> ?ok L es)" for acc L
    by (rule spec_weaken [OF does [unfolded pass.does_def, of acc "if live_in acc \<subseteq> L then L else UNIV"]])
       auto
  then have "spec (rest acc) (\<lambda>_ _ _ es. \<forall>L. live_in acc \<subseteq> L \<longrightarrow> ?ok L es)" for acc
    by (rule spec_all)
  then show ?thesis
    unfolding obs by (rule spec_bind [OF first]) (auto intro!: pass.app simp: le_supI1)
qed

text \<open>What a whole pass does: nothing, or a listing of the runners and then only guarded calls.\<close>

definition pass_events :: "Config \<Rightarrow> string \<Rightarrow> event list \<Rightarrow> bool" where
  "pass_events cfg host es =
     (es = [] \<or> (\<exists>e. es = [EvRunners (Inl e)])
      \<or> (\<exists>rs es'. es = EvRunners (Inr rs) # es' \<and> pass_ok (by_name rs) host (pools cfg) (listed es') es'))"

lemma pollableRepos_quiet:
  "trace (snd (run_state (pollableRepos (traced X) cfg) s)) = trace s"
  by (auto simp: pollableRepos_def run_defs split: sum.splits)

lemma spec_reconcileOnce:
  "spec (reconcileOnce (traced X) cfg m) (\<lambda>_ _ _ es. pass_events cfg (x_host X) es)"
proof -
  have fail: "spec (recordFailure (traced X) cfg msg) (\<lambda>_ _ _ es. es = [])" for msg
    by (auto simp: spec_def recordFailure_def)
  have poll: "spec (pollableRepos (traced X) cfg) (\<lambda>_ _ _ es. es = [])"
    by (simp add: spec_def pollableRepos_quiet)
  have look: "spec (look f) (\<lambda>_ _ _ es. es = [])" for f :: "'b \<times> event list \<Rightarrow> 'c"
    by (simp add: spec_def)
  have lst: "spec (call (record_call (api_ListRunners X repos) EvRunners)) (\<lambda>_ r _ es. es = [EvRunners r])" for repos
    by (auto simp: spec_def run_defs)
  have runners: "spec (State_Monad.bind (call (record_call (api_ListRunners X repos) EvRunners))
      (\<lambda>lr. case lr of Inl e \<Rightarrow> recordFailure (traced X) cfg (''list runners: '' @ err_text e)
          | Inr runners \<Rightarrow> observe (traced X) cfg m start repos runners))
      (\<lambda>_ _ _ es. pass_events cfg (x_host X) es)" for repos start
    by (rule spec_bind [OF lst, where R = "\<lambda>r _ _ _ es. case r of Inl e \<Rightarrow> es = []
            | Inr rs \<Rightarrow> pass_ok (by_name rs) (x_host X) (pools cfg) (listed es) es"])
       (auto simp: pass_events_def fail spec_observe split: sum.splits)
  have step: "spec (State_Monad.bind mm ff) (\<lambda>_ _ _ es. pass_events cfg (x_host X) es)"
    if "spec mm (\<lambda>_ _ _ es. es = [])" "\<And>a. spec (ff a) (\<lambda>_ _ _ es. pass_events cfg (x_host X) es)"
    for mm :: "('b \<times> event list, 'c) orc" and ff :: "'c \<Rightarrow> ('b \<times> event list, unit) orc"
    by (rule spec_bind [OF that]) simp
  have fail': "spec (recordFailure (traced X) cfg msg) (\<lambda>_ _ _ es. pass_events cfg (x_host X) es)" for msg
    by (rule spec_weaken [OF fail]) (simp add: pass_events_def)
  show ?thesis
    unfolding reconcileOnce_def traced_simps
    by (rule step [OF look], rule step [OF look], split if_split, intro conjI impI fail' step [OF poll],
        split sum.split, intro conjI allI impI fail' runners)
qed

end
