(* ===== verification/OrchProps.thy ===== *)
theory OrchProps
  imports OrchTrace
begin

text \<open>
  The properties of the reconcile loop, and an executable environment to apply them in: a host
  with a clock, the runners GitHub lists, the instances of one provider and the queued jobs.
\<close>

section \<open>An executable environment\<close>

record demo =
  dm_now :: int
  dm_runners :: "Runner list"
  dm_instances :: "Instance list"
  dm_jobs :: "Job list"
  dm_next :: int
  dm_list_fails :: bool
  dm_create_fails :: bool

definition demo_ext :: "demo ext" where
  "demo_ext = \<lparr>
     x_now = dm_now, x_order = (\<lambda>_. []), x_host = ''abc123'', x_kitchen = (\<lambda>_. ''3:04PM''),
     x_rand = (\<lambda>w. ([1, 2, 3, word_of_int (dm_next w)], w)),
     api_RateLimit = (\<lambda>_. no_rate), api_RepoLevel = False,
     api_ListRepos = (\<lambda>f w. (Inr [], w)),
     api_ListRunners = (\<lambda>rs w. (Inr (dm_runners w), w)),
     api_PendingJobs = (\<lambda>rs n w. ((dm_jobs w, None), w)),
     api_RunnerGroupID = (\<lambda>g w. (Inr 1, w)),
     api_GenerateJITConfig = (\<lambda>repo name labels g work w.
        (let r = \<lparr> r_ID = dm_next w, r_Name = name, r_OS = [], r_Status = ''offline'',
                   r_Busy = False, r_Labels = labels, r_Repo = repo \<rparr>
         in (Inr \<lparr> jit_Runner = r, jit_Encoded = ''jit'' \<rparr>,
             w\<lparr>dm_runners := dm_runners w @ [r], dm_next := dm_next w + 1\<rparr>))),
     api_RemoveRunner = (\<lambda>repo i w.
        if list_ex (\<lambda>r. r_ID r = i \<and> r_Busy r) (dm_runners w) then (Some ErrRunnerBusy, w)
        else (None, w\<lparr>dm_runners := filter (\<lambda>r. r_ID r \<noteq> i) (dm_runners w)\<rparr>)),
     api_SweepCache = (\<lambda>n w. ((), w)),
     pv_Preflight = (\<lambda>p w. (None, w)),
     pv_List = (\<lambda>p w. (if dm_list_fails w then Inl ''connection refused'' else Inr (dm_instances w), w)),
     pv_Create = (\<lambda>p sp w.
        if dm_create_fails w then (Inl ''no such image'', w)
        else (let i = \<lparr> i_ID = spec_RunnerName sp, i_Pool = p, i_RunnerName = spec_RunnerName sp,
                        i_RunnerID = spec_RunnerID sp, i_State = StateStarting, i_CreatedAt = dm_now w,
                        i_ExitCode = 0, i_Detail = [] \<rparr>
              in (Inr i, w\<lparr>dm_instances := dm_instances w @ [i]\<rparr>))),
     pv_Destroy = (\<lambda>p i w. (None, w\<lparr>dm_instances := filter (\<lambda>x. i_ID x \<noteq> i) (dm_instances w)\<rparr>)),
     pv_Logs = (\<lambda>p i n w. (Inr [], w)),
     pv_Prune = (\<lambda>p w. (Inr 0, w)) \<rparr>"

definition demo_pool :: "string \<Rightarrow> Pool" where
  "demo_pool n = \<lparr> pool_Name = n, pool_Labels = [''linux''], pool_Provider = ProviderDocker,
     pool_Min = 0, pool_Max = 1, pool_IdleTimeout = 5 * Minute, pool_JobTimeout = 6 * Hour,
     pool_RunnerGroup = [], pool_Docker = None, pool_Process = None \<rparr>"

definition demo_config :: Config where
  "demo_config = empty_config\<lparr>cfg_GitHub := empty_github\<lparr>gh_Org := ''acme''\<rparr>,
     cfg_Pools := [Some (demo_pool ''linux'')]\<rparr>"

definition demo_runner :: "string \<Rightarrow> int \<Rightarrow> bool \<Rightarrow> Runner" where
  "demo_runner n i busy = \<lparr> r_ID = i, r_Name = n, r_OS = ''linux'', r_Status = ''online'',
     r_Busy = busy, r_Labels = [''self-hosted'', ''linux''], r_Repo = [] \<rparr>"

definition demo_instance :: "string \<Rightarrow> int \<Rightarrow> State \<Rightarrow> int \<Rightarrow> Instance" where
  "demo_instance n i st t = \<lparr> i_ID = ''c'' @ n, i_Pool = ''linux'', i_RunnerName = n, i_RunnerID = i,
     i_State = st, i_CreatedAt = t, i_ExitCode = 0, i_Detail = [] \<rparr>"

definition demo_job :: "int \<Rightarrow> Job" where
  "demo_job i = \<lparr> job_ID = i, job_RunID = 1, job_Repo = ''web'', job_Name = ''build'',
     job_Labels = [''self-hosted'', ''linux''], job_Status = ''queued'', job_Started = 0, job_QueuedAt = 0 \<rparr>"

text \<open>A pool with one finished runner, and an orphaned registration of the same host.\<close>

definition runner_a :: string where "runner_a = ''arc-linux-abc123-0000000a''"
definition runner_b :: string where "runner_b = ''arc-linux-abc123-0000000b''"

definition demo_world :: demo where
  "demo_world = \<lparr> dm_now = 100 * Hour,
     dm_runners = [demo_runner runner_a 7 False, demo_runner runner_b 8 False],
     dm_instances = [demo_instance runner_a 7 StateExited (99 * Hour)],
     dm_jobs = [demo_job 1], dm_next = 9, dm_list_fails = False, dm_create_fails = False \<rparr>"

definition demo_orch :: "'w \<Rightarrow> 'w orch" where
  "demo_orch w = \<lparr> world = w, o_snapshot = empty_snapshot, o_repos = [], o_reposFetched = 0,
     o_idleSince = Map.empty, o_drained = (\<lambda>_. False), o_overrides = None \<rparr>"

section \<open>A pass only destroys and deregisters what it may\<close>

text \<open>
  C1. In every pass, whatever GitHub and the providers answer: an instance is destroyed only if
  its provider listed it in this pass, and if GitHub lists a runner of its name, only right
  after GitHub was asked to deregister that runner and did not answer that it is busy; and a
  registration is removed only if it is that of a listed instance, or an idle one whose name
  this host minted for one of its pools, or one made in the same pass. So a runner of another
  host is never deregistered. If the listing of the runners fails, nothing is touched.
\<close>

theorem reconcileOnce_calls:
  "pass_events cfg (x_host X) (events (reconcileOnce (traced X) cfg m) s)"
  by (rule events_spec [OF spec_reconcileOnce])

section \<open>Scaling stays within the limits\<close>

text \<open>How many instances a trace creates, and how many it destroys.\<close>

definition creates :: "event list \<Rightarrow> nat" where
  "creates es = length (filter (\<lambda>e. case e of EvCreate _ _ _ \<Rightarrow> True | _ \<Rightarrow> False) es)"

definition destroys :: "event list \<Rightarrow> nat" where
  "destroys es = length (filter (\<lambda>e. case e of EvDestroy _ _ _ \<Rightarrow> True | _ \<Rightarrow> False) es)"

lemma creates_simps [simp]:
  "creates [] = 0" "creates (xs @ ys) = creates xs + creates ys"
  "creates (EvCreate p sp r # es) = Suc (creates es)" "creates (EvJIT a b j # es) = creates es"
  "creates (EvRemove a i e # es) = creates es" "creates (EvDestroy p k d # es) = creates es"
  by (simp_all add: creates_def)

lemma destroys_simps [simp]:
  "destroys [] = 0" "destroys (xs @ ys) = destroys xs + destroys ys"
  "destroys (EvCreate p sp r # es) = destroys es" "destroys (EvJIT a b j # es) = destroys es"
  "destroys (EvRemove a i e # es) = destroys es" "destroys (EvDestroy p k d # es) = Suc (destroys es)"
  by (simp_all add: destroys_def)

lemma spec_for_each_count:
  assumes "\<And>x. x \<in> set xs \<Longrightarrow> spec (f x) (\<lambda>_ _ _ es. \<mu> es \<le> 1 \<and> \<nu> es = 0)"
    and "\<mu> [] = (0::nat)" "\<And>xs ys. \<mu> (xs @ ys) = \<mu> xs + \<mu> ys"
    and "\<nu> [] = (0::nat)" "\<And>xs ys. \<nu> (xs @ ys) = \<nu> xs + \<nu> ys"
  shows "spec (for_each f xs) (\<lambda>_ _ _ es. \<mu> es \<le> length xs \<and> \<nu> es = 0)"
  using assms(1)
proof (induction xs)
  case Nil
  show ?case using assms(2,4) by (auto simp: spec_def)
next
  case (Cons x xs)
  have h: "spec (f x) (\<lambda>_ _ _ es. \<mu> es \<le> 1 \<and> \<nu> es = 0)" using Cons.prems by simp
  have t: "spec (for_each f xs) (\<lambda>_ _ _ es. \<mu> es \<le> length xs \<and> \<nu> es = 0)"
    using Cons by simp
  show ?case by (simp, rule spec_bind [OF h t]) (auto simp: assms)
qed

lemma spec_then_ret: "spec m (\<lambda>_ _ _ es. Q es) \<Longrightarrow> spec (State_Monad.bind m (\<lambda>_. ret x)) (\<lambda>_ _ _ es. Q es)"
  by (auto simp: spec_def split_beta)

lemma spec_silent: "(\<And>a. spec (f a) (\<lambda>_ _ _ es. Q es)) \<Longrightarrow>
    spec (State_Monad.bind (call (silent_call g)) f) (\<lambda>_ _ _ es. Q es)"
  by (rule spec_bind [where Q = "\<lambda>_ _ _ es. es = []" and R = "\<lambda>_ _ _ _ es. Q es"])
     (auto simp: spec_def run_defs)

lemma spec_quiet:
  assumes "\<And>s. trace (snd (run_state m s)) = trace s" "\<And>a. spec (f a) (\<lambda>_ _ _ es. Q es)"
  shows "spec (State_Monad.bind m f) (\<lambda>_ _ _ es. Q es)"
  using assms unfolding spec_def by (simp add: split_beta) metis

lemma spec_scaleUp_count:
  "spec (scaleUp (traced X) cfg pool n jobs) (\<lambda>_ _ _ es. creates es \<le> nat n \<and> destroys es = 0)"
proof -
  have launch: "spec (State_Monad.bind (launchOne (traced X) pool g repo) (\<lambda>_. ret ()))
      (\<lambda>_ _ _ es. creates es \<le> 1 \<and> destroys es = 0)" for g repo
    by (rule spec_then_ret, rule spec_weaken [OF spec_launchOne]) (auto simp: launch_calls_def Let_def)
  have len: "length repos = nat n" if "target_repos b jobs (nat n) = Some repos" for b repos
    using that by (auto simp: target_repos_def split: if_splits)
  have none: "spec (ret ()) (\<lambda>_ _ _ es. creates es \<le> nat n \<and> destroys es = 0)"
    by (auto simp: spec_def)
  have all: "spec (for_each (\<lambda>repo. State_Monad.bind (launchOne (traced X) pool g repo) (\<lambda>_. ret ()))
       (reorder p repos)) (\<lambda>_ _ _ es. creates es \<le> nat n \<and> destroys es = 0)"
    if "target_repos b jobs (nat n) = Some repos" for b g p repos
    using spec_for_each_count [OF launch, where xs = "reorder p repos"] len [OF that] by simp
  show ?thesis
    unfolding scaleUp_def traced_simps
    by (rule spec_silent, split sum.split, intro conjI allI impI none, split option.split,
        intro conjI allI impI none, rule spec_quiet) (auto intro: all)
qed

lemma spec_scaleDown_count:
  "spec (scaleDown (traced X) pool live bn n) (\<lambda>_ _ _ es. destroys es \<le> nat n \<and> creates es = 0)"
proof -
  have destroy: "spec (destroyInstance (traced X) pool i bn) (\<lambda>_ _ _ es. destroys es \<le> 1 \<and> creates es = 0)" for i
    by (rule spec_weaken [OF spec_destroyInstance]) (auto simp: destroy_calls_def split: option.splits)
  have all: "spec (for_each (\<lambda>c. destroyInstance (traced X) pool (fst c) bn) (take (nat n) cs))
     (\<lambda>_ _ _ es. destroys es \<le> nat n \<and> creates es = 0)" for cs :: "(Instance \<times> int) list"
    by (rule spec_weaken [OF spec_for_each_count [OF destroy]]) auto
  show ?thesis
    unfolding scaleDown_def Let_def split_beta
    by (intro spec_quiet all) simp_all
qed

text \<open>The calls of \<open>applyPool\<close> are those of the decision it carries out.\<close>

definition pool_limits :: "'w orch \<Rightarrow> Pool \<Rightarrow> Limits" where
  "pool_limits s pool = (if o_drained s (pool_Name pool) then \<lparr> lim_Min = 0, lim_Max = 0 \<rparr>
     else limitsFor (o_overrides s) pool)"

definition pool_decision ::
  "'w orch \<Rightarrow> Pool \<Rightarrow> runners_by_name \<Rightarrow> Instance list \<Rightarrow> int \<Rightarrow> Decision" where
  "pool_decision s pool bn live demand = Plan (pool_Name pool) (pool_state bn live)
     (if o_drained s (pool_Name pool) then 0 else demand) (pool_limits s pool)"

lemma applyPool_events:
  "events (applyPool (traced X) cfg pool live bn demand jobs) s =
     (let d = pool_decision s pool bn live demand
      in if dec_Create d > 0 \<and> \<not> o_drained s (pool_Name pool)
         then events (scaleUp (traced X) cfg pool (dec_Create d) jobs) s
         else if dec_Cull d > 0 then events (scaleDown (traced X) pool live bn (dec_Cull d)) s else [])"
  by (simp add: applyPool_def isDrained_def events_def pool_decision_def pool_limits_def Let_def split_beta)

lemma limitsFor_ordered: "lim_Min (limitsFor ov pool) \<le> lim_Max (limitsFor ov pool)"
  by (simp add: limitsFor_def cap_min_def Let_def)

lemma pool_limits_ordered: "lim_Min (pool_limits s pool) \<le> lim_Max (pool_limits s pool)"
  by (simp add: pool_limits_def limitsFor_ordered)

lemma count_class_nonneg [simp]: "0 \<le> count_class bn c live"
  by (simp add: count_class_def)

lemma classify_partition:
  "count_class bn IsBusy live + count_class bn IsIdle live + count_class bn IsStarting live
     = int (length live)"
proof (induction live)
  case (Cons i live)
  then show ?case by (cases "classify bn i") (simp_all add: count_class_def)
qed (simp add: count_class_def)

lemma pool_decision_bounds:
  "dec_Create (pool_decision s pool bn live demand) \<le> max 0 (lim_Max (pool_limits s pool) - int (length live))"
  "dec_Cull (pool_decision s pool bn live demand) \<le> count_class bn IsIdle live"
  "dec_Cull (pool_decision s pool bn live demand) \<le> max 0 (int (length live) - lim_Min (pool_limits s pool))"
  "dec_Create (pool_decision s pool bn live demand) > 0 \<Longrightarrow> dec_Cull (pool_decision s pool bn live demand) = 0"
  using pool_limits_ordered [of s pool]
  by (auto simp: pool_decision_def Plan_def desired_count_def pool_state_def Let_def)

text \<open>
  C2. Acting on a pool stays within its limits, whatever the outcome of the calls: it starts at
  most as many instances as the limits leave room for and none when the pool is drained,
  destroys at most the idle ones, never so many that fewer than the minimum remain, and never
  does both.
\<close>

theorem applyPool_within_limits:
  "let es = events (applyPool (traced X) cfg pool live bn demand jobs) s;
       lm = (if o_drained s (pool_Name pool) then \<lparr> lim_Min = 0, lim_Max = 0 \<rparr>
             else limitsFor (o_overrides s) pool)
   in int (creates es) \<le> max 0 (lim_Max lm - int (length live))
      \<and> int (destroys es) \<le> count_class bn IsIdle live
      \<and> int (length live) - int (destroys es) \<ge> min (int (length live)) (lim_Min lm)
      \<and> (creates es = 0 \<or> destroys es = 0)"
proof -
  let ?d = "pool_decision s pool bn live demand"
  have up: "creates (events (scaleUp (traced X) cfg pool n jobs) s) \<le> nat n"
    "destroys (events (scaleUp (traced X) cfg pool n jobs) s) = 0" for n
    using events_spec [OF spec_scaleUp_count [of X cfg pool n jobs]] by blast+
  have down: "destroys (events (scaleDown (traced X) pool live bn n) s) \<le> nat n"
    "creates (events (scaleDown (traced X) pool live bn n) s) = 0" for n
    using events_spec [OF spec_scaleDown_count [of X pool live bn n]] by blast+
  show ?thesis
    using pool_decision_bounds [of s pool bn live demand] up [of "dec_Create ?d"] down [of "dec_Cull ?d"]
    unfolding applyPool_events Let_def pool_limits_def by auto
qed

section \<open>Launching and culling\<close>

lemma rand_buf_length [simp]: "length (rand_buf bs) = 4"
  by (simp add: rand_buf_def runnerSuffixLen_def)

text \<open>
  A launch never leaks a registration: its calls are exactly a failed registration, or a
  registration and the creation of an instance that carries its name, id and configuration,
  or, when that creation fails, these two followed by the removal of that registration; and
  the name is one this host recognises as its own for the pool.
\<close>

lemma launchOne_no_leak:
  "\<exists>name. belongsToPool (x_host X) name (pool_Name pool)
     \<and> launch_calls (pool_Name pool) name repo
         (fst (run_state (launchOne (traced X) pool g repo) s))
         (events (launchOne (traced X) pool g repo) s)"
proof (intro exI conjI)
  let ?name = "runnerName (x_host X) (rand_buf (fst (x_rand X (fst (world s))))) (pool_Name pool)"
  show "belongsToPool (x_host X) ?name (pool_Name pool)" by (rule belongs_own) simp
  show "launch_calls (pool_Name pool) ?name repo (fst (run_state (launchOne (traced X) pool g repo) s))
         (events (launchOne (traced X) pool g repo) s)"
    by (rule events_spec [OF spec_launchOne])
qed

definition culled_rightly ::
  "int \<Rightarrow> Pool \<Rightarrow> runners_by_name \<Rightarrow> Instance list \<Rightarrow> (string \<rightharpoonup> int) \<Rightarrow> event \<Rightarrow> bool" where
  "culled_rightly now pool bn live idle ev = (case ev of
     EvDestroy p ident _ \<Rightarrow> p = pool_Name pool \<and>
       (\<exists>i \<in> set live. i_ID i = ident
          \<and> (\<exists>rn. map_of bn (i_RunnerName i) = Some rn \<and> \<not> r_Busy rn \<and> Online rn)
          \<and> (\<exists>t. idle (instanceKey (pool_Name pool) (i_RunnerName i)) = Some t
                \<and> since now t \<ge> pool_IdleTimeout pool))
   | EvRemove _ _ _ \<Rightarrow> True
   | _ \<Rightarrow> False)"

lemma idle_scan_clock:
  assumes "(i, d) \<in> set (fst (idle_scan now pool bn live idle))" "0 < pool_IdleTimeout pool"
  shows "\<exists>t. idle (instanceKey (pool_Name pool) (i_RunnerName i)) = Some t \<and> d = since now t"
  using assms
proof (induction now pool bn live idle rule: idle_scan.induct)
  case (2 now pool bn inst rest idle)
  have zero: "since now now = 0" by (simp add: since_def clamp64_def)
  from 2 idle_scan_mem [of i d now pool bn rest] zero show ?case
    by (fastforce simp: Let_def split_beta split: if_splits option.splits)
qed simp

interpretation only: trace_pred "list_all Q" for Q
  by (rule trace_pred_all)



section \<open>Failing passes\<close>

lemma recordFailure_counts:
  "sn_ConsecutiveFailures (o_snapshot (snd (run_state (recordFailure X cfg msg) s)))
     = sn_ConsecutiveFailures (o_snapshot s) + 1"
  "sn_UpdatedAt (o_snapshot (snd (run_state (recordFailure X cfg msg) s))) = Some (x_now X (world s))"
  by (simp_all add: recordFailure_def)

lemma pollableRepos_snapshot:
  "o_snapshot (snd (run_state (pollableRepos X cfg) s)) = o_snapshot s"
  by (auto simp: pollableRepos_def run_call split_beta split: sum.splits)

lemma reconcileOnce_failing:
  assumes "\<And>repos w. isl (fst (api_ListRunners X repos w))"
  shows "sn_ConsecutiveFailures (o_snapshot (snd (run_state (reconcileOnce X cfg m) s)))
           = sn_ConsecutiveFailures (o_snapshot s) + 1
       \<and> sn_UpdatedAt (o_snapshot (snd (run_state (reconcileOnce X cfg m) s))) \<noteq> None"
proof -
  have c: "case_sum f g (fst (api_ListRunners X repos w)) = f (projl (fst (api_ListRunners X repos w)))"
    for f g and repos w
    using assms [of repos w] by (cases "fst (api_ListRunners X repos w)") auto
  have p: "o_snapshot (snd (run_state (pollableRepos X cfg) s)) = o_snapshot s" for s
    by (rule pollableRepos_snapshot)
  show ?thesis
    using p [of s]
    by (cases "fst (run_state (pollableRepos X cfg) s)")
       (simp_all add: reconcileOnce_def split_beta run_call c recordFailure_counts)
qed

text \<open>
  A loop that cannot see the runners is unhealthy: while listing them fails, as it does with
  an expired token, every pass counts as a failure, so from the third pass on the health check
  says so, however recent the last pass is, and with the number of failures.
\<close>

lemma failing_passes_unhealthy:
  assumes "\<And>repos w. isl (fst (api_ListRunners X repos w))" and "3 \<le> n"
    and "0 \<le> sn_ConsecutiveFailures (o_snapshot s)"
  shows "\<exists>msg. Healthy cfg now
           (o_snapshot (((\<lambda>s. snd (run_state (reconcileOnce X cfg m) s)) ^^ n) s))
         = Failing (sn_ConsecutiveFailures (o_snapshot s) + int n) msg"
proof -
  let ?f = "\<lambda>s. snd (run_state (reconcileOnce X cfg m) s)"
  have n: "sn_ConsecutiveFailures (o_snapshot ((?f ^^ k) s)) = sn_ConsecutiveFailures (o_snapshot s) + int k" for k
    by (induction k) (simp_all add: reconcileOnce_failing [OF assms(1)])
  have u: "sn_UpdatedAt (o_snapshot ((?f ^^ n) s)) \<noteq> None"
    using assms(2) reconcileOnce_failing [OF assms(1)] by (cases n) auto
  show ?thesis
    using u n [of n] assms(2,3) by (auto simp: Healthy_def)
qed

definition expired_ext :: "demo ext" where
  "expired_ext = demo_ext\<lparr>api_ListRunners := (\<lambda>_ w. (Inl (APIError 401 ''Bad credentials'' []), w))\<rparr>"

lemma failing_passes_unhealthy_witness:
  "\<exists>msg. Healthy demo_config (100 * Hour)
      (o_snapshot (((\<lambda>s. snd (run_state (reconcileOnce expired_ext demo_config
         (NewPoolMatcher (pools demo_config))) s)) ^^ 3) (demo_orch demo_world)))
    = Failing 3 msg"
  using failing_passes_unhealthy [of expired_ext 3 "demo_orch demo_world" demo_config "100 * Hour"
      "NewPoolMatcher (pools demo_config)"]
  by (simp add: expired_ext_def demo_orch_def empty_snapshot_def)

end
