(* ===== verification/OrchLive.thy ===== *)
theory OrchLive
  imports OrchProps
begin

text \<open>
  What the orchestrator achieves when nothing fails: one pass brings a pool to its target, and in
  personal-account mode every runner it starts is registered on the repository of a queued job.
\<close>

section \<open>A host on which launches succeed\<close>

definition launches_succeed :: "'w ext \<Rightarrow> bool" where
  "launches_succeed X =
     ((\<forall>g w. \<not> isl (fst (api_RunnerGroupID X g w)))
      \<and> (\<forall>repo name labels g work w. \<not> isl (fst (api_GenerateJITConfig X repo name labels g work w)))
      \<and> (\<forall>p sp w. \<not> isl (fst (pv_Create X p sp w))))"

lemma launches_succeedD:
  assumes "launches_succeed X"
  shows "\<exists>i. fst (api_RunnerGroupID X g w) = Inr i"
    and "\<exists>jit. fst (api_GenerateJITConfig X repo name labels k work w) = Inr jit"
    and "\<exists>inst. fst (pv_Create X p sp w) = Inr inst"
  using assms unfolding launches_succeed_def by (metis isl_def sum.exhaust_sel)+

text \<open>The repositories, in order, on which runners were registered and then given an instance.\<close>

fun served :: "event list \<Rightarrow> string list" where
  "served (EvJIT repo name (Inr jit) # EvCreate p sp (Inr i) # es) = repo # served es"
| "served (e # es) = served es"
| "served [] = []"

lemma spec_launchOne_ok:
  fixes X :: "'w ext"
  assumes "launches_succeed X"
  shows "spec (launchOne (traced X) pool g repo)
    (\<lambda>_ _ _ es. \<exists>name jit sp i. es = [EvJIT repo name (Inr jit), EvCreate (pool_Name pool) sp (Inr i)])"
proof (rule specI)
  fix s :: "('w \<times> event list) orch"
  let ?name = "runnerName (x_host X) (rand_buf (fst (x_rand X (fst (world s))))) (pool_Name pool)"
  obtain jit where j: "fst (api_GenerateJITConfig X repo ?name (pool_Labels pool) g ''_work'' (snd (x_rand X (fst (world s))))) = Inr jit"
    using launches_succeedD(2) [OF assms] by blast
  obtain i where i: "fst (pv_Create X (pool_Name pool)
       \<lparr> spec_Pool = pool_Name pool, spec_RunnerName = ?name, spec_RunnerID = r_ID (jit_Runner jit), spec_JITConfig = jit_Encoded jit \<rparr>
       (snd (api_GenerateJITConfig X repo ?name (pool_Labels pool) g ''_work'' (snd (x_rand X (fst (world s))))))) = Inr i"
    using launches_succeedD(3) [OF assms] by blast
  from j i show "\<exists>es. trace (snd (run_state (launchOne (traced X) pool g repo) s)) = trace s @ es
      \<and> (\<exists>name jit sp i. es = [EvJIT repo name (Inr jit), EvCreate (pool_Name pool) sp (Inr i)])"
    by (simp add: launchOne_def run_defs)
qed

lemma spec_launches:
  assumes "launches_succeed X"
  shows "spec (for_each (\<lambda>repo. State_Monad.bind (launchOne (traced X) pool g repo) (\<lambda>_. ret ())) repos)
    (\<lambda>_ _ _ es. served es = repos \<and> creates es = length repos \<and> destroys es = 0)"
proof (induction repos)
  case Nil
  show ?case by (auto simp: spec_def)
next
  case (Cons repo repos)
  have first: "spec (State_Monad.bind (launchOne (traced X) pool g repo) (\<lambda>_. ret ()))
      (\<lambda>_ _ _ es. \<exists>name jit sp i. es = [EvJIT repo name (Inr jit), EvCreate (pool_Name pool) sp (Inr i)])"
    by (rule spec_then_ret [OF spec_launchOne_ok [OF assms]])
  show ?case unfolding for_each.simps by (rule spec_bind [OF first Cons]) auto
qed

lemma spec_scaleUp_ok:
  fixes X :: "'w ext"
  assumes "launches_succeed X" and "target_repos (api_RepoLevel X) jobs (nat n) = Some repos"
  shows "spec (scaleUp (traced X) cfg pool n jobs)
    (\<lambda>_ _ _ es. mset (served es) = mset repos \<and> creates es = nat n \<and> destroys es = 0)"
proof -
  have len: "length repos = nat n" using assms(2) by (auto simp: target_repos_def split: if_splits)
  let ?each = "\<lambda>g p. for_each (\<lambda>repo. State_Monad.bind (launchOne (traced X) pool g repo) (\<lambda>_. ret ())) (reorder p repos)"
  have all: "spec (State_Monad.bind (look (x_order (traced X))) (?each g))
      (\<lambda>_ _ _ es. mset (served es) = mset repos \<and> creates es = nat n \<and> destroys es = 0)" for g
    by (rule spec_quiet, simp, rule spec_weaken [OF spec_launches [OF assms(1)]]) (simp add: len)
  show ?thesis
  proof (rule specI)
    fix s :: "('w \<times> event list) orch"
    obtain g where g: "fst (api_RunnerGroupID X (EffectiveRunnerGroup cfg pool) (fst (world s))) = Inr g"
      using launches_succeedD(1) [OF assms(1)] by blast
    let ?s = "s\<lparr>world := (snd (api_RunnerGroupID X (EffectiveRunnerGroup cfg pool) (fst (world s))), trace s)\<rparr>"
    let ?m = "State_Monad.bind (look (x_order (traced X))) (?each g)"
    have "run_state (scaleUp (traced X) cfg pool n jobs) s = run_state ?m ?s"
      using g assms(2) by (simp add: scaleUp_def run_defs)
    moreover obtain es where "trace (snd (run_state ?m ?s)) = trace ?s @ es"
        "mset (served es) = mset repos \<and> creates es = nat n \<and> destroys es = 0"
      by (rule specE [OF all])
    ultimately show "\<exists>es. trace (snd (run_state (scaleUp (traced X) cfg pool n jobs) s)) = trace s @ es
        \<and> mset (served es) = mset repos \<and> creates es = nat n \<and> destroys es = 0"
      by (intro exI [of _ es]) (simp only:, simp)
  qed
qed

text \<open>A scale-down registers no runner.\<close>

definition registrations :: "event list \<Rightarrow> nat" where
  "registrations es = length (filter (\<lambda>e. case e of EvJIT _ _ _ \<Rightarrow> True | _ \<Rightarrow> False) es)"

lemma registrations_simps [simp]:
  "registrations [] = 0" "registrations (xs @ ys) = registrations xs + registrations ys"
  "registrations (EvRemove a i e # es) = registrations es" "registrations (EvDestroy p k d # es) = registrations es"
  by (simp_all add: registrations_def)

lemma served_none: "registrations es = 0 \<Longrightarrow> served es = []"
proof (induction es)
  case (Cons e es)
  then show ?case by (cases e) (simp_all add: registrations_def)
qed simp

lemma spec_scaleDown_quiet:
  "spec (scaleDown (traced X) pool live bn n) (\<lambda>_ _ _ es. creates es = 0 \<and> served es = [])"
proof -
  have "spec (destroyInstance (traced X) pool i bn) (\<lambda>_ _ _ es. destroys es \<le> 1 \<and> creates es + registrations es = 0)" for i
    by (rule spec_weaken [OF spec_destroyInstance]) (auto simp: destroy_calls_def split: option.splits)
  note all = spec_for_each_count [of _ _ destroys "\<lambda>es. creates es + registrations es", OF this]
  have "spec (for_each (\<lambda>c. destroyInstance (traced X) pool (fst c) bn) cs) (\<lambda>_ _ _ es. creates es = 0 \<and> served es = [])"
    for cs :: "(Instance \<times> int) list"
    by (rule spec_weaken [OF all]) (auto simp: served_none)
  then show ?thesis
    unfolding scaleDown_def Let_def split_beta by (intro spec_quiet) simp_all
qed

section \<open>The target is reached\<close>

lemma pool_target:
  assumes "\<not> o_drained s (pool_Name pool)"
  shows "dec_Desired (pool_decision s pool bn live demand)
      = max (lim_Min (limitsFor (o_overrides s) pool))
          (min (lim_Max (limitsFor (o_overrides s) pool)) (count_class bn IsBusy live + demand))"
    and "max 0 (dec_Create (pool_decision s pool bn live demand))
      = max 0 (dec_Desired (pool_decision s pool bn live demand) - int (length live))"
  using assms limitsFor_ordered [of "o_overrides s" pool]
  by (auto simp: pool_decision_def pool_limits_def Plan_def desired_count_def pool_state_def Let_def)

text \<open>
  C3. When launches succeed, one pass brings a pool that is not drained to its target, the busy
  runners and the queued jobs clamped to the limits (it stays above it only while it has more
  runners already); and for a personal account, whose runners serve one repository each, the
  runners it starts are registered on the repositories of the first queued jobs, one for each.
\<close>

theorem pass_reaches_target:
  assumes "launches_succeed X" and "\<not> o_drained s (pool_Name pool)"
    and "lm = limitsFor (o_overrides s) pool"
    and "api_RepoLevel X \<longrightarrow> lim_Min lm \<le> 0 \<and> demand = int (length jobs)"
    and "es = events (applyPool (traced X) cfg pool live bn demand jobs) s"
  shows "int (length live) + int (creates es)
           = max (int (length live)) (max (lim_Min lm) (min (lim_Max lm) (count_class bn IsBusy live + demand)))
     \<and> (api_RepoLevel X \<longrightarrow> mset (served es) = mset (map job_Repo (take (creates es) jobs)))"
proof -
  let ?d = "pool_decision s pool bn live demand"
  let ?n = "nat (dec_Create ?d)"
  note target = pool_target [OF assms(2), of bn live demand]
  have fits: "?n \<le> length jobs" if "api_RepoLevel X"
  proof -
    have "int (length live) \<ge> count_class bn IsBusy live"
      using classify_partition [of bn live] count_class_nonneg [of bn IsIdle live] count_class_nonneg [of bn IsStarting live]
      by linarith
    then show ?thesis using target that assms(3,4) by auto
  qed
  show ?thesis
  proof (cases "dec_Create ?d > 0")
    case True
    have "\<exists>repos. target_repos (api_RepoLevel X) jobs ?n = Some repos
        \<and> (api_RepoLevel X \<longrightarrow> repos = map job_Repo (take ?n jobs))"
      using fits True by (auto simp: target_repos_def intro!: nth_equalityI)
    then obtain repos where r: "target_repos (api_RepoLevel X) jobs ?n = Some repos"
      "api_RepoLevel X \<longrightarrow> repos = map job_Repo (take ?n jobs)" by blast
    have "es = events (scaleUp (traced X) cfg pool (dec_Create ?d) jobs) s"
      using True assms(2) unfolding assms(5) applyPool_events by (simp add: Let_def)
    then have "mset (served es) = mset repos" "creates es = ?n"
      using events_spec [OF spec_scaleUp_ok [OF assms(1) r(1)], of cfg pool s] by simp_all
    moreover have "dec_Create ?d = dec_Desired ?d - int (length live)" using target(2) True by (auto simp: max_def split: if_splits)
    ultimately have "int (length live) + int (creates es) = max (int (length live)) (dec_Desired ?d)" using True by linarith
    then show ?thesis
      using r(2) \<open>mset (served es) = mset repos\<close> \<open>creates es = ?n\<close> unfolding target(1) assms(3) by simp
  next
    case False
    then have "es = (if dec_Cull ?d > 0 then events (scaleDown (traced X) pool live bn (dec_Cull ?d)) s else [])"
      unfolding assms(5) applyPool_events by (simp add: Let_def)
    then have "creates es = 0" "served es = []"
      using events_spec [OF spec_scaleDown_quiet [of X pool live bn "dec_Cull ?d"], of s] by (auto split: if_splits)
    moreover have "dec_Desired ?d \<le> int (length live)" using target(2) False by (auto simp: max_def split: if_splits)
    ultimately show ?thesis unfolding target(1) assms(3) by simp
  qed
qed

definition ready_ext :: "demo ext" where
  "ready_ext = demo_ext\<lparr>api_RepoLevel := True,
     pv_Create := (\<lambda>p sp w. (Inr (demo_instance (spec_RunnerName sp) (spec_RunnerID sp) StateStarting (dm_now w)), w))\<rparr>"

theorem pass_reaches_target_witness:
  "let es = events (applyPool (traced ready_ext) demo_config (demo_pool ''linux'') [] [] 2 [demo_job 1, demo_job 2])
      (demo_orch (demo_world, []))
   in creates es = 1 \<and> mset (served es) = {#''web''#}"
proof -
  have "launches_succeed ready_ext"
    by (simp add: launches_succeed_def ready_ext_def demo_ext_def Let_def)
  moreover have "limitsFor None (demo_pool ''linux'') = \<lparr> lim_Min = 0, lim_Max = 1 \<rparr>"
    by (simp add: limitsFor_def cap_min_def demo_pool_def)
  moreover have "count_class [] IsBusy [] = 0" by (simp add: count_class_def)
  ultimately show ?thesis
    using pass_reaches_target [OF _ _ refl _ refl, where X = ready_ext and s = "demo_orch (demo_world, [])"
        and pool = "demo_pool ''linux''" and demand = 2 and jobs = "[demo_job 1, demo_job 2]" and cfg = demo_config
        and live = "[]" and bn = "[]"]
    by (auto simp: demo_orch_def ready_ext_def demo_job_def Let_def)
qed

end
