(* ===== verification/LoopProps.thy ===== *)
theory LoopProps
  imports OrchProps
begin

text \<open>
  The loop's wake-ups, the discount for runners of other hosts, the cached list of
  repositories, and what modelling the pass showed about failed listings and job timeouts.
\<close>

section \<open>Wake-ups\<close>

text \<open>\<open>pending\<close> counts the values the loop can still take from its wake-up channel and its ticker.\<close>

definition pending :: "'w loop \<Rightarrow> nat" where
  "pending l = of_bool (lp_poke l) + of_bool (lp_tick l)"

lemma run_step_pending:
  assumes "run_step X cfg m l e l'"
  shows "of_bool (e = EvStart) + pending l' \<le> pending l + of_bool (e = EvPoke) + of_bool (e = EvTick)"
  using assms by (cases rule: run_step.cases) (auto simp: pending_def Poke_def)

lemma run_steps_pending:
  assumes "run_steps X cfg m l es l'"
  shows "count_list es EvStart + pending l' \<le> pending l + count_list es EvPoke + count_list es EvTick"
  using assms
proof (induction rule: run_steps.induct)
  case (more l es l' e l'')
  from run_step_pending [OF more.hyps(2)] more.IH show ?case
    by (auto split: if_splits)
qed simp

lemma run_step_keeps_poke:
  "run_step X cfg m l e l' \<Longrightarrow> lp_poke l \<Longrightarrow> e \<noteq> EvStart \<Longrightarrow> lp_poke l'"
  by (induction rule: run_step.induct) (auto simp: Poke_def)

lemma run_steps_split:
  assumes "run_steps X cfg m l es l'"
  shows "es = xs @ ys \<Longrightarrow> \<exists>k. run_steps X cfg m l xs k \<and> run_steps X cfg m k ys l'"
  using assms
proof (induction arbitrary: ys rule: run_steps.induct)
  case (none l)
  then show ?case by (auto intro: run_steps.none)
next
  case (more l es l' e l'')
  show ?case
  proof (cases ys rule: rev_cases)
    case Nil
    with more show ?thesis by (auto intro: run_steps.intros)
  next
    case (snoc zs z)
    with more.prems have "es = xs @ zs" "e = z" by auto
    with more.IH [of zs] more.hyps(2) snoc show ?thesis by (auto intro: run_steps.more)
  qed
qed

lemma run_steps_keeps_poke:
  "run_steps X cfg m l es l' \<Longrightarrow> lp_poke l \<Longrightarrow> EvStart \<notin> set es \<Longrightarrow> lp_poke l'"
  by (induction rule: run_steps.induct) (auto dest: run_step_keeps_poke)

lemma run_steps_single: "run_steps X cfg m l [e] l' \<Longrightarrow> run_step X cfg m l e l'"
  by (erule run_steps.cases) (auto elim: run_steps.cases)

text \<open>
  C19. A wake-up is never lost and never queues: however passes, housekeeping, ticks and further
  wake-ups interleave, after a wake-up either a pass has started since or the wake-up is still
  pending, so that the loop takes it before it can wait; and the passes that ever start are at
  most as many as the wake-ups and ticks.
\<close>

theorem poke_not_lost:
  assumes "run_steps X cfg m l (es @ EvPoke # fs) l'"
  shows "(EvStart \<in> set fs \<or> lp_poke l')
    \<and> count_list (es @ EvPoke # fs) EvStart
        \<le> count_list (es @ EvPoke # fs) EvPoke + count_list (es @ EvPoke # fs) EvTick + pending l"
proof
  from run_steps_split [OF assms, of es "EvPoke # fs"] obtain k
    where "run_steps X cfg m k ([EvPoke] @ fs) l'" by auto
  from run_steps_split [OF this refl] obtain k' where
    k: "run_steps X cfg m k [EvPoke] k'" and f: "run_steps X cfg m k' fs l'" by auto
  have "lp_poke k'" using run_steps_single [OF k] by (cases rule: run_step_pokeE) (auto simp: Poke_def)
  with f show "EvStart \<in> set fs \<or> lp_poke l'" by (blast dest: run_steps_keeps_poke)
  show "count_list (es @ EvPoke # fs) EvStart
        \<le> count_list (es @ EvPoke # fs) EvPoke + count_list (es @ EvPoke # fs) EvTick + pending l"
    using run_steps_pending [OF assms] by simp
qed

theorem poke_not_lost_witness:
  "\<exists>l'. run_steps demo_ext demo_config (NewPoolMatcher (pools demo_config))
          (start_loop (demo_orch demo_world)) [EvTick, EvPoke, EvPoke] l' \<and> lp_poke l'"
proof -
  let ?l = "start_loop (demo_orch demo_world)" and ?m = "NewPoolMatcher (pools demo_config)"
  let ?k = "?l\<lparr>lp_tick := True\<rparr>"
  have "run_step demo_ext demo_config ?m ?l EvTick ?k"
    by (rule run_step.tick) (simp add: start_loop_def)
  from run_steps.more [OF run_steps.more [OF run_steps.none this] run_step.poke]
  have "run_steps demo_ext demo_config ?m ?l (([] @ [EvTick]) @ [EvPoke]) (Poke ?k)" .
  then have "run_steps demo_ext demo_config ?m ?l ([EvTick] @ EvPoke # [EvPoke]) (Poke (Poke ?k))"
    using run_steps.more [OF _ run_step.poke] by fastforce
  from this poke_not_lost [OF this] show ?thesis by auto
qed

section \<open>Runners of other hosts\<close>

lemma take_slot_Some:
  "take_slot free j = Some free' \<Longrightarrow>
     length free = Suc (length free') \<and> set free' \<subseteq> set free \<and> (\<exists>s \<in> set free. covers s j)"
  by (induction free arbitrary: free') (auto split: if_splits)

lemma discount_jobs_props:
  "discount_jobs free jobs = (free', remaining) \<Longrightarrow>
     length jobs + length free' = length remaining + length free \<and> subseq remaining jobs
     \<and> set free' \<subseteq> set free
     \<and> (\<forall>j \<in> set jobs. j \<in> set remaining \<or> (\<exists>s \<in> set free. covers s j))"
proof (induction free jobs arbitrary: free' remaining rule: discount_jobs.induct)
  case (2 free j jobs)
  show ?case
  proof (cases "take_slot free j")
    case (Some free1)
    with 2(3) have "discount_jobs free1 jobs = (free', remaining)" by simp
    note r = 2(2) [OF Some this] take_slot_Some [OF Some]
    then have "\<forall>x \<in> set (j # jobs). x \<in> set remaining \<or> (\<exists>s \<in> set free. covers s x)"
      by (simp, blast)
    with r show ?thesis by auto
  next
    case None
    then obtain rem1 where "discount_jobs free jobs = (free', rem1)" "remaining = j # rem1"
      using 2(3) by (auto simp: split_beta Let_def prod_eq_iff)
    with 2(1) [OF None this(1)] show ?thesis by auto
  qed
qed auto

text \<open>The number of jobs a demand counts over a set of pool names.\<close>

definition total_jobs :: "string set \<Rightarrow> Demand \<Rightarrow> nat" where
  "total_jobs N d = (\<Sum>n \<in> N. length (Jobs d n))"

lemma total_jobs_set:
  assumes "finite N" "n \<in> N"
  shows "total_jobs N (set_jobs n js d) + length (Jobs d n) = total_jobs N d + length js"
  using sum.remove [OF assms, of "\<lambda>k. length (Jobs d k)"]
    sum.remove [OF assms, of "\<lambda>k. length (Jobs (set_jobs n js d) k)"]
  by (simp add: total_jobs_def set_jobs_def)

definition discounted :: "slot list \<Rightarrow> Demand \<Rightarrow> Demand \<Rightarrow> bool" where
  "discounted free d d' =
     (\<forall>n. subseq (Jobs d' n) (Jobs d n) \<and> ByPool d' n = int (length (Jobs d' n))
        \<and> list_all (\<lambda>j. j \<in> set (Jobs d' n) \<or> list_ex (\<lambda>s. covers s j) free) (Jobs d n))"

lemma discount_pools_props:
  assumes "finite N" "pool_Name ` set ps \<subseteq> N" "\<And>n. ByPool d n = int (length (Jobs d n))"
  shows "discounted free d (discount_pools free ps d)
     \<and> Unassigned (discount_pools free ps d) = Unassigned d
     \<and> total_jobs N d \<le> total_jobs N (discount_pools free ps d) + length free"
  using assms(2,3)
proof (induction ps arbitrary: free d)
  case Nil
  then show ?case by (simp add: discounted_def list_all_iff)
next
  case (Cons p ps)
  obtain free' remaining where fr: "discount_jobs free (Jobs d (pool_Name p)) = (free', remaining)"
    by fastforce
  note one = discount_jobs_props [OF fr]
  let ?d = "set_jobs (pool_Name p) remaining d"
  have "\<And>n. ByPool ?d n = int (length (Jobs ?d n))" using Cons.prems by (simp add: set_jobs_def)
  with Cons.IH [of ?d free'] Cons.prems
  have IH: "discounted free' ?d (discount_pools free' ps ?d)"
    "Unassigned (discount_pools free' ps ?d) = Unassigned d"
    "total_jobs N ?d \<le> total_jobs N (discount_pools free' ps ?d) + length free'"
    by (simp_all add: set_jobs_def)
  have "discounted free d (discount_pools free' ps ?d)"
    unfolding discounted_def
  proof (intro allI conjI)
    fix n
    have Jn: "Jobs ?d n = (if n = pool_Name p then remaining else Jobs d n)" by (simp add: set_jobs_def)
    show "subseq (Jobs (discount_pools free' ps ?d) n) (Jobs d n)"
      using IH(1) one Jn by (auto simp: discounted_def intro: subseq_order.trans split: if_splits)
    show "ByPool (discount_pools free' ps ?d) n = int (length (Jobs (discount_pools free' ps ?d) n))"
      using IH(1) by (simp add: discounted_def)
    show "list_all (\<lambda>j. j \<in> set (Jobs (discount_pools free' ps ?d) n) \<or> list_ex (\<lambda>s. covers s j) free)
            (Jobs d n)"
    proof (unfold list_all_iff, intro ballI)
      fix j assume j: "j \<in> set (Jobs d n)"
      consider "j \<in> set (Jobs ?d n)" | "\<exists>s \<in> set free. covers s j"
        using one j Jn by (cases "n = pool_Name p") auto
      then show "j \<in> set (Jobs (discount_pools free' ps ?d) n) \<or> list_ex (\<lambda>s. covers s j) free"
      proof cases
        case 1
        with IH(1) have "j \<in> set (Jobs (discount_pools free' ps ?d) n) \<or> (\<exists>s \<in> set free'. covers s j)"
          unfolding discounted_def list_all_iff list_ex_iff by blast
        with one show ?thesis unfolding list_ex_iff by blast
      qed (simp add: list_ex_iff)
    qed
  qed
  moreover have "total_jobs N d \<le> total_jobs N (discount_pools free' ps ?d) + length free"
    using IH(3) one total_jobs_set [of N "pool_Name p" remaining d] assms(1) Cons.prems(1) by simp
  ultimately show ?case using IH(2) fr by simp
qed



section \<open>Failed listings and timed-out jobs\<close>

text \<open>
  When the provider of a pool cannot be listed, the pass records the error but goes on to
  decide for the pool as if it had no instance at all: it asks for new ones up to the maximum,
  on top of those that may be running.
\<close>

lemma failed_listing_counts_as_empty:
  assumes "fst (pv_List X (pool_Name pool) (world s)) = Inl e"
    and "\<not> o_drained s (pool_Name pool)"
  shows "case fst (run_state (list_pools X bn [pool] (\<lambda>_. [], \<lambda>_. [])) s) of (live, err) \<Rightarrow>
      err (pool_Name pool) = e
      \<and> dec_Create (pool_decision s pool bn (live (pool_Name pool)) demand)
          = max 0 (max (lim_Min (limitsFor (o_overrides s) pool))
                       (min demand (lim_Max (limitsFor (o_overrides s) pool))))"
  using assms limitsFor_ordered [of "o_overrides s" pool]
  by (auto simp: run_call pool_decision_def pool_limits_def Plan_def desired_count_def
      pool_state_def count_class_def Let_def)

definition unreachable_world :: demo where
  "unreachable_world = demo_world\<lparr>dm_list_fails := True\<rparr>"

lemma failed_listing_counts_as_empty_witness:
  "case fst (run_state (list_pools demo_ext [] [demo_pool ''linux''] (\<lambda>_. [], \<lambda>_. [])) (demo_orch unreachable_world)) of
     (live, err) \<Rightarrow> err ''linux'' = ''connection refused''
       \<and> dec_Create (pool_decision (demo_orch unreachable_world) (demo_pool ''linux'') [] (live ''linux'') 3) = 1"
  using failed_listing_counts_as_empty [of demo_ext "demo_pool ''linux''" "demo_orch unreachable_world"
      "''connection refused''" "[]" 3]
  by (simp add: demo_pool_def demo_ext_def demo_orch_def unreachable_world_def limitsFor_def cap_min_def)

text \<open>
  The job timeout does not end a job: for a running instance older than \<open>job_timeout\<close> whose
  runner GitHub refuses to deregister because it is busy, the pass makes no call beyond that
  request, so the instance goes on; yet it is no longer counted as live.
\<close>

lemma job_timeout_spares_busy:
  assumes "i_State inst = StateRunning"
    and "Age (x_now X (fst (world s))) inst > pool_JobTimeout pool"
    and "map_of bn (i_RunnerName inst) = Some rn"
    and "fst (api_RemoveRunner X (r_Repo rn) (r_ID rn) (fst (world s))) = Some e" and "cause e = ErrRunnerBusy"
  shows "fst (run_state (reap_instances (traced X) pool bn [inst]) s) = []
    \<and> events (reap_instances (traced X) pool bn [inst]) s
        = [EvRemove (r_Repo rn) (r_ID rn) (Some e)]"
  using assms by (simp add: destroyInstance_def events_def run_defs refused_busy_def)

lemma job_timeout_spares_busy_witness:
  "fst (run_state (reap_instances (traced demo_ext) (demo_pool ''linux'')
        [(runner_a, demo_runner runner_a 7 True)] [demo_instance runner_a 7 StateRunning 0])
      (demo_orch (demo_world\<lparr>dm_runners := [demo_runner runner_a 7 True]\<rparr>, []))) = []"
  using job_timeout_spares_busy [where X = demo_ext and inst = "demo_instance runner_a 7 StateRunning 0"
      and s = "demo_orch (demo_world\<lparr>dm_runners := [demo_runner runner_a 7 True]\<rparr>, [])"
      and pool = "demo_pool ''linux''" and bn = "[(runner_a, demo_runner runner_a 7 True)]"
      and rn = "demo_runner runner_a 7 True" and e = ErrRunnerBusy]
  by (simp add: demo_instance_def demo_ext_def demo_orch_def demo_world_def demo_pool_def
      demo_runner_def Age_def since_def clamp64_def duration_defs)

end
