(* ===== verification/Launch.thy ===== *)
theory Launch
  imports OrchProps
begin

text \<open>
  The concurrent part of \<open>scaleUp\<close> (\<open>internal/orchestrator/orchestrator.go\<close>): one goroutine per
  runner, of which at most \<open>maxCreateConcurrency\<close> hold the semaphore, their calls interleaved in
  any order. The sequential \<open>scaleUp\<close> of the pass is one of these executions.
\<close>

section \<open>Goroutines\<close>

definition maxCreateConcurrency :: nat where "maxCreateConcurrency = 4"

text \<open>Where a goroutine is: before \<open>sem <-\<close>, and then between the calls of \<open>launchOne\<close>.\<close>

datatype phase =
    Blocked string
  | Registering string
  | Creating string JITConfig
  | Cleaning JITConfig string
  | Finished "string option"

fun holds_semaphore :: "phase \<Rightarrow> bool" where
  "holds_semaphore (Registering _) = True"
| "holds_semaphore (Creating _ _) = True"
| "holds_semaphore (Cleaning _ _) = True"
| "holds_semaphore _ = False"

definition active :: "phase list \<Rightarrow> nat" where
  "active gs = length (filter holds_semaphore gs)"

text \<open>One call of a goroutine that holds the semaphore: its next phase and the world after it.\<close>

fun advance :: "'w ext \<Rightarrow> Pool \<Rightarrow> int \<Rightarrow> phase \<Rightarrow> 'w \<Rightarrow> phase \<times> 'w" where
  "advance X pool g (Registering repo) w =
     (let (bs, w1) = x_rand X w;
          name = runnerName (x_host X) (rand_buf bs) (pool_Name pool);
          (j, w2) = api_GenerateJITConfig X repo name (pool_Labels pool) g ''_work'' w1
      in (case j of Inl e \<Rightarrow> Finished (Some (err_text e)) | Inr jit \<Rightarrow> Creating name jit, w2))"
| "advance X pool g (Creating name jit) w =
     (let (c, w1) = pv_Create X (pool_Name pool)
            \<lparr> spec_Pool = pool_Name pool, spec_RunnerName = name,
              spec_RunnerID = r_ID (jit_Runner jit), spec_JITConfig = jit_Encoded jit \<rparr> w
      in (case c of Inl e \<Rightarrow> Cleaning jit e | Inr inst \<Rightarrow> Finished None, w1))"
| "advance X pool g (Cleaning jit e) w =
     (let (r, w1) = api_RemoveRunner X (r_Repo (jit_Runner jit)) (r_ID (jit_Runner jit)) w
      in (Finished (Some e), w1))"
| "advance X pool g p w = (p, w)"

inductive launch_step ::
  "'w ext \<Rightarrow> Pool \<Rightarrow> int \<Rightarrow> 'w \<times> phase list \<Rightarrow> 'w \<times> phase list \<Rightarrow> bool" for X pool g where
  acquire: "i < length gs \<Longrightarrow> gs ! i = Blocked repo \<Longrightarrow> active gs < maxCreateConcurrency \<Longrightarrow>
    launch_step X pool g (w, gs) (w, gs[i := Registering repo])"
| work: "i < length gs \<Longrightarrow> holds_semaphore (gs ! i) \<Longrightarrow> advance X pool g (gs ! i) w = (p, w') \<Longrightarrow>
    launch_step X pool g (w, gs) (w', gs[i := p])"

inductive_cases launch_stepE: "launch_step X pool g (w, gs) c"

definition finished :: "phase list \<Rightarrow> bool" where
  "finished gs = list_all (\<lambda>p. case p of Finished _ \<Rightarrow> True | _ \<Rightarrow> False) gs"

definition start_all :: "string list \<Rightarrow> phase list" where
  "start_all repos = map Blocked repos"

section \<open>The semaphore\<close>

lemma active_update:
  assumes "i < length gs"
  shows "active (gs[i := p]) + of_bool (holds_semaphore (gs ! i)) = active gs + of_bool (holds_semaphore p)"
  using assms
proof (induction gs arbitrary: i)
  case (Cons x gs)
  then show ?case by (cases i) (auto simp: active_def)
qed simp

lemma active_le: "i < length gs \<Longrightarrow> holds_semaphore (gs ! i) \<Longrightarrow> 0 < active gs"
  by (auto simp: active_def filter_empty_conv)

lemma launch_step_active:
  assumes "launch_step X pool g (w, gs) (w', gs')" "active gs \<le> maxCreateConcurrency"
  shows "active gs' \<le> maxCreateConcurrency"
  using assms
proof (cases rule: launch_step.cases)
  case (acquire i repo)
  then show ?thesis using active_update [of i gs "Registering repo"] by simp
next
  case (work i p)
  then show ?thesis using active_update [of i gs p] assms(2) by (auto simp: of_bool_def split: if_splits)
qed

text \<open>How many steps a goroutine has left at most.\<close>

fun steps_left :: "phase \<Rightarrow> nat" where
  "steps_left (Blocked _) = 4"
| "steps_left (Registering _) = 3"
| "steps_left (Creating _ _) = 2"
| "steps_left (Cleaning _ _) = 1"
| "steps_left (Finished _) = 0"

lemma advance_steps_left:
  "holds_semaphore p \<Longrightarrow> steps_left (fst (advance X pool g p w)) < steps_left p"
  by (cases p) (auto simp: split_beta Let_def split: sum.split)

lemma sum_list_update_less:
  "i < length gs \<Longrightarrow> f p < f (gs ! i) \<Longrightarrow> sum_list (map f (gs[i := p])) < (sum_list (map f gs) :: nat)"
proof (induction gs arbitrary: i)
  case (Cons x gs)
  then show ?case by (cases i) auto
qed simp

lemma launch_step_decreases:
  "launch_step X pool g (w, gs) (w', gs') \<Longrightarrow>
     sum_list (map steps_left gs') < sum_list (map steps_left gs)"
  by (erule launch_step.cases)
     (auto intro!: sum_list_update_less dest: advance_steps_left [of _ X pool g] simp: prod_eq_iff)

lemma launch_progress:
  assumes "\<not> finished gs"
  shows "\<exists>c. launch_step X pool g (w, gs) c"
proof (cases "active gs = 0")
  case True
  from assms obtain i where i: "i < length gs" "\<not> (case gs ! i of Finished _ \<Rightarrow> True | _ \<Rightarrow> False)"
    by (auto simp: finished_def list_all_length)
  have "\<not> holds_semaphore (gs ! i)" using active_le [of i gs] i True by auto
  with i obtain repo where "gs ! i = Blocked repo" by (cases "gs ! i") auto
  from launch_step.acquire [OF i(1) this, of X pool g w] True show ?thesis
    by (simp add: maxCreateConcurrency_def) blast
next
  case False
  then obtain i where i: "i < length gs" "holds_semaphore (gs ! i)"
    by (auto simp: active_def filter_empty_conv in_set_conv_nth)
  from launch_step.work [OF i, of X pool g w] show ?thesis by (metis prod.exhaust)
qed

text \<open>
  C23. Launching is bounded and terminates: along every interleaving, at most
  \<open>maxCreateConcurrency\<close> launches are in progress at a time, no more steps are taken than four
  for each runner, and an execution only comes to rest when every launch has finished (no
  goroutine waits for the semaphore for ever).
\<close>

theorem launch_bounded:
  assumes "(launch_step X pool g ^^ k) (w, start_all repos) (w', gs)"
  shows "active gs \<le> maxCreateConcurrency \<and> k \<le> 4 * length repos
     \<and> (finished gs \<or> (\<exists>c. launch_step X pool g (w', gs) c))"
proof (intro conjI)
  have *: "active gs \<le> maxCreateConcurrency
       \<and> k + sum_list (map steps_left gs) \<le> sum_list (map steps_left (start_all repos))"
    using assms
  proof (induction k arbitrary: w' gs)
    case 0
    then show ?case by (auto simp: start_all_def active_def filter_empty_conv)
  next
    case (Suc k)
    then obtain v hs where "(launch_step X pool g ^^ k) (w, start_all repos) (v, hs)"
      and step: "launch_step X pool g (v, hs) (w', gs)" by auto
    with Suc.IH launch_step_active [OF step] launch_step_decreases [OF step] show ?case by fastforce
  qed
  then show "active gs \<le> maxCreateConcurrency" by simp
  have "sum_list (map steps_left (start_all repos)) = 4 * length repos"
    by (induction repos) (auto simp: start_all_def)
  with * show "k \<le> 4 * length repos" by simp
  show "finished gs \<or> (\<exists>c. launch_step X pool g (w', gs) c)"
    using launch_progress [of gs X pool g w'] by (cases "finished gs") simp_all
qed

theorem launch_bounded_witness:
  "\<exists>gs. (launch_step demo_ext (demo_pool ''linux'') 1 ^^ 1) (demo_world, start_all [''web'', ''api'']) (demo_world, gs)
     \<and> active gs = 1 \<and> (finished gs \<or> (\<exists>c. launch_step demo_ext (demo_pool ''linux'') 1 (demo_world, gs) c))"
proof -
  have s: "(launch_step demo_ext (demo_pool ''linux'') 1 ^^ 1) (demo_world, start_all [''web'', ''api''])
      (demo_world, [Registering ''web'', Blocked ''api''])"
    using launch_step.acquire [of 0 "start_all [''web'', ''api'']" "''web''" demo_ext "demo_pool ''linux''" 1 demo_world]
    by (simp add: start_all_def active_def maxCreateConcurrency_def relcompp_apply)
  moreover have "active [Registering ''web'', Blocked ''api''] = 1" by (simp add: active_def)
  ultimately show ?thesis using launch_bounded [OF s] by blast
qed

section \<open>No registration is leaked\<close>

text \<open>The runner ids a trace registers, gives to an instance, and removes.\<close>

definition registered_ids :: "event list \<Rightarrow> int multiset" where
  "registered_ids es = mset (List.map_filter
     (\<lambda>e. case e of EvJIT _ _ (Inr jit) \<Rightarrow> Some (r_ID (jit_Runner jit)) | _ \<Rightarrow> None) es)"

definition claimed_ids :: "event list \<Rightarrow> int multiset" where
  "claimed_ids es = mset (List.map_filter
     (\<lambda>e. case e of EvCreate _ sp (Inr _) \<Rightarrow> Some (spec_RunnerID sp) | _ \<Rightarrow> None) es)"

definition removed_ids :: "event list \<Rightarrow> int multiset" where
  "removed_ids es = mset (List.map_filter
     (\<lambda>e. case e of EvRemove _ rid _ \<Rightarrow> Some rid | _ \<Rightarrow> None) es)"

text \<open>The ids whose fate a goroutine still has to decide.\<close>

fun in_flight :: "phase \<Rightarrow> int multiset" where
  "in_flight (Creating _ jit) = {# r_ID (jit_Runner jit) #}"
| "in_flight (Cleaning jit _) = {# r_ID (jit_Runner jit) #}"
| "in_flight _ = {#}"

lemma map_filter_append: "List.map_filter f (xs @ ys) = List.map_filter f xs @ List.map_filter f ys"
  by (simp add: List.map_filter_def)

lemmas id_defs = registered_ids_def claimed_ids_def removed_ids_def map_filter_append
  List.map_filter_simps

lemma advance_balance:
  assumes "advance (traced X) pool g p (w, es) = (p', (w', es'))"
  shows "registered_ids es' + in_flight p + claimed_ids es + removed_ids es
       = registered_ids es + in_flight p' + claimed_ids es' + removed_ids es'"
  using assms
  by (cases p) (auto simp: record_call_def silent_call_def split_beta Let_def id_defs split: sum.splits)

lemma sum_list_update_mset:
  "i < length gs \<Longrightarrow> sum_list (map f (gs[i := p])) + f (gs ! i) = sum_list (map f gs) + (f p :: 'b multiset)"
proof (induction gs arbitrary: i)
  case (Cons x gs)
  then show ?case by (cases i) (auto simp: algebra_simps)
qed simp

definition balanced :: "event list \<Rightarrow> phase list \<Rightarrow> bool" where
  "balanced es gs =
     (registered_ids es = claimed_ids es + removed_ids es + sum_list (map in_flight gs))"

lemma launch_step_balanced:
  assumes "launch_step (traced X) pool g ((w, es), gs) ((w', es'), gs')" "balanced es gs"
  shows "balanced es' gs'"
  using assms(1)
proof (cases rule: launch_step.cases)
  case (acquire i repo)
  with assms(2) sum_list_update_mset [of i gs in_flight "Registering repo"] show ?thesis
    by (simp add: balanced_def)
next
  case (work i p)
  from advance_balance [OF work(4)] sum_list_update_mset [OF work(2), of in_flight p] assms(2)
  have "registered_ids es' + in_flight (gs ! i) + (claimed_ids es + removed_ids es)
      = (claimed_ids es + removed_ids es + sum_list (map in_flight gs)) + in_flight p
        + (claimed_ids es' + removed_ids es')"
    by (simp add: balanced_def ac_simps)
  also have "\<dots> = sum_list (map in_flight gs') + in_flight (gs ! i) + (claimed_ids es' + removed_ids es')
      + (claimed_ids es + removed_ids es)"
    using sum_list_update_mset [OF work(2), of in_flight p] work(1) by (simp add: ac_simps)
  finally show ?thesis by (simp add: balanced_def ac_simps)
qed


section \<open>The sequential schedule\<close>

text \<open>
  One launch on its own, from taking the semaphore to its end, is a sequence of steps with the
  result of \<open>launchOne\<close>; so the pass's one-at-a-time \<open>scaleUp\<close> is an execution of the relation.
\<close>

lemma launch_steps_work:
  assumes "holds_semaphore p" "advance X pool g p w = (q, w')"
    and "(launch_step X pool g)\<^sup>*\<^sup>* (w', as @ q # bs) c"
  shows "(launch_step X pool g)\<^sup>*\<^sup>* (w, as @ p # bs) c"
proof -
  have "launch_step X pool g (w, as @ p # bs) (w', as @ q # bs)"
    using launch_step.work [of "length as" "as @ p # bs" X pool g w q w'] assms(1,2) by simp
  with assms(3) show ?thesis by (rule converse_rtranclp_into_rtranclp [rotated])
qed

lemma launchOne_is_schedule:
  assumes "active (as @ bs) = 0"
    and "run_state (launchOne X pool g repo) s = (err, s')"
  shows "(launch_step X pool g)\<^sup>*\<^sup>* (world s, as @ Blocked repo # bs) (world s', as @ Finished err # bs)"
proof -
  have "launch_step X pool g (world s, as @ Blocked repo # bs) (world s, as @ Registering repo # bs)"
    using launch_step.acquire [of "length as" "as @ Blocked repo # bs" repo X pool g "world s"] assms(1)
    by (simp add: active_def maxCreateConcurrency_def)
  moreover have "(launch_step X pool g)\<^sup>*\<^sup>* (world s, as @ Registering repo # bs) (world s', as @ Finished err # bs)"
  proof -
    obtain rb w1 where r: "x_rand X (world s) = (rb, w1)" by fastforce
    define name where "name = runnerName (x_host X) (rand_buf rb) (pool_Name pool)"
    obtain j w2 where j: "api_GenerateJITConfig X repo name (pool_Labels pool) g ''_work'' w1 = (j, w2)"
      by fastforce
    show ?thesis
    proof (cases j)
      case (Inl e)
      have a: "advance X pool g (Registering repo) (world s) = (Finished (Some (err_text e)), w2)"
        using r j Inl by (simp add: name_def Let_def)
      have "world s' = w2" "err = Some (err_text e)"
        using assms(2) r j Inl by (auto simp: launchOne_def run_call name_def Let_def)
      then show ?thesis by (intro launch_steps_work [OF _ a]) simp_all
    next
      case (Inr jit)
      have reg: "advance X pool g (Registering repo) (world s) = (Creating name jit, w2)"
        using r j Inr by (simp add: name_def Let_def)
      let ?sp = "\<lparr> spec_Pool = pool_Name pool, spec_RunnerName = name,
        spec_RunnerID = r_ID (jit_Runner jit), spec_JITConfig = jit_Encoded jit \<rparr>"
      obtain c w3 where c: "pv_Create X (pool_Name pool) ?sp w2 = (c, w3)" by fastforce
      show ?thesis
      proof (cases c)
        case (Inl e)
        obtain d w4 where d: "api_RemoveRunner X (r_Repo (jit_Runner jit)) (r_ID (jit_Runner jit)) w3 = (d, w4)"
          by fastforce
        have a: "advance X pool g (Creating name jit) w2 = (Cleaning jit e, w3)"
          "advance X pool g (Cleaning jit e) w3 = (Finished (Some e), w4)"
          using c d Inl by simp_all
        have "world s' = w4" "err = Some e"
          using assms(2) r j Inr c Inl d by (auto simp: launchOne_def run_call name_def Let_def)
        then show ?thesis
          by (intro launch_steps_work [OF _ reg] launch_steps_work [OF _ a(1)] launch_steps_work [OF _ a(2)])
             simp_all
      next
        case (Inr inst)
        have a: "advance X pool g (Creating name jit) w2 = (Finished None, w3)" using c Inr by simp
        have "world s' = w3" "err = None"
          using assms(2) r j \<open>j = Inr jit\<close> c Inr by (auto simp: launchOne_def run_call name_def Let_def)
        then show ?thesis
          by (intro launch_steps_work [OF _ reg] launch_steps_work [OF _ a]) simp_all
      qed
    qed
  qed
  ultimately show ?thesis by (rule converse_rtranclp_into_rtranclp)
qed


end
