(* ===== verification/GhClient.thy ===== *)
theory GhClient
  imports Effects GhTypes Provider ConfigTypes "HOL-Library.Word"
begin

text \<open>
  The GitHub REST client (\<open>internal/ghapi/client.go\<close>): one request with its retries and
  conditional caching, pagination, the rate-limit record and the waits. The transport, the
  token source, the clock and the JSON codecs are parameters; the client's caches are its state.
\<close>

section \<open>Waits\<close>

definition maxRetries :: nat where "maxRetries = 4"
definition maxRetrySleep :: int where "maxRetrySleep = 30 * Second"

text \<open>Arithmetic on Go's 64-bit integers wraps.\<close>

definition wrap64 :: "int \<Rightarrow> int" where
  "wrap64 i = sint (word_of_int i :: 64 word)"

definition capSleep :: "int \<Rightarrow> int" where
  "capSleep d = (if d > maxRetrySleep then maxRetrySleep else if d < 0 then 0 else d)"

definition backoff :: "nat \<Rightarrow> int" where
  "backoff attempt = capSleep (wrap64 (wrap64 (2 ^ attempt) * (250 * Millisecond)))"

record Response =
  rs_Status :: int
  rs_Header :: "string \<Rightarrow> string"
  rs_Body :: "string + string"

text \<open>\<open>time.Unix\<close>: seconds since 1970 as a time; the seconds since the zero time wrap.\<close>

definition unix_time :: "int \<Rightarrow> int" where
  "unix_time secs = wrap64 (secs + 62135596800) * Second"

definition retryAfter :: "int \<Rightarrow> Response \<Rightarrow> int option" where
  "retryAfter now resp =
     (let v = rs_Header resp ''Retry-After''
      in case (if v \<noteq> [] then atoi v else None) of
           Some secs \<Rightarrow> Some (capSleep (wrap64 (secs * Second)))
         | None \<Rightarrow>
             if rs_Status resp \<noteq> 403 \<and> rs_Status resp \<noteq> 429 then None
             else if rs_Header resp ''X-RateLimit-Remaining'' \<noteq> ''0'' then None
             else (case atoi (rs_Header resp ''X-RateLimit-Reset'') of
                     None \<Rightarrow> None
                   | Some reset \<Rightarrow>
                       (let wait = clamp64 (unix_time reset - now)
                        in if wait \<le> 0 then Some Second else Some (capSleep wait))))"

section \<open>Headers\<close>

text \<open>The regular expression \<open>linkRE\<close>: a bracketed URL followed by the next relation.\<close>

definition re_space :: "char \<Rightarrow> bool" where
  "re_space c = (c \<in> {CHR 0x09, CHR 0x0A, CHR 0x0C, CHR 0x0D, CHR '' ''})"

definition link_at :: "string \<Rightarrow> string option" where
  "link_at s =
     (let u = takeWhile (\<lambda>c. c \<noteq> CHR ''>'') s; r = drop (length u) s
      in if u \<noteq> [] \<and> has_prefix r ''>;''
            \<and> has_prefix (dropWhile re_space (drop 2 r)) (''rel='' @ [CHR 0x22] @ ''next'' @ [CHR 0x22])
         then Some u else None)"

fun nextLink :: "string \<Rightarrow> string" where
  "nextLink [] = []"
| "nextLink (c # s) =
     (if c = CHR ''<'' then (case link_at s of Some u \<Rightarrow> u | None \<Rightarrow> nextLink s) else nextLink s)"

definition rate_of :: "int \<Rightarrow> Response \<Rightarrow> RateLimit option" where
  "rate_of now resp =
     (let rem = rs_Header resp ''X-RateLimit-Remaining''
      in if rem = [] then None
         else Some \<lparr> rl_Limit = atoi_value (rs_Header resp ''X-RateLimit-Limit''), rl_Remaining = atoi_value rem,
                     rl_Reset = (case atoi (rs_Header resp ''X-RateLimit-Reset'') of
                                   Some r \<Rightarrow> unix_time r | None \<Rightarrow> 0),
                     rl_Seen = now \<rparr>)"

text \<open>
  The message of an error response; \<open>decode\<close> is the JSON decoder of its fields \<open>message\<close> and the
  first of \<open>errors\<close>. A long plain body is cut at 200 bytes and an ellipsis (three bytes) added.
\<close>

definition extractMessage :: "(string \<Rightarrow> (string \<times> string option) option) \<Rightarrow> string \<Rightarrow> string" where
  "extractMessage decode data =
     (let plain = (let s = trim_space data;
                       s = (if length s > 200 then take 200 s @ [CHR 0xE2, CHR 0x80, CHR 0xA6] else s)
                   in if s = [] then ''(empty response)'' else s)
      in case decode data of
           None \<Rightarrow> plain
         | Some (msg, first) \<Rightarrow>
             if msg = [] then plain
             else (case first of None \<Rightarrow> msg
                   | Some m \<Rightarrow> if m \<noteq> [] then msg @ '': '' @ m else msg))"

section \<open>The cache of conditional requests\<close>

record EtagEntry =
  et_tag :: string
  et_body :: string
  et_seen :: int

type_synonym etags = "string \<rightharpoonup> EtagEntry"

definition etag_tag :: "etags \<Rightarrow> string \<Rightarrow> string option" where
  "etag_tag e key = map_option et_tag (e key)"

definition etag_touch :: "int \<Rightarrow> string \<Rightarrow> etags \<Rightarrow> etags" where
  "etag_touch now key e =
     (case e key of None \<Rightarrow> e | Some ent \<Rightarrow> e(key \<mapsto> ent\<lparr>et_seen := now\<rparr>))"

definition etag_store :: "int \<Rightarrow> string \<Rightarrow> string \<Rightarrow> string \<Rightarrow> etags \<Rightarrow> etags" where
  "etag_store now key tag body e = e(key \<mapsto> \<lparr> et_tag = tag, et_body = body, et_seen = now \<rparr>)"

definition etag_forget :: "string \<Rightarrow> etags \<Rightarrow> etags" where
  "etag_forget key e = e(key := None)"

definition Sweep :: "int \<Rightarrow> int \<Rightarrow> etags \<Rightarrow> etags" where
  "Sweep now maxAge e = (\<lambda>k. case e k of
     None \<Rightarrow> None | Some ent \<Rightarrow> if et_seen ent < now - maxAge then None else Some ent)"

section \<open>The client\<close>

record Request =
  rq_Method :: string
  rq_URL :: string
  rq_Token :: string
  rq_IfNoneMatch :: "string option"
  rq_Payload :: "string option"

datatype json = JStr string | JInt int | JBool bool | JList "json list" | JObj "(string \<times> json) list"

text \<open>
  What a request calls: the token source, the transport, the waits (which a cancelled context
  ends with \<open>True\<close>) and the clock; and the JSON codecs, one decoder per response type.
\<close>

record 'w http =
  h_now :: "'w \<Rightarrow> int"
  h_cancelled :: "'w \<Rightarrow> bool"
  h_Sleep :: "int \<Rightarrow> 'w \<Rightarrow> bool \<times> 'w"
  h_Token :: "'w \<Rightarrow> (string + string) \<times> 'w"
  h_badURL :: "string \<Rightarrow> string option"
  h_Do :: "Request \<Rightarrow> 'w \<Rightarrow> (string + Response) \<times> 'w"
  js_error :: "string \<Rightarrow> (string \<times> string option) option"
  js_marshal :: "json \<Rightarrow> string"
  js_runners :: "string \<Rightarrow> Runner list option"
  js_jit :: "string \<Rightarrow> JITConfig option"
  js_groups :: "string \<Rightarrow> (int \<times> string) list option"
  js_repos :: "string \<Rightarrow> Repo list option"
  js_runs :: "string \<Rightarrow> int list option"
  js_jobs :: "string \<Rightarrow> Job list option"
  js_hooks :: "string \<Rightarrow> (int \<times> string) list option"
  js_type :: "string \<Rightarrow> string option"

text \<open>The settings of a client, from \<open>New\<close>, and its mutable state.\<close>

record Settings =
  cl_apiURL :: string
  cl_webURL :: string
  cl_org :: string
  cl_owner :: string

definition settings_of :: "GitHub \<Rightarrow> Settings" where
  "settings_of g = \<lparr> cl_apiURL = trim_suffix (gh_APIURL g) ''/'', cl_webURL = trim_suffix (gh_WebURL g) ''/'',
     cl_org = gh_Org g, cl_owner = gh_Owner g \<rparr>"

datatype credential = UseApp AppAuth | UseToken string

definition choose_auth :: "GitHub \<Rightarrow> credential option" where
  "choose_auth g = (case gh_App g of
     Some a \<Rightarrow> Some (UseApp a)
   | None \<Rightarrow> if gh_Token g \<noteq> [] then Some (UseToken (gh_Token g)) else None)"

definition entity :: "Settings \<Rightarrow> string" where
  "entity c = (if cl_owner c \<noteq> [] then cl_owner c else cl_org c)"

definition RepoLevel :: "Settings \<Rightarrow> bool" where
  "RepoLevel c = (cl_owner c \<noteq> [])"

record 'w client = "'w worldly" +
  c_etags :: etags
  c_rate :: RateLimit
  c_groups :: "string \<rightharpoonup> int"

type_synonym ('w, 'a) cl = "('w client, 'a) state"

definition ctx_error :: gherr where "ctx_error = OtherError ''context canceled''"

section \<open>One request\<close>

text \<open>
  What one round of the retry loop decides: to return, or to go round again, with the new last
  error if it has one.
\<close>

datatype 'a round = Return 'a | Again "gherr option"

definition recordRateLimit :: "'w http \<Rightarrow> Response \<Rightarrow> ('w, unit) cl" where
  "recordRateLimit H resp = do {
     now \<leftarrow> look (h_now H);
     modify (\<lambda>s. s\<lparr>c_rate := (case rate_of now resp of Some rl \<Rightarrow> rl | None \<Rightarrow> c_rate s)\<rparr>) }"

definition max_body :: nat where "max_body = 2 ^ 25"

text \<open>A 304 to a conditional request.\<close>

definition not_modified ::
  "'w http \<Rightarrow> string \<Rightarrow> string \<Rightarrow> ('w, (gherr + string \<times> string) round) cl" where
  "not_modified H etagKey next_url = do {
     now \<leftarrow> look (h_now H);
     cached \<leftarrow> gets (\<lambda>s. c_etags s etagKey);
     case cached of
       Some ent \<Rightarrow> do {
         _ \<leftarrow> modify (\<lambda>s. s\<lparr>c_etags := etag_touch now etagKey (c_etags s)\<rparr>);
         ret (Return (Inr (et_body ent, next_url))) }
     | None \<Rightarrow> do {
         _ \<leftarrow> modify (\<lambda>s. s\<lparr>c_etags := etag_forget etagKey (c_etags s)\<rparr>);
         ret (Again (Some (OtherError ''etag cache miss after 304''))) } }"

text \<open>A 2xx response with its body, which is stored if it has a tag.\<close>

definition success ::
  "'w http \<Rightarrow> string \<Rightarrow> Response \<Rightarrow> string \<Rightarrow> string \<Rightarrow> ('w, (gherr + string \<times> string) round) cl" where
  "success H etagKey resp data next_url = do {
     now \<leftarrow> look (h_now H);
     let tag = rs_Header resp ''ETag'';
     _ \<leftarrow> modify (\<lambda>s. s\<lparr>c_etags := (if etagKey \<noteq> [] \<and> tag \<noteq> []
            then etag_store now etagKey tag data (c_etags s) else c_etags s)\<rparr>);
     ret (Return (Inr (data, next_url))) }"

text \<open>Any other response: wait if GitHub asks to, retry a server error, and give up otherwise.\<close>

definition failure ::
  "'w http \<Rightarrow> string \<Rightarrow> nat \<Rightarrow> Response \<Rightarrow> string \<Rightarrow> ('w, (gherr + string \<times> string) round) cl" where
  "failure H url attempt resp data = do {
     now \<leftarrow> look (h_now H);
     let apiErr = APIError (rs_Status resp) (extractMessage (js_error H) data) url;
     case (if attempt < maxRetries then retryAfter now resp else None) of
       Some wait \<Rightarrow> do {
         cancelled \<leftarrow> call (h_Sleep H wait);
         ret (if cancelled then Return (Inl ctx_error) else Again None) }
     | None \<Rightarrow>
         ret (if rs_Status resp \<ge> 500 \<and> attempt < maxRetries then Again (Some apiErr)
              else Return (Inl apiErr)) }"

definition handle_response ::
  "'w http \<Rightarrow> string \<Rightarrow> string \<Rightarrow> nat \<Rightarrow> Response \<Rightarrow> ('w, (gherr + string \<times> string) round) cl" where
  "handle_response H url etagKey attempt resp = do {
     _ \<leftarrow> recordRateLimit H resp;
     let next_url = nextLink (rs_Header resp ''Link'');
     if rs_Status resp = 304 \<and> etagKey \<noteq> [] then not_modified H etagKey next_url
     else (case rs_Body resp of
             Inl e \<Rightarrow> ret (Again (Some (OtherError e)))
           | Inr body \<Rightarrow>
               (let data = take max_body body
                in if 200 \<le> rs_Status resp \<and> rs_Status resp < 300
                   then success H etagKey resp data next_url
                   else failure H url attempt resp data)) }"

text \<open>The exchange of one round, conditional if the cache has a tag, and its outcome.\<close>

definition outcome ::
  "'w http \<Rightarrow> string \<Rightarrow> string \<Rightarrow> nat \<Rightarrow> string + Response \<Rightarrow> ('w, (gherr + string \<times> string) round) cl" where
  "outcome H url etagKey attempt r = do {
     cancelled \<leftarrow> look (h_cancelled H);
     case r of
       Inl e \<Rightarrow> ret (if cancelled then Return (Inl ctx_error) else Again (Some (OtherError e)))
     | Inr resp \<Rightarrow> handle_response H url etagKey attempt resp }"

definition send ::
  "'w http \<Rightarrow> string \<Rightarrow> string \<Rightarrow> string option \<Rightarrow> string \<Rightarrow> nat \<Rightarrow> string
     \<Rightarrow> ('w, (gherr + string \<times> string) round) cl" where
  "send H meth url payload etagKey attempt token = do {
     tag \<leftarrow> gets (\<lambda>s. if etagKey \<noteq> [] then etag_tag (c_etags s) etagKey else None);
     r \<leftarrow> call (h_Do H \<lparr> rq_Method = meth, rq_URL = url, rq_Token = token,
                         rq_IfNoneMatch = tag, rq_Payload = payload \<rparr>);
     outcome H url etagKey attempt r }"

definition one_round ::
  "'w http \<Rightarrow> string \<Rightarrow> string \<Rightarrow> string option \<Rightarrow> string \<Rightarrow> nat
     \<Rightarrow> ('w, (gherr + string \<times> string) round) cl" where
  "one_round H meth url payload etagKey attempt = do {
     cancelled \<leftarrow> (if attempt > 0 then call (h_Sleep H (backoff attempt)) else ret False);
     if cancelled then ret (Return (Inl ctx_error))
     else do {
       tok \<leftarrow> call (h_Token H);
       case tok of
         Inl e \<Rightarrow> ret (Return (Inl (OtherError e)))
       | Inr token \<Rightarrow> (case h_badURL H url of
           Some e \<Rightarrow> ret (Return (Inl (OtherError e)))
         | None \<Rightarrow> send H meth url payload etagKey attempt token) } }"

text \<open>The loop over the attempts; \<open>left\<close> counts those that remain.\<close>

fun request_loop ::
  "'w http \<Rightarrow> string \<Rightarrow> string \<Rightarrow> string option \<Rightarrow> string \<Rightarrow> nat \<Rightarrow> gherr option
     \<Rightarrow> ('w, gherr + string \<times> string) cl" where
  "request_loop H meth url payload etagKey 0 lastErr =
     ret (Inl (case lastErr of Some e \<Rightarrow> Wrapped (''github '' @ url) e
               | None \<Rightarrow> OtherError (''github '' @ url @ '': %!w(<nil>)'')))"
| "request_loop H meth url payload etagKey (Suc left) lastErr = do {
     r \<leftarrow> one_round H meth url payload etagKey (maxRetries - left);
     case r of
       Return x \<Rightarrow> ret x
     | Again e \<Rightarrow> request_loop H meth url payload etagKey left
                    (case e of Some _ \<Rightarrow> e | None \<Rightarrow> lastErr) }"

definition full_url :: "Settings \<Rightarrow> string \<Rightarrow> string" where
  "full_url c path = (if has_prefix path ''http'' then path else cl_apiURL c @ path)"

definition request ::
  "'w http \<Rightarrow> Settings \<Rightarrow> string \<Rightarrow> string \<Rightarrow> json option \<Rightarrow> string
     \<Rightarrow> ('w, gherr + string \<times> string) cl" where
  "request H c meth path body etagKey =
     request_loop H meth (full_url c path) (map_option (js_marshal H) body) etagKey (maxRetries + 1) None"

section \<open>Decoding and pagination\<close>

definition getJSON ::
  "'w http \<Rightarrow> Settings \<Rightarrow> (string \<Rightarrow> 'a option) \<Rightarrow> string \<Rightarrow> string \<Rightarrow> ('w, gherr + 'a) cl" where
  "getJSON H c decode path etagKey = do {
     r \<leftarrow> request H c ''GET'' path None etagKey;
     ret (case r of
       Inl e \<Rightarrow> Inl e
     | Inr (data, _) \<Rightarrow> (case decode data of
         None \<Rightarrow> Inl (OtherError (''decode '' @ path)) | Some x \<Rightarrow> Inr x)) }"

definition postJSON ::
  "'w http \<Rightarrow> Settings \<Rightarrow> (string \<Rightarrow> 'a option) \<Rightarrow> string \<Rightarrow> json \<Rightarrow> ('w, gherr + 'a) cl" where
  "postJSON H c decode path body = do {
     r \<leftarrow> request H c ''POST'' path (Some body) [];
     ret (case r of
       Inl e \<Rightarrow> Inl e
     | Inr (data, _) \<Rightarrow> (case decode data of
         None \<Rightarrow> Inl (OtherError (''decode '' @ path)) | Some x \<Rightarrow> Inr x)) }"

text \<open>\<open>paginate\<close> with a page callback over an accumulator; \<open>left\<close> bounds the pages still allowed.\<close>

definition page_limit :: nat where "page_limit = 200"

fun paginate_loop ::
  "'w http \<Rightarrow> Settings \<Rightarrow> string \<Rightarrow> string \<Rightarrow> ('a \<Rightarrow> string \<Rightarrow> gherr + 'a) \<Rightarrow> nat \<Rightarrow> string \<Rightarrow> 'a
     \<Rightarrow> ('w, gherr + 'a) cl" where
  "paginate_loop H c path etagPrefix fn left url acc =
     (if url = [] then ret (Inr acc)
      else (case left of
        0 \<Rightarrow> ret (Inl (OtherError (''pagination exceeded 200 pages at '' @ path)))
      | Suc left' \<Rightarrow> do {
          let page = page_limit + 1 - left;
          r \<leftarrow> request H c ''GET'' url None
                 (if etagPrefix \<noteq> [] then etagPrefix @ ''#'' @ itoa (int page) else []);
          case r of
            Inl e \<Rightarrow> ret (Inl e)
          | Inr (data, next_url) \<Rightarrow> (case fn acc data of
              Inl e \<Rightarrow> ret (Inl e)
            | Inr acc' \<Rightarrow>
                if left' = 0 then ret (Inl (OtherError (''pagination exceeded 200 pages at '' @ path)))
                else paginate_loop H c path etagPrefix fn left' next_url acc') }))"

definition paginate ::
  "'w http \<Rightarrow> Settings \<Rightarrow> string \<Rightarrow> string \<Rightarrow> ('a \<Rightarrow> string \<Rightarrow> gherr + 'a) \<Rightarrow> 'a \<Rightarrow> ('w, gherr + 'a) cl" where
  "paginate H c path etagPrefix fn acc =
     paginate_loop H c path etagPrefix fn (page_limit + 1) path acc"

definition SweepCache :: "'w http \<Rightarrow> int \<Rightarrow> ('w, unit) cl" where
  "SweepCache H maxAge = do {
     now \<leftarrow> look (h_now H);
     modify (\<lambda>s. s\<lparr>c_etags := Sweep now maxAge (c_etags s)\<rparr>) }"

end
