(* ===== verification/GhOps.thy ===== *)
theory GhOps
  imports GhClient "HOL-Library.List_Lexorder" "HOL-Library.Char_ord"
begin

text \<open>
  The operations on top of the client: runners (\<open>internal/ghapi/runners.go\<close>), repositories and
  queued jobs (\<open>jobs.go\<close>), webhooks (\<open>hooks.go\<close>) and the cached installation token (\<open>auth.go\<close>).
\<close>

section \<open>Runners\<close>

definition DefaultRunnerGroupID :: int where "DefaultRunnerGroupID = 1"

definition listRunnersAt ::
  "'w http \<Rightarrow> Settings \<Rightarrow> string \<Rightarrow> string \<Rightarrow> ('w, gherr + Runner list) cl" where
  "listRunnersAt H c path repo =
     paginate H c path (if repo \<noteq> [] then ''runners:'' @ repo else ''runners:org'')
       (\<lambda>all page. case js_runners H page of
          None \<Rightarrow> Inl (OtherError ''decode runners'')
        | Some rs \<Rightarrow> Inr (all @ map (\<lambda>r. r\<lparr>r_Repo := repo\<rparr>) rs)) []"

fun list_runners_in :: "'w http \<Rightarrow> Settings \<Rightarrow> Repo list \<Rightarrow> Runner list \<Rightarrow> ('w, gherr + Runner list) cl" where
  "list_runners_in H c [] all = ret (Inr all)"
| "list_runners_in H c (repo # rest) all = do {
     r \<leftarrow> listRunnersAt H c (''/repos/'' @ cl_owner c @ ''/'' @ repo_Name repo
            @ ''/actions/runners?per_page=100'') (repo_Name repo);
     case r of
       Inl e \<Rightarrow> ret (Inl (Wrapped (''list runners in '' @ repo_Name repo) e))
     | Inr rs \<Rightarrow> list_runners_in H c rest (all @ rs) }"

definition ListRunners :: "'w http \<Rightarrow> Settings \<Rightarrow> Repo list \<Rightarrow> ('w, gherr + Runner list) cl" where
  "ListRunners H c repos =
     (if cl_owner c = [] then
        listRunnersAt H c (''/orgs/'' @ cl_org c @ ''/actions/runners?per_page=100'') []
      else list_runners_in H c repos [])"

definition GenerateJITConfig ::
  "'w http \<Rightarrow> Settings \<Rightarrow> string \<Rightarrow> string \<Rightarrow> string list \<Rightarrow> int \<Rightarrow> string \<Rightarrow> ('w, gherr + JITConfig) cl" where
  "GenerateJITConfig H c repo name labels groupID workFolder = do {
     let groupID = (if groupID = 0 then DefaultRunnerGroupID else groupID);
     let workFolder = (if workFolder = [] then ''_work'' else workFolder);
     let path = (if repo \<noteq> [] then ''/repos/'' @ entity c @ ''/'' @ repo @ ''/actions/runners/generate-jitconfig''
                 else ''/orgs/'' @ cl_org c @ ''/actions/runners/generate-jitconfig'');
     r \<leftarrow> postJSON H c (js_jit H) path
            (JObj [(''name'', JStr name), (''runner_group_id'', JInt groupID),
                   (''labels'', JList (map JStr labels)), (''work_folder'', JStr workFolder)]);
     ret (case r of
       Inl e \<Rightarrow> Inl (Wrapped (''generate jit config for '' @ name) e)
     | Inr jit \<Rightarrow>
         if jit_Encoded jit = []
         then Inl (OtherError (''generate jit config for '' @ name @ '': empty config returned''))
         else Inr (jit\<lparr>jit_Runner := (jit_Runner jit)\<lparr>r_Repo := repo\<rparr>\<rparr>)) }"

definition remove_result :: "gherr + string \<times> string \<Rightarrow> gherr option" where
  "remove_result r = (case r of
     Inr _ \<Rightarrow> None
   | Inl e \<Rightarrow>
       if IsNotFound e then None
       else (case cause e of
               APIError s _ _ \<Rightarrow> if s = 422 then Some ErrRunnerBusy else Some e
             | _ \<Rightarrow> Some e))"

definition RemoveRunner :: "'w http \<Rightarrow> Settings \<Rightarrow> string \<Rightarrow> int \<Rightarrow> ('w, gherr option) cl" where
  "RemoveRunner H c repo rid = do {
     let path = (if repo \<noteq> [] then ''/repos/'' @ entity c @ ''/'' @ repo @ ''/actions/runners/'' @ itoa rid
                 else ''/orgs/'' @ cl_org c @ ''/actions/runners/'' @ itoa rid);
     r \<leftarrow> request H c ''DELETE'' path None [];
     ret (remove_result r) }"

text \<open>The last group with the name on the pages seen wins; 0 is none.\<close>

definition find_group :: "string \<Rightarrow> int \<Rightarrow> (int \<times> string) list \<Rightarrow> int" where
  "find_group name found gs = foldl (\<lambda>f g. if equal_fold (snd g) name then fst g else f) found gs"

definition RunnerGroupID :: "'w http \<Rightarrow> Settings \<Rightarrow> string \<Rightarrow> ('w, gherr + int) cl" where
  "RunnerGroupID H c name =
     (if name = [] \<or> equal_fold name ''default'' then ret (Inr DefaultRunnerGroupID)
      else if cl_owner c \<noteq> [] then
        ret (Inl (OtherError (''runner group '' @ name @ '': personal accounts have no runner groups'')))
      else do {
        cached \<leftarrow> gets (\<lambda>s. c_groups s name);
        case cached of
          Some gid \<Rightarrow> ret (Inr gid)
        | None \<Rightarrow> do {
            r \<leftarrow> paginate H c (''/orgs/'' @ cl_org c @ ''/actions/runner-groups?per_page=100'') []
                   (\<lambda>found page. case js_groups H page of
                      None \<Rightarrow> Inl (OtherError ''decode runner groups'')
                    | Some gs \<Rightarrow> Inr (find_group name found gs)) 0;
            case r of
              Inl e \<Rightarrow> ret (Inl (if IsNotFound e
                  then OtherError (''runner group '' @ name @ '': custom runner groups require GitHub Enterprise ''
                         @ ''Cloud or GHES; leave runner_group empty to use Default'')
                  else e))
            | Inr found \<Rightarrow>
                if found = 0
                then ret (Inl (OtherError (''runner group '' @ name @ '' not found in org '' @ cl_org c)))
                else do {
                  _ \<leftarrow> modify (\<lambda>s. s\<lparr>c_groups := (c_groups s)(name \<mapsto> found)\<rparr>);
                  ret (Inr found) } } })"

section \<open>Repositories\<close>

text \<open>
  \<open>path.Match\<close> on one path segment or several: \<open>*\<close> and \<open>?\<close> do not cross a slash, a bracketed class
  may be negated and holds characters and ranges, a backslash quotes. A malformed pattern, for
  which Go returns an error, matches nothing.
\<close>

fun get_esc :: "string \<Rightarrow> (char \<times> string) option" where
  "get_esc [] = None"
| "get_esc (c # r) =
     (if c = CHR ''-'' \<or> c = CHR '']'' then None
      else if c = CHR 0x5C then (case r of [] \<Rightarrow> None | d # r' \<Rightarrow> if r' = [] then None else Some (d, r'))
      else if r = [] then None else Some (c, r))"

lemma get_esc_length: "get_esc p = Some (c, r) \<Longrightarrow> length r < length p"
  by (cases p) (auto split: if_splits list.splits)

abbreviation code :: "char \<Rightarrow> nat" where "code c \<equiv> of_char c"

function class_loop :: "char \<Rightarrow> string \<Rightarrow> bool \<Rightarrow> bool \<Rightarrow> (bool \<times> string) option" where
  "class_loop c p seen matched =
     (case p of
        x # r \<Rightarrow>
          if x = CHR '']'' \<and> seen then Some (matched, r)
          else (case get_esc p of
                  None \<Rightarrow> None
                | Some (lo, r1) \<Rightarrow>
                    (case r1 of
                       y # r2 \<Rightarrow>
                         if y = CHR ''-'' then
                           (case get_esc r2 of
                              None \<Rightarrow> None
                            | Some (hi, r3) \<Rightarrow>
                                class_loop c r3 True (matched \<or> (code lo \<le> code c \<and> code c \<le> code hi)))
                         else class_loop c r1 True (matched \<or> c = lo)
                     | [] \<Rightarrow> None))
      | [] \<Rightarrow> None)"
  by pat_completeness auto
termination
  by (relation "measure (\<lambda>(c, p, seen, matched). length p)")
     (auto dest!: get_esc_length simp del: get_esc.simps)

definition class_match :: "char \<Rightarrow> string \<Rightarrow> (bool \<times> string) option" where
  "class_match c p =
     (case p of
        x # r \<Rightarrow> if x = CHR ''^'' then map_option (\<lambda>(m, q). (\<not> m, q)) (class_loop c r False False)
                 else class_loop c p False False
      | [] \<Rightarrow> None)"

declare class_loop.simps [simp del]

lemma class_loop_length: "class_loop c p seen m = Some (b, r) \<Longrightarrow> length r < length p"
proof (induction c p seen m arbitrary: b r rule: class_loop.induct)
  case (1 c p seen matched)
  note eq = "1.prems" [unfolded class_loop.simps [of c p seen matched]]
  then obtain x q where p: "p = x # q" by (cases p) auto
  show ?case
  proof (cases "x = CHR '']'' \<and> seen")
    case True
    with eq p show ?thesis by simp
  next
    case False
    with eq p obtain lo r1 where lo: "get_esc p = Some (lo, r1)" by (auto split: option.splits)
    with eq p False obtain y r2 where r1: "r1 = y # r2" by (cases r1) auto
    show ?thesis
    proof (cases "y = CHR ''-''")
      case True
      with eq p False lo r1 obtain hi r3 where hi: "get_esc r2 = Some (hi, r3)"
        by (auto split: option.splits)
      then have "class_loop c r3 True (matched \<or> (code lo \<le> code c \<and> code c \<le> code hi)) = Some (b, r)"
        using eq p False lo r1 True by (simp del: get_esc.simps)
      from "1.IH"(1) [OF p False lo _ r1 True hi _ this] get_esc_length [OF lo] get_esc_length [OF hi] r1
      show ?thesis by simp
    next
      case ny: False
      then have "class_loop c r1 True (matched \<or> c = lo) = Some (b, r)"
        using eq p False lo r1 by (simp del: get_esc.simps)
      from "1.IH"(2) [OF p False lo _ r1 ny this] get_esc_length [OF lo] show ?thesis by simp
    qed
  qed
qed

lemma class_match_length: "class_match c p = Some (b, r) \<Longrightarrow> length r < length p"
  by (auto simp: class_match_def dest!: class_loop_length
      split: list.splits if_splits)

function glob :: "string \<Rightarrow> string \<Rightarrow> bool" where
  "glob p s =
     (case p of
        [] \<Rightarrow> s = []
      | x # q \<Rightarrow>
          if x = CHR ''*'' then
            glob q s \<or> (case s of c # t \<Rightarrow> c \<noteq> CHR ''/'' \<and> glob p t | [] \<Rightarrow> False)
          else (case s of
            [] \<Rightarrow> False
          | c # t \<Rightarrow>
              if x = CHR ''?'' then c \<noteq> CHR ''/'' \<and> glob q t
              else if x = CHR ''['' then
                (case class_match c q of None \<Rightarrow> False | Some (ok, r) \<Rightarrow> ok \<and> glob r t)
              else if x = CHR 0x5C then (case q of [] \<Rightarrow> False | e # q' \<Rightarrow> e = c \<and> glob q' t)
              else x = c \<and> glob q t))"
  by pat_completeness auto
termination
  by (relation "measure (\<lambda>(p, s). length p + length s)") (auto dest!: class_match_length)

declare glob.simps [simp del]

definition matchAny :: "string list \<Rightarrow> string \<Rightarrow> bool" where
  "matchAny patterns name =
     list_ex (\<lambda>p. equal_fold p name \<or> glob (to_lower p) (to_lower name)) patterns"

definition repo_match :: "RepoFilterOpts \<Rightarrow> string \<Rightarrow> bool" where
  "repo_match f name =
     (if fo_Include f \<noteq> [] \<and> \<not> matchAny (fo_Include f) name then False
      else \<not> matchAny (fo_Exclude f) name)"

text \<open>Which repositories of a page are kept.\<close>

definition keep_repo :: "Settings \<Rightarrow> RepoFilterOpts \<Rightarrow> Repo \<Rightarrow> bool" where
  "keep_repo c f r =
     (if cl_owner c \<noteq> [] \<and> \<not> equal_fold (repo_OwnerLogin r) (cl_owner c) then False
      else if cl_owner c \<noteq> [] \<and> repo_Fork r \<and> fo_Include f = [] then False
      else if repo_Disabled r then False
      else if repo_Archived r \<and> \<not> fo_Archived f then False
      else repo_match f (repo_Name r))"

text \<open>
  The page callback: the repositories up to the first one that is too old, after which nothing
  more is taken (\<open>stop\<close>), though the remaining pages are still fetched.
\<close>

fun take_repos :: "Settings \<Rightarrow> RepoFilterOpts \<Rightarrow> int option \<Rightarrow> Repo list \<Rightarrow> Repo list \<Rightarrow> bool \<times> Repo list" where
  "take_repos c f cutoff [] all = (False, all)"
| "take_repos c f cutoff (r # rs) all =
     (if (case cutoff of Some t \<Rightarrow> repo_PushedAt r < t | None \<Rightarrow> False) then (True, all)
      else take_repos c f cutoff rs (if keep_repo c f r then all @ [r] else all))"

definition repos_page ::
  "'w http \<Rightarrow> Settings \<Rightarrow> RepoFilterOpts \<Rightarrow> int option \<Rightarrow> bool \<times> Repo list \<Rightarrow> string
     \<Rightarrow> gherr + bool \<times> Repo list" where
  "repos_page H c f cutoff acc page =
     (if fst acc then Inr acc
      else (case js_repos H page of
              None \<Rightarrow> Inl (OtherError ''decode repos'')
            | Some rs \<Rightarrow> Inr (take_repos c f cutoff rs (snd acc))))"

text \<open>\<open>sort.Slice\<close> by name, in Go's byte-wise order of strings.\<close>

definition sort_repos :: "Repo list \<Rightarrow> Repo list" where
  "sort_repos rs = sort_key repo_Name rs"

definition ListRepos :: "'w http \<Rightarrow> Settings \<Rightarrow> RepoFilterOpts \<Rightarrow> ('w, gherr + Repo list) cl" where
  "ListRepos H c f = do {
     now \<leftarrow> look (h_now H);
     let p = (if cl_owner c \<noteq> []
              then ''/user/repos?per_page=100&affiliation=owner&sort=pushed&direction=desc''
              else ''/orgs/'' @ cl_org c @ ''/repos?per_page=100&type=all&sort=pushed&direction=desc'');
     let cutoff = (if fo_ActiveWithin f > 0 then Some (now - fo_ActiveWithin f) else None);
     r \<leftarrow> paginate H c p [] (repos_page H c f cutoff) (False, []);
     ret (case r of Inl e \<Rightarrow> Inl e | Inr (_, all) \<Rightarrow> Inr (sort_repos all)) }"

end
