(* ===== verification/GhJobs.thy ===== *)
theory GhJobs
  imports GhOps
begin

text \<open>
  Queued jobs (\<open>internal/ghapi/jobs.go\<close>), webhooks (\<open>hooks.go\<close>) and the installation token
  (\<open>auth.go\<close>).
\<close>

section \<open>Queued jobs\<close>

text \<open>The run ids of a repository, from the first page of each status.\<close>

fun run_ids :: "'w http \<Rightarrow> Settings \<Rightarrow> string \<Rightarrow> string list \<Rightarrow> int list \<Rightarrow> ('w, gherr + int list) cl" where
  "run_ids H c name [] ids = ret (Inr ids)"
| "run_ids H c name (status # rest) ids = do {
     r \<leftarrow> getJSON H c (js_runs H)
            (''/repos/'' @ entity c @ ''/'' @ name @ ''/actions/runs?status='' @ status
              @ ''&per_page=100&exclude_pull_requests=true'')
            (''runs:'' @ name @ '':'' @ status);
     case r of
       Inl e \<Rightarrow> ret (Inl e)
     | Inr new \<Rightarrow> run_ids H c name rest (ids @ new) }"

text \<open>The jobs of a page that are demand: queued, and for a self-hosted runner.\<close>

definition queued_jobs :: "string \<Rightarrow> Job list \<Rightarrow> Job list" where
  "queued_jobs name js =
     filter SelfHosted (map (\<lambda>j. j\<lparr>job_Repo := name\<rparr>) (filter (\<lambda>j. job_Status j = ''queued'') js))"

fun run_jobs :: "'w http \<Rightarrow> Settings \<Rightarrow> string \<Rightarrow> int list \<Rightarrow> Job list \<Rightarrow> ('w, gherr + Job list) cl" where
  "run_jobs H c name [] jobs = ret (Inr jobs)"
| "run_jobs H c name (rid # rest) jobs = do {
     r \<leftarrow> getJSON H c (js_jobs H)
            (''/repos/'' @ entity c @ ''/'' @ name @ ''/actions/runs/'' @ itoa rid
              @ ''/jobs?filter=latest&per_page=100'')
            (''jobs:'' @ name @ '':'' @ itoa rid);
     case r of
       Inl e \<Rightarrow> if IsNotFound e then run_jobs H c name rest jobs else ret (Inl e)
     | Inr js \<Rightarrow> run_jobs H c name rest (jobs @ queued_jobs name js) }"

definition repoPendingJobs :: "'w http \<Rightarrow> Settings \<Rightarrow> Repo \<Rightarrow> ('w, gherr + Job list) cl" where
  "repoPendingJobs H c repo = do {
     r \<leftarrow> run_ids H c (repo_Name repo) [''queued'', ''in_progress''] [];
     case r of
       Inl e \<Rightarrow> ret (Inl e)
     | Inr ids \<Rightarrow> run_jobs H c (repo_Name repo) (sort (remdups ids)) [] }"

text \<open>The results of all repositories; each poll runs in a goroutine of its own in the source.\<close>

fun poll_repos :: "'w http \<Rightarrow> Settings \<Rightarrow> Repo list \<Rightarrow> ('w, (gherr + Job list) list) cl" where
  "poll_repos H c [] = ret []"
| "poll_repos H c (repo # rest) = do {
     r \<leftarrow> repoPendingJobs H c repo;
     rs \<leftarrow> poll_repos H c rest;
     ret (r # rs) }"

definition poll_errors :: "(gherr \<Rightarrow> string) \<Rightarrow> Repo list \<Rightarrow> (gherr + Job list) list \<Rightarrow> string list" where
  "poll_errors text repos results =
     List.map_filter (\<lambda>(repo, r). case r of Inl e \<Rightarrow> Some (repo_Name repo @ '': '' @ text e) | Inr _ \<Rightarrow> None)
       (zip repos results)"

definition poll_jobs :: "(gherr + Job list) list \<Rightarrow> Job list" where
  "poll_jobs results = concat (map (\<lambda>r. case r of Inl _ \<Rightarrow> [] | Inr js \<Rightarrow> js) results)"

definition collect ::
  "(gherr \<Rightarrow> string) \<Rightarrow> Repo list \<Rightarrow> (gherr + Job list) list \<Rightarrow> Job list \<times> gherr option" where
  "collect text repos results =
     (let errs = poll_errors text repos results; jobs = sort_key job_ID (poll_jobs results)
      in (jobs,
          if length errs > 0 \<and> length errs = length repos
          then Some (OtherError (''all repo polls failed: '' @ join_str ''; '' errs))
          else if length errs > 0 then Some (PartialError errs) else None))"

definition PendingJobs ::
  "(gherr \<Rightarrow> string) \<Rightarrow> 'w http \<Rightarrow> Settings \<Rightarrow> Repo list \<Rightarrow> ('w, Job list \<times> gherr option) cl" where
  "PendingJobs text H c repos = do {
     results \<leftarrow> poll_repos H c repos;
     ret (collect text repos results) }"

section \<open>Webhooks\<close>

definition WebhookPath :: string where "WebhookPath = ''/arc/webhook''"

definition AccountType :: "'w http \<Rightarrow> Settings \<Rightarrow> string \<Rightarrow> ('w, gherr + string) cl" where
  "AccountType H c login = do {
     r \<leftarrow> getJSON H c (js_type H) (''/users/'' @ login) [];
     ret (case r of Inl e \<Rightarrow> Inl (Wrapped (''look up account '' @ login) e) | Inr t \<Rightarrow> Inr t) }"

definition hook_marker :: "string \<Rightarrow> string" where
  "hook_marker url = (case index_of url WebhookPath of Some i \<Rightarrow> drop i url | None \<Rightarrow> url)"

definition hook_body :: "string \<Rightarrow> string \<Rightarrow> (string \<times> json) list" where
  "hook_body url secret =
     [(''active'', JBool True), (''events'', JList [JStr ''workflow_job'']),
      (''config'', JObj [(''url'', JStr url), (''content_type'', JStr ''json''), (''secret'', JStr secret)])]"

definition EnsureWebhook ::
  "'w http \<Rightarrow> Settings \<Rightarrow> string \<Rightarrow> string \<Rightarrow> string \<Rightarrow> ('w, gherr option) cl" where
  "EnsureWebhook H c repo url secret = do {
     let marker = hook_marker url;
     let base = (if repo \<noteq> [] then ''/repos/'' @ entity c @ ''/'' @ repo @ ''/hooks''
                 else ''/orgs/'' @ cl_org c @ ''/hooks'');
     l \<leftarrow> paginate H c (base @ ''?per_page=100'') []
            (\<lambda>hs page. case js_hooks H page of
               None \<Rightarrow> Inl (OtherError ''decode hooks'') | Some new \<Rightarrow> Inr (hs @ new)) [];
     case l of
       Inl e \<Rightarrow> ret (Some (Wrapped ''list hooks'' e))
     | Inr existing \<Rightarrow>
         (case find (\<lambda>h. has_suffix (snd h) marker) existing of
            Some h \<Rightarrow> do {
              r \<leftarrow> request H c ''PATCH'' (base @ ''/'' @ itoa (fst h)) (Some (JObj (hook_body url secret))) [];
              ret (case r of Inl e \<Rightarrow> Some (Wrapped (''update hook '' @ itoa (fst h)) e) | Inr _ \<Rightarrow> None) }
          | None \<Rightarrow> do {
              r \<leftarrow> request H c ''POST'' base
                     (Some (JObj (hook_body url secret @ [(''name'', JStr ''web'')]))) [];
              ret (case r of Inl e \<Rightarrow> Some (Wrapped ''create hook'' e) | Inr _ \<Rightarrow> None) }) }"

section \<open>The installation token\<close>

text \<open>
  \<open>AppAuth.Token\<close>: the cached token with its expiry, and a fresh one from GitHub when less than
  a minute is left. Signing the JWT and the exchange itself are the parameter \<open>mint\<close>.
\<close>

record 'w appauth = "'w worldly" +
  aa_token :: string
  aa_expires :: int

definition unix_seconds :: "int \<Rightarrow> int" where
  "unix_seconds t = t div Second - 62135596800"

text \<open>The claims of \<open>appJWT\<close>.\<close>

definition jwt_claims :: "int \<Rightarrow> int \<Rightarrow> (string \<times> int) list" where
  "jwt_claims now appID =
     [(''iat'', unix_seconds (now - 60 * Second)), (''exp'', unix_seconds (now + 9 * Minute)), (''iss'', appID)]"

definition App_Token ::
  "('w \<Rightarrow> int) \<Rightarrow> ('w \<Rightarrow> (string + string \<times> int) \<times> 'w) \<Rightarrow> ('w appauth, string + string) state" where
  "App_Token clock mint = do {
     now \<leftarrow> look clock;
     token \<leftarrow> gets aa_token;
     expires \<leftarrow> gets aa_expires;
     if token \<noteq> [] \<and> now < expires - Minute then ret (Inr token)
     else do {
       r \<leftarrow> call mint;
       case r of
         Inl e \<Rightarrow> ret (Inl e)
       | Inr (t, until) \<Rightarrow> do {
           _ \<leftarrow> modify (\<lambda>s. s\<lparr>aa_token := t, aa_expires := until\<rparr>);
           ret (Inr t) } } }"

end
