(* ===== verification/GhProps.thy ===== *)
theory GhProps
  imports GhJobs
begin

text \<open>
  The properties of the GitHub client: what a conditional request returns, how often and how
  long it retries, when a runner counts as deregistered, which repositories and jobs are seen.
\<close>

section \<open>Waits\<close>

lemma wrap64_mod: "wrap64 i = (i + 2 ^ 63) mod 2 ^ 64 - 2 ^ 63"
  by (simp add: wrap64_def sint_sbintrunc' signed_take_bit_eq_take_bit_shift take_bit_eq_mod)

lemma capSleep_bounds: "0 \<le> capSleep d" "capSleep d \<le> maxRetrySleep"
  by (auto simp: capSleep_def maxRetrySleep_def duration_defs)

lemma retryAfter_bounds: "retryAfter now resp = Some d \<Longrightarrow> 0 \<le> d \<and> d \<le> maxRetrySleep"
  using capSleep_bounds
  by (auto simp: retryAfter_def Let_def maxRetrySleep_def Second_def split: option.splits if_splits)

lemma backoff_bounds: "0 \<le> backoff n" "backoff n \<le> maxRetrySleep"
  by (simp_all add: backoff_def capSleep_bounds)

definition busy_response :: "string \<Rightarrow> Response" where
  "busy_response v = \<lparr> rs_Status = 429, rs_Header = (\<lambda>h. if h = ''Retry-After'' then v else []),
     rs_Body = Inr [] \<rparr>"

text \<open>
  The wait GitHub asks for is respected up to 30 seconds, but only while its nanoseconds fit
  in 64 bits: a \<open>Retry-After\<close> of 9223372037 seconds overflows to a negative duration, which is
  raised to no wait at all, where a smaller value waits the 30 seconds.
\<close>

lemma retryAfter_overflow:
  "retryAfter now (busy_response ''9223372037'') = Some 0
   \<and> retryAfter now (busy_response ''9223372036'') = Some maxRetrySleep"
proof -
  have a: "atoi ''9223372037'' = Some 9223372037" "atoi ''9223372036'' = Some 9223372036"
    by (simp_all add: atoi_def parse_int_def parse_nat_def is_digit_def digit_val_def in_int64_def)
  have w: "wrap64 (9223372037 * Second) = - 9223372036709551616" "wrap64 (9223372036 * Second) = 9223372036000000000"
    by (simp_all add: wrap64_mod Second_def)
  show ?thesis
    by (simp add: retryAfter_def busy_response_def a w) (simp add: capSleep_def maxRetrySleep_def Second_def)
qed

section \<open>What a request did\<close>

datatype http_event = HttpSleep int | HttpDo Request "string + Response"

definition traced_http :: "'w http \<Rightarrow> ('w \<times> http_event list) http" where
  "traced_http H = \<lparr>
     h_now = h_now H \<circ> fst, h_cancelled = h_cancelled H \<circ> fst,
     h_Sleep = (\<lambda>d. record_call (h_Sleep H d) (\<lambda>_. HttpSleep d)),
     h_Token = silent_call (h_Token H), h_badURL = h_badURL H,
     h_Do = (\<lambda>rq. record_call (h_Do H rq) (HttpDo rq)),
     js_error = js_error H, js_marshal = js_marshal H, js_runners = js_runners H, js_jit = js_jit H,
     js_groups = js_groups H, js_repos = js_repos H, js_runs = js_runs H, js_jobs = js_jobs H,
     js_hooks = js_hooks H, js_type = js_type H \<rparr>"

lemma traced_http_simps [simp]:
  "h_now (traced_http H) = h_now H \<circ> fst" "h_cancelled (traced_http H) = h_cancelled H \<circ> fst"
  "h_Sleep (traced_http H) d = record_call (h_Sleep H d) (\<lambda>_. HttpSleep d)"
  "h_Token (traced_http H) = silent_call (h_Token H)" "h_badURL (traced_http H) = h_badURL H"
  "h_Do (traced_http H) rq = record_call (h_Do H rq) (HttpDo rq)"
  "js_error (traced_http H) = js_error H" "js_marshal (traced_http H) = js_marshal H"
  by (simp_all add: traced_http_def)

text \<open>The exchanges of a trace, and whether every wait is within the cap.\<close>

definition exchanges :: "http_event list \<Rightarrow> (Request \<times> (string + Response)) list" where
  "exchanges es = List.map_filter (\<lambda>e. case e of HttpDo rq r \<Rightarrow> Some (rq, r) | HttpSleep _ \<Rightarrow> None) es"

definition waits_capped :: "http_event list \<Rightarrow> bool" where
  "waits_capped es = list_all (\<lambda>e. case e of HttpSleep d \<Rightarrow> 0 \<le> d \<and> d \<le> maxRetrySleep | HttpDo _ _ \<Rightarrow> True) es"

lemma exchanges_simps [simp]:
  "exchanges [] = []" "exchanges (xs @ ys) = exchanges xs @ exchanges ys"
  "exchanges (HttpSleep d # es) = exchanges es" "exchanges (HttpDo rq r # es) = (rq, r) # exchanges es"
  by (simp_all add: exchanges_def List.map_filter_def)

lemma waits_capped_simps [simp]:
  "waits_capped []" "waits_capped (xs @ ys) \<longleftrightarrow> waits_capped xs \<and> waits_capped ys"
  "waits_capped (HttpSleep d # es) \<longleftrightarrow> 0 \<le> d \<and> d \<le> maxRetrySleep \<and> waits_capped es"
  "waits_capped (HttpDo rq r # es) = waits_capped es"
  by (simp_all add: waits_capped_def)

text \<open>
  The answer a result rests on: data needs a 2xx answer, or a 304 to a conditional request, as
  the last exchange; an API error is the status of the last exchange.
\<close>

definition answered :: "string \<Rightarrow> gherr + string \<times> string \<Rightarrow> (Request \<times> (string + Response)) list \<Rightarrow> bool" where
  "answered etagKey x ex = (case x of
     Inr _ \<Rightarrow> (\<exists>ex' rq resp. ex = ex' @ [(rq, Inr resp)]
        \<and> (200 \<le> rs_Status resp \<and> rs_Status resp < 300 \<or> rs_Status resp = 304 \<and> etagKey \<noteq> []))
   | Inl e \<Rightarrow> (case cause e of
       APIError st _ _ \<Rightarrow> (\<exists>ex' rq resp. ex = ex' @ [(rq, Inr resp)] \<and> rs_Status resp = st
          \<and> \<not> (200 \<le> st \<and> st < 300))
     | ErrRunnerBusy \<Rightarrow> False
     | _ \<Rightarrow> True))"

text \<open>What a round of the loop may do.\<close>

definition round_ok ::
  "string \<Rightarrow> string \<Rightarrow> string option \<Rightarrow> string \<Rightarrow> nat \<Rightarrow> (gherr + string \<times> string) round \<Rightarrow> http_event list \<Rightarrow> bool" where
  "round_ok meth url payload etagKey attempt x es =
     (waits_capped es \<and> length (exchanges es) \<le> 1
      \<and> list_all (\<lambda>(rq, _). rq_Method rq = meth \<and> rq_URL rq = url \<and> rq_Payload rq = payload
            \<and> (etagKey = [] \<longrightarrow> rq_IfNoneMatch rq = None)) (exchanges es)
      \<and> (case x of
           Return r \<Rightarrow> answered etagKey r (exchanges es)
         | Again (Some e) \<Rightarrow> (case cause e of ErrRunnerBusy \<Rightarrow> False | APIError _ _ _ \<Rightarrow> attempt < maxRetries | _ \<Rightarrow> True)
         | Again None \<Rightarrow> attempt < maxRetries))"

lemma round_ok_prefix:
  assumes "waits_capped es" "exchanges es = []" "round_ok meth url payload etagKey attempt x fs"
  shows "round_ok meth url payload etagKey attempt x (es @ fs)"
proof -
  have "exchanges (es @ fs) = exchanges fs" "waits_capped (es @ fs) = waits_capped fs"
    using assms(1,2) by simp_all
  with assms(3) show ?thesis unfolding round_ok_def by presburger
qed

lemma spec_handle_response:
  "spec (handle_response (traced_http H) url etagKey attempt resp)
     (\<lambda>_ x _ es. exchanges es = [] \<and> waits_capped es \<and> (case x of
           Return r \<Rightarrow> answered etagKey r [(rq, Inr resp)]
         | Again (Some e) \<Rightarrow> (case cause e of ErrRunnerBusy \<Rightarrow> False | APIError _ _ _ \<Rightarrow> attempt < maxRetries | _ \<Rightarrow> True)
         | Again None \<Rightarrow> attempt < maxRetries))"
  by (rule specI)
     (auto simp: handle_response_def recordRateLimit_def not_modified_def success_def failure_def
       run_call record_call_def split_beta Let_def answered_def ctx_error_def
       split: option.splits sum.splits if_splits dest!: retryAfter_bounds)

lemma spec_outcome:
  assumes "rq_Method rq = meth" "rq_URL rq = url" "rq_Payload rq = payload"
    "etagKey = [] \<Longrightarrow> rq_IfNoneMatch rq = None"
  shows "spec (outcome (traced_http H) url etagKey attempt r)
     (\<lambda>_ x _ es. round_ok meth url payload etagKey attempt x (HttpDo rq r # es))"
  unfolding outcome_def
proof (rule spec_bind [where Q = "\<lambda>_ _ _ es. es = []"
      and R = "\<lambda>_ _ x _ es. round_ok meth url payload etagKey attempt x (HttpDo rq r # es)"])
  show "spec (case r of Inl e \<Rightarrow> ret (if gone then Return (Inl ctx_error) else Again (Some (OtherError e)))
     | Inr resp \<Rightarrow> handle_response (traced_http H) url etagKey attempt resp)
     (\<lambda>_ x _ es. round_ok meth url payload etagKey attempt x (HttpDo rq r # es))" for gone
  proof (cases r)
    case (Inl e)
    then show ?thesis using assms by (auto simp: spec_def round_ok_def answered_def ctx_error_def)
  next
    case (Inr resp)
    show ?thesis
      unfolding Inr sum.case
      by (rule spec_weaken [OF spec_handle_response [where rq = rq]])
         (use assms in \<open>auto simp: round_ok_def Inr split: round.splits option.splits gherr.splits\<close>)
  qed
qed (auto simp: spec_def)

lemma spec_send:
  "spec (send (traced_http H) meth url payload etagKey attempt token)
     (\<lambda>_ x _ es. round_ok meth url payload etagKey attempt x es)"
  unfolding send_def
proof (rule spec_bind [where Q = "\<lambda>_ tag _ es. es = [] \<and> (etagKey = [] \<longrightarrow> tag = None)"
      and R = "\<lambda>tag _ x _ es. (etagKey = [] \<longrightarrow> tag = None) \<longrightarrow>
         round_ok meth url payload etagKey attempt x es"])
  fix tag :: "string option"
  let ?rq = "\<lparr> rq_Method = meth, rq_URL = url, rq_Token = token, rq_IfNoneMatch = tag, rq_Payload = payload \<rparr>"
  show "spec (State_Monad.bind (call (h_Do (traced_http H) ?rq)) (outcome (traced_http H) url etagKey attempt))
      (\<lambda>_ x _ es. (etagKey = [] \<longrightarrow> tag = None) \<longrightarrow> round_ok meth url payload etagKey attempt x es)"
  proof (cases "etagKey = [] \<longrightarrow> tag = None")
    case True
    then show ?thesis
      by (intro spec_bind [where Q = "\<lambda>_ r _ es. es = [HttpDo ?rq r]", OF _ spec_outcome [where rq = ?rq]])
         (auto simp: spec_def run_call record_call_def split_beta Let_def)
  next
    case False
    have o: "spec (outcome (traced_http H) url etagKey attempt r) (\<lambda>_ _ _ _. True)" for r
      by (rule spec_weaken [OF spec_outcome [where rq = "?rq\<lparr>rq_IfNoneMatch := None\<rparr>"]]) simp_all
    with False show ?thesis
      by (intro spec_bind [where Q = "\<lambda>_ _ _ _. True", OF _ o])
         (auto simp: spec_def run_call record_call_def split_beta Let_def)
  qed
qed (auto simp: spec_def)

lemma spec_one_round:
  "spec (one_round (traced_http H) meth url payload etagKey attempt)
     (\<lambda>_ x _ es. round_ok meth url payload etagKey attempt x es)"
proof -
  let ?ok = "\<lambda>x es. round_ok meth url payload etagKey attempt x es"
  have early: "spec (ret (Return (Inl (OtherError e)))) (\<lambda>_ x _ es. ?ok x es)" for e
    by (auto simp: spec_def round_ok_def answered_def)
  have token: "spec (State_Monad.bind (call (h_Token (traced_http H))) f) (\<lambda>_ x _ es. ?ok x es)"
    if "\<And>tok. spec (f tok) (\<lambda>_ x _ es. ?ok x es)" for f
    by (rule spec_bind [where Q = "\<lambda>_ _ _ es. es = []", OF _ that])
       (auto simp: spec_def run_call silent_call_def split_beta Let_def)
  have sleep: "spec (if 0 < attempt then call (h_Sleep (traced_http H) (backoff attempt)) else ret False)
     (\<lambda>_ _ _ es. waits_capped es \<and> exchanges es = [])"
    by (auto simp: spec_def run_call record_call_def split_beta Let_def backoff_bounds)
  show ?thesis
    unfolding one_round_def ctx_error_def
    by (rule spec_bind [OF sleep, where R = "\<lambda>_ _ x _ es. ?ok x es"], split if_split,
        intro conjI impI early token, split sum.split, intro conjI allI impI early, split option.split,
        intro conjI allI impI early spec_send) (blast intro: round_ok_prefix)
qed

lemma answered_append: "answered etagKey x fs \<Longrightarrow> answered etagKey x (es @ fs)"
  by (auto simp: answered_def split: sum.splits gherr.splits)

lemma spec_request_loop:
  assumes "left \<le> Suc maxRetries" "\<And>e. lastErr = Some e \<Longrightarrow> cause e \<noteq> ErrRunnerBusy"
    and "left = 0 \<Longrightarrow> \<exists>e. lastErr = Some e \<and> (\<forall>st msg u. cause e \<noteq> APIError st msg u)"
  shows "spec (request_loop (traced_http H) meth url payload etagKey left lastErr)
     (\<lambda>_ x _ es. waits_capped es \<and> length (exchanges es) \<le> left \<and> answered etagKey x (exchanges es)
        \<and> list_all (\<lambda>(rq, _). rq_Method rq = meth \<and> rq_URL rq = url \<and> rq_Payload rq = payload) (exchanges es))"
  using assms
proof (induction left arbitrary: lastErr)
  case 0
  then obtain e where "lastErr = Some e" "\<forall>st msg u. cause e \<noteq> APIError st msg u" "cause e \<noteq> ErrRunnerBusy"
    by blast
  then show ?case by (cases "cause e") (auto simp: spec_def answered_def)
next
  case (Suc left)
  let ?Q = "\<lambda>n x es. waits_capped es \<and> length (exchanges es) \<le> n \<and> answered etagKey x (exchanges es)
        \<and> list_all (\<lambda>(rq, _). rq_Method rq = meth \<and> rq_URL rq = url \<and> rq_Payload rq = payload) (exchanges es)"
  have next_round: "spec (request_loop (traced_http H) meth url payload etagKey left (case e of None \<Rightarrow> lastErr | Some _ \<Rightarrow> e))
      (\<lambda>_ x _ es. ?Q left x es)"
    if "round_ok meth url payload etagKey (maxRetries - left) (Again e) es" for e es
    using that Suc.prems
    by (intro Suc.IH) (auto simp: round_ok_def split: option.splits gherr.splits)
  show ?case
    unfolding request_loop.simps
  proof (rule spec_bind_dep [OF spec_one_round,
      where R = "\<lambda>r _ x _ fs. case r of Return y \<Rightarrow> x = y \<and> fs = [] | Again _ \<Rightarrow> ?Q left x fs"])
    fix r es
    assume "round_ok meth url payload etagKey (maxRetries - left) r es"
    then show "spec (case r of Return x \<Rightarrow> ret x
        | Again e \<Rightarrow> request_loop (traced_http H) meth url payload etagKey left (case e of None \<Rightarrow> lastErr | Some _ \<Rightarrow> e))
        (\<lambda>_ x _ fs. case r of Return y \<Rightarrow> x = y \<and> fs = [] | Again _ \<Rightarrow> ?Q left x fs)"
      by (cases r) (auto simp: spec_def intro: next_round [unfolded spec_def, rule_format])
  next
    fix r es x fs
    assume r: "round_ok meth url payload etagKey (maxRetries - left) r es"
      and "case r of Return y \<Rightarrow> x = y \<and> fs = [] | Again _ \<Rightarrow> ?Q left x fs"
    then show "?Q (Suc left) x (es @ fs)"
      by (cases r) (auto simp: round_ok_def list_all_iff intro: answered_append)
  qed
qed

lemma spec_request:
  "spec (request (traced_http H) c meth path body etagKey)
     (\<lambda>_ x _ es. waits_capped es \<and> length (exchanges es) \<le> Suc maxRetries \<and> answered etagKey x (exchanges es)
        \<and> list_all (\<lambda>(rq, _). rq_Method rq = meth \<and> rq_URL rq = full_url c path
             \<and> rq_Payload rq = map_option (js_marshal H) body) (exchanges es))"
  unfolding request_def by (rule spec_weaken [OF spec_request_loop]) auto

definition http_events :: "('w \<times> http_event list, 'a) cl \<Rightarrow> ('w \<times> http_event list) client \<Rightarrow> http_event list" where
  "http_events m s = drop (length (trace s)) (trace (snd (run_state m s)))"

lemma http_events_spec: "spec m Q \<Longrightarrow> Q s (fst (run_state m s)) (snd (run_state m s)) (http_events m s)"
proof -
  assume "spec m Q"
  then obtain es where "trace (snd (run_state m s)) = trace s @ es"
    "Q s (fst (run_state m s)) (snd (run_state m s)) es" by (rule specE)
  then show ?thesis by (simp add: http_events_def)
qed


definition last_status :: "(Request \<times> (string + Response)) list \<Rightarrow> int option" where
  "last_status ex = (case rev ex of (_, Inr resp) # _ \<Rightarrow> Some (rs_Status resp) | _ \<Rightarrow> None)"

lemma spec_RemoveRunner:
  "spec (RemoveRunner (traced_http H) c repo rid)
     (\<lambda>_ x _ es. (case x of
          None \<Rightarrow> \<exists>st. last_status (exchanges es) = Some st \<and> (200 \<le> st \<and> st < 300 \<or> st = 404)
        | Some e \<Rightarrow> cause e = ErrRunnerBusy \<longrightarrow> last_status (exchanges es) = Some 422)
      \<and> list_all (\<lambda>(rq, _). rq_Method rq = ''DELETE'') (exchanges es))"
  unfolding RemoveRunner_def Let_def
  by (rule spec_bind [OF spec_request, where R = "\<lambda>r _ x _ es. x = remove_result r \<and> es = []"])
     (auto simp: spec_def remove_result_def answered_def last_status_def IsNotFound_def list_all_iff
       split: sum.splits gherr.splits if_splits)

text \<open>
  C25. A runner counts as deregistered only if GitHub said so: \<open>RemoveRunner\<close> returns no error only
  after a 2xx or a 404 answer to its DELETE, and the busy error only after a 422.
\<close>

theorem RemoveRunner_confirmed:
  "let m = RemoveRunner (traced_http H) c repo rid; ex = exchanges (http_events m s)
   in (case fst (run_state m s) of
         None \<Rightarrow> \<exists>st. last_status ex = Some st \<and> (200 \<le> st \<and> st < 300 \<or> st = 404)
       | Some e \<Rightarrow> if cause e = ErrRunnerBusy then last_status ex = Some 422 else True)
      \<and> list_all (\<lambda>(rq, _). rq_Method rq = ''DELETE'') ex"
  using http_events_spec [OF spec_RemoveRunner, of H c repo rid s] by (auto simp: Let_def split: option.splits)

section \<open>Conditional requests\<close>

text \<open>
  A server that answers for a fixed content: every 2xx answer carries the content of the URL
  with its tag, and a 304 is only given to a request whose tag is that of the content.
\<close>

definition serves :: "'w http \<Rightarrow> (string \<Rightarrow> string) \<Rightarrow> (string \<Rightarrow> string) \<Rightarrow> bool" where
  "serves H content tagof =
     (\<forall>rq w resp. fst (h_Do H rq w) = Inr resp \<longrightarrow>
        (200 \<le> rs_Status resp \<and> rs_Status resp < 300 \<longrightarrow>
           rs_Body resp = Inr (content (rq_URL rq)) \<and> rs_Header resp ''ETag'' = tagof (content (rq_URL rq))
           \<and> length (content (rq_URL rq)) \<le> max_body)
        \<and> (rs_Status resp = 304 \<longrightarrow> rq_IfNoneMatch rq = Some (tagof (content (rq_URL rq)))))"

text \<open>Every cached body is stored under its own tag.\<close>

definition cache_honest :: "(string \<Rightarrow> string) \<Rightarrow> 'w client \<Rightarrow> bool" where
  "cache_honest tagof s = (\<forall>k ent. c_etags s k = Some ent \<longrightarrow> et_tag ent = tagof (et_body ent))"

lemma inj_tag: "inj tagof \<Longrightarrow> tagof a = tagof b \<longleftrightarrow> a = b"
  by (auto dest: injD)

lemma cache_honest_store:
  "cache_honest tagof s \<Longrightarrow> tag = tagof body \<Longrightarrow>
     cache_honest tagof (s\<lparr>c_etags := etag_store now k tag body (c_etags s)\<rparr>)"
  by (auto simp: cache_honest_def etag_store_def)

lemma cache_honest_touch:
  "cache_honest tagof s \<Longrightarrow> cache_honest tagof (s\<lparr>c_etags := etag_touch now k (c_etags s)\<rparr>)"
  by (auto simp: cache_honest_def etag_touch_def split: option.splits if_splits)

lemma cache_honest_forget:
  "cache_honest tagof s \<Longrightarrow> cache_honest tagof (s\<lparr>c_etags := etag_forget k (c_etags s)\<rparr>)"
  by (auto simp: cache_honest_def etag_forget_def)

lemma cache_honest_other [simp]:
  "cache_honest tagof (s\<lparr>c_rate := r\<rparr>) = cache_honest tagof s"
  "cache_honest tagof (s\<lparr>world := w\<rparr>) = cache_honest tagof s"
  by (simp_all add: cache_honest_def)

text \<open>A response that is right for a URL, given the tag the request carried.\<close>

definition right_response :: "(string \<Rightarrow> string) \<Rightarrow> string \<Rightarrow> string option \<Rightarrow> Response \<Rightarrow> bool" where
  "right_response tagof body tag resp =
     ((200 \<le> rs_Status resp \<and> rs_Status resp < 300 \<longrightarrow>
         rs_Body resp = Inr body \<and> rs_Header resp ''ETag'' = tagof body \<and> length body \<le> max_body)
      \<and> (rs_Status resp = 304 \<longrightarrow> tag = Some (tagof body)))"

abbreviation fresh :: "(string \<Rightarrow> string) \<Rightarrow> string \<Rightarrow> (gherr + string \<times> string) round \<Rightarrow> 'w client \<Rightarrow> bool" where
  "fresh tagof body x s \<equiv> cache_honest tagof s \<and> (\<forall>d n. x = Return (Inr (d, n)) \<longrightarrow> d = body)"

lemma hoare_failure: "hoare (cache_honest tagof) (failure H url attempt resp data) (fresh tagof body)"
  unfolding failure_def
  by (auto simp: hoare_def Let_def run_call split_beta split: option.splits if_splits)

lemma hoare_handle_response:
  assumes "right_response tagof body tag resp" "inj tagof"
  shows "hoare (\<lambda>s. cache_honest tagof s \<and> (key \<noteq> [] \<longrightarrow> tag = etag_tag (c_etags s) key))
     (handle_response H url key attempt resp) (fresh tagof body)"
proof -
  let ?P = "\<lambda>s. cache_honest tagof s \<and> (key \<noteq> [] \<longrightarrow> tag = etag_tag (c_etags s) key)"
  have rec: "hoare ?P (recordRateLimit H resp) (\<lambda>_. ?P)"
    by (simp add: hoare_def recordRateLimit_def)
  have nm: "hoare ?P (not_modified H key n) (fresh tagof body)" if "rs_Status resp = 304" "key \<noteq> []" for n
    using assms that unfolding not_modified_def hoare_def
    by (auto simp: right_response_def etag_tag_def cache_honest_def inj_tag split: option.splits
        intro: cache_honest_touch [unfolded cache_honest_def, simplified] simp: etag_touch_def etag_forget_def)
  have suc: "hoare ?P (success H key resp data n) (fresh tagof body)"
    if "200 \<le> rs_Status resp" "rs_Status resp < 300" "data = body" for n data
    using assms(1) that unfolding success_def hoare_def Let_def
    by (auto simp: right_response_def intro!: cache_honest_store)
  show ?thesis
    unfolding handle_response_def
  proof (rule hoare_bind [OF rec], unfold Let_def, rule hoare_if)
    fix u :: unit
    assume "rs_Status resp = 304 \<and> key \<noteq> []"
    then show "hoare ?P (not_modified H key (nextLink (rs_Header resp ''Link''))) (fresh tagof body)"
      using nm by blast
  next
    fix u :: unit
    assume "\<not> (rs_Status resp = 304 \<and> key \<noteq> [])"
    show "hoare ?P (case rs_Body resp of Inl e \<Rightarrow> ret (Again (Some (OtherError e)))
        | Inr b \<Rightarrow> if 200 \<le> rs_Status resp \<and> rs_Status resp < 300
             then success H key resp (take max_body b) (nextLink (rs_Header resp ''Link''))
             else failure H url attempt resp (take max_body b)) (fresh tagof body)"
    proof (cases "rs_Body resp")
      case (Inl e)
      then show ?thesis by (simp add: hoare_def)
    next
      case (Inr b)
      show ?thesis
        unfolding Inr sum.case
      proof (rule hoare_if)
        assume "200 \<le> rs_Status resp \<and> rs_Status resp < 300"
        then show "hoare ?P (success H key resp (take max_body b) (nextLink (rs_Header resp ''Link''))) (fresh tagof body)"
          using assms(1) Inr by (intro suc) (auto simp: right_response_def)
      qed (rule hoare_strengthen [OF hoare_failure], simp)
    qed
  qed
qed

lemma hoare_send:
  fixes H :: "'w http"
  assumes srv: "serves H content tagof" and inj: "inj tagof"
  shows "hoare (cache_honest tagof) (send H ''GET'' url None key attempt token) (fresh tagof (content url))"
proof -
  have step: "fresh tagof (content url) (fst (run_state (outcome H url key attempt r) s)) (snd (run_state (outcome H url key attempt r) s))"
    if "cache_honest tagof s" "tag = (if key \<noteq> [] then etag_tag (c_etags s) key else None)"
      "\<And>resp. r = Inr resp \<Longrightarrow> right_response tagof (content url) tag resp" for r s tag
  proof (cases r)
    case (Inl e)
    then show ?thesis using that(1) by (simp add: outcome_def)
  next
    case (Inr resp)
    from that(2) have "key \<noteq> [] \<longrightarrow> tag = etag_tag (c_etags s) key" by simp
    with hoare_handle_response [OF that(3) [OF Inr] inj, of key H url attempt, unfolded hoare_def, rule_format, of s]
      that(1)
    show ?thesis by (simp add: outcome_def Inr)
  qed
  show ?thesis
    unfolding send_def hoare_def
  proof (intro allI impI)
    fix s :: "'w client"
    assume ok: "cache_honest tagof s"
    let ?tag = "if key \<noteq> [] then etag_tag (c_etags s) key else None"
    let ?rq = "\<lparr> rq_Method = ''GET'', rq_URL = url, rq_Token = token, rq_IfNoneMatch = ?tag, rq_Payload = None \<rparr>"
    let ?a = "h_Do H ?rq (world s)"
    have r: "right_response tagof (content url) ?tag resp" if "fst ?a = Inr resp" for resp
      using srv [unfolded serves_def, rule_format, OF that] unfolding right_response_def by simp
    have "fresh tagof (content url) (fst (run_state (outcome H url key attempt (fst ?a)) (s\<lparr>world := snd ?a\<rparr>)))
      (snd (run_state (outcome H url key attempt (fst ?a)) (s\<lparr>world := snd ?a\<rparr>)))"
      by (rule step [of _ ?tag, OF _ _ r]) (simp_all add: ok)
    then show "fresh tagof (content url)
       (fst (run_state (State_Monad.bind (gets (\<lambda>s. if key \<noteq> [] then etag_tag (c_etags s) key else None))
          (\<lambda>tag. State_Monad.bind (call (h_Do H \<lparr> rq_Method = ''GET'', rq_URL = url, rq_Token = token,
              rq_IfNoneMatch = tag, rq_Payload = None \<rparr>)) (outcome H url key attempt))) s))
       (snd (run_state (State_Monad.bind (gets (\<lambda>s. if key \<noteq> [] then etag_tag (c_etags s) key else None))
          (\<lambda>tag. State_Monad.bind (call (h_Do H \<lparr> rq_Method = ''GET'', rq_URL = url, rq_Token = token,
              rq_IfNoneMatch = tag, rq_Payload = None \<rparr>)) (outcome H url key attempt))) s))"
      unfolding run_state_bind run_gets prod.case run_call .
  qed
qed

lemma hoare_one_round:
  assumes "serves H content tagof" and "inj tagof"
  shows "hoare (cache_honest tagof) (one_round H ''GET'' url None key attempt) (fresh tagof (content url))"
  unfolding one_round_def
proof (rule hoare_bind [where R = "\<lambda>_. cache_honest tagof"])
  show "hoare (cache_honest tagof) (if 0 < attempt then call (h_Sleep H (backoff attempt)) else ret False)
     (\<lambda>_. cache_honest tagof)" by (simp add: hoare_def run_call)
  fix cancelled
  show "hoare (cache_honest tagof) (if cancelled then ret (Return (Inl ctx_error))
      else State_Monad.bind (call (h_Token H)) (\<lambda>tok. case tok of
         Inl e \<Rightarrow> ret (Return (Inl (OtherError e)))
       | Inr token \<Rightarrow> (case h_badURL H url of
           Some e \<Rightarrow> ret (Return (Inl (OtherError e)))
         | None \<Rightarrow> send H ''GET'' url None key attempt token))) (fresh tagof (content url))"
  proof (rule hoare_if)
    show "hoare (cache_honest tagof) (ret (Return (Inl ctx_error))) (fresh tagof (content url))"
      by (simp add: hoare_def)
    show "hoare (cache_honest tagof) (State_Monad.bind (call (h_Token H)) (\<lambda>tok. case tok of
         Inl e \<Rightarrow> ret (Return (Inl (OtherError e)))
       | Inr token \<Rightarrow> (case h_badURL H url of
           Some e \<Rightarrow> ret (Return (Inl (OtherError e)))
         | None \<Rightarrow> send H ''GET'' url None key attempt token))) (fresh tagof (content url))"
    proof (rule hoare_bind [where R = "\<lambda>_. cache_honest tagof"])
      show "hoare (cache_honest tagof) (call (h_Token H)) (\<lambda>_. cache_honest tagof)"
        by (simp add: hoare_def run_call)
      show "hoare (cache_honest tagof) (case tok of
         Inl e \<Rightarrow> ret (Return (Inl (OtherError e)))
       | Inr token \<Rightarrow> (case h_badURL H url of
           Some e \<Rightarrow> ret (Return (Inl (OtherError e)))
         | None \<Rightarrow> send H ''GET'' url None key attempt token)) (fresh tagof (content url))" for tok
        using hoare_send [OF assms]
        by (cases tok; cases "h_badURL H url") (simp_all add: hoare_def)
    qed
  qed
qed

lemma hoare_request_loop:
  assumes "serves H content tagof" and "inj tagof"
  shows "hoare (cache_honest tagof) (request_loop H ''GET'' url None key left lastErr)
     (\<lambda>x s. cache_honest tagof s \<and> (\<forall>d n. x = Inr (d, n) \<longrightarrow> d = content url))"
proof (induction left arbitrary: lastErr)
  case 0
  show ?case by (simp add: hoare_def)
next
  case (Suc left)
  show ?case
    unfolding request_loop.simps
  proof (rule hoare_bind [OF hoare_one_round [OF assms]])
    fix r
    show "hoare (fresh tagof (content url) r) (case r of Return x \<Rightarrow> ret x
        | Again e \<Rightarrow> request_loop H ''GET'' url None key left (case e of None \<Rightarrow> lastErr | Some _ \<Rightarrow> e))
       (\<lambda>x s. cache_honest tagof s \<and> (\<forall>d n. x = Inr (d, n) \<longrightarrow> d = content url))"
    proof (cases r)
      case (Return x)
      then show ?thesis by (simp add: hoare_def)
    next
      case (Again e)
      show ?thesis unfolding Again round.case
        by (rule hoare_strengthen [OF Suc.IH]) simp
    qed
  qed
qed

text \<open>
  C9. Conditional requests never serve stale data: against a server whose tags identify the
  content, with a cache that holds every body under its own tag, whatever a GET returns is the
  current content of its URL, even when it comes from the cache through a 304 or after retries,
  and the cache keeps that invariant.
\<close>

theorem conditional_request_fresh:
  assumes "serves H content tagof" and "inj tagof" and "cache_honest tagof s"
    and "run_state (request H c ''GET'' path None etagKey) s = (x, s')"
  shows "cache_honest tagof s' \<and> (case x of Inr (data, _) \<Rightarrow> data = content (full_url c path) | Inl _ \<Rightarrow> True)"
  using hoareD [OF hoare_request_loop [OF assms(1,2), of "full_url c path" etagKey "maxRetries + 1" None] assms(3)]
    assms(4)
  by (auto simp: request_def split: sum.split)

text \<open>A server that always answers 304 to a cached tag, and a client that has the content cached.\<close>

definition example_http :: "unit http" where
  "example_http = \<lparr> h_now = (\<lambda>_. 0), h_cancelled = (\<lambda>_. False), h_Sleep = (\<lambda>d w. (False, w)),
     h_Token = (\<lambda>w. (Inr ''t'', w)), h_badURL = (\<lambda>_. None),
     h_Do = (\<lambda>rq w. (Inr (if rq_IfNoneMatch rq = Some ''[]''
         then \<lparr> rs_Status = 304, rs_Header = (\<lambda>_. []), rs_Body = Inr [] \<rparr>
         else \<lparr> rs_Status = 200, rs_Header = (\<lambda>h. if h = ''ETag'' then ''[]'' else []), rs_Body = Inr ''[]'' \<rparr>), w)),
     js_error = (\<lambda>_. None), js_marshal = (\<lambda>_. []), js_runners = (\<lambda>_. Some []), js_jit = (\<lambda>_. None),
     js_groups = (\<lambda>_. Some []), js_repos = (\<lambda>_. Some []), js_runs = (\<lambda>_. Some []), js_jobs = (\<lambda>_. Some []),
     js_hooks = (\<lambda>_. Some []), js_type = (\<lambda>_. None) \<rparr>"

definition example_client :: "unit client" where
  "example_client = \<lparr> world = (), c_etags = [''k'' \<mapsto> \<lparr> et_tag = ''[]'', et_body = ''[]'', et_seen = 0 \<rparr>],
     c_rate = \<lparr> rl_Limit = 0, rl_Remaining = 0, rl_Reset = 0, rl_Seen = 0 \<rparr>, c_groups = Map.empty \<rparr>"

definition example_settings :: Settings where
  "example_settings = \<lparr> cl_apiURL = ''https://api.github.com'', cl_webURL = [], cl_org = ''acme'', cl_owner = [] \<rparr>"

theorem conditional_request_fresh_witness:
  "\<exists>n s'. run_state (request example_http example_settings ''GET'' ''/x'' None ''k'') example_client
      = (Inr (''[]'', n), s') \<and> cache_honest (\<lambda>b. b) s'"
proof -
  have srv: "serves example_http (\<lambda>_. ''[]'') (\<lambda>b. b)"
    by (simp add: serves_def example_http_def max_body_def)
  have hon: "cache_honest (\<lambda>b. b) example_client"
    by (simp add: cache_honest_def example_client_def)
  obtain x s' where run: "run_state (request example_http example_settings ''GET'' ''/x'' None ''k'') example_client = (x, s')"
    by fastforce
  moreover from run obtain d n where "x = Inr (d, n)"
    by (auto simp: request_def numeral_eq_Suc maxRetries_def one_round_def send_def outcome_def
        handle_response_def recordRateLimit_def not_modified_def run_call example_http_def
        example_client_def etag_tag_def)
  ultimately show ?thesis
    using conditional_request_fresh [OF srv _ hon run] by auto
qed

end
