(* ===== verification/GhData.thy ===== *)
theory GhData
  imports GhProps
begin

text \<open>
  What the client makes of the pages it reads: the repository filter with its early stop, and the
  queued jobs with the errors of the repositories that could not be polled.
\<close>

section \<open>Pages\<close>

fun fold_pages :: "('a \<Rightarrow> string \<Rightarrow> gherr + 'a) \<Rightarrow> 'a \<Rightarrow> string list \<Rightarrow> gherr + 'a" where
  "fold_pages fn acc [] = Inr acc"
| "fold_pages fn acc (d # ds) = (case fn acc d of Inl e \<Rightarrow> Inl e | Inr acc' \<Rightarrow> fold_pages fn acc' ds)"

lemma yieldsD: "yields m R \<Longrightarrow> run_state m s = (a, s') \<Longrightarrow> R a"
  by (metis fst_conv yields_def)

text \<open>Whatever \<open>paginate\<close> returns is its callback folded over the bodies of some pages.\<close>

declare paginate_loop.simps [simp del]

lemma paginate_loop_done: "paginate_loop H c path pre fn left [] acc = ret (Inr acc)"
  by (subst paginate_loop.simps) simp

lemma paginate_loop_Suc:
  "url \<noteq> [] \<Longrightarrow> paginate_loop H c path pre fn (Suc left) url acc = do {
     r \<leftarrow> request H c ''GET'' url None
            (if pre \<noteq> [] then pre @ ''#'' @ itoa (int (page_limit - left)) else []);
     case r of
       Inl e \<Rightarrow> ret (Inl e)
     | Inr (data, next_url) \<Rightarrow> (case fn acc data of
         Inl e \<Rightarrow> ret (Inl e)
       | Inr acc' \<Rightarrow>
           if left = 0 then ret (Inl (OtherError (''pagination exceeded 200 pages at '' @ path)))
           else paginate_loop H c path pre fn left next_url acc') }"
  by (subst paginate_loop.simps) (simp add: Let_def)

lemma yields_paginate_loop:
  "yields (paginate_loop H c path pre fn left url acc)
     (\<lambda>x. case x of Inl e \<Rightarrow> True | Inr acc' \<Rightarrow> \<exists>ds. fold_pages fn acc ds = Inr acc')"
proof (induction left arbitrary: url acc)
  case 0
  show ?case
    by (subst paginate_loop.simps) (auto simp: yields_def paginate_loop_done intro!: exI [of _ "[]"])
next
  case (Suc left)
  let ?R = "\<lambda>acc x. case x of Inl e \<Rightarrow> True | Inr acc' \<Rightarrow> \<exists>ds. fold_pages fn acc ds = Inr acc'"
  have here: "yields (ret (Inr acc)) (?R acc)" for acc by (rule yields_ret) (auto intro!: exI [of _ "[]"])
  have err: "yields (ret (Inl e)) (?R acc)" for e acc by (rule yields_ret) simp
  have rest: "yields (paginate_loop H c path pre fn left nxt acc') (?R acc)" if "fn acc d = Inr acc'" for nxt acc' d
  proof -
    have "?R acc x" if "?R acc' x" for x
    proof (cases x)
      case (Inr b)
      with that obtain ds where "fold_pages fn acc' ds = Inr b" by auto
      then have "fold_pages fn acc (d # ds) = Inr b" using \<open>fn acc d = Inr acc'\<close> by simp
      then show ?thesis unfolding Inr sum.case by blast
    qed simp
    with Suc.IH [of nxt acc'] show ?thesis unfolding yields_def by blast
  qed
  show ?case
  proof (cases "url = []")
    case True
    then show ?thesis using here by (simp add: paginate_loop_done)
  next
    case False
    then show ?thesis
      unfolding paginate_loop_Suc [OF False]
      by (intro yields_bind_any) (auto split: sum.split prod.split intro!: err rest)
  qed
qed

lemma yields_paginate:
  "yields (paginate H c path pre fn acc)
     (\<lambda>x. case x of Inl e \<Rightarrow> True | Inr acc' \<Rightarrow> \<exists>ds. fold_pages fn acc ds = Inr acc')"
  unfolding paginate_def by (rule yields_paginate_loop)

section \<open>Repositories\<close>

text \<open>A repository the configuration wants watched.\<close>

definition wanted :: "Settings \<Rightarrow> RepoFilterOpts \<Rightarrow> int option \<Rightarrow> Repo \<Rightarrow> bool" where
  "wanted c f cutoff r = (keep_repo c f r \<and> (case cutoff of None \<Rightarrow> True | Some t \<Rightarrow> t \<le> repo_PushedAt r))"

abbreviation newest_first :: "Repo list \<Rightarrow> bool" where
  "newest_first \<equiv> sorted_wrt (\<lambda>a b. repo_PushedAt b \<le> repo_PushedAt a)"

lemma none_wanted:
  assumes "sorted_wrt (\<lambda>a b. repo_PushedAt b \<le> repo_PushedAt a) (r # rs)"
    "case cutoff of Some t \<Rightarrow> repo_PushedAt r < t | None \<Rightarrow> False"
  shows "filter (wanted c f cutoff) (r # rs) = []"
  using assms by (auto simp: wanted_def filter_empty_conv split: option.splits)

lemma take_repos_filter:
  "newest_first (rs @ later) \<Longrightarrow> take_repos c f cutoff rs all = (stop, all') \<Longrightarrow>
     all' = all @ filter (wanted c f cutoff) rs \<and> (stop \<longrightarrow> filter (wanted c f cutoff) later = [])"
proof (induction rs arbitrary: all)
  case (Cons r rs)
  show ?case
  proof (cases "case cutoff of Some t \<Rightarrow> repo_PushedAt r < t | None \<Rightarrow> False")
    case True
    with none_wanted [of r "rs @ later" cutoff c f] Cons.prems show ?thesis
      by (simp split: if_splits)
  next
    case False
    then have "wanted c f cutoff r = keep_repo c f r" by (auto simp: wanted_def split: option.splits)
    with False Cons.IH [of "if keep_repo c f r then all @ [r] else all"] Cons.prems show ?thesis
      by (auto split: if_splits)
  qed
qed simp

lemma fold_repos_filter:
  assumes "newest_first (concat (List.map_filter (js_repos H) ds))"
    and "fold_pages (repos_page H c f cutoff) (stop, all) ds = Inr (stop', all')"
    and "stop \<Longrightarrow> filter (wanted c f cutoff) (concat (List.map_filter (js_repos H) ds)) = []"
  shows "all' = all @ filter (wanted c f cutoff) (concat (List.map_filter (js_repos H) ds))"
  using assms
proof (induction ds arbitrary: stop all)
  case Nil
  then show ?case by (simp add: List.map_filter_simps)
next
  case (Cons d ds)
  show ?case
  proof (cases stop)
    case True
    with Cons.prems(2) have "fold_pages (repos_page H c f cutoff) (True, all) ds = Inr (stop', all')"
      by (simp add: repos_page_def [of H c f cutoff "(True, all)" d])
    with Cons.IH [of True all] Cons.prems True show ?thesis
      by (auto simp: List.map_filter_simps sorted_wrt_append split: option.splits)
  next
    case False
    with Cons.prems(2) obtain rs where rs: "js_repos H d = Some rs"
      by (auto simp: repos_page_def split: option.splits)
    obtain stop1 all1 where t: "take_repos c f cutoff rs all = (stop1, all1)" by fastforce
    let ?later = "concat (List.map_filter (js_repos H) ds)"
    have "newest_first (rs @ ?later)" using Cons.prems(1) rs by (simp add: List.map_filter_simps)
    from take_repos_filter [OF this t]
    have a: "all1 = all @ filter (wanted c f cutoff) rs" "stop1 \<Longrightarrow> filter (wanted c f cutoff) ?later = []" by auto
    have "fold_pages (repos_page H c f cutoff) (stop1, all1) ds = Inr (stop', all')"
      using Cons.prems(2) False rs t by (simp add: repos_page_def [of H c f cutoff "(False, all)" d])
    with Cons.IH [of stop1 all1] a \<open>newest_first (rs @ ?later)\<close> rs show ?thesis
      by (simp add: List.map_filter_simps sorted_wrt_append)
  qed
qed

text \<open>
  The early stop loses nothing: the repositories \<open>ListRepos\<close> returns come in name order, and if
  GitHub lists them by their last push as asked, they are exactly the listed ones the
  configuration wants (owner, forks, disabled, archived, patterns, activity).
\<close>

lemma ListRepos_complete:
  assumes "run_state (ListRepos H c f) s = (Inr rs, s')"
  shows "\<exists>ds. let all = concat (List.map_filter (js_repos H) ds);
                 cutoff = (if fo_ActiveWithin f > 0 then Some (h_now H (world s) - fo_ActiveWithin f) else None)
             in sorted (map repo_Name rs)
                \<and> (newest_first all \<longrightarrow> mset rs = mset (filter (wanted c f cutoff) all))"
proof -
  let ?cut = "if fo_ActiveWithin f > 0 then Some (h_now H (world s) - fo_ActiveWithin f) else None"
  let ?p = "if cl_owner c \<noteq> [] then ''/user/repos?per_page=100&affiliation=owner&sort=pushed&direction=desc''
      else ''/orgs/'' @ cl_org c @ ''/repos?per_page=100&type=all&sort=pushed&direction=desc''"
  let ?fn = "repos_page H c f ?cut"
  obtain x s1 where run: "run_state (paginate H c ?p [] ?fn (False, [])) s = (x, s1)" by fastforce
  with assms obtain stop all where x: "x = Inr (stop, all)" and rs: "rs = sort_key repo_Name all"
    unfolding ListRepos_def Let_def run_state_bind run_look prod.case run
    by (auto simp: sort_repos_def split: sum.splits prod.splits)
  have "case x of Inl e \<Rightarrow> True | Inr acc' \<Rightarrow> \<exists>ds. fold_pages ?fn (False, []) ds = Inr acc'"
    using yieldsD [OF yields_paginate run] .
  then obtain ds where ds: "fold_pages ?fn (False, []) ds = Inr (stop, all)"
    unfolding x sum.case by blast
  from fold_repos_filter [OF _ this]
  have "newest_first (concat (List.map_filter (js_repos H) ds)) \<longrightarrow>
      all = filter (wanted c f ?cut) (concat (List.map_filter (js_repos H) ds))" by simp
  then show ?thesis
    unfolding Let_def rs by (intro exI [of _ ds]) auto
qed

lemma ListRepos_complete_witness:
  "\<exists>rs s'. run_state (ListRepos example_http example_settings
       \<lparr> fo_Include = [], fo_Exclude = [], fo_ActiveWithin = 0, fo_Archived = False \<rparr>) example_client = (Inr rs, s')
     \<and> sorted (map repo_Name rs)"
proof -
  let ?f = "\<lparr> fo_Include = [], fo_Exclude = [], fo_ActiveWithin = 0, fo_Archived = False \<rparr>"
  obtain x s' where run: "run_state (ListRepos example_http example_settings ?f) example_client = (x, s')"
    by fastforce
  have ex: "cl_owner example_settings = []" "cl_org example_settings = ''acme''" "js_repos example_http d = Some []" for d
    by (simp_all add: example_settings_def example_http_def)
  have t: "take max_body ''[]'' = ''[]''" by (rule take_all) (simp add: max_body_def)
  have five: "maxRetries + 1 = Suc 4" by (simp add: maxRetries_def)
  have req: "fst (run_state (request example_http example_settings ''GET'' u None []) example_client) = Inr (''[]'', [])" for u
    unfolding request_def five request_loop.simps
    by (simp add: maxRetries_def one_round_def send_def outcome_def success_def t
        handle_response_def recordRateLimit_def run_call example_http_def example_client_def)
  have pg: "fst (run_state (paginate example_http example_settings (CHR ''/'' # u) [] fn acc) example_client)
      = (case fn acc ''[]'' of Inl e \<Rightarrow> Inl e | Inr a \<Rightarrow> Inr a)" for u fn and acc :: "bool \<times> Repo list"
  proof -
    have "page_limit + 1 = Suc 200" by (simp add: page_limit_def)
    then show ?thesis
      using req by (simp add: paginate_def paginate_loop_Suc paginate_loop_done split_beta split: sum.split)
  qed
  moreover from run obtain rs where x: "x = Inr rs"
    unfolding ListRepos_def Let_def run_state_bind run_look prod.case
    by (auto simp: pg split_beta repos_page_def ex)
  ultimately have "run_state (ListRepos example_http example_settings ?f) example_client = (Inr rs, s')"
    using run by simp
  moreover from ListRepos_complete [OF this] have "sorted (map repo_Name rs)" by (auto simp: Let_def)
  ultimately show ?thesis by blast
qed

section \<open>Queued jobs\<close>

lemma yields_run_jobs:
  "list_all P jobs \<Longrightarrow> (\<And>js. list_all P (queued_jobs name js)) \<Longrightarrow>
     yields (run_jobs H c name ids jobs) (\<lambda>x. case x of Inl e \<Rightarrow> True | Inr js \<Rightarrow> list_all P js)"
proof (induction ids arbitrary: jobs)
  case Nil
  then show ?case by (auto simp: yields_def)
next
  case (Cons i ids)
  show ?case
    unfolding run_jobs.simps
    by (intro yields_bind_any) (auto simp: Cons split: sum.split intro!: Cons.IH yields_if yields_ret)
qed

definition demand_of :: "string \<Rightarrow> Job \<Rightarrow> bool" where
  "demand_of name j = (SelfHosted j \<and> job_Status j = ''queued'' \<and> job_Repo j = name)"

lemma queued_jobs_demand: "list_all (demand_of name) (queued_jobs name js)"
  by (auto simp: queued_jobs_def demand_of_def list_all_iff)

lemma yields_repoPendingJobs:
  "yields (repoPendingJobs H c repo)
     (\<lambda>x. case x of Inl e \<Rightarrow> True | Inr js \<Rightarrow> list_all (demand_of (repo_Name repo)) js)"
  unfolding repoPendingJobs_def
  by (rule yields_bind_any, split sum.split, intro conjI allI impI yields_run_jobs queued_jobs_demand yields_ret)
     simp_all

lemma yields_poll_repos:
  "yields (poll_repos H c repos)
     (list_all2 (\<lambda>repo x. case x of Inl e \<Rightarrow> True | Inr js \<Rightarrow> list_all (demand_of (repo_Name repo)) js) repos)"
proof (induction repos)
  case (Cons repo repos)
  show ?case
    unfolding poll_repos.simps
    by (rule yields_bind [OF yields_repoPendingJobs], rule yields_bind [OF Cons.IH], rule yields_ret) simp
qed (auto simp: yields_def)

lemma poll_jobs_demand:
  "list_all2 (\<lambda>repo x. case x of Inl e \<Rightarrow> True | Inr js \<Rightarrow> list_all (demand_of (repo_Name repo)) js) repos results
     \<Longrightarrow> list_all (\<lambda>j. \<exists>repo \<in> set repos. demand_of (repo_Name repo) j) (poll_jobs results)"
  by (induction repos results rule: list_all2_induct)
     (auto simp: poll_jobs_def list_all_iff split: sum.splits)

text \<open>
  Only demand is reported: every job that \<open>PendingJobs\<close> returns, with or without an error, is
  queued, asks for a self-hosted runner, and belongs to one of the repositories polled; and
  the jobs come in the order of their ids.
\<close>

lemma PendingJobs_only_demand:
  "let jobs = fst (fst (run_state (PendingJobs text H c repos) s))
   in sorted (map job_ID jobs) \<and> list_all (\<lambda>j. \<exists>repo \<in> set repos. demand_of (repo_Name repo) j) jobs"
proof -
  obtain rs s' where run: "run_state (poll_repos H c repos) s = (rs, s')" by fastforce
  from poll_jobs_demand [OF yieldsD [OF yields_poll_repos run]] show ?thesis
    by (simp add: PendingJobs_def run collect_def Let_def list_all_iff)
qed

text \<open>
  A broken repository hides nothing: the jobs are those of every repository whose poll
  succeeded, and the error is none when all did, a partial one that names each failure when
  some did, and a total one (which is not partial) when none did.
\<close>

lemma collect_partial:
  assumes "length results = length repos"
  shows "mset (fst (collect text repos results)) = mset (poll_jobs results)
     \<and> snd (collect text repos results) =
         (if list_all (\<lambda>r. \<not> isl r) results then None
          else if list_all isl results
          then Some (OtherError (''all repo polls failed: '' @ join_str ''; '' (poll_errors text repos results)))
          else Some (PartialError (poll_errors text repos results)))
     \<and> length (poll_errors text repos results) = length (filter isl results)"
proof -
  have len: "length (poll_errors text repos results) = length (filter isl results)"
    using assms by (induction repos results rule: list_induct2')
      (auto simp: poll_errors_def List.map_filter_simps split: sum.splits)
  have "length (filter isl results) = length results \<longleftrightarrow> list_all isl results"
    by (metis filter_True length_filter_less list_all_iff nless_le)
  moreover have "length (filter isl results) = 0 \<longleftrightarrow> list_all (\<lambda>r. \<not> isl r) results"
    by (auto simp: filter_empty_conv list_all_iff)
  ultimately show ?thesis using len assms by (auto simp: collect_def Let_def)
qed

lemma collect_partial_witness:
  "\<forall>r1 r2. snd (collect (\<lambda>_. ''gone'') [r1, r2] [Inl (OtherError ''x''), Inr []])
     = Some (PartialError [repo_Name r1 @ '': gone''])"
  using collect_partial [of "[Inl (OtherError ''x''), Inr []]" "[r1, r2]" "\<lambda>_. ''gone''" for r1 r2]
  by (simp add: poll_errors_def List.map_filter_simps)

end
