(* ===== verification/Process.thy ===== *)
theory Process
  imports Provider Paths ConfigTypes "HOL-Library.List_Lexorder" "HOL-Library.Char_ord"
begin

text \<open>
  The process provider (\<open>internal/provider/processprov\<close>): runners as process groups, each in a
  directory of its own below \<open>instances_dir\<close>. The host is a state with that directory, the
  processes and a clock; which of its operations fail, and how a process takes a signal, are
  fields of the state, so that a theorem about every host covers every outcome.
\<close>

section \<open>The host\<close>

record instanceState =
  st_Pool :: string
  st_RunnerName :: string
  st_RunnerID :: int
  st_PID :: int
  st_CreatedAt :: int

text \<open>
  An entry of \<open>instances_dir\<close>: whether it is a directory, the state file in it when it can be
  read, and the contents of \<open>runner.log\<close>.
\<close>

record entry =
  en_isDir :: bool
  en_state :: "instanceState option"
  en_log :: "string option"

text \<open>A process: its command line, and when it ends (\<open>None\<close>: not in sight).\<close>

record process =
  pr_cmdline :: string
  pr_ends :: "int option"

datatype signal = SIGTERM | SIGKILL

record machine =
  ho_clock :: int
  ho_dir :: "(string \<times> entry) list option"
  ho_procs :: "int \<rightharpoonup> process"
  ho_seen :: "int \<times> string \<rightharpoonup> bool"
  ho_signals :: "(int \<times> signal) list"
  ho_readdirFails :: "string option"
  ho_removeFails :: "string \<Rightarrow> bool"
  ho_psFails :: bool
  ho_termDelay :: "int \<Rightarrow> int option"
  ho_killDelay :: "int \<Rightarrow> int option"

section \<open>Processes (\<open>proc_unix.go\<close>)\<close>

definition processAlive :: "int \<Rightarrow> machine \<Rightarrow> bool" where
  "processAlive pid h =
     (pid > 0 \<and> (case ho_procs h pid of
        None \<Rightarrow> False
      | Some p \<Rightarrow> (case pr_ends p of None \<Rightarrow> True | Some t \<Rightarrow> ho_clock h < t)))"

text \<open>When a process would end after a signal, at the latest when it would anyway.\<close>

definition ends_after :: "int \<Rightarrow> int option \<Rightarrow> int option \<Rightarrow> int option" where
  "ends_after now delay old =
     (case delay of
        None \<Rightarrow> old
      | Some d \<Rightarrow> Some (case old of None \<Rightarrow> now + max 0 d | Some t \<Rightarrow> min t (now + max 0 d)))"

definition signalGroup :: "int \<Rightarrow> signal \<Rightarrow> machine \<Rightarrow> machine" where
  "signalGroup pid sig h =
     (if pid \<le> 0 then h
      else h\<lparr>ho_signals := ho_signals h @ [(pid, sig)],
             ho_procs := (case ho_procs h pid of
                None \<Rightarrow> ho_procs h
              | Some p \<Rightarrow> (ho_procs h)(pid \<mapsto> p\<lparr>pr_ends := ends_after (ho_clock h)
                  (case sig of SIGTERM \<Rightarrow> ho_termDelay h pid | SIGKILL \<Rightarrow> ho_killDelay h pid) (pr_ends p)\<rparr>))\<rparr>)"

definition killGroup :: "int \<Rightarrow> machine \<Rightarrow> machine" where
  "killGroup pid h = signalGroup pid SIGKILL h"

text \<open>\<open>processMatches\<close>: the command line of the pid is looked at once and the answer kept.\<close>

definition looks_like_runner :: "string \<Rightarrow> string \<Rightarrow> bool" where
  "looks_like_runner cmdline dir =
     (contains_str cmdline dir \<or> contains_str cmdline ''Runner.Listener'' \<or> contains_str cmdline ''run.sh'')"

definition ps_match :: "int \<Rightarrow> string \<Rightarrow> machine \<Rightarrow> bool" where
  "ps_match pid dir h =
     (if ho_psFails h \<or> \<not> processAlive pid h then True
      else (case ho_procs h pid of None \<Rightarrow> True | Some p \<Rightarrow> looks_like_runner (pr_cmdline p) dir))"

definition processMatches :: "int \<Rightarrow> string \<Rightarrow> machine \<Rightarrow> bool \<times> machine" where
  "processMatches pid dir h =
     (case ho_seen h (pid, dir) of
        Some v \<Rightarrow> (v, h)
      | None \<Rightarrow> (let v = ps_match pid dir h in (v, h\<lparr>ho_seen := (ho_seen h)((pid, dir) \<mapsto> v)\<rparr>)))"

section \<open>Files\<close>

text \<open>
  A path below \<open>instances_dir\<close>, as the functions build it from an id: the directory itself when
  the id's base name is \<open>.\<close> or \<open>/\<close>, its parent when it is \<open>..\<close>, and an entry otherwise.
\<close>

datatype target = Entry string | Whole

definition target_of :: "string \<Rightarrow> target" where
  "target_of ident =
     (let b = filepath_base ident in if b = ''.'' \<or> b = ''/'' \<or> b = ''..'' then Whole else Entry b)"

definition instance_dir :: "string \<Rightarrow> string \<Rightarrow> string" where
  "instance_dir idir ident = filepath_join [idir, filepath_base ident]"

definition lookup_entry :: "string \<Rightarrow> machine \<Rightarrow> entry option" where
  "lookup_entry name h = (case ho_dir h of None \<Rightarrow> None | Some es \<Rightarrow> map_of es name)"

definition readState :: "string \<Rightarrow> machine \<Rightarrow> instanceState option" where
  "readState name h = (case lookup_entry name h of None \<Rightarrow> None | Some e \<Rightarrow> en_state e)"

text \<open>\<open>os.RemoveAll\<close>: no error for what does not exist.\<close>

definition RemoveAll :: "target \<Rightarrow> machine \<Rightarrow> bool \<times> machine" where
  "RemoveAll t h =
     (case t of
        Whole \<Rightarrow> (True, h\<lparr>ho_dir := None\<rparr>)
      | Entry n \<Rightarrow> if ho_removeFails h n \<and> lookup_entry n h \<noteq> None then (False, h)
                   else (True, h\<lparr>ho_dir := map_option (filter (\<lambda>e. fst e \<noteq> n)) (ho_dir h)\<rparr>))"

text \<open>\<open>ReadDir\<close> lists in name order; a new entry goes to its place.\<close>

definition put_entry :: "string \<Rightarrow> entry \<Rightarrow> machine \<Rightarrow> machine" where
  "put_entry n e h = (let es = (case ho_dir h of None \<Rightarrow> [] | Some es \<Rightarrow> es)
     in h\<lparr>ho_dir := Some (insort_key fst (n, e) (filter (\<lambda>x. fst x \<noteq> n) es))\<rparr>)"

section \<open>Listing and destroying (\<open>process.go\<close>)\<close>

text \<open>The instance of one directory.\<close>

definition list_entry :: "string \<Rightarrow> string \<Rightarrow> string \<times> entry \<Rightarrow> machine \<Rightarrow> Instance \<times> machine" where
  "list_entry idir pool ne h =
     (let (name, e) = ne
      in case en_state e of
           None \<Rightarrow> (\<lparr> i_ID = name, i_Pool = pool, i_RunnerName = name, i_RunnerID = 0,
                       i_State = StateUnknown, i_CreatedAt = 0, i_ExitCode = 0,
                       i_Detail = ''no instance state'' \<rparr>, h)
         | Some st \<Rightarrow>
             (let inst = (\<lambda>state detail. \<lparr> i_ID = name, i_Pool = pool, i_RunnerName = st_RunnerName st,
                            i_RunnerID = st_RunnerID st, i_State = state, i_CreatedAt = st_CreatedAt st,
                            i_ExitCode = 0, i_Detail = detail \<rparr>)
              in if \<not> processAlive (st_PID st) h then (inst StateExited ''process exited'', h)
                 else (let (ok, h') = processMatches (st_PID st) (filepath_join [idir, name]) h
                       in (if ok then inst StateRunning (''pid '' @ itoa (st_PID st))
                           else inst StateExited ''pid recycled by another process'', h'))))"

fun list_entries :: "string \<Rightarrow> string \<Rightarrow> (string \<times> entry) list \<Rightarrow> machine \<Rightarrow> Instance list \<times> machine" where
  "list_entries idir pool [] h = ([], h)"
| "list_entries idir pool (ne # rest) h =
     (if \<not> en_isDir (snd ne) then list_entries idir pool rest h
      else (let (i, h1) = list_entry idir pool ne h; (is, h2) = list_entries idir pool rest h1
            in (i # is, h2)))"

definition process_List :: "string \<Rightarrow> string \<Rightarrow> machine \<Rightarrow> (string + Instance list) \<times> machine" where
  "process_List idir pool h =
     (case ho_readdirFails h of
        Some e \<Rightarrow> (Inl e, h)
      | None \<Rightarrow> (case ho_dir h of
          None \<Rightarrow> (Inr [], h)
        | Some es \<Rightarrow> (let (is, h') = list_entries idir pool es h in (Inr is, h'))))"

definition pollStep :: int where "pollStep = 200 * Millisecond"

text \<open>\<open>waitForExit\<close>: a look every 200 ms until the deadline, and a last one.\<close>

function wait_loop :: "int \<Rightarrow> int \<Rightarrow> machine \<Rightarrow> bool \<times> machine" where
  "wait_loop pid deadline h =
     (if ho_clock h < deadline then
        (if \<not> processAlive pid h then (True, h)
         else wait_loop pid deadline (h\<lparr>ho_clock := ho_clock h + pollStep\<rparr>))
      else (\<not> processAlive pid h, h))"
  by pat_completeness auto
termination
  by (relation "measure (\<lambda>(pid, deadline, h). nat (deadline - ho_clock h))")
     (auto simp: pollStep_def duration_defs)

declare wait_loop.simps [simp del]

definition waitForExit :: "int \<Rightarrow> int \<Rightarrow> machine \<Rightarrow> bool \<times> machine" where
  "waitForExit pid timeout h = wait_loop pid (ho_clock h + timeout) h"

text \<open>The signals of \<open>Destroy\<close>: first a polite one, and after 20 seconds a kill.\<close>

definition stop_process :: "int \<Rightarrow> machine \<Rightarrow> machine" where
  "stop_process pid h =
     (let (exited, h2) = waitForExit pid (20 * Second) (signalGroup pid SIGTERM h)
      in if exited then h2 else snd (waitForExit pid (5 * Second) (killGroup pid h2)))"

definition process_Destroy :: "string \<Rightarrow> string \<Rightarrow> machine \<Rightarrow> string option \<times> machine" where
  "process_Destroy idir ident h =
     (let st = (case target_of ident of Whole \<Rightarrow> None | Entry n \<Rightarrow> readState n h);
          h1 = (case st of
                  None \<Rightarrow> h
                | Some s \<Rightarrow>
                    if \<not> processAlive (st_PID s) h then h
                    else (let (ok, h') = processMatches (st_PID s) (instance_dir idir ident) h
                          in if ok then stop_process (st_PID s) h' else h'));
          (removed, h2) = RemoveAll (target_of ident) h1
      in (if removed then None else Some (''remove instance dir '' @ instance_dir idir ident), h2))"

fun prune_all :: "string \<Rightarrow> Instance list \<Rightarrow> int \<Rightarrow> machine \<Rightarrow> int \<times> machine" where
  "prune_all idir [] removed h = (removed, h)"
| "prune_all idir (inst # rest) removed h =
     (if i_State inst = StateRunning \<or> i_State inst = StateStarting then prune_all idir rest removed h
      else (let (e, h') = process_Destroy idir (i_ID inst) h
            in prune_all idir rest (if e = None then removed + 1 else removed) h'))"

definition process_Prune :: "string \<Rightarrow> string \<Rightarrow> machine \<Rightarrow> (string + int) \<times> machine" where
  "process_Prune idir pool h =
     (let (r, h1) = process_List idir pool h
      in case r of
           Inl e \<Rightarrow> (Inl e, h1)
         | Inr is \<Rightarrow> (let (n, h2) = prune_all idir is 0 h1 in (Inr n, h2)))"

text \<open>The tail of the log; \<open>trim_newlines\<close> is \<open>TrimRight\<close> with the newline.\<close>

definition trim_newlines :: "string \<Rightarrow> string" where
  "trim_newlines s = rev (dropWhile (\<lambda>c. c = CHR 0x0A) (rev s))"

definition tail_lines :: "int \<Rightarrow> string \<Rightarrow> string" where
  "tail_lines lines data =
     (let n = (if lines \<le> 0 then 100 else lines);
          parts = split_char (CHR 0x0A) (trim_newlines data)
      in join_str [CHR 0x0A] (if int (length parts) > n then drop (length parts - nat n) parts else parts))"

definition process_Logs :: "string \<Rightarrow> int \<Rightarrow> machine \<Rightarrow> string + string" where
  "process_Logs ident lines h =
     (case (case target_of ident of Whole \<Rightarrow> None | Entry n \<Rightarrow> lookup_entry n h) of
        None \<Rightarrow> Inl ''no such file or directory''
      | Some e \<Rightarrow> (case en_log e of None \<Rightarrow> Inl ''no such file or directory''
                   | Some data \<Rightarrow> Inr (tail_lines lines data)))"

section \<open>Creating\<close>

text \<open>Which step of a creation the host makes fail, if any, and the pid a started runner gets.\<close>

datatype create_step =
  AtClear | AtMkdir | AtClone | AtTemp | AtPreflight | AtLog | AtStart | AtState

record create_env =
  ce_fails :: "create_step option"
  ce_pid :: int
  ce_cmdline :: string

definition no_entry :: entry where
  "no_entry = \<lparr> en_isDir = True, en_state = None, en_log = None \<rparr>"

definition undo_create :: "string \<Rightarrow> machine \<Rightarrow> machine" where
  "undo_create n h = snd (RemoveAll (Entry n) h)"

text \<open>The last part: the process is started and its state file written.\<close>

definition start_runner ::
  "string \<Rightarrow> create_env \<Rightarrow> Spec \<Rightarrow> machine \<Rightarrow> (create_step + Instance) \<times> machine" where
  "start_runner pool env sp h =
     (let n = spec_RunnerName sp; pid = ce_pid env;
          h1 = h\<lparr>ho_procs := (ho_procs h)(pid \<mapsto> \<lparr> pr_cmdline = ce_cmdline env, pr_ends = None \<rparr>)\<rparr>
      in if ce_fails env = Some AtState then (Inl AtState, undo_create n (killGroup pid h1))
         else (Inr \<lparr> i_ID = n, i_Pool = pool, i_RunnerName = n, i_RunnerID = spec_RunnerID sp,
                     i_State = StateStarting, i_CreatedAt = ho_clock h, i_ExitCode = 0, i_Detail = [] \<rparr>,
               put_entry n \<lparr> en_isDir = True, en_state = Some
                   \<lparr> st_Pool = pool, st_RunnerName = n, st_RunnerID = spec_RunnerID sp, st_PID = pid,
                     st_CreatedAt = ho_clock h \<rparr>, en_log = Some [] \<rparr> h1))"

text \<open>From the clone on: a failure past the temporary directory removes the instance again.\<close>

definition build_instance ::
  "string \<Rightarrow> ProcessSpec \<Rightarrow> create_env \<Rightarrow> Spec \<Rightarrow> machine \<Rightarrow> (create_step + Instance) \<times> machine" where
  "build_instance pool ps env sp h =
     (let n = spec_RunnerName sp; f = ce_fails env; h2 = put_entry n no_entry h
      in if f = Some AtClone then (Inl AtClone, h2)
         else if f = Some AtTemp then (Inl AtTemp, h2)
         else if p_PreflightScript ps \<noteq> [] \<and> f = Some AtPreflight then (Inl AtPreflight, undo_create n h2)
         else if f = Some AtLog then (Inl AtLog, undo_create n h2)
         else (let h3 = put_entry n (no_entry\<lparr>en_log := Some []\<rparr>) h2
               in if f = Some AtStart then (Inl AtStart, undo_create n h3)
                  else start_runner pool env sp h3))"

definition process_Create ::
  "string \<Rightarrow> ProcessSpec \<Rightarrow> create_env \<Rightarrow> Spec \<Rightarrow> machine \<Rightarrow> (create_step + Instance) \<times> machine" where
  "process_Create pool ps env sp h =
     (let (cleared, h1) = RemoveAll (Entry (spec_RunnerName sp)) h
      in if \<not> cleared \<or> ce_fails env = Some AtClear then (Inl AtClear, h)
         else if ce_fails env = Some AtMkdir then (Inl AtMkdir, h1)
         else build_instance pool ps env sp h1)"

section \<open>Platform choices\<close>

definition runnerEntrypoint :: "string \<Rightarrow> string" where
  "runnerEntrypoint goos = (if goos = ''windows'' then ''run.cmd'' else ''run.sh'')"

definition copyTool :: "string \<Rightarrow> string" where
  "copyTool goos = (if goos = ''windows'' then ''robocopy'' else ''cp'')"

definition robocopyOK :: "int \<Rightarrow> bool" where
  "robocopyOK exit_code = (0 \<le> exit_code \<and> exit_code < 8)"

text \<open>\<open>cloneTree\<close>: the commands it tries in turn, and how each one's exit code is read.\<close>

record copyAttempt =
  ca_args :: "string list"
  ca_robocopy :: bool

definition copy_attempts :: "string \<Rightarrow> string \<Rightarrow> string \<Rightarrow> copyAttempt list" where
  "copy_attempts goos src dst =
     (if goos = ''darwin'' then
        [\<lparr> ca_args = [''cp'', ''-Rc'', src @ ''/'', dst], ca_robocopy = False \<rparr>,
         \<lparr> ca_args = [''cp'', ''-R'', src @ ''/'', dst], ca_robocopy = False \<rparr>]
      else if goos = ''linux'' then
        [\<lparr> ca_args = [''cp'', ''-a'', ''--reflink=auto'', src @ ''/.'', dst], ca_robocopy = False \<rparr>]
      else if goos = ''windows'' then
        [\<lparr> ca_args = [''robocopy'', src, dst, ''/E'', ''/NFL'', ''/NDL'', ''/NJH'', ''/NJS'', ''/NP'', ''/R:1'', ''/W:1''],
           ca_robocopy = True \<rparr>]
      else [\<lparr> ca_args = [''cp'', ''-R'', src @ ''/.'', dst], ca_robocopy = False \<rparr>])"

text \<open>The result of running a command: its exit code, or a failure to run it at all.\<close>

fun try_copies :: "(string list \<Rightarrow> string + int) \<Rightarrow> copyAttempt list \<Rightarrow> string list option \<Rightarrow> string list option" where
  "try_copies run [] lastErr = lastErr"
| "try_copies run (a # rest) lastErr =
     (case run (ca_args a) of
        Inr c \<Rightarrow> if c = 0 \<or> (ca_robocopy a \<and> robocopyOK c) then None
                 else try_copies run rest (Some (ca_args a))
      | Inl _ \<Rightarrow> try_copies run rest (Some (ca_args a)))"

definition cloneTree :: "(string list \<Rightarrow> string + int) \<Rightarrow> string \<Rightarrow> string \<Rightarrow> string \<Rightarrow> string list option" where
  "cloneTree run goos src dst = try_copies run (copy_attempts goos src dst) None"

definition buildEnv :: "string list \<Rightarrow> Pool \<Rightarrow> ProcessSpec \<Rightarrow> string \<Rightarrow> string \<Rightarrow> string list" where
  "buildEnv environ pool ps dir name =
     environ @ [''ARC_POOL='' @ pool_Name pool, ''ARC_RUNNER_NAME='' @ name, ''ARC_INSTANCE_DIR='' @ dir,
        ''RUNNER_TEMP='' @ filepath_join [dir, ''_work'', ''_temp''], ''TMPDIR='' @ filepath_join [dir, ''_temp'']]
     @ map (\<lambda>(k, v). k @ ''='' @ v) (p_Env ps)"

definition runnerArchiveName :: "string \<Rightarrow> string \<Rightarrow> string \<Rightarrow> string" where
  "runnerArchiveName goos goarch version =
     (let osName = (if goos = ''darwin'' then ''osx'' else if goos = ''windows'' then ''win'' else goos);
          arch = (if goarch = ''amd64'' then ''x64'' else goarch);
          ext = (if goos = ''windows'' then ''.zip'' else ''.tar.gz'')
      in ''actions-runner-'' @ osName @ ''-'' @ arch @ ''-'' @ version @ ext)"

end
