(* ===== verification/ProviderContract.thy ===== *)
theory ProviderContract
  imports Provider
begin

text \<open>
  What the orchestrator relies on from a provider (\<open>internal/provider/provider.go\<close>), as the laws of
  a locale: the listing is read from the system and changes nothing that is owned, destroying an
  instance removes it and only it, a destruction that reports an error touches no other, and destroying an unknown id is not an error that removes
  anything. The facts a client needs are proved once from the laws; each provider interprets
  the locale on its own model.
\<close>

locale provider =
  fixes lst :: "'h \<Rightarrow> ('e + Instance list) \<times> 'h"
    and destroy :: "string \<Rightarrow> 'h \<Rightarrow> 'f option \<times> 'h"
    and owned :: "'h \<Rightarrow> string set"
    and good :: "'h \<Rightarrow> bool"
    and valid :: "string \<Rightarrow> bool"
  assumes list_ok: "good h \<Longrightarrow> lst h = (Inr is, h') \<Longrightarrow> i_ID ` set is = owned h"
    and list_keeps: "good h \<Longrightarrow> lst h = (r, h') \<Longrightarrow> good h' \<and> owned h' = owned h"
    and destroy_ok: "good h \<Longrightarrow> valid x \<Longrightarrow> destroy x h = (None, h') \<Longrightarrow> good h' \<and> owned h' = owned h - {x}"
    and destroy_error: "good h \<Longrightarrow> valid x \<Longrightarrow> destroy x h = (Some e, h') \<Longrightarrow>
      good h' \<and> owned h' \<subseteq> owned h \<and> owned h - {x} \<subseteq> owned h'"
    and owned_valid: "good h \<Longrightarrow> x \<in> owned h \<Longrightarrow> valid x"
begin

lemma gone_after_destroy:
  assumes "good h" "valid x" "destroy x h = (None, h')" "lst h' = (Inr is, h'')"
  shows "x \<notin> i_ID ` set is"
  using assms destroy_ok list_ok by blast

lemma destroy_idempotent:
  assumes "good h" "valid x" "destroy x h = (None, h')" "destroy x h' = (r, h'')"
  shows "owned h'' = owned h'"
  using destroy_ok [OF assms(1-3)] destroy_ok [of h' x h''] destroy_error [of h' x _ h''] assms(2,4)
  by (cases r) auto

text \<open>Destroying a list of ids in turn, with the number that went without an error.\<close>

fun destroy_list :: "string list \<Rightarrow> 'h \<Rightarrow> nat \<times> 'h" where
  "destroy_list [] h = (0, h)"
| "destroy_list (x # xs) h =
     (let (e, h1) = destroy x h; (n, h2) = destroy_list xs h1 in (if e = None then Suc n else n, h2))"

lemma destroy_list_owned:
  "good h \<Longrightarrow> list_all valid xs \<Longrightarrow> destroy_list xs h = (n, h') \<Longrightarrow>
     good h' \<and> owned h' \<subseteq> owned h \<and> owned h - set xs \<subseteq> owned h'
     \<and> (n = length xs \<longrightarrow> owned h' = owned h - set xs)"
proof (induction xs arbitrary: h n)
  case (Cons x xs)
  obtain e h1 where d: "destroy x h = (e, h1)" by fastforce
  obtain k h2 where r: "destroy_list xs h1 = (k, h2)" by fastforce
  have 1: "good h1 \<and> (if e = None then owned h1 = owned h - {x}
      else owned h1 \<subseteq> owned h \<and> owned h - {x} \<subseteq> owned h1)"
    using destroy_ok [of h x h1] destroy_error [of h x _ h1] d Cons.prems by (cases e) auto
  have "k \<le> length xs" for h2 using r
  proof -
    have "destroy_list ys g = (j, g') \<Longrightarrow> j \<le> length ys" for ys g j g'
      by (induction ys arbitrary: g j) (auto simp: split_beta Let_def split: if_splits, (metis le_SucI prod.exhaust_sel)?)
    then show ?thesis using r .
  qed
  with Cons.IH [of h1 k] r d 1 Cons.prems show ?case
    by (auto split: if_splits)
qed simp

end

end
