(* ===== verification/ProcessProps.thy ===== *)
theory ProcessProps
  imports Process ProviderContract
begin

text \<open>
  The process provider keeps the provider contract, signals only what it may, and its waits and
  copies end as they should.
\<close>

section \<open>The directory\<close>

definition dirs :: "machine \<Rightarrow> string set" where
  "dirs h = (case ho_dir h of None \<Rightarrow> {} | Some es \<Rightarrow> fst ` {e \<in> set es. en_isDir (snd e)})"

text \<open>A name that can be an entry of a directory.\<close>

definition elem_name :: "string \<Rightarrow> bool" where
  "elem_name n = (n \<noteq> [] \<and> CHR ''/'' \<notin> set n \<and> n \<noteq> ''.'' \<and> n \<noteq> ''..'')"

definition machine_ok :: "machine \<Rightarrow> bool" where
  "machine_ok h = (case ho_dir h of None \<Rightarrow> True
     | Some es \<Rightarrow> distinct (map fst es) \<and> list_all (\<lambda>e. elem_name (fst e)) es)"

lemma base_elem_name: "elem_name n \<Longrightarrow> filepath_base n = n"
proof -
  assume n: "elem_name n"
  then have "n \<noteq> []" "CHR ''/'' \<notin> set n" by (simp_all add: elem_name_def)
  then have "last n \<noteq> CHR ''/''" by (metis last_in_set)
  then have "dropWhile (\<lambda>c. c = CHR ''/'') (rev n) = rev n"
    using n by (cases n rule: rev_cases) (auto simp: elem_name_def)
  with n show ?thesis by (simp add: filepath_base_def elem_name_def split_char_id)
qed

lemma target_elem [simp]: "elem_name n \<Longrightarrow> target_of n = Entry n"
  by (simp add: target_of_def base_elem_name Let_def) (auto simp: elem_name_def)

lemma RemoveAll_dir:
  "RemoveAll (Entry n) h = (True, h') \<Longrightarrow> ho_dir h' = map_option (filter (\<lambda>e. fst e \<noteq> n)) (ho_dir h)"
  "RemoveAll (Entry n) h = (False, h') \<Longrightarrow> h' = h"
  by (auto simp: RemoveAll_def split: if_splits)

lemma RemoveAll_dirs:
  assumes "RemoveAll (Entry n) h = (b, h')"
  shows "dirs h' = (if b then dirs h - {n} else dirs h)" "machine_ok h \<Longrightarrow> machine_ok h'"
proof -
  have "dirs h' = (if b then dirs h - {n} else dirs h) \<and> (machine_ok h \<longrightarrow> machine_ok h')"
  proof (cases b)
    case True
    then have d: "ho_dir h' = map_option (filter (\<lambda>e. fst e \<noteq> n)) (ho_dir h)"
      using RemoveAll_dir(1) assms by simp
    show ?thesis
    proof (cases "ho_dir h")
      case None
      with d True show ?thesis by (simp add: dirs_def machine_ok_def)
    next
      case (Some es)
      have "fst ` {e \<in> set (filter (\<lambda>e. fst e \<noteq> n) es). en_isDir (snd e)}
          = fst ` {e \<in> set es. en_isDir (snd e)} - {n}" by auto
      moreover have "distinct (map fst es) \<Longrightarrow> distinct (map fst (filter (\<lambda>e. fst e \<noteq> n) es))"
        by (rule distinct_map_filter)
      ultimately show ?thesis
        using d True Some by (auto simp: dirs_def machine_ok_def list_all_iff)
    qed
  next
    case False
    with assms RemoveAll_dir(2) show ?thesis by auto
  qed
  then show "dirs h' = (if b then dirs h - {n} else dirs h)" "machine_ok h \<Longrightarrow> machine_ok h'" by auto
qed

text \<open>What waiting and signalling leave alone.\<close>

lemma signalGroup_fields [simp]:
  "ho_dir (signalGroup pid sig h) = ho_dir h" "ho_clock (signalGroup pid sig h) = ho_clock h"
  "ho_seen (signalGroup pid sig h) = ho_seen h" "ho_removeFails (signalGroup pid sig h) = ho_removeFails h"
  by (simp_all add: signalGroup_def)

lemma signalGroup_signals: "pid > 0 \<Longrightarrow> ho_signals (signalGroup pid sig h) = ho_signals h @ [(pid, sig)]"
  by (simp add: signalGroup_def)

lemma wait_loop_fields:
  "ho_dir (snd (wait_loop pid t h)) = ho_dir h \<and> ho_signals (snd (wait_loop pid t h)) = ho_signals h
   \<and> ho_seen (snd (wait_loop pid t h)) = ho_seen h \<and> ho_procs (snd (wait_loop pid t h)) = ho_procs h
   \<and> ho_removeFails (snd (wait_loop pid t h)) = ho_removeFails h"
  by (induction pid t h rule: wait_loop.induct) (subst (1 2 3 4 5) wait_loop.simps, auto)

lemma wait_loop_clock:
  "ho_clock h \<le> ho_clock (snd (wait_loop pid t h))
   \<and> ho_clock (snd (wait_loop pid t h)) < max (ho_clock h + 1) (t + pollStep)"
proof (induction pid t h rule: wait_loop.induct)
  case (1 pid t h)
  then show ?case
    by (subst (1 2) wait_loop.simps) (auto simp: pollStep_def duration_defs)
qed

lemma wait_loop_result: "fst (wait_loop pid t h) = (\<not> processAlive pid (snd (wait_loop pid t h)))"
  by (induction pid t h rule: wait_loop.induct) (subst (1 2) wait_loop.simps, auto)

lemma wait_loop_late: "\<not> fst (wait_loop pid t h) \<Longrightarrow> t \<le> ho_clock (snd (wait_loop pid t h))"
proof (induction pid t h rule: wait_loop.induct)
  case (1 pid t h)
  then show ?case by (subst wait_loop.simps) (subst (asm) (2) wait_loop.simps, auto split: if_splits)
qed

lemma processMatches_fields:
  "processMatches pid d h = (v, h') \<Longrightarrow> ho_dir h' = ho_dir h \<and> ho_signals h' = ho_signals h
     \<and> ho_clock h' = ho_clock h \<and> ho_procs h' = ho_procs h \<and> ho_removeFails h' = ho_removeFails h"
  by (auto simp: processMatches_def Let_def split: option.splits)

lemma snd_processMatches [simp]:
  "ho_dir (snd (processMatches pid d h)) = ho_dir h" "ho_signals (snd (processMatches pid d h)) = ho_signals h"
  "ho_clock (snd (processMatches pid d h)) = ho_clock h" "ho_procs (snd (processMatches pid d h)) = ho_procs h"
  using processMatches_fields [OF surjective_pairing] by blast+

lemma stop_process_dir: "ho_dir (stop_process pid h) = ho_dir h"
  by (simp add: stop_process_def waitForExit_def killGroup_def split_beta Let_def wait_loop_fields)

lemma dirs_cong: "ho_dir h = ho_dir h' \<Longrightarrow> dirs h = dirs h'" "ho_dir h = ho_dir h' \<Longrightarrow> machine_ok h = machine_ok h'"
  by (simp_all add: dirs_def machine_ok_def)

text \<open>The machine on which \<open>Destroy\<close> removes the directory.\<close>

definition before_remove :: "string \<Rightarrow> string \<Rightarrow> machine \<Rightarrow> machine" where
  "before_remove idir n h =
     (case readState n h of
        None \<Rightarrow> h
      | Some s \<Rightarrow>
          if \<not> processAlive (st_PID s) h then h
          else (let (ok, h') = processMatches (st_PID s) (instance_dir idir n) h
                in if ok then stop_process (st_PID s) h' else h'))"

lemma process_Destroy_unfold:
  "elem_name n \<Longrightarrow> process_Destroy idir n h =
     (let (removed, h2) = RemoveAll (Entry n) (before_remove idir n h)
      in (if removed then None else Some (''remove instance dir '' @ instance_dir idir n), h2))"
  by (simp add: process_Destroy_def before_remove_def)

lemma before_remove_dir: "ho_dir (before_remove idir n h) = ho_dir h"
  by (auto simp: before_remove_def split_beta Let_def stop_process_dir split: option.split)

lemma before_remove_fails: "ho_removeFails (before_remove idir n h) = ho_removeFails h"
  using processMatches_fields [OF surjective_pairing]
  by (auto simp: before_remove_def stop_process_def waitForExit_def killGroup_def split_beta Let_def wait_loop_fields
      split: option.split)

lemma wait_loop_readdir: "ho_readdirFails (snd (wait_loop pid t h)) = ho_readdirFails h"
  by (induction pid t h rule: wait_loop.induct) (subst wait_loop.simps, auto)

lemma Destroy_readdir: "ho_readdirFails (snd (process_Destroy idir n h)) = ho_readdirFails h"
  by (auto simp: process_Destroy_def stop_process_def waitForExit_def killGroup_def processMatches_def
      RemoveAll_def signalGroup_def split_beta Let_def wait_loop_readdir split: option.split target.split)

section \<open>The contract\<close>

lemma list_entry_ID: "i_ID (fst (list_entry idir pool ne h)) = fst ne"
  by (auto simp: list_entry_def split_beta Let_def split: option.splits)

lemma list_entry_dir: "ho_dir (snd (list_entry idir pool ne h)) = ho_dir h"
  by (auto simp: list_entry_def split_beta Let_def split: option.splits)

lemma list_entries_ok:
  "map i_ID (fst (list_entries idir pool es h)) = map fst (filter (\<lambda>e. en_isDir (snd e)) es)
   \<and> ho_dir (snd (list_entries idir pool es h)) = ho_dir h"
  by (induction es arbitrary: h) (auto simp: split_beta Let_def list_entry_ID list_entry_dir)

lemma process_List_dir: "process_List idir pool h = (r, h') \<Longrightarrow> ho_dir h' = ho_dir h"
  using list_entries_ok by (fastforce simp: process_List_def split_beta Let_def split: option.splits)

lemma process_List_IDs: "process_List idir pool h = (Inr is, h') \<Longrightarrow> i_ID ` set is = dirs h"
proof -
  assume "process_List idir pool h = (Inr is, h')"
  then consider "ho_dir h = None" "is = []"
    | es where "ho_dir h = Some es" "is = fst (list_entries idir pool es h)"
    by (auto simp: process_List_def split_beta Let_def split: option.splits)
  then show ?thesis
  proof cases
    case 2
    have "i_ID ` set is = set (map i_ID is)" by simp
    also have "\<dots> = dirs h" using list_entries_ok [of idir pool es h] 2 by (auto simp: dirs_def)
    finally show ?thesis .
  qed (simp add: dirs_def)
qed

interpretation process: provider "process_List idir pool" "process_Destroy idir" dirs machine_ok elem_name
  for idir pool
proof
  show "i_ID ` set is = dirs h" if "process_List idir pool h = (Inr is, h')" for h "is" h'
    using that by (rule process_List_IDs)
  show "machine_ok h' \<and> dirs h' = dirs h" if "machine_ok h" "process_List idir pool h = (r, h')" for h r h'
    using that process_List_dir [OF that(2)] by (simp add: dirs_def machine_ok_def)
  fix h x h' e
  assume ok: "machine_ok h" and x: "elem_name x"
  have b: "dirs (before_remove idir x h) = dirs h" "machine_ok (before_remove idir x h)"
    using ok before_remove_dir [of idir x h] by (simp_all add: dirs_def machine_ok_def)
  show "machine_ok h' \<and> dirs h' = dirs h - {x}" if "process_Destroy idir x h = (None, h')"
    using that b RemoveAll_dirs [of x "before_remove idir x h" True h']
    by (auto simp: process_Destroy_unfold [OF x] split_beta Let_def prod_eq_iff split: if_splits)
  show "machine_ok h' \<and> dirs h' \<subseteq> dirs h \<and> dirs h - {x} \<subseteq> dirs h'" if "process_Destroy idir x h = (Some e, h')"
    using that b RemoveAll_dirs [of x "before_remove idir x h" False h']
    by (auto simp: process_Destroy_unfold [OF x] split_beta Let_def prod_eq_iff split: if_splits)
next
  show "elem_name x" if "machine_ok h" "x \<in> dirs h" for h x
    using that by (auto simp: machine_ok_def dirs_def list_all_iff split: option.splits)
qed

section \<open>Destroying\<close>

lemma lookup_cong: "ho_dir h = ho_dir h' \<Longrightarrow> lookup_entry n h = lookup_entry n h'"
  by (simp add: lookup_entry_def)

lemma map_of_filter_key: "map_of (filter (\<lambda>e. fst e \<noteq> n) es) m = (if m = n then None else map_of es m)"
  by (induction es) auto

lemma RemoveAll_Entry:
  assumes "RemoveAll (Entry n) h = (b, h')"
  shows "if b then \<forall>m. lookup_entry m h' = (if m = n then None else lookup_entry m h) else h' = h"
    and "ho_signals h' = ho_signals h \<and> ho_clock h' = ho_clock h \<and> ho_procs h' = ho_procs h"
  using assms
  by (auto simp: RemoveAll_def lookup_entry_def map_of_filter_key split: if_splits option.splits)

text \<open>What \<open>stop_process\<close> does to the clock and the record of signals.\<close>

lemma stop_process_spec:
  assumes "pid > 0"
  shows "ho_clock h \<le> ho_clock (stop_process pid h) \<and> ho_clock (stop_process pid h) < ho_clock h + 26 * Second
     \<and> (ho_signals (stop_process pid h) = ho_signals h @ [(pid, SIGTERM)]
        \<or> ho_signals (stop_process pid h) = ho_signals h @ [(pid, SIGTERM), (pid, SIGKILL)]
          \<and> ho_clock h + 20 * Second \<le> ho_clock (stop_process pid h))"
proof -
  define h1 where "h1 = signalGroup pid SIGTERM h"
  define w where "w = wait_loop pid (ho_clock h1 + 20 * Second) h1"
  define k where "k = killGroup pid (snd w)"
  have stop: "stop_process pid h = (if fst w then snd w else snd (wait_loop pid (ho_clock k + 5 * Second) k))"
    by (simp add: stop_process_def waitForExit_def h1_def w_def k_def split_beta Let_def)
  have w: "ho_clock h \<le> ho_clock (snd w)" "ho_clock (snd w) < ho_clock h + 20 * Second + pollStep"
    "ho_signals (snd w) = ho_signals h @ [(pid, SIGTERM)]"
    using wait_loop_clock [of h1 pid "ho_clock h1 + 20 * Second"]
      wait_loop_fields [of pid "ho_clock h1 + 20 * Second" h1] assms
    by (auto simp: w_def h1_def signalGroup_signals pollStep_def duration_defs)
  have k: "ho_clock k = ho_clock (snd w)" "ho_signals k = ho_signals (snd w) @ [(pid, SIGKILL)]"
    using assms by (simp_all add: k_def killGroup_def signalGroup_signals)
  have late: "ho_clock h + 20 * Second \<le> ho_clock (snd w)" if "\<not> fst w"
    using that wait_loop_late [of pid "ho_clock h1 + 20 * Second" h1] by (simp add: w_def h1_def)
  show ?thesis
    using w k late stop wait_loop_clock [of k pid "ho_clock k + 5 * Second"]
      wait_loop_fields [of pid "ho_clock k + 5 * Second" k]
    by (auto simp: pollStep_def duration_defs)
qed

text \<open>The signals sent on behalf of one instance.\<close>

definition signals_for :: "string \<Rightarrow> string \<Rightarrow> machine \<Rightarrow> (int \<times> signal) list \<Rightarrow> bool" where
  "signals_for idir n h s =
     (s = [] \<or> (case readState n h of
        None \<Rightarrow> False
      | Some st \<Rightarrow> processAlive (st_PID st) h \<and> fst (processMatches (st_PID st) (instance_dir idir n) h)
          \<and> (s = [(st_PID st, SIGTERM)] \<or> s = [(st_PID st, SIGTERM), (st_PID st, SIGKILL)])))"

lemma before_remove_signals:
  "\<exists>s. ho_signals (before_remove idir n h) = ho_signals h @ s \<and> signals_for idir n h s
     \<and> ho_clock h \<le> ho_clock (before_remove idir n h) \<and> ho_clock (before_remove idir n h) < ho_clock h + 26 * Second
     \<and> ((\<exists>p. (p, SIGKILL) \<in> set s) \<longrightarrow> ho_clock h + 20 * Second \<le> ho_clock (before_remove idir n h))"
proof (cases "\<exists>st. readState n h = Some st \<and> processAlive (st_PID st) h
         \<and> fst (processMatches (st_PID st) (instance_dir idir n) h)")
  case False
  then have "ho_signals (before_remove idir n h) = ho_signals h \<and> ho_clock (before_remove idir n h) = ho_clock h"
    by (auto simp: before_remove_def split_beta Let_def split: option.splits)
  then show ?thesis by (intro exI [of _ "[]"]) (simp add: signals_for_def duration_defs)
next
  case True
  then obtain st where st: "readState n h = Some st" "processAlive (st_PID st) h"
    "fst (processMatches (st_PID st) (instance_dir idir n) h)" by auto
  from st(2) have pos: "st_PID st > 0" by (simp add: processAlive_def)
  define h1 where "h1 = snd (processMatches (st_PID st) (instance_dir idir n) h)"
  have b: "before_remove idir n h = stop_process (st_PID st) h1"
    using st by (simp add: before_remove_def split_beta Let_def h1_def)
  have h1: "ho_signals h1 = ho_signals h" "ho_clock h1 = ho_clock h" by (simp_all add: h1_def)
  have "signals_for idir n h [(st_PID st, SIGTERM)]"
    "signals_for idir n h [(st_PID st, SIGTERM), (st_PID st, SIGKILL)]"
    using st by (simp_all add: signals_for_def)
  with stop_process_spec [OF pos, of h1] b h1 show ?thesis by fastforce
qed

lemma Destroy_fails:
  assumes "elem_name n" "\<not> ho_removeFails h n"
  shows "fst (process_Destroy idir n h) = None"
proof -
  have "fst (RemoveAll (Entry n) (before_remove idir n h))"
    using assms(2) by (simp add: RemoveAll_def before_remove_fails)
  then show ?thesis by (simp add: process_Destroy_unfold [OF assms(1)] split_beta Let_def)
qed


text \<open>A host with one runner, whose process ends three seconds after a \<open>SIGTERM\<close>.\<close>

definition demo_state :: instanceState where
  "demo_state = \<lparr> st_Pool = ''mac'', st_RunnerName = ''r1'', st_RunnerID = 7, st_PID = 40, st_CreatedAt = 0 \<rparr>"

definition demo_machine :: machine where
  "demo_machine = \<lparr> ho_clock = 0,
     ho_dir = Some [(''r1'', \<lparr> en_isDir = True, en_state = Some demo_state, en_log = None \<rparr>),
                    (''r2'', \<lparr> en_isDir = True, en_state = None, en_log = None \<rparr>)],
     ho_procs = [40 \<mapsto> \<lparr> pr_cmdline = ''run.sh'', pr_ends = None \<rparr>], ho_seen = Map.empty, ho_signals = [],
     ho_readdirFails = None, ho_removeFails = (\<lambda>_. False), ho_psFails = False,
     ho_termDelay = (\<lambda>_. Some (3 * Second)), ho_killDelay = (\<lambda>_. Some 0) \<rparr>"

lemma demo_names: "elem_name ''r1''" "elem_name ''r2''" by (simp_all add: elem_name_def)


text \<open>
  C34. After a successful \<open>Destroy\<close> the instance is in no listing, and a second \<open>Destroy\<close>
  changes no directory: the laws of the provider contract for processes.
\<close>

theorem process_Destroy_gone:
  assumes "machine_ok h" "elem_name n" "process_Destroy idir n h = (None, h1)"
    and "process_List idir pool h1 = (Inr is, h2)" "process_Destroy idir n h1 = (r, h3)"
  shows "n \<notin> i_ID ` set is \<and> i_ID ` set is = dirs h - {n} \<and> dirs h3 = dirs h1"
  using process.gone_after_destroy [OF assms(1-4)] process.destroy_idempotent [OF assms(1-3,5)]
    process.destroy_ok [OF assms(1-3)] process.list_ok [of h1 idir pool "is" h2] assms(4) by blast

lemma demo_ok: "machine_ok demo_machine" by (simp add: machine_ok_def demo_machine_def demo_names)

theorem process_Destroy_gone_witness:
  "''r1'' \<notin> dirs (snd (process_Destroy ''/i'' ''r1'' demo_machine))
   \<and> dirs (snd (process_Destroy ''/i'' ''r1'' (snd (process_Destroy ''/i'' ''r1'' demo_machine))))
      = dirs (snd (process_Destroy ''/i'' ''r1'' demo_machine))"
proof -
  have d: "process_Destroy ''/i'' ''r1'' demo_machine = (None, snd (process_Destroy ''/i'' ''r1'' demo_machine))"
    using Destroy_fails [OF demo_names(1), of demo_machine] by (simp add: prod_eq_iff demo_machine_def)
  have fails: "ho_readdirFails (snd (process_Destroy ''/i'' ''r1'' demo_machine)) = None"
    by (simp add: Destroy_readdir) (simp add: demo_machine_def)
  then obtain "is" h2 where l: "process_List ''/i'' ''mac'' (snd (process_Destroy ''/i'' ''r1'' demo_machine)) = (Inr is, h2)"
    by (cases "ho_dir (snd (process_Destroy ''/i'' ''r1'' demo_machine))") (auto simp: process_List_def split_beta Let_def)
  show ?thesis
    using process_Destroy_gone [OF demo_ok demo_names(1) d l surjective_pairing] process_List_IDs [OF l] by simp
qed

section \<open>Creating\<close>

lemma map_of_insort:
  "n \<notin> fst ` set es \<Longrightarrow> map_of (insort_key fst (n, e) es) m = (if m = n then Some e else map_of es m)"
  by (induction es) auto

lemma lookup_put [simp]: "lookup_entry m (put_entry n e h) = (if m = n then Some e else lookup_entry m h)"
proof -
  have "n \<notin> fst ` set (filter (\<lambda>x. fst x \<noteq> n) es)" for es :: "(string \<times> entry) list" by auto
  then show ?thesis
    by (simp add: put_entry_def lookup_entry_def Let_def map_of_insort map_of_filter_key split: option.split)
qed

lemma put_entry_fields [simp]:
  "ho_signals (put_entry n e h) = ho_signals h" "ho_clock (put_entry n e h) = ho_clock h"
  "ho_procs (put_entry n e h) = ho_procs h" "ho_removeFails (put_entry n e h) = ho_removeFails h"
  by (simp_all add: put_entry_def Let_def)

lemma lookup_undo:
  "lookup_entry m (undo_create n h) =
     (if m = n \<and> (\<not> ho_removeFails h n) then None else lookup_entry m h)"
  by (auto simp: undo_create_def RemoveAll_def lookup_entry_def map_of_filter_key split: option.split)

lemma undo_signals [simp]: "ho_signals (undo_create n h) = ho_signals h"
  by (simp add: undo_create_def RemoveAll_def)

lemma lookup_signal [simp]: "lookup_entry m (killGroup pid h) = lookup_entry m h"
  "lookup_entry m (signalGroup pid sig h) = lookup_entry m h"
  "lookup_entry m (h\<lparr>ho_procs := ps\<rparr>) = lookup_entry m h"
  "ho_removeFails (killGroup pid h) = ho_removeFails h"
  by (simp_all add: lookup_entry_def killGroup_def)


definition demo_env :: "create_step option \<Rightarrow> create_env" where
  "demo_env f = \<lparr> ce_fails = f, ce_pid = 41, ce_cmdline = ''run.sh'' \<rparr>"

definition demo_spec :: Spec where
  "demo_spec = \<lparr> spec_Pool = ''mac'', spec_RunnerName = ''r2'', spec_RunnerID = 9, spec_JITConfig = [] \<rparr>"


section \<open>Pruning\<close>

definition finished :: "Instance \<Rightarrow> bool" where
  "finished i = (i_State i \<noteq> StateRunning \<and> i_State i \<noteq> StateStarting)"

lemma prune_all_destroys:
  "prune_all idir is k h =
     (let (n, h') = provider.destroy_list (process_Destroy idir) (map i_ID (filter finished is)) h
      in (k + int n, h'))"
  by (induction "is" arbitrary: k h)
     (auto simp: process.destroy_list.simps finished_def split_beta Let_def)

text \<open>An instance whose destruction signals nothing.\<close>

definition inert :: "string \<Rightarrow> string \<Rightarrow> machine \<Rightarrow> bool" where
  "inert idir n h = (\<forall>st. readState n h = Some st \<longrightarrow>
     \<not> processAlive (st_PID st) h \<or> ho_seen h (st_PID st, filepath_join [idir, n]) = Some False)"

lemma inert_destroy:
  assumes "elem_name n" "inert idir n h" "process_Destroy idir n h = (r, h')"
  shows "ho_signals h' = ho_signals h \<and> ho_clock h' = ho_clock h \<and> ho_procs h' = ho_procs h \<and> ho_seen h' = ho_seen h
    \<and> ho_removeFails h' = ho_removeFails h \<and> (\<forall>m. lookup_entry m h' = None \<or> lookup_entry m h' = lookup_entry m h)"
proof -
  have "before_remove idir n h = h"
    using assms(1,2)
    by (auto simp: before_remove_def inert_def processMatches_def instance_dir_def base_elem_name
        split: option.split)
  then have "snd (RemoveAll (Entry n) h) = h'"
    using assms(3) by (auto simp: process_Destroy_unfold [OF assms(1)] split_beta Let_def)
  then show ?thesis
    by (auto simp: RemoveAll_def lookup_entry_def map_of_filter_key split: if_splits option.splits)
qed

lemma inert_keeps:
  assumes "inert idir m h" "ho_clock h' = ho_clock h \<and> ho_procs h' = ho_procs h \<and> ho_seen h' = ho_seen h"
    "lookup_entry m h' = None \<or> lookup_entry m h' = lookup_entry m h"
  shows "inert idir m h'"
proof -
  have "processAlive p h' = processAlive p h" for p
    using assms(2) by (simp add: processAlive_def split: option.split)
  with assms show ?thesis by (auto simp: inert_def readState_def)
qed

lemma destroy_inert_list:
  assumes "\<forall>n\<in>set ns. elem_name n \<and> inert idir n h"
    "provider.destroy_list (process_Destroy idir) ns h = (k, h')"
  shows "ho_signals h' = ho_signals h \<and> ((\<forall>n. \<not> ho_removeFails h n) \<longrightarrow> k = length ns)"
  using assms
proof (induction ns arbitrary: h k)
  case Nil
  then show ?case by (simp add: process.destroy_list.simps)
next
  case (Cons n ns)
  obtain r h1 where d: "process_Destroy idir n h = (r, h1)" by fastforce
  obtain j h2 where r: "provider.destroy_list (process_Destroy idir) ns h1 = (j, h2)" by fastforce
  with Cons.prems(2) d have rest: "provider.destroy_list (process_Destroy idir) ns h1 = (j, h')"
    "k = (if r = None then Suc j else j)"
    by (auto simp: process.destroy_list.simps split: if_splits)
  have 1: "ho_signals h1 = ho_signals h" "ho_removeFails h1 = ho_removeFails h"
    "\<forall>n\<in>set ns. elem_name n \<and> inert idir n h1"
    using inert_destroy [OF _ _ d] inert_keeps [of idir _ h h1] Cons.prems(1) by auto
  have "\<not> ho_removeFails h n \<Longrightarrow> r = None" using Destroy_fails [of n h idir] Cons.prems(1) d by auto
  with Cons.IH [OF 1(3) rest(1)] 1 rest(2) show ?case by auto
qed

text \<open>A listing leaves everything but the remembered answers alone, and forgets none of those.\<close>

definition looked :: "machine \<Rightarrow> machine \<Rightarrow> bool" where
  "looked h h' = (ho_dir h' = ho_dir h \<and> ho_clock h' = ho_clock h \<and> ho_procs h' = ho_procs h
     \<and> ho_signals h' = ho_signals h \<and> ho_removeFails h' = ho_removeFails h \<and> ho_seen h \<subseteq>\<^sub>m ho_seen h')"

lemma looked_refl [simp]: "looked h h" by (simp add: looked_def)

lemma looked_trans: "looked h h1 \<Longrightarrow> looked h1 h2 \<Longrightarrow> looked h h2"
  by (auto simp: looked_def intro: map_le_trans)

lemma looked_facts:
  assumes "looked h h'"
  shows "processAlive p h' = processAlive p h" "readState n h' = readState n h"
    "ho_seen h k = Some v \<Longrightarrow> ho_seen h' k = Some v"
  using assms by (auto simp: looked_def processAlive_def readState_def lookup_entry_def map_le_def domIff
      split: option.split) (cases k, force)

text \<open>An instance of the listing that is reported as finished has no process to signal.\<close>

definition idle_entry :: "string \<Rightarrow> string \<Rightarrow> entry \<Rightarrow> machine \<Rightarrow> bool" where
  "idle_entry idir n e h = (case en_state e of None \<Rightarrow> True
     | Some st \<Rightarrow> \<not> processAlive (st_PID st) h \<or> ho_seen h (st_PID st, filepath_join [idir, n]) = Some False)"

lemma idle_entry_looked: "idle_entry idir n e h \<Longrightarrow> looked h h' \<Longrightarrow> idle_entry idir n e h'"
  using looked_facts by (auto simp: idle_entry_def split: option.splits)

lemma list_entry_frame:
  "list_entry idir pool (n, e) h = (i, h') \<Longrightarrow> looked h h' \<and> (finished i \<longrightarrow> idle_entry idir n e h')"
  by (auto simp: list_entry_def processMatches_def finished_def idle_entry_def looked_def map_le_def
      split_beta Let_def split: option.splits if_splits)

lemma list_entries_frame:
  "list_entries idir pool es h = (is, h') \<Longrightarrow>
     looked h h' \<and> (\<forall>i\<in>set is. finished i \<longrightarrow> (\<exists>e. (i_ID i, e) \<in> set es \<and> idle_entry idir (i_ID i) e h'))"
proof (induction es arbitrary: h "is")
  case (Cons ne es)
  show ?case
  proof (cases "en_isDir (snd ne)")
    case False
    with Cons show ?thesis by fastforce
  next
    case True
    obtain n e where ne: "ne = (n, e)" by fastforce
    obtain i h1 where i: "list_entry idir pool (n, e) h = (i, h1)" by fastforce
    obtain js h2 where l: "list_entries idir pool es h1 = (js, h2)" by fastforce
    with Cons.prems True ne i have js: "list_entries idir pool es h1 = (js, h')" "is = i # js" by auto
    have id: "i_ID i = n" using list_entry_ID [of idir pool "(n, e)" h] i by simp
    note 1 = list_entry_frame [OF i] and 2 = Cons.IH [OF js(1)]
    have "finished i \<Longrightarrow> idle_entry idir n e h'" using 1 2 idle_entry_looked by blast
    then show ?thesis using 1 2 id unfolding ne js(2) by (auto intro: looked_trans)
  qed
qed simp

text \<open>What a listing says of the instances it calls finished.\<close>

lemma process_List_finished:
  assumes "machine_ok h" "process_List idir pool h = (Inr is, h1)"
  shows "\<forall>i\<in>set is. finished i \<longrightarrow> elem_name (i_ID i) \<and> inert idir (i_ID i) h1"
    and "ho_signals h1 = ho_signals h \<and> ho_removeFails h1 = ho_removeFails h"
proof -
  consider "ho_dir h = None" "is = []" "h1 = h"
    | es where "ho_dir h = Some es" "list_entries idir pool es h = (is, h1)"
    using assms(2) by (auto simp: process_List_def split_beta Let_def split: option.splits)
  then have "(\<forall>i\<in>set is. finished i \<longrightarrow> elem_name (i_ID i) \<and> inert idir (i_ID i) h1)
      \<and> ho_signals h1 = ho_signals h \<and> ho_removeFails h1 = ho_removeFails h"
  proof cases
    case 2
    note f = list_entries_frame [OF 2(2)]
    have key: "(n, e) \<in> set es \<Longrightarrow> readState n h = en_state e \<and> elem_name n" for n e
      using assms(1) 2(1) by (auto simp: machine_ok_def readState_def lookup_entry_def list_all_iff)
    have "\<forall>i\<in>set is. finished i \<longrightarrow> elem_name (i_ID i) \<and> inert idir (i_ID i) h1"
    proof (intro ballI impI)
      fix i assume "i \<in> set is" "finished i"
      with f obtain e where e: "(i_ID i, e) \<in> set es" "idle_entry idir (i_ID i) e h1" by blast
      from e(2) have "\<And>st. en_state e = Some st \<Longrightarrow>
          \<not> processAlive (st_PID st) h1 \<or> ho_seen h1 (st_PID st, filepath_join [idir, i_ID i]) = Some False"
        by (simp add: idle_entry_def)
      with key [OF e(1)] looked_facts(2) [OF conjunct1 [OF f]]
      show "elem_name (i_ID i) \<and> inert idir (i_ID i) h1" by (simp add: inert_def)
    qed
    with f show ?thesis by (auto simp: looked_def)
  qed simp_all
  then show "\<forall>i\<in>set is. finished i \<longrightarrow> elem_name (i_ID i) \<and> inert idir (i_ID i) h1"
    "ho_signals h1 = ho_signals h \<and> ho_removeFails h1 = ho_removeFails h" by blast+
qed

text \<open>
  \<open>Prune\<close> signals no process and removes only directories of instances that the listing
  reports as neither running nor starting; when the host can remove directories it removes all
  of these and reports their number.
\<close>

lemma process_Prune_spec:
  assumes "machine_ok h" and "process_List idir pool h = (Inr is, h1)"
    and "process_Prune idir pool h = (Inr k, h')"
  shows "ho_signals h' = ho_signals h \<and> machine_ok h'
     \<and> dirs h' \<subseteq> dirs h \<and> dirs h - i_ID ` {i \<in> set is. finished i} \<subseteq> dirs h'
     \<and> ((\<forall>n. \<not> ho_removeFails h n) \<longrightarrow>
          dirs h' = dirs h - i_ID ` {i \<in> set is. finished i} \<and> k = int (length (filter finished is)))"
proof -
  define ns where "ns = map i_ID (filter finished is)"
  obtain n h2 where "provider.destroy_list (process_Destroy idir) ns h1 = (n, h2)" by fastforce
  with assms(2,3) have d: "provider.destroy_list (process_Destroy idir) ns h1 = (n, h')" "k = int n"
    by (auto simp: process_Prune_def prune_all_destroys ns_def)
  have ns: "\<forall>n\<in>set ns. elem_name n \<and> inert idir n h1" "list_all elem_name ns"
    using process_List_finished(1) [OF assms(1,2)] by (auto simp: ns_def list_all_iff)
  have l: "machine_ok h1" "dirs h1 = dirs h" using process.list_keeps [OF assms(1,2)] by auto
  have set: "set ns = i_ID ` {i \<in> set is. finished i}" by (auto simp: ns_def)
  show ?thesis
    using destroy_inert_list [OF ns(1) d(1)] process_List_finished(2) [OF assms(1,2)]
      process.destroy_list_owned [OF l(1) ns(2) d(1)] l(2) d(2) set by (auto simp: ns_def)
qed

lemma demo_finished:
  "process_List ''/i'' ''mac'' demo_machine = (Inr is, h1) \<Longrightarrow> map i_ID (filter finished is) = [''r2'']"
  by (auto simp: process_List_def demo_machine_def list_entry_def demo_state_def processAlive_def
      processMatches_def ps_match_def looks_like_runner_def contains_str_def has_prefix_def finished_def split_beta Let_def
      split: if_splits)

lemma process_Prune_spec_witness:
  "dirs (snd (process_Prune ''/i'' ''mac'' demo_machine)) = {''r1''}
   \<and> fst (process_Prune ''/i'' ''mac'' demo_machine) = Inr 1"
proof -
  obtain "is" h1 where l: "process_List ''/i'' ''mac'' demo_machine = (Inr is, h1)"
    by (auto simp: process_List_def demo_machine_def split_beta Let_def)
  then obtain k h' where p: "process_Prune ''/i'' ''mac'' demo_machine = (Inr k, h')"
    by (auto simp: process_Prune_def split_beta Let_def)
  have fin: "i_ID ` {i \<in> set is. finished i} = {''r2''}" "length (filter finished is) = 1"
    using demo_finished [OF l] by (auto simp flip: set_filter set_map)
  have "dirs demo_machine = {''r1'', ''r2''}"
    by (simp add: dirs_def demo_machine_def) (force simp: image_iff)
  moreover have "ho_removeFails demo_machine = (\<lambda>_. False)" by (simp add: demo_machine_def)
  ultimately show ?thesis using process_Prune_spec [OF demo_ok l p] fin p by auto
qed

section \<open>The remembered answer about a pid\<close>

text \<open>
  The check that a pid still belongs to the runner is made once and its answer kept: after a
  listing has seen the runner alive, a process that takes over its pid later is reported as
  the running runner, whatever its command line is, and \<open>Destroy\<close> signals it.
\<close>

lemma recycled_pid_signalled:
  assumes "readState n h = Some st" and "processAlive (st_PID st) h" and "elem_name n"
    and "fst (processMatches (st_PID st) (filepath_join [idir, n]) h)"
    and "h1 = snd (processMatches (st_PID st) (filepath_join [idir, n]) h)"
    and "h2 = h1\<lparr>ho_procs := (ho_procs h1)(st_PID st \<mapsto> \<lparr> pr_cmdline = other, pr_ends = None \<rparr>)\<rparr>"
  shows "(\<forall>e. en_state e = Some st \<longrightarrow> i_State (fst (list_entry idir pool (n, e) h2)) = StateRunning)
    \<and> (\<exists>s. ho_signals (snd (process_Destroy idir n h2)) = ho_signals h @ (st_PID st, SIGTERM) # s)"
proof -
  let ?k = "(st_PID st, filepath_join [idir, n])"
  have pos: "st_PID st > 0" using assms(2) by (simp add: processAlive_def)
  have seen: "ho_seen h1 ?k = Some True"
    using assms(4,5) by (auto simp: processMatches_def split_beta Let_def split: option.splits)
  then have m: "processMatches (st_PID st) (filepath_join [idir, n]) h2 = (True, h2)"
    using assms(6) by (simp add: processMatches_def)
  have alive: "processAlive (st_PID st) h2" using pos assms(6) by (simp add: processAlive_def)
  have st: "readState n h2 = Some st" using assms(1,5,6) by (simp add: readState_def lookup_entry_def)
  have sig: "ho_signals h2 = ho_signals h" using assms(5,6) by simp
  have "before_remove idir n h2 = stop_process (st_PID st) h2"
    using st alive m by (simp add: before_remove_def instance_dir_def base_elem_name [OF assms(3)])
  then obtain s where "ho_signals (before_remove idir n h2) = ho_signals h @ (st_PID st, SIGTERM) # s"
    using stop_process_spec [OF pos, of h2] sig by auto
  moreover have "ho_signals (snd (process_Destroy idir n h2)) = ho_signals (before_remove idir n h2)"
    using RemoveAll_Entry(2) [OF surjective_pairing, of n "before_remove idir n h2"]
    by (simp add: process_Destroy_unfold [OF assms(3)] split_beta Let_def)
  moreover have "i_State (fst (list_entry idir pool (n, e) h2)) = StateRunning" if "en_state e = Some st" for e
    using that alive m by (simp add: list_entry_def)
  ultimately show ?thesis by auto
qed

lemma recycled_pid_signalled_witness:
  "\<exists>s. ho_signals (snd (process_Destroy ''/i'' ''r1''
     ((snd (processMatches 40 (filepath_join [''/i'', ''r1'']) demo_machine))
       \<lparr>ho_procs := (ho_procs (snd (processMatches 40 (filepath_join [''/i'', ''r1'']) demo_machine)))
          (40 \<mapsto> \<lparr> pr_cmdline = ''postgres'', pr_ends = None \<rparr>)\<rparr>))) = (40, SIGTERM) # s"
proof -
  have st: "readState ''r1'' demo_machine = Some demo_state" "st_PID demo_state = 40"
    by (simp_all add: readState_def lookup_entry_def demo_machine_def demo_state_def)
  have "processAlive 40 demo_machine"
    "fst (processMatches 40 (filepath_join [''/i'', ''r1'']) demo_machine)"
    by (simp_all add: processAlive_def processMatches_def ps_match_def looks_like_runner_def contains_str_def
        has_prefix_def demo_machine_def Let_def)
  moreover have "ho_signals demo_machine = []" by (simp add: demo_machine_def)
  ultimately show ?thesis
    using recycled_pid_signalled [OF st(1) _ demo_names(1) _ refl refl, of "''/i''" "''postgres''"] st(2) by simp
qed

end
