(* ===== verification/StateFile.thy ===== *)
theory StateFile
  imports Overrides Process
begin

text \<open>
  The state file of a process instance (\<open>writeState\<close> and \<open>readState\<close> of \<open>process.go\<close>) on a disk: written
  beside and renamed, so a reader, after a crash too, sees the old state or the new one. The JSON
  codec is a parameter. \<open>Process\<close> has the two as one step on the machine's directories.
\<close>

definition stateFile :: string where "stateFile = ''.arc-instance.json''"

definition state_path :: "string \<Rightarrow> string" where
  "state_path dir = filepath_join [dir, stateFile]"

definition writeState_ops :: "(instanceState \<Rightarrow> string + string) \<Rightarrow> string \<Rightarrow> instanceState \<Rightarrow> string + diskop list" where
  "writeState_ops encode dir st =
     (case encode st of
        Inl e \<Rightarrow> Inl e
      | Inr data \<Rightarrow>
          (let tmp = filepath_join [dir, stateFile @ ''.tmp'']
           in Inr [WriteFile tmp data, Rename tmp (state_path dir)]))"

definition read_state_file :: "(string \<Rightarrow> instanceState option) \<Rightarrow> string \<Rightarrow> disk \<Rightarrow> instanceState option" where
  "read_state_file decode dir d = (case d (state_path dir) of None \<Rightarrow> None | Some data \<Rightarrow> decode data)"

section \<open>Two names in a directory are two paths\<close>

lemma split_char_snoc: "d \<notin> set n \<Longrightarrow> split_char d (s @ d # n) = split_char d s @ [n]"
  by (induction s) (auto simp: split_char_id split: list.split)

lemma join_str_snoc: "join_str sep (xs @ [n]) = (if xs = [] then n else join_str sep xs @ sep @ n)"
  by (induction sep xs rule: join_str.induct) auto

lemma path_clean_name:
  assumes "CHR ''/'' \<notin> set n" "n \<noteq> []" "n \<noteq> ''.''" "n \<noteq> ''..''"
  shows "\<exists>front. \<forall>m. CHR ''/'' \<notin> set m \<and> m \<noteq> [] \<and> m \<noteq> ''.'' \<and> m \<noteq> ''..'' \<longrightarrow> path_clean (dir @ CHR ''/'' # m) = front @ m"
proof -
  obtain rooted where rooted: "\<And>m. (case dir @ CHR ''/'' # m of [] \<Rightarrow> False | c # _ \<Rightarrow> c = CHR ''/'') = rooted"
    by (cases dir) auto
  define stk where "stk = foldl (clean_step rooted) [] (split_char (CHR ''/'') dir)"
  let ?front = "(if rooted then [CHR ''/''] else []) @ (if stk = [] then [] else join_str ''/'' (rev stk) @ ''/'')"
  have "path_clean (dir @ CHR ''/'' # m) = ?front @ m"
    if m: "CHR ''/'' \<notin> set m" "m \<noteq> []" "m \<noteq> ''.''" "m \<noteq> ''..''" for m
  proof -
    have "foldl (clean_step rooted) [] (split_char (CHR ''/'') (dir @ CHR ''/'' # m)) = m # stk"
      using m by (simp add: split_char_snoc stk_def)
    then show ?thesis using m(2) by (simp only: path_clean_def Let_def rooted) (simp add: join_str_snoc)
  qed
  then show ?thesis by blast
qed

lemma temp_differs: "filepath_join [dir, stateFile @ ''.tmp''] \<noteq> state_path dir"
proof (cases "dir = []")
  case True
  then show ?thesis unfolding True by (simp add: state_path_def stateFile_def filepath_join_def path_clean_def)
next
  case False
  obtain front where f: "\<forall>m. CHR ''/'' \<notin> set m \<and> m \<noteq> [] \<and> m \<noteq> ''.'' \<and> m \<noteq> ''..'' \<longrightarrow> path_clean (dir @ CHR ''/'' # m) = front @ m"
    using path_clean_name [of "''x''" dir] by auto
  have "filepath_join [dir, m] = front @ m" if "m = stateFile \<or> m = stateFile @ ''.tmp''" for m
    using f [rule_format, of m] False that by (auto simp: filepath_join_def stateFile_def)
  then show ?thesis by (simp add: state_path_def)
qed

section \<open>Writing is atomic\<close>

lemma writeState_atomic:
  assumes "writeState_ops encode dir st = Inr ops" "crash ops d d'"
    and "\<And>data. encode st = Inr data \<Longrightarrow> decode data = Some st"
  shows "read_state_file decode dir d' \<in> {read_state_file decode dir d, Some st}"
proof -
  obtain data where e: "encode st = Inr data" using assms(1) by (auto simp: writeState_ops_def split: sum.splits)
  with assms(1) have "ops = [WriteFile (filepath_join [dir, stateFile @ ''.tmp'']) data,
      Rename (filepath_join [dir, stateFile @ ''.tmp'']) (state_path dir)]"
    by (simp add: writeState_ops_def Let_def)
  with crash_write_rename assms(2) temp_differs
  have "d' (state_path dir) = d (state_path dir) \<or> d' (state_path dir) = Some data" by blast
  then show ?thesis using assms(3) [OF e] by (auto simp: read_state_file_def)
qed

text \<open>When nothing stops it, the state is read back.\<close>

lemma writeState_read:
  assumes "writeState_ops encode dir st = Inr [w, r]" "\<And>data. encode st = Inr data \<Longrightarrow> decode data = Some st"
    and "exec_op w d = Some d1" "exec_op r d1 = Some d2"
  shows "read_state_file decode dir d2 = Some st"
  using assms temp_differs [of dir]
  by (auto simp: writeState_ops_def read_state_file_def Let_def split: sum.splits option.splits)

end
