(* ===== verification/Bootstrap.thy ===== *)
theory Bootstrap
  imports Process
begin

text \<open>
  How the process provider gets its runner template (\<open>bootstrap.go\<close>) and what \<open>Preflight\<close>
  accepts (\<open>process.go\<close>). A run of \<open>ensureTemplate\<close> is the list of the disk states it passes
  through, the last one being the state it ends in, so that a theorem about every element of the
  list covers a crash at any point.
\<close>

section \<open>The release and the download\<close>

text \<open>An HTTP exchange: a transport error, or a status and a body.\<close>

type_synonym reply = "string + int \<times> string"

definition latestRunnerVersion :: "(string \<Rightarrow> string option) \<Rightarrow> reply \<Rightarrow> string + string" where
  "latestRunnerVersion tag_name r =
     (case r of
        Inl e \<Rightarrow> Inl e
      | Inr (status, body) \<Rightarrow>
          if status \<noteq> 200 then Inl (''github responded '' @ itoa status)
          else (case tag_name body of
              None \<Rightarrow> Inl ''decode''
            | Some t \<Rightarrow> (let version = trim_prefix t ''v''
                         in if version = [] then Inl ''release has no tag name'' else Inr version)))"

text \<open>\<open>copied\<close> is what arrives of the body: the bytes written, or an error on the way.\<close>

definition downloadFile :: "reply \<Rightarrow> bool \<Rightarrow> (string \<Rightarrow> string + int) \<Rightarrow> bool \<Rightarrow> string + int" where
  "downloadFile r create_ok copied close_ok =
     (case r of
        Inl e \<Rightarrow> Inl e
      | Inr (status, body) \<Rightarrow>
          if status \<noteq> 200 then Inl (''responded '' @ itoa status)
          else if \<not> create_ok then Inl ''create''
          else (case copied body of
              Inl e \<Rightarrow> Inl e
            | Inr n \<Rightarrow> if n = 0 then Inl ''download was empty''
                       else if close_ok then Inr n else Inl ''close''))"

definition extract_args :: "string \<Rightarrow> string \<Rightarrow> string list" where
  "extract_args archive dst =
     (let args = [''-x'', ''-f'', archive, ''-C'', dst]
      in ''tar'' # (if has_suffix archive ''.tar.gz'' then ''-z'' # args else args))"

section \<open>\<open>ensureTemplate\<close>\<close>

text \<open>What \<open>os.Stat\<close> finds at a path; of a directory, the relative names of what is in it.\<close>

datatype found = Missing | StatError | PlainFile | Directory "string list"

record disk =
  dk_template :: found
  dk_staging :: found

text \<open>
  How the steps go: the version resolved, the outcome of the download, the files \<open>tar\<close> leaves in
  the staging directory and whether it succeeded, and which file operations the host refuses.
\<close>

record boot_env =
  be_version :: "string + string"
  be_clear_ok :: bool
  be_mkdir_ok :: bool
  be_download :: "string + int"
  be_files :: "string list"
  be_tar_ok :: bool
  be_remove_ok :: "string \<Rightarrow> bool"
  be_rename_ok :: bool

definition stale_names :: "string list" where
  "stale_names = [''.runner'', ''.credentials'', ''.credentials_rsaparams'']"

definition drop_stale :: "boot_env \<Rightarrow> string list \<Rightarrow> string list" where
  "drop_stale env fs = filter (\<lambda>f. \<not> (f \<in> set stale_names \<and> be_remove_ok env f)) fs"

text \<open>The deferred removal of the staging directory.\<close>

definition cleanup :: "boot_env \<Rightarrow> disk \<Rightarrow> disk" where
  "cleanup env d = (if be_clear_ok env then d\<lparr>dk_staging := Missing\<rparr> else d)"

text \<open>From the unpacked archive on: the result and the disk states passed.\<close>

definition install_staged :: "boot_env \<Rightarrow> string \<Rightarrow> string list \<Rightarrow> disk \<Rightarrow> string option \<times> disk list" where
  "install_staged env entrypoint fs d =
     (let fs' = drop_stale env fs; d1 = d\<lparr>dk_staging := Directory fs'\<rparr>
      in if entrypoint \<notin> set fs'
         then (Some (''downloaded archive does not contain '' @ entrypoint), [d1, cleanup env d1])
         else if \<not> be_rename_ok env then (Some ''rename'', [d1, cleanup env d1])
         else (None, [d1, \<lparr> dk_template = Directory fs', dk_staging = Missing \<rparr>]))"

definition ensureTemplate :: "boot_env \<Rightarrow> string \<Rightarrow> string \<Rightarrow> string \<Rightarrow> disk \<Rightarrow> string option \<times> disk list" where
  "ensureTemplate env goos goarch tmpl d =
     (if tmpl = [] then (Some ''template_dir is empty'', [d])
      else case dk_template d of
        Missing \<Rightarrow>
          (case be_version env of
             Inl e \<Rightarrow> (Some (''resolve the latest actions-runner release: '' @ e), [d])
           | Inr version \<Rightarrow>
               (let archive = runnerArchiveName goos goarch version
                in if \<not> be_clear_ok env then (Some ''clear'', [d])
                   else if \<not> be_mkdir_ok env then (Some ''mkdir'', [d\<lparr>dk_staging := Missing\<rparr>])
                   else (let d1 = d\<lparr>dk_staging := Directory []\<rparr>
                     in case be_download env of
                          Inl e \<Rightarrow> (Some (''download '' @ e), [d1, d1\<lparr>dk_staging := Directory [archive]\<rparr>, cleanup env d1])
                        | Inr _ \<Rightarrow>
                            (let d2 = d1\<lparr>dk_staging := Directory [archive]\<rparr>;
                                 d3 = d1\<lparr>dk_staging := Directory (archive # be_files env)\<rparr>
                             in if \<not> be_tar_ok env then (Some (''extract '' @ archive), [d1, d2, d3, cleanup env d3])
                                else if \<not> be_remove_ok env archive then (Some ''remove'', [d1, d2, d3, cleanup env d3])
                                else (let (r, ds) = install_staged env (runnerEntrypoint goos)
                                              (filter (\<lambda>f. f \<noteq> archive) (be_files env)) d3
                                      in (r, [d1, d2, d3] @ ds))))))
      | StatError \<Rightarrow> (Some ''stat'', [d])
      | _ \<Rightarrow> (None, [d]))"

section \<open>\<open>Preflight\<close>\<close>

text \<open>The probe of the runner binary: how the version command ends, and what it prints.\<close>

definition dep_markers :: "string list" where
  "dep_markers = [''icu'', ''shared librar'', ''globalization'', ''dotnet'', ''no such file'']"

definition checkRunnerDeps :: "bool \<Rightarrow> (string option \<times> string) \<Rightarrow> string option" where
  "checkRunnerDeps listener_exists probe =
     (if \<not> listener_exists then None
      else case probe of
        (None, _) \<Rightarrow> None
      | (Some err, out) \<Rightarrow>
          (let msg = trim_space out; low = to_lower (msg @ '' '' @ err)
           in if list_ex (contains_str low) dep_markers
              then Some ''the runner cannot start on this host: system libraries are missing''
              else None))"

record pre_env =
  pre_mkdir_ok :: bool
  pre_on_path :: "string \<Rightarrow> bool"
  pre_script_exists :: bool
  pre_probe :: "string option \<times> string"

text \<open>The checks in their order, on the disk \<open>ensureTemplate\<close> leaves.\<close>

definition check_template :: "string \<Rightarrow> found \<Rightarrow> string option" where
  "check_template goos t =
     (case t of
        Directory fs \<Rightarrow>
          if runnerEntrypoint goos \<notin> set fs then Some ''it is not an actions-runner installation''
          else if list_ex (\<lambda>f. f \<in> set fs) [''.runner'', ''.credentials'']
          then Some ''the template must be an unconfigured runner''
          else None
      | PlainFile \<Rightarrow> Some ''is not a directory''
      | _ \<Rightarrow> Some ''stat'')"

definition check_host :: "pre_env \<Rightarrow> string \<Rightarrow> ProcessSpec \<Rightarrow> found \<Rightarrow> string option" where
  "check_host pe goos ps t =
     (if \<not> pre_mkdir_ok pe then Some ''instances_dir''
      else if \<not> pre_on_path pe (copyTool goos) then Some ''copy tool was not found on PATH''
      else if p_PreflightScript ps \<noteq> [] \<and> \<not> pre_script_exists pe then Some ''preflight_script''
      else if goos = ''linux'' then
        checkRunnerDeps (case t of Directory fs \<Rightarrow> ''bin/Runner.Listener'' \<in> set fs | _ \<Rightarrow> False) (pre_probe pe)
      else None)"

definition process_Preflight ::
  "boot_env \<Rightarrow> pre_env \<Rightarrow> string \<Rightarrow> string \<Rightarrow> ProcessSpec \<Rightarrow> disk \<Rightarrow> string option \<times> disk" where
  "process_Preflight env pe goos goarch ps d =
     (let (err, ds) = ensureTemplate env goos goarch (p_TemplateDir ps) d; d' = last ds
      in case err of
           Some e \<Rightarrow> (Some (''template_dir is missing and could not be set up: '' @ e), d')
         | None \<Rightarrow> (case check_template goos (dk_template d') of
               Some e \<Rightarrow> (Some e, d')
             | None \<Rightarrow> (check_host pe goos ps (dk_template d'), d')))"

section \<open>Properties\<close>

text \<open>A template that can be used: it holds the entry point.\<close>

definition usable :: "string \<Rightarrow> found \<Rightarrow> bool" where
  "usable goos t = (case t of Directory fs \<Rightarrow> runnerEntrypoint goos \<in> set fs | _ \<Rightarrow> False)"

lemma install_staged_states:
  assumes "install_staged env (runnerEntrypoint goos) fs d = (r, ds)"
  shows "\<forall>s\<in>set ds. dk_template s = dk_template d \<or> (usable goos (dk_template s) \<and> r = None)"
    and "ds \<noteq> []" and "r = None \<Longrightarrow> usable goos (dk_template (last ds))"
    and "be_clear_ok env \<Longrightarrow> dk_staging (last ds) = Missing"
  using assms by (auto simp: install_staged_def usable_def cleanup_def Let_def split: if_splits)



text \<open>
  A host that passes \<open>Preflight\<close> has a template with the entry point and without the
  credentials of a configured runner, and the copy tool every \<open>Create\<close> needs.
\<close>

lemma process_Preflight_sound:
  assumes "process_Preflight env pe goos goarch ps d = (None, d')"
  shows "\<exists>fs. dk_template d' = Directory fs \<and> runnerEntrypoint goos \<in> set fs
     \<and> ''.runner'' \<notin> set fs \<and> ''.credentials'' \<notin> set fs
     \<and> pre_mkdir_ok pe \<and> pre_on_path pe (hd (ca_args (hd (copy_attempts goos src dst))))"
proof -
  have "hd (ca_args (hd (copy_attempts goos src dst))) = copyTool goos"
    by (simp add: copy_attempts_def copyTool_def)
  then show ?thesis
    using assms
    by (auto simp: process_Preflight_def check_template_def check_host_def Let_def
        split: prod.splits option.splits found.splits if_splits)
qed

lemma process_Preflight_sound_witness:
  "\<forall>env. dk_template (snd (process_Preflight env \<lparr> pre_mkdir_ok = True, pre_on_path = (\<lambda>_. True), pre_script_exists = True,
       pre_probe = (None, []) \<rparr> ''linux'' ''amd64'' \<lparr> p_TemplateDir = ''/t'', p_InstancesDir = ''/i'', p_Env = [],
       p_User = [], p_PreflightScript = [] \<rparr> \<lparr> dk_template = Directory [''run.sh''], dk_staging = Missing \<rparr>))
     = Directory [''run.sh'']"
  (is "\<forall>env. dk_template (snd (?p env)) = _")
proof
  fix env
  have p: "?p env = (None, \<lparr> dk_template = Directory [''run.sh''], dk_staging = Missing \<rparr>)"
    by (simp add: process_Preflight_def ensureTemplate_def check_template_def check_host_def runnerEntrypoint_def
        checkRunnerDeps_def)
  from process_Preflight_sound [OF p] p show "dk_template (snd (?p env)) = Directory [''run.sh'']" by simp
qed

end
