(* ===== verification/Docker.thy ===== *)
theory Docker
  imports Provider Paths ConfigTypes Naming
begin

text \<open>
  The docker provider (\<open>internal/provider/dockerprov\<close>): the small Engine API client of
  \<open>engine.go\<close> and the provider of \<open>docker.go\<close>. The Docker daemon is a parameter: what it answers
  to a request and how that changes it, with the JSON codecs that read its answers. Bodies are
  of an unspecified type \<open>'b\<close> until a codec reads them.
\<close>

section \<open>The wire\<close>

record containerSummary =
  c_ID :: string
  c_Names :: "string list"
  c_State :: string
  c_Status :: string
  c_Labels :: "(string \<times> string) list"

record hostConfig =
  hc_Privileged :: bool
  hc_NetworkMode :: string
  hc_Binds :: "string list"
  hc_Tmpfs :: "(string \<times> string) option"
  hc_ShmSize :: int
  hc_Memory :: int
  hc_NanoCPUs :: int
  hc_Isolation :: string
  hc_RestartPolicy :: string
  hc_LogType :: string
  hc_LogConfig :: "(string \<times> string) list"

record createRequest =
  cq_Image :: string
  cq_Env :: "string list"
  cq_Labels :: "(string \<times> string) list"
  cq_Hostname :: string
  cq_StopSignal :: string
  cq_HostConfig :: hostConfig

record createResponse =
  cr_ID :: string
  cr_Warnings :: "string list"

record versionInfo =
  vi_Version :: string
  vi_Os :: string
  vi_Arch :: string

record containerState =
  cs_Status :: string
  cs_ExitCode :: int
  cs_OOMKilled :: bool
  cs_Error :: string

datatype engineError =
  Transport string
| EngineStatus int string string
| DecodeError string

definition isNotFound :: "engineError \<Rightarrow> bool" where
  "isNotFound e = (case e of EngineStatus s _ _ \<Rightarrow> s = 404 | _ \<Rightarrow> False)"

text \<open>
  The daemon: a request (method, path, body, headers) in a state of the daemon's world, the
  codecs, and the functions of the standard library that build queries and write times.
  \<open>dm_containers\<close> observes the containers there are; no code calls it.
\<close>

record ('w, 'b) daemon =
  dm_do :: "string \<Rightarrow> string \<Rightarrow> createRequest option \<Rightarrow> (string \<times> string) list \<Rightarrow> 'w \<Rightarrow> (string + int \<times> 'b) \<times> 'w"
  dm_text :: "'b \<Rightarrow> string"
  dm_message :: "'b \<Rightarrow> string option"
  dm_list :: "'b \<Rightarrow> containerSummary list option"
  dm_created :: "'b \<Rightarrow> createResponse option"
  dm_version :: "'b \<Rightarrow> versionInfo option"
  dm_state :: "'b \<Rightarrow> containerState option"
  dm_progress :: "'b \<Rightarrow> (string + string) list"
  dm_filters :: "string list \<Rightarrow> string"
  dm_escape :: "string \<Rightarrow> string"
  dm_pathEscape :: "string \<Rightarrow> string"
  dm_query :: "(string \<times> string) list \<Rightarrow> string"
  dm_formatTime :: "int \<Rightarrow> string"
  dm_parseTime :: "string \<Rightarrow> int option"
  dm_parseFloat :: "string \<Rightarrow> rat option"
  dm_mulFloat :: "rat \<Rightarrow> rat \<Rightarrow> rat"
  dm_now :: "'w \<Rightarrow> int"
  dm_containers :: "'w \<Rightarrow> containerSummary list"

section \<open>The engine client (\<open>engine.go\<close>)\<close>

definition readDockerError :: "('w, 'b) daemon \<Rightarrow> 'b \<Rightarrow> string" where
  "readDockerError d b =
     (case dm_message d b of
        Some m \<Rightarrow> if m \<noteq> [] then m
                  else (let s = trim_space (dm_text d b) in if s = [] then ''(no message)'' else s)
      | None \<Rightarrow> (let s = trim_space (dm_text d b) in if s = [] then ''(no message)'' else s))"

definition engine_send ::
  "('w, 'b) daemon \<Rightarrow> string \<Rightarrow> string \<Rightarrow> string \<Rightarrow> createRequest option \<Rightarrow> (string \<times> string) list
    \<Rightarrow> 'w \<Rightarrow> (engineError + 'b) \<times> 'w" where
  "engine_send d method path errPath body hdrs w =
     (let (r, w') = dm_do d method path body hdrs w
      in case r of
           Inl e \<Rightarrow> (Inl (Transport e), w')
         | Inr (status, b) \<Rightarrow>
             if status < 200 \<or> status \<ge> 300 then (Inl (EngineStatus status (readDockerError d b) errPath), w')
             else (Inr b, w'))"

definition engine_call ::
  "('w, 'b) daemon \<Rightarrow> string \<Rightarrow> string \<Rightarrow> createRequest option \<Rightarrow> ('b \<Rightarrow> 'a option) \<Rightarrow> 'w \<Rightarrow> (engineError + 'a) \<times> 'w" where
  "engine_call d method path body decode w =
     (let (r, w') = engine_send d method path path body [] w
      in case r of
           Inl e \<Rightarrow> (Inl e, w')
         | Inr b \<Rightarrow> (case decode b of Some x \<Rightarrow> (Inr x, w') | None \<Rightarrow> (Inl (DecodeError path), w')))"

definition no_body :: "'b \<Rightarrow> unit option" where
  "no_body b = Some ()"

definition list_path :: "('w, 'b) daemon \<Rightarrow> string list \<Rightarrow> string" where
  "list_path d labels = ''/containers/json?all=true&filters='' @ dm_escape d (dm_filters d labels)"

definition remove_path :: "string \<Rightarrow> string" where
  "remove_path ident = ''/containers/'' @ ident @ ''?force=true&v=true''"

definition start_path :: "string \<Rightarrow> string" where
  "start_path ident = ''/containers/'' @ ident @ ''/start''"

definition create_path :: "('w, 'b) daemon \<Rightarrow> string \<Rightarrow> string \<Rightarrow> string" where
  "create_path d name platform = ''/containers/create?'' @
     dm_query d ((''name'', name) # (if platform \<noteq> [] then [(''platform'', platform)] else []))"

definition image_path :: "('w, 'b) daemon \<Rightarrow> string \<Rightarrow> string" where
  "image_path d img = ''/images/'' @ dm_pathEscape d img @ ''/json''"

definition listContainers :: "('w, 'b) daemon \<Rightarrow> string list \<Rightarrow> 'w \<Rightarrow> (engineError + containerSummary list) \<times> 'w" where
  "listContainers d labels w = engine_call d ''GET'' (list_path d labels) None (dm_list d) w"

definition createContainer ::
  "('w, 'b) daemon \<Rightarrow> string \<Rightarrow> createRequest \<Rightarrow> string \<Rightarrow> 'w \<Rightarrow> (engineError + createResponse) \<times> 'w" where
  "createContainer d name req platform w =
     engine_call d ''POST'' (create_path d name platform) (Some req) (dm_created d) w"

definition startContainer :: "('w, 'b) daemon \<Rightarrow> string \<Rightarrow> 'w \<Rightarrow> (engineError + unit) \<times> 'w" where
  "startContainer d ident w = engine_call d ''POST'' (start_path ident) None no_body w"

text \<open>A container that is already gone is a success.\<close>

definition removeContainer :: "('w, 'b) daemon \<Rightarrow> string \<Rightarrow> 'w \<Rightarrow> engineError option \<times> 'w" where
  "removeContainer d ident w =
     (let (r, w') = engine_call d ''DELETE'' (remove_path ident) None no_body w
      in case r of
           Inr _ \<Rightarrow> (None, w')
         | Inl e \<Rightarrow> (if isNotFound e then None else Some e, w'))"

definition imageExists :: "('w, 'b) daemon \<Rightarrow> string \<Rightarrow> 'w \<Rightarrow> (engineError + bool) \<times> 'w" where
  "imageExists d img w =
     (let (r, w') = engine_call d ''GET'' (image_path d img) None no_body w
      in case r of
           Inr _ \<Rightarrow> (Inr True, w')
         | Inl e \<Rightarrow> (if isNotFound e then Inr False else Inl e, w'))"

text \<open>\<open>strings.LastIndex\<close> with a one-byte pattern: what is before and after its last occurrence.\<close>

definition cut_last :: "char \<Rightarrow> string \<Rightarrow> (string \<times> string) option" where
  "cut_last c s =
     (if c \<in> set s
      then Some (rev (tl (dropWhile (\<lambda>x. x \<noteq> c) (rev s))), rev (takeWhile (\<lambda>x. x \<noteq> c) (rev s)))
      else None)"

definition splitImageTag :: "string \<Rightarrow> string \<times> string" where
  "splitImageTag img =
     (case cut_last (CHR ''@'') img of
        Some (c # n, digest) \<Rightarrow> (c # n, digest)
      | _ \<Rightarrow> (case cut_last (CHR '':'') img of
            None \<Rightarrow> (img, ''latest'')
          | Some (name, tag) \<Rightarrow> if CHR ''/'' \<in> set tag then (img, ''latest'') else (name, tag)))"

fun pull_stream :: "(string + string) list \<Rightarrow> engineError option" where
  "pull_stream [] = None"
| "pull_stream (Inl e # rest) = Some (DecodeError e)"
| "pull_stream (Inr msg # rest) = (if msg \<noteq> [] then Some (DecodeError msg) else pull_stream rest)"

definition pull_path :: "('w, 'b) daemon \<Rightarrow> string \<Rightarrow> string \<Rightarrow> string" where
  "pull_path d img platform =
     (let (name, tag) = splitImageTag img
      in ''/images/create?'' @ dm_query d ((''fromImage'', name)
           # (if tag \<noteq> [] then [(''tag'', tag)] else [])
           @ (if platform \<noteq> [] then [(''platform'', platform)] else [])))"

definition pullImage :: "('w, 'b) daemon \<Rightarrow> string \<Rightarrow> string \<Rightarrow> string \<Rightarrow> 'w \<Rightarrow> engineError option \<times> 'w" where
  "pullImage d auth img platform w =
     (let (r, w') = engine_send d ''POST'' (pull_path d img platform) ''/images/create'' None
                      (if auth \<noteq> [] then [(''X-Registry-Auth'', auth)] else []) w
      in case r of
           Inl e \<Rightarrow> (Some e, w')
         | Inr b \<Rightarrow> (pull_stream (dm_progress d b), w'))"

text \<open>
  The frames of a log stream: eight bytes of header, then as many as the header says, at most
  a mebibyte. \<open>header\<close> splits them off when there are eight.
\<close>

definition byte_of :: "char \<Rightarrow> nat" where "byte_of c = of_char c"

definition be32 :: "string \<Rightarrow> nat" where
  "be32 s = foldl (\<lambda>n c. n * 256 + byte_of c) 0 s"

definition framed :: "string \<Rightarrow> bool" where
  "framed header = (byte_of (header ! 0) \<le> 2 \<and> byte_of (header ! 1) = 0
     \<and> byte_of (header ! 2) = 0 \<and> byte_of (header ! 3) = 0)"

definition max_frame :: nat where "max_frame = 2 ^ 20"

function demux :: "string \<Rightarrow> string" where
  "demux s =
     (if length s < 8 then []
      else let header = take 8 s; rest = drop 8 s in
        if \<not> framed header then header @ rest
        else let size = min max_frame (be32 (drop 4 header)) in
          if length rest < size then rest @ replicate (size - length rest) (CHR 0x00)
          else take size rest @ demux (drop size rest))"
  by pat_completeness auto
termination by (relation "measure length") auto

declare demux.simps [simp del]

definition engine_logs :: "('w, 'b) daemon \<Rightarrow> string \<Rightarrow> int \<Rightarrow> 'w \<Rightarrow> (engineError + string) \<times> 'w" where
  "engine_logs d ident lines w =
     (let n = (if lines \<le> 0 then 100 else lines);
          path = ''/containers/'' @ ident @ ''/logs?stdout=1&stderr=1&tail='' @ itoa n;
          (r, w') = engine_send d ''GET'' path path None [] w
      in case r of
           Inl e \<Rightarrow> (Inl e, w')
         | Inr b \<Rightarrow> (Inr (demux (take (4 * 2 ^ 20) (dm_text d b))), w'))"

section \<open>Connecting (\<open>newEngine\<close>)\<close>

datatype transport = UnixSocket string | OverSSH string | Network bool

record engine =
  en_baseURL :: string
  en_transport :: transport
  en_host :: string
  en_auth :: string

text \<open>
  \<open>buildTLS\<close>: the files it reads, and whether the certificate parsers take them, are \<open>read\<close>,
  \<open>has_certs\<close> and \<open>pair_ok\<close>.
\<close>

definition buildTLS ::
  "(string \<Rightarrow> string option) \<Rightarrow> (string \<Rightarrow> bool) \<Rightarrow> (string \<Rightarrow> string \<Rightarrow> bool) \<Rightarrow> DockerTLS \<Rightarrow> string + unit" where
  "buildTLS read has_certs pair_ok t =
     (let ca = (if tls_CAFile t \<noteq> [] then
                  (case read (tls_CAFile t) of
                     None \<Rightarrow> Some ''read docker CA''
                   | Some pem \<Rightarrow> if has_certs pem then None
                                 else Some (''docker CA '' @ tls_CAFile t @ '' contains no certificates''))
                else None)
      in case ca of
           Some e \<Rightarrow> Inl e
         | None \<Rightarrow>
             if (tls_CertFile t \<noteq> [] \<or> tls_KeyFile t \<noteq> []) \<and> \<not> pair_ok (tls_CertFile t) (tls_KeyFile t)
             then Inl ''load docker client certificate'' else Inr ())"

definition newEngine ::
  "(DockerTLS \<Rightarrow> string + unit) \<Rightarrow> (string \<Rightarrow> bool) \<Rightarrow> string \<Rightarrow> DockerTLS option \<Rightarrow> string + engine" where
  "newEngine tls url_ok host0 tlsOpts =
     (let host = (if host0 = [] then ''unix:///var/run/docker.sock'' else host0);
          mk = (\<lambda>url tr. Inr \<lparr> en_baseURL = url, en_transport = tr, en_host = host, en_auth = [] \<rparr>)
      in if has_prefix host ''unix://'' then mk ''http://docker'' (UnixSocket (trim_prefix host ''unix://''))
         else if has_prefix host ''ssh://'' then
           (if url_ok host then mk ''http://docker'' (OverSSH host) else Inl (''parse docker host '' @ host))
         else if list_ex (has_prefix host) [''tcp://'', ''http://'', ''https://''] then
           (let addr = foldl trim_prefix host [''tcp://'', ''http://'', ''https://'']
            in case tlsOpts of
                 Some t \<Rightarrow> (case tls t of
                     Inl e \<Rightarrow> Inl e
                   | Inr _ \<Rightarrow> mk (''https://'' @ addr) (Network True))
               | None \<Rightarrow> if has_prefix host ''https://'' then mk (''https://'' @ addr) (Network True)
                         else mk (''http://'' @ addr) (Network False))
         else if has_prefix host ''npipe://'' then Inl (''docker host '' @ host @ '': Windows named pipes are not supported'')
         else Inl (''unsupported docker host '' @ host))"

text \<open>The command line of the SSH transport, for the parts of the host URL.\<close>

definition ssh_args :: "string \<Rightarrow> string \<Rightarrow> string \<Rightarrow> string list" where
  "ssh_args user hostname port =
     [''-o'', ''ConnectTimeout=10'', ''-o'', ''BatchMode=yes'']
     @ (if port \<noteq> [] then [''-p'', port] else [])
     @ [if user \<noteq> [] then user @ ''@'' @ hostname else hostname, ''--'', ''docker'', ''system'', ''dial-stdio'']"

definition setRegistryAuth ::
  "((string \<times> string) list \<Rightarrow> string) \<Rightarrow> string \<Rightarrow> string \<Rightarrow> string \<Rightarrow> engine \<Rightarrow> engine" where
  "setRegistryAuth encode username password server e =
     (if username = [] \<and> password = [] then e
      else e\<lparr>en_auth := encode [(''username'', username), (''password'', password),
        (''serveraddress'', if server = [] then ''https://index.docker.io/v1/'' else server)]\<rparr>)"

section \<open>Sizes (\<open>parseBytes\<close>)\<close>

text \<open>
  \<open>parseFloat\<close> is \<open>strconv.ParseFloat\<close>, with the float's exact value; the multipliers are powers of
  two, so the product is exact, and the conversion to \<open>int64\<close> cuts towards zero.
\<close>

definition truncate_rat :: "rat \<Rightarrow> int" where
  "truncate_rat q = (if q < 0 then - \<lfloor>- q\<rfloor> else \<lfloor>q\<rfloor>)"

definition size_unit :: "string \<Rightarrow> rat \<times> string" where
  "size_unit s =
     (if has_suffix s ''gb'' \<or> has_suffix s ''g'' then (2 ^ 30, trim_suffix (trim_suffix s ''gb'') ''g'')
      else if has_suffix s ''mb'' \<or> has_suffix s ''m'' then (2 ^ 20, trim_suffix (trim_suffix s ''mb'') ''m'')
      else if has_suffix s ''kb'' \<or> has_suffix s ''k'' then (2 ^ 10, trim_suffix (trim_suffix s ''kb'') ''k'')
      else if has_suffix s ''b'' then (1, trim_suffix s ''b'')
      else (1, s))"

definition parseBytes :: "(string \<Rightarrow> rat option) \<Rightarrow> string \<Rightarrow> string + int" where
  "parseBytes parseFloat s0 =
     (let s = trim_space (to_lower s0)
      in if s = [] then Inr 0
         else (let (mult, num) = size_unit s
               in case parseFloat (trim_space num) of
                    None \<Rightarrow> Inl (''invalid size '' @ num)
                  | Some n \<Rightarrow> Inr (truncate_rat (n * mult))))"

section \<open>The provider (\<open>docker.go\<close>)\<close>

definition LabelManaged :: string where "LabelManaged = ''arc.managed''"
definition LabelPool :: string where "LabelPool = ''arc.pool''"
definition LabelRunnerName :: string where "LabelRunnerName = ''arc.runner-name''"
definition LabelRunnerID :: string where "LabelRunnerID = ''arc.runner-id''"
definition LabelCreated :: string where "LabelCreated = ''arc.created''"

lemmas label_defs = LabelManaged_def LabelPool_def LabelRunnerName_def LabelRunnerID_def LabelCreated_def

text \<open>
  A provider: its pool, whether that is a Windows pool, the engine's registry credentials; with
  the daemon's world and, once the image was looked for, what came of it.
\<close>

record docker =
  do_pool :: Pool
  do_spec :: DockerSpec
  do_auth :: string
  do_windows :: bool

record 'w dstate =
  ds_world :: 'w
  ds_pull :: "engineError option option"

datatype docker_error =
  Engine engineError
| Refused string

definition docker_New ::
  "(DockerTLS \<Rightarrow> string + unit) \<Rightarrow> (string \<Rightarrow> bool) \<Rightarrow> ((string \<times> string) list \<Rightarrow> string) \<Rightarrow> Pool
    \<Rightarrow> string + docker \<times> engine" where
  "docker_New tls url_ok encode pool =
     (case pool_Docker pool of
        None \<Rightarrow> Inl (''pool '' @ pool_Name pool @ '': missing docker configuration'')
      | Some spec \<Rightarrow>
          (case newEngine tls url_ok (d_Host spec) (d_TLS spec) of
             Inl e \<Rightarrow> Inl (''pool '' @ pool_Name pool @ '': '' @ e)
           | Inr eng0 \<Rightarrow>
               (let eng = (case d_RegistryAuth spec of
                     None \<Rightarrow> eng0
                   | Some a \<Rightarrow> setRegistryAuth encode (ra_Username a) (ra_Password a) (ra_Server a) eng0)
                in Inr (\<lparr> do_pool = pool, do_spec = spec, do_auth = en_auth eng, do_windows = isWindowsPool pool \<rparr>,
                        eng))))"

definition lift_world :: "('w \<Rightarrow> 'a \<times> 'w) \<Rightarrow> 'w dstate \<Rightarrow> 'a \<times> 'w dstate" where
  "lift_world f s = (let (r, w) = f (ds_world s) in (r, s\<lparr>ds_world := w\<rparr>))"

text \<open>The work of \<open>pullOnce\<close>.\<close>

definition pull_missing :: "('w, 'b) daemon \<Rightarrow> docker \<Rightarrow> 'w \<Rightarrow> engineError option \<times> 'w" where
  "pull_missing d p w =
     (let (r, w1) = imageExists d (d_Image (do_spec p)) w
      in case r of
           Inl e \<Rightarrow> (Some e, w1)
         | Inr True \<Rightarrow> (None, w1)
         | Inr False \<Rightarrow> pullImage d (do_auth p) (d_Image (do_spec p)) (d_Platform (do_spec p)) w1)"

definition ensureImage :: "('w, 'b) daemon \<Rightarrow> docker \<Rightarrow> 'w dstate \<Rightarrow> docker_error option \<times> 'w dstate" where
  "ensureImage d p s =
     (if d_Pull (do_spec p) = ''never'' then
        (let (r, s1) = lift_world (imageExists d (d_Image (do_spec p))) s
         in case r of
              Inl e \<Rightarrow> (Some (Engine e), s1)
            | Inr True \<Rightarrow> (None, s1)
            | Inr False \<Rightarrow> (Some (Refused (''image '' @ d_Image (do_spec p) @ '' is not present and pull is set to never'')), s1))
      else if d_Pull (do_spec p) = ''always'' then
        (let (r, s1) = lift_world (pullImage d (do_auth p) (d_Image (do_spec p)) (d_Platform (do_spec p))) s
         in (map_option Engine r, s1))
      else case ds_pull s of
             Some r \<Rightarrow> (map_option Engine r, s)
           | None \<Rightarrow> (let (r, s1) = lift_world (pull_missing d p) s
                      in (map_option Engine r, s1\<lparr>ds_pull := Some r\<rparr>)))"

definition docker_Preflight :: "('w, 'b) daemon \<Rightarrow> docker \<Rightarrow> 'w dstate \<Rightarrow> docker_error option \<times> 'w dstate" where
  "docker_Preflight d p s =
     (let (r, s1) = lift_world (engine_call d ''GET'' ''/version'' None (dm_version d)) s
      in case r of
           Inl e \<Rightarrow> (Some (Engine e), s1)
         | Inr v \<Rightarrow>
             if do_windows p \<and> vi_Os v \<noteq> ''windows'' then
               (Some (Refused (''pool '' @ pool_Name (do_pool p) @ '' declares the windows label but docker runs ''
                  @ vi_Os v @ '' containers'')), s1)
             else if \<not> do_windows p \<and> vi_Os v = ''windows'' then
               (Some (Refused (''pool '' @ pool_Name (do_pool p) @ '' but docker runs windows containers'')), s1)
             else ensureImage d p s1)"

definition create_env_vars :: "docker \<Rightarrow> Spec \<Rightarrow> string list" where
  "create_env_vars p sp =
     [''ARC_JITCONFIG='' @ spec_JITConfig sp, ''ARC_POOL='' @ pool_Name (do_pool p),
      ''ARC_RUNNER_NAME='' @ spec_RunnerName sp, ''RUNNER_ALLOW_RUNASROOT=1'',
      ''DOTNET_SYSTEM_GLOBALIZATION_INVARIANT=0'']
     @ map (\<lambda>(k, v). k @ ''='' @ v) (d_Env (do_spec p))"

definition create_labels :: "('w, 'b) daemon \<Rightarrow> docker \<Rightarrow> Spec \<Rightarrow> int \<Rightarrow> (string \<times> string) list" where
  "create_labels d p sp now =
     [(LabelManaged, ''true''), (LabelPool, pool_Name (do_pool p)), (LabelRunnerName, spec_RunnerName sp),
      (LabelRunnerID, itoa (spec_RunnerID sp)), (LabelCreated, dm_formatTime d now)]"

text \<open>A size setting: 0 when it is not given.\<close>

definition size_of_setting :: "(string \<Rightarrow> rat option) \<Rightarrow> string \<Rightarrow> string + int" where
  "size_of_setting parseFloat s = (if s = [] then Inr 0 else parseBytes parseFloat s)"

definition create_tmpfs :: "docker \<Rightarrow> (string \<times> string) option" where
  "create_tmpfs p =
     (let sp = do_spec p
      in if d_WorkTmpfs sp \<and> \<not> do_windows p
         then Some (d_WorkDir sp, ''rw,exec,mode=1777''
                 @ (if d_WorkTmpfsSize sp \<noteq> [] then '',size='' @ d_WorkTmpfsSize sp else []))
         else None)"

definition buildCreateRequest :: "('w, 'b) daemon \<Rightarrow> docker \<Rightarrow> Spec \<Rightarrow> int \<Rightarrow> string + createRequest" where
  "buildCreateRequest d p sp now =
     (let spec = do_spec p
      in if d_DockerInDocker spec \<and> do_windows p
         then Inl ''docker_in_docker is not supported for Windows containers''
         else case size_of_setting (dm_parseFloat d) (d_ShmSize spec) of
             Inl e \<Rightarrow> Inl (''shm_size: '' @ e)
           | Inr shm \<Rightarrow>
               (case size_of_setting (dm_parseFloat d) (d_Memory spec) of
                  Inl e \<Rightarrow> Inl (''memory: '' @ e)
                | Inr mem \<Rightarrow> Inr
                   \<lparr> cq_Image = d_Image spec, cq_Env = create_env_vars p sp, cq_Labels = create_labels d p sp now,
                     cq_Hostname = truncateHostname (spec_RunnerName sp), cq_StopSignal = ''SIGTERM'',
                     cq_HostConfig = \<lparr> hc_Privileged = d_Privileged spec, hc_NetworkMode = d_Network spec,
                       hc_Binds = d_Volumes spec @ (if d_DockerInDocker spec
                          then [''/var/run/docker.sock:/var/run/docker.sock''] else []),
                       hc_Tmpfs = create_tmpfs p, hc_ShmSize = shm, hc_Memory = mem,
                       hc_NanoCPUs = (if d_CPUs spec > 0 then truncate_rat (dm_mulFloat d (d_CPUs spec) (10 ^ 9)) else 0),
                       hc_Isolation = d_Isolation spec, hc_RestartPolicy = ''no'', hc_LogType = ''json-file'',
                       hc_LogConfig = [(''max-size'', ''10m''), (''max-file'', ''2'')] \<rparr> \<rparr>))"

text \<open>A container that cannot be started is removed again.\<close>

definition start_created ::
  "('w, 'b) daemon \<Rightarrow> docker \<Rightarrow> Spec \<Rightarrow> int \<Rightarrow> string \<Rightarrow> 'w dstate \<Rightarrow> (docker_error + Instance) \<times> 'w dstate" where
  "start_created d p sp now ident s =
     (let (r, s1) = lift_world (startContainer d ident) s
      in case r of
           Inl e \<Rightarrow> (Inl (Engine e), snd (lift_world (removeContainer d ident) s1))
         | Inr _ \<Rightarrow> (Inr \<lparr> i_ID = ident, i_Pool = pool_Name (do_pool p), i_RunnerName = spec_RunnerName sp,
              i_RunnerID = spec_RunnerID sp, i_State = StateStarting, i_CreatedAt = now, i_ExitCode = 0,
              i_Detail = [] \<rparr>, s1))"

definition docker_Create ::
  "('w, 'b) daemon \<Rightarrow> docker \<Rightarrow> Spec \<Rightarrow> 'w dstate \<Rightarrow> (docker_error + Instance) \<times> 'w dstate" where
  "docker_Create d p sp s =
     (let (err, s1) = ensureImage d p s
      in case err of
           Some e \<Rightarrow> (Inl e, s1)
         | None \<Rightarrow>
             (let now = dm_now d (ds_world s1)
              in case buildCreateRequest d p sp now of
                   Inl e \<Rightarrow> (Inl (Refused e), s1)
                 | Inr req \<Rightarrow>
                     (let (r, s2) = lift_world (createContainer d (spec_RunnerName sp) req (d_Platform (do_spec p))) s1
                      in case r of
                           Inl e \<Rightarrow> (Inl (Engine e), s2)
                         | Inr created \<Rightarrow> start_created d p sp now (cr_ID created) s2)))"

definition dockerState :: "string \<Rightarrow> State" where
  "dockerState s =
     (if s = ''created'' then StateStarting
      else if s \<in> {''running'', ''restarting'', ''paused'', ''removing''} then StateRunning
      else if s \<in> {''exited'', ''dead''} then StateExited
      else StateUnknown)"

text \<open>Go's reading of a map: the zero value for what is not there.\<close>

definition label_value :: "(string \<times> string) list \<Rightarrow> string \<Rightarrow> string" where
  "label_value ls k = (case map_of ls k of None \<Rightarrow> [] | Some v \<Rightarrow> v)"

definition container_instance :: "('w, 'b) daemon \<Rightarrow> string \<Rightarrow> containerSummary \<Rightarrow> Instance" where
  "container_instance d pool c =
     (let name = label_value (c_Labels c) LabelRunnerName
      in \<lparr> i_ID = c_ID c, i_Pool = pool,
           i_RunnerName = (if name = [] then (case c_Names c of [] \<Rightarrow> [] | n # _ \<Rightarrow> trim_prefix n ''/'') else name),
           i_RunnerID = (case atoi (label_value (c_Labels c) LabelRunnerID) of None \<Rightarrow> 0 | Some i \<Rightarrow> i),
           i_State = dockerState (c_State c),
           i_CreatedAt = (case dm_parseTime d (label_value (c_Labels c) LabelCreated) of None \<Rightarrow> 0 | Some t \<Rightarrow> t),
           i_ExitCode = 0, i_Detail = c_Status c \<rparr>)"

definition pool_labels :: "string \<Rightarrow> string list" where
  "pool_labels pool = [LabelManaged @ ''=true'', LabelPool @ ''='' @ pool]"

definition docker_List :: "('w, 'b) daemon \<Rightarrow> string \<Rightarrow> 'w \<Rightarrow> (engineError + Instance list) \<times> 'w" where
  "docker_List d pool w =
     (let (r, w') = listContainers d (pool_labels pool) w
      in case r of Inl e \<Rightarrow> (Inl e, w') | Inr cs \<Rightarrow> (Inr (map (container_instance d pool) cs), w'))"

definition docker_Destroy :: "('w, 'b) daemon \<Rightarrow> string \<Rightarrow> 'w \<Rightarrow> engineError option \<times> 'w" where
  "docker_Destroy d ident w = removeContainer d ident w"

fun docker_prune_all :: "('w, 'b) daemon \<Rightarrow> Instance list \<Rightarrow> int \<Rightarrow> 'w \<Rightarrow> int \<times> 'w" where
  "docker_prune_all d [] removed w = (removed, w)"
| "docker_prune_all d (inst # rest) removed w =
     (if i_State inst \<noteq> StateExited then docker_prune_all d rest removed w
      else (let (e, w') = docker_Destroy d (i_ID inst) w
            in docker_prune_all d rest (if e = None then removed + 1 else removed) w'))"

definition docker_Prune :: "('w, 'b) daemon \<Rightarrow> string \<Rightarrow> 'w \<Rightarrow> (engineError + int) \<times> 'w" where
  "docker_Prune d pool w =
     (let (r, w1) = docker_List d pool w
      in case r of Inl e \<Rightarrow> (Inl e, w1) | Inr is \<Rightarrow> (let (n, w2) = docker_prune_all d is 0 w1 in (Inr n, w2)))"

definition docker_ExitCode :: "('w, 'b) daemon \<Rightarrow> string \<Rightarrow> 'w \<Rightarrow> (engineError + int \<times> string) \<times> 'w" where
  "docker_ExitCode d ident w =
     (let (r, w') = engine_call d ''GET'' (''/containers/'' @ ident @ ''/json'') None (dm_state d) w
      in case r of
           Inl e \<Rightarrow> (Inl e, w')
         | Inr cs \<Rightarrow> (Inr (cs_ExitCode cs, if cs_OOMKilled cs then ''oom-killed''
                          else if cs_Error cs \<noteq> [] then cs_Error cs else cs_Status cs), w'))"

definition short :: "string \<Rightarrow> string" where
  "short ident = take 12 ident"

end
