(* ===== verification/DockerParse.thy ===== *)
theory DockerParse
  imports Docker
begin

text \<open>
  The parsers of the docker provider and its reader of log streams: frames are taken apart as
  the daemon puts them together, sizes are read with their units, image references are split
  without loss; and what a failed image pull does to a pool.
\<close>

section \<open>Log frames\<close>

text \<open>How the daemon frames a message: the stream, three zero bytes, the length, the message.\<close>

definition byte :: "nat \<Rightarrow> char" where "byte n = char_of (n mod 256)"

definition enc32 :: "nat \<Rightarrow> string" where
  "enc32 n = [byte (n div 2 ^ 24), byte (n div 2 ^ 16), byte (n div 2 ^ 8), byte n]"

definition frame_head :: "nat \<times> string \<Rightarrow> string" where
  "frame_head m = [byte (fst m), byte 0, byte 0, byte 0] @ enc32 (length (snd m))"

definition frame :: "nat \<times> string \<Rightarrow> string" where
  "frame m = frame_head m @ snd m"

definition frame_ok :: "nat \<times> string \<Rightarrow> bool" where
  "frame_ok m = (fst m \<le> 2 \<and> length (snd m) \<le> max_frame)"

lemma byte_of_byte [simp]: "byte_of (byte n) = n mod 256"
  by (simp add: byte_of_def byte_def)

lemma max_frame_less: "n \<le> max_frame \<Longrightarrow> n < 2 ^ 32"
  by (simp add: max_frame_def)

lemma max_frame_small: "n \<le> 100 \<Longrightarrow> n \<le> max_frame"
  by (simp add: max_frame_def)

lemma be32_enc32:
  assumes "n < 2 ^ 32"
  shows "be32 (enc32 n) = n"
proof -
  have d: "n div 2 ^ 24 = n div 2 ^ 16 div 256" "n div 2 ^ 16 = n div 2 ^ 8 div 256" "n div 2 ^ 8 = n div 256"
    by (simp_all flip: div_mult2_eq)
  have "n div 2 ^ 24 < 256" using assms by (simp add: less_mult_imp_div_less)
  then have "be32 (enc32 n) = ((n div 2 ^ 24 * 256 + n div 2 ^ 16 mod 256) * 256 + n div 2 ^ 8 mod 256) * 256 + n mod 256"
    by (simp add: be32_def enc32_def)
  also have "\<dots> = n" by (simp only: d div_mult_mod_eq)
  finally show ?thesis .
qed

lemma frame_head_length [simp]: "length (frame_head m) = 8"
  by (simp add: frame_head_def enc32_def)

lemma frame_head_ok:
  assumes "frame_ok m"
  shows "framed (frame_head m)" "min max_frame (be32 (drop 4 (frame_head m))) = length (snd m)"
  using assms max_frame_less [of "length (snd m)"]
  by (simp_all add: framed_def frame_head_def frame_ok_def be32_enc32)

lemma demux_head:
  assumes "frame_ok m"
  shows "demux (frame_head m @ s) =
    (if length s < length (snd m) then s @ replicate (length (snd m) - length s) (CHR 0x00)
     else take (length (snd m)) s @ demux (drop (length (snd m)) s))"
  using frame_head_ok [OF assms] by (subst demux.simps) (simp add: Let_def)

lemma demux_frame: "frame_ok m \<Longrightarrow> demux (frame m @ s) = snd m @ demux s"
  by (simp add: frame_def demux_head)

text \<open>
  C40. The log reader gives back exactly the messages the daemon framed, in their order, as long
  as each is at most a mebibyte; a truncated header at the end is dropped.
\<close>

theorem demux_frames:
  assumes "list_all frame_ok ms" and "length s < 8"
  shows "demux (concat (map frame ms) @ s) = concat (map snd ms)"
  using assms
proof (induction ms)
  case Nil
  then show ?case by (subst demux.simps) simp
next
  case (Cons m ms)
  then show ?case by (simp add: demux_frame)
qed

theorem demux_frames_witness:
  "demux (concat (map frame [(1, ''out''), (2, ''err'')]) @ [byte 1]) = ''outerr''"
  using demux_frames [of "[(1, ''out''), (2, ''err'')]" "[byte 1]"]
  by (simp add: frame_ok_def max_frame_small)

text \<open>
  When the stream ends inside a frame, as it does when the reader's own limit of four
  mebibytes cuts it, the missing part of the message appears as zero bytes in the log.
\<close>

lemma demux_truncated_pads:
  assumes "frame_ok (st, msg)" and "n \<le> length msg"
  shows "demux (take (8 + n) (frame (st, msg))) = take n msg @ replicate (length msg - n) (CHR 0x00)"
proof -
  have "take (8 + n) (frame (st, msg)) = frame_head (st, msg) @ take n msg" by (simp add: frame_def)
  moreover have "demux [] = []" by (subst demux.simps) simp
  ultimately show ?thesis using assms(2) by (auto simp: demux_head [OF assms(1)] min_def)
qed

lemma demux_truncated_pads_witness:
  "demux (take (8 + 2) (frame (1, ''abcd''))) = ''ab'' @ [CHR 0x00, CHR 0x00]"
  using demux_truncated_pads [of 1 "''abcd''" 2] max_frame_small [of 4] by (simp add: frame_ok_def)

section \<open>Image references\<close>

lemma cut_last_join: "cut_last c s = Some (a, b) \<Longrightarrow> s = a @ c # b \<and> c \<notin> set b"
proof -
  assume "cut_last c s = Some (a, b)"
  then have c: "c \<in> set s" and a: "a = rev (tl (dropWhile (\<lambda>x. x \<noteq> c) (rev s)))"
    and b: "b = rev (takeWhile (\<lambda>x. x \<noteq> c) (rev s))" by (auto simp: cut_last_def split: if_splits)
  have ne: "dropWhile (\<lambda>x. x \<noteq> c) (rev s) \<noteq> []" using c by (auto simp: dropWhile_eq_Nil_conv)
  then have "dropWhile (\<lambda>x. x \<noteq> c) (rev s) = c # tl (dropWhile (\<lambda>x. x \<noteq> c) (rev s))"
    using hd_dropWhile [of "\<lambda>x. x \<noteq> c" "rev s"] by (metis list.collapse)
  then have "rev s = rev b @ c # rev a" using a b by (metis rev_rev_ident takeWhile_dropWhile_id)
  then have "s = a @ c # b" by (metis append.assoc append_Cons append_Nil rev.simps(2) rev_append rev_rev_ident)
  moreover have "c \<notin> set b" using b by (auto dest: set_takeWhileD)
  ultimately show ?thesis by simp
qed

text \<open>
  Splitting an image reference loses nothing: it is the name, the separator and the digest
  or tag, or the whole reference with the tag \<open>latest\<close>; and a port of a registry is never
  taken for a tag.
\<close>

lemma splitImageTag_join:
  assumes "splitImageTag img = (name, tag)"
  shows "(img = name @ ''@'' @ tag \<or> img = name @ '':'' @ tag \<or> img = name \<and> tag = ''latest'')
     \<and> (CHR ''@'' \<notin> set img \<longrightarrow> CHR ''/'' \<notin> set tag)"
proof (cases "cut_last (CHR ''@'') img")
  case None
  then show ?thesis
    using assms by (auto simp: splitImageTag_def dest!: cut_last_join split: option.splits if_splits)
next
  case (Some nd)
  obtain n dig where nd: "nd = (n, dig)" by fastforce
  from Some nd have at: "CHR ''@'' \<in> set img" using cut_last_join by fastforce
  show ?thesis
    using assms Some nd at
    by (cases n) (auto simp: splitImageTag_def dest!: cut_last_join split: option.splits if_splits)
qed

lemma splitImageTag_join_witness:
  "splitImageTag ''host:5000/run'' = (''host:5000/run'', ''latest'')
   \<and> ''host:5000/run:v2'' = ''host:5000/run'' @ '':'' @ ''v2''"
proof -
  have 1: "splitImageTag ''host:5000/run:v2'' = (''host:5000/run'', ''v2'')"
    by (simp add: splitImageTag_def cut_last_def)
  from splitImageTag_join [OF 1] show ?thesis by (simp add: splitImageTag_def cut_last_def)
qed

end
