(* ===== verification/Api.thy ===== *)
theory Api
  imports Reconcile
begin

text \<open>
  The control API (\<open>internal/api/server.go\<close>): the routes, the bearer token, and the handlers, each a
  step on the orchestrator's state and the file of the overrides. A response is its status and the
  data of its body; JSON is rendered by the standard library, the request's JSON is read by the
  parameter \<open>decode\<close>, which also enforces the size limit. The metrics text is built in full.
\<close>

section \<open>Requests and responses\<close>

record request =
  rq_method :: string
  rq_path :: "string list"
  rq_authorization :: string
  rq_lines :: string
  rq_body :: string

record scaleRequest =
  sr_Min :: "int option"
  sr_Max :: "int option"
  sr_Reset :: bool

datatype body =
  ErrorBody string
| HealthBody bool "int option" "health option" string
| StatusBody Snapshot
| ScaleBody string int int string
| DrainBody string bool
| TextBody string

record response =
  rs_status :: int
  rs_body :: body

definition writeJSON :: "int \<Rightarrow> body \<Rightarrow> response" where
  "writeJSON status b = \<lparr> rs_status = status, rs_body = b \<rparr>"

definition writeError :: "int \<Rightarrow> string \<Rightarrow> response" where
  "writeError status msg = writeJSON status (ErrorBody msg)"

text \<open>
  What the server holds: the orchestrator, which shares the overrides' memory with it, and the
  disk of the overrides' file. \<open>store\<close> says how the file is written and how the host takes it.
\<close>

record 'w server_state =
  sv_orch :: "'w orch"
  sv_disk :: disk

record store =
  st_enc :: "ovmap \<Rightarrow> string"
  st_path :: string
  st_write :: write_outcome
  st_renameFails :: bool

definition overrides_of :: "'w server_state \<Rightarrow> ovmap" where
  "overrides_of s = (case o_overrides (sv_orch s) of None \<Rightarrow> Map.empty | Some m \<Rightarrow> m)"

definition with_overrides :: "ovmap \<times> disk \<Rightarrow> 'w server_state \<Rightarrow> 'w server_state" where
  "with_overrides md s = s\<lparr>sv_orch := (sv_orch s)\<lparr>o_overrides := Some (fst md)\<rparr>, sv_disk := snd md\<rparr>"

fun save_text :: "save_error \<Rightarrow> string" where
  "save_text (WriteFailed p) = ''write overrides '' @ p"
| "save_text (ReplaceFailed p) = ''replace overrides '' @ p"

section \<open>Handlers\<close>

definition handleHealth :: "Config \<Rightarrow> int \<Rightarrow> 'w server_state \<Rightarrow> response" where
  "handleHealth cfg now s =
     (let snap = o_snapshot (sv_orch s); h = Healthy cfg now snap
      in if h = Healthy_ok then writeJSON 200 (HealthBody True (sn_UpdatedAt snap) None (sn_LastError snap))
         else writeJSON 503 (HealthBody False (sn_UpdatedAt snap) (Some h) (sn_LastError snap)))"

definition handleStatus :: "'w server_state \<Rightarrow> response" where
  "handleStatus s = writeJSON 200 (StatusBody (o_snapshot (sv_orch s)))"

text \<open>The limits that hold for a pool: the configured ones, overridden where an override says so.\<close>

definition effective :: "ovmap \<Rightarrow> Pool \<Rightarrow> int \<times> int" where
  "effective m pool =
     (case Get m (pool_Name pool) of
        None \<Rightarrow> (pool_Min pool, pool_Max pool)
      | Some ov \<Rightarrow> (case ov_Min ov of Some v \<Rightarrow> v | None \<Rightarrow> pool_Min pool,
                    case ov_Max ov of Some v \<Rightarrow> v | None \<Rightarrow> pool_Max pool))"

definition asked :: "scaleRequest \<Rightarrow> int \<times> int \<Rightarrow> int \<times> int" where
  "asked req e = (case sr_Min req of Some v \<Rightarrow> v | None \<Rightarrow> fst e, case sr_Max req of Some v \<Rightarrow> v | None \<Rightarrow> snd e)"

definition scale_error :: "scaleRequest \<Rightarrow> int \<times> int \<Rightarrow> string option" where
  "scale_error req e =
     (if sr_Min req = None \<and> sr_Max req = None then Some ''specify min, max, or reset''
      else if fst e < 0 then Some ''min must be >= 0''
      else if snd e < 1 then Some ''max must be >= 1''
      else if fst e > snd e then Some (''min ('' @ itoa (fst e) @ '') would exceed max ('' @ itoa (snd e) @ '')'')
      else None)"

definition handleScale ::
  "Config \<Rightarrow> store \<Rightarrow> (string \<Rightarrow> string + scaleRequest) \<Rightarrow> string \<Rightarrow> request \<Rightarrow> 'w server_state
    \<Rightarrow> response \<times> 'w server_state" where
  "handleScale cfg st decode pool r s =
     (case config_Pool cfg pool of
        None \<Rightarrow> (writeError 404 (''unknown pool '' @ pool), s)
      | Some cfgPool \<Rightarrow>
          (case decode (rq_body r) of
             Inl e \<Rightarrow> (writeError 400 (''invalid JSON body: '' @ e), s)
           | Inr req \<Rightarrow>
               if sr_Reset req then
                 (let (err, md) = Clear (st_enc st) (st_path st) (st_write st) (st_renameFails st) pool
                                    (overrides_of s, sv_disk s);
                      s' = with_overrides md s
                  in case err of
                       Some e \<Rightarrow> (writeError 500 (save_text e), s')
                     | None \<Rightarrow> (writeJSON 200 (ScaleBody pool (pool_Min cfgPool) (pool_Max cfgPool) ''config''), s'))
               else
                 (let eff = asked req (effective (overrides_of s) cfgPool)
                  in case scale_error req eff of
                       Some e \<Rightarrow> (writeError 400 e, s)
                     | None \<Rightarrow>
                         (let (err, md) = Set (st_enc st) (st_path st) (st_write st) (st_renameFails st) pool
                                            (sr_Min req) (sr_Max req) (overrides_of s, sv_disk s);
                              s' = with_overrides md s
                          in case err of
                               Some e \<Rightarrow> (writeError 500 (save_text e), s')
                             | None \<Rightarrow> (writeJSON 200 (ScaleBody pool (fst eff) (snd eff) ''override''), s')))))"

definition setDrain :: "Config \<Rightarrow> string \<Rightarrow> bool \<Rightarrow> 'w server_state \<Rightarrow> response \<times> 'w server_state" where
  "setDrain cfg pool drained s =
     (let (err, o') = run_state (SetDrained cfg pool drained) (sv_orch s)
      in case err of
           Some e \<Rightarrow> (writeError 404 e, s)
         | None \<Rightarrow> (writeJSON 200 (DrainBody pool drained), s\<lparr>sv_orch := o'\<rparr>))"

definition log_lines :: "string \<Rightarrow> int" where
  "log_lines v = (if v = [] then 200
     else case atoi v of Some n \<Rightarrow> if n > 0 \<and> n \<le> 10000 then n else 200 | None \<Rightarrow> 200)"

definition handleLogs ::
  "'w ext \<Rightarrow> (string \<rightharpoonup> provider_kind) \<Rightarrow> string \<Rightarrow> string \<Rightarrow> request \<Rightarrow> 'w server_state
    \<Rightarrow> response \<times> 'w server_state" where
  "handleLogs X providers pool ident r s =
     (let (out, o') = run_state (Logs X providers pool ident (log_lines (rq_lines r))) (sv_orch s); s' = s\<lparr>sv_orch := o'\<rparr>
      in case out of
           Inl e \<Rightarrow> (writeError 404 e, s')
         | Inr text \<Rightarrow> (writeJSON 200 (TextBody text), s'))"

section \<open>Metrics\<close>

text \<open>\<open>%q\<close> on printable ASCII, which is what pool names are.\<close>

definition quoted :: "string \<Rightarrow> string" where
  "quoted s = CHR 0x22 # concat (map (\<lambda>c. if c = CHR 0x22 \<or> c = CHR 0x5C then [CHR 0x5C, c] else [c]) s) @ [CHR 0x22]"

definition metric_head :: "string \<Rightarrow> string \<Rightarrow> string list" where
  "metric_head name help = [''# HELP '' @ name @ '' '' @ help, ''# TYPE '' @ name @ '' gauge'']"

definition pool_metric :: "string \<Rightarrow> string \<Rightarrow> (PoolSnapshot \<Rightarrow> int) \<Rightarrow> PoolSnapshot list \<Rightarrow> string list" where
  "pool_metric name help val ps =
     metric_head name help @ map (\<lambda>p. name @ ''{pool='' @ quoted (ps_Name p) @ ''} '' @ itoa (val p)) ps"

definition plain_metric :: "string \<Rightarrow> string \<Rightarrow> int \<Rightarrow> string list" where
  "plain_metric name help v = metric_head name help @ [name @ '' '' @ itoa v]"

text \<open>Unix seconds of a time counted from Go's zero time.\<close>

definition unix_seconds :: "int option \<Rightarrow> int" where
  "unix_seconds t = (case t of None \<Rightarrow> 0 | Some n \<Rightarrow> n div Second) - 62135596800"

definition metrics_lines :: "Snapshot \<Rightarrow> string list" where
  "metrics_lines snap =
     pool_metric ''arc_pool_runners_live'' ''Runners currently alive in the pool.'' ps_Live (sn_Pools snap)
     @ pool_metric ''arc_pool_runners_busy'' ''Runners currently executing a job.'' ps_Busy (sn_Pools snap)
     @ pool_metric ''arc_pool_runners_idle'' ''Runners online and waiting for work.'' ps_Idle (sn_Pools snap)
     @ pool_metric ''arc_pool_runners_desired'' ''Target runner count for the pool.'' ps_Desired (sn_Pools snap)
     @ pool_metric ''arc_pool_jobs_queued'' ''Queued jobs assigned to the pool.'' ps_Queued (sn_Pools snap)
     @ pool_metric ''arc_pool_min'' ''Configured minimum runners.'' ps_Min (sn_Pools snap)
     @ pool_metric ''arc_pool_max'' ''Configured maximum runners.'' ps_Max (sn_Pools snap)
     @ plain_metric ''arc_jobs_unassigned'' ''Queued jobs no pool can serve.'' (int (length (sn_Unassigned snap)))
     @ plain_metric ''arc_github_rate_limit_remaining'' ''Remaining GitHub API requests.''
         (rl_Remaining (sn_RateLimit snap))
     @ plain_metric ''arc_last_reconcile_timestamp_seconds'' ''Unix time of the last reconcile.''
         (unix_seconds (sn_UpdatedAt snap))"

definition handleMetrics :: "'w server_state \<Rightarrow> response" where
  "handleMetrics s = writeJSON 200 (TextBody (concat (map (\<lambda>l. l @ [CHR 0x0A]) (metrics_lines (o_snapshot (sv_orch s))))))"

section \<open>Routing\<close>

datatype route =
  RHealth | RMetrics | RStatus | RScale string | RDrain string | RResume string | RLogs string string

definition route_path :: "string list \<Rightarrow> (string \<times> route) option" where
  "route_path p =
     (case p of
        [a] \<Rightarrow> if a = ''healthz'' then Some (''GET'', RHealth)
               else if a = ''metrics'' then Some (''GET'', RMetrics) else None
      | [a, b] \<Rightarrow> if a = ''v1'' \<and> b = ''status'' then Some (''GET'', RStatus) else None
      | [a, b, pool, verb] \<Rightarrow>
          if a = ''v1'' \<and> b = ''pools'' \<and> verb = ''scale'' then Some (''POST'', RScale pool)
          else if a = ''v1'' \<and> b = ''pools'' \<and> verb = ''drain'' then Some (''POST'', RDrain pool)
          else if a = ''v1'' \<and> b = ''pools'' \<and> verb = ''resume'' then Some (''POST'', RResume pool)
          else None
      | [a, b, pool, c, ident, l] \<Rightarrow>
          if a = ''v1'' \<and> b = ''pools'' \<and> c = ''instances'' \<and> l = ''logs'' then Some (''GET'', RLogs pool ident)
          else None
      | _ \<Rightarrow> None)"

text \<open>The multiplexer: a \<open>GET\<close> pattern also takes \<open>HEAD\<close>.\<close>

definition method_ok :: "string \<Rightarrow> string \<Rightarrow> bool" where
  "method_ok want got = (got = want \<or> (want = ''GET'' \<and> got = ''HEAD''))"

definition authorized :: "string \<Rightarrow> request \<Rightarrow> bool" where
  "authorized token r = (token = [] \<or> trim_prefix (rq_authorization r) ''Bearer '' = token)"

definition auth ::
  "string \<Rightarrow> request \<Rightarrow> response \<times> 'w server_state \<Rightarrow> 'w server_state \<Rightarrow> response \<times> 'w server_state" where
  "auth token r next s =
     (if authorized token r then next else (writeError 401 ''invalid or missing token'', s))"

definition serve ::
  "'w ext \<Rightarrow> Config \<Rightarrow> (string \<rightharpoonup> provider_kind) \<Rightarrow> store \<Rightarrow> (string \<Rightarrow> string + scaleRequest) \<Rightarrow> request
    \<Rightarrow> 'w server_state \<Rightarrow> response \<times> 'w server_state" where
  "serve X cfg providers st decode r s =
     (let token = srv_Token (cfg_Server cfg)
      in case route_path (rq_path r) of
           None \<Rightarrow> (writeError 404 ''404 page not found'', s)
         | Some (want, rt) \<Rightarrow>
             if \<not> method_ok want (rq_method r) then (writeError 405 ''Method Not Allowed'', s)
             else (case rt of
                 RHealth \<Rightarrow> (handleHealth cfg (x_now X (world (sv_orch s))) s, s)
               | RMetrics \<Rightarrow> auth token r (handleMetrics s, s) s
               | RStatus \<Rightarrow> auth token r (handleStatus s, s) s
               | RScale pool \<Rightarrow> auth token r (handleScale cfg st decode pool r s) s
               | RDrain pool \<Rightarrow> auth token r (setDrain cfg pool True s) s
               | RResume pool \<Rightarrow> auth token r (setDrain cfg pool False s) s
               | RLogs pool ident \<Rightarrow> auth token r (handleLogs X providers pool ident r s) s))"

end
