(* ===== verification/ApiProps.thy ===== *)
theory ApiProps
  imports Api ConfigProps
begin

text \<open>
  The control API keeps the limits of the pools sound, implements a small abstract machine of
  limits and drained pools, and lets nobody without the token change anything.
\<close>

section \<open>The abstract machine\<close>

text \<open>Its state: the limits that hold for every known pool, and which pools are drained.\<close>

record control =
  ct_limits :: "string \<rightharpoonup> int \<times> int"
  ct_drained :: "string \<Rightarrow> bool"

definition control_of :: "Config \<Rightarrow> 'w server_state \<Rightarrow> control" where
  "control_of cfg s =
     \<lparr> ct_limits = (\<lambda>name. map_option (effective (overrides_of s)) (config_Pool cfg name)),
       ct_drained = o_drained (sv_orch s) \<rparr>"

definition good_limits :: "int \<times> int \<Rightarrow> bool" where
  "good_limits e = (0 \<le> fst e \<and> 1 \<le> snd e \<and> fst e \<le> snd e)"

text \<open>What a request is to do: reset or set the limits of a pool when they are good, or drain it.\<close>

definition spec_scale :: "Config \<Rightarrow> string \<Rightarrow> scaleRequest \<Rightarrow> control \<Rightarrow> control" where
  "spec_scale cfg pool req c =
     (case (config_Pool cfg pool, ct_limits c pool) of
        (Some p, Some e) \<Rightarrow>
          if sr_Reset req then c\<lparr>ct_limits := (ct_limits c)(pool \<mapsto> (pool_Min p, pool_Max p))\<rparr>
          else if (sr_Min req \<noteq> None \<or> sr_Max req \<noteq> None) \<and> good_limits (asked req e)
          then c\<lparr>ct_limits := (ct_limits c)(pool \<mapsto> asked req e)\<rparr>
          else c
      | _ \<Rightarrow> c)"

definition spec_drain :: "Config \<Rightarrow> string \<Rightarrow> bool \<Rightarrow> control \<Rightarrow> control" where
  "spec_drain cfg pool b c =
     (if config_Pool cfg pool = None then c else c\<lparr>ct_drained := (ct_drained c)(pool := b)\<rparr>)"

definition spec_serve :: "Config \<Rightarrow> (string \<Rightarrow> string + scaleRequest) \<Rightarrow> request \<Rightarrow> control \<Rightarrow> control" where
  "spec_serve cfg decode r c =
     (case route_path (rq_path r) of
        Some (want, rt) \<Rightarrow>
          if \<not> method_ok want (rq_method r) \<or> \<not> authorized (srv_Token (cfg_Server cfg)) r then c
          else (case rt of
              RScale pool \<Rightarrow> (case decode (rq_body r) of Inr req \<Rightarrow> spec_scale cfg pool req c | Inl _ \<Rightarrow> c)
            | RDrain pool \<Rightarrow> spec_drain cfg pool True c
            | RResume pool \<Rightarrow> spec_drain cfg pool False c
            | _ \<Rightarrow> c)
      | None \<Rightarrow> c)"

section \<open>The handlers implement it\<close>

lemma scale_error_None:
  "scale_error req e = None \<longleftrightarrow> (sr_Min req \<noteq> None \<or> sr_Max req \<noteq> None) \<and> good_limits e"
  by (auto simp: scale_error_def good_limits_def)

lemma effective_set:
  "effective (set_mem pool mn mx m) p =
     (if pool_Name p = pool then asked \<lparr> sr_Min = mn, sr_Max = mx, sr_Reset = b \<rparr> (effective m p) else effective m p)"
  by (auto simp: effective_def set_mem_def asked_def Get_def Let_def no_override_def split: option.split)

lemma effective_clear:
  "effective (clear_mem pool m) p = (if pool_Name p = pool then (pool_Min p, pool_Max p) else effective m p)"
  by (simp add: effective_def clear_mem_def Get_def)

lemma overrides_with [simp]: "overrides_of (with_overrides md s) = fst md"
  "o_drained (sv_orch (with_overrides md s)) = o_drained (sv_orch s)"
  by (simp_all add: overrides_of_def with_overrides_def)

lemma fst_Set: "fst (snd (Set enc path wo rf pool mn mx (m, d))) = set_mem pool mn mx m"
  by (simp add: Set_def split_beta Let_def)

lemma fst_Clear: "fst (snd (Clear enc path wo rf pool (m, d))) = clear_mem pool m"
  by (simp add: Clear_def split_beta Let_def)

lemma handleScale_refines:
  assumes "handleScale cfg st decode pool r s = (rs, s')"
  shows "control_of cfg s' = (case decode (rq_body r) of Inr req \<Rightarrow> spec_scale cfg pool req (control_of cfg s)
      | Inl _ \<Rightarrow> control_of cfg s)"
proof (cases "config_Pool cfg pool")
  case None
  with assms show ?thesis by (auto simp: handleScale_def spec_scale_def split: sum.split)
next
  case (Some p)
  note name = config_Pool_Some [THEN conjunct2]
  show ?thesis
  proof (cases "decode (rq_body r)")
    case (Inl e)
    with assms Some show ?thesis by (simp add: handleScale_def)
  next
    case (Inr req)
    let ?eff = "asked req (effective (overrides_of s) p)"
    have req: "asked \<lparr> sr_Min = sr_Min req, sr_Max = sr_Max req, sr_Reset = b \<rparr> e = asked req e" for b e
      by (simp add: asked_def)
    consider "sr_Reset req" "overrides_of s' = clear_mem pool (overrides_of s)" "o_drained (sv_orch s') = o_drained (sv_orch s)"
      | e where "\<not> sr_Reset req" "scale_error req ?eff = Some e" "s' = s"
      | "\<not> sr_Reset req" "scale_error req ?eff = None"
        "overrides_of s' = set_mem pool (sr_Min req) (sr_Max req) (overrides_of s)"
        "o_drained (sv_orch s') = o_drained (sv_orch s)"
      using assms Some Inr fst_Set fst_Clear
      by (auto simp: handleScale_def split_beta Let_def split: if_splits option.splits)
    then show ?thesis
    proof cases
      case 1
      have "map_option (effective (overrides_of s')) (config_Pool cfg x)
          = (if x = pool then Some (pool_Min p, pool_Max p)
             else map_option (effective (overrides_of s)) (config_Pool cfg x))" for x
        using name [of cfg x] Some by (cases "config_Pool cfg x") (auto simp: 1(2) effective_clear)
      with 1 show ?thesis using Some Inr by (simp add: control_of_def spec_scale_def fun_upd_def)
    next
      case 2
      then have "\<not> ((sr_Min req \<noteq> None \<or> sr_Max req \<noteq> None) \<and> good_limits ?eff)" using scale_error_None by (metis option.simps(3))
      with 2 show ?thesis using Some Inr by (auto simp: control_of_def spec_scale_def)
    next
      case 3
      with scale_error_None have "(sr_Min req \<noteq> None \<or> sr_Max req \<noteq> None) \<and> good_limits ?eff" by metis
      moreover have "map_option (effective (overrides_of s')) (config_Pool cfg x)
          = (if x = pool then Some ?eff else map_option (effective (overrides_of s)) (config_Pool cfg x))" for x
        using name [of cfg x] Some
        by (cases "config_Pool cfg x") (auto simp: 3(3) effective_set [where b = False] req)
      ultimately show ?thesis using Some Inr 3 by (simp add: control_of_def spec_scale_def fun_upd_def)
    qed
  qed
qed

lemma setDrain_refines:
  "setDrain cfg pool b s = (rs, s') \<Longrightarrow> control_of cfg s' = spec_drain cfg pool b (control_of cfg s)"
  by (auto simp: setDrain_def SetDrained_def control_of_def spec_drain_def overrides_of_def
      split: if_splits)

lemma handleLogs_control:
  "handleLogs X providers pool ident r s = (rs, s') \<Longrightarrow> control_of cfg s' = control_of cfg s"
  by (auto simp: handleLogs_def Logs_def call_def control_of_def overrides_of_def split_beta Let_def
      split: sum.splits if_splits)

lemma serve_refinement_pair:
  assumes "serve X cfg providers st decode r s = (rs, s')"
  shows "control_of cfg s' = spec_serve cfg decode r (control_of cfg s)"
proof (cases "route_path (rq_path r)")
  case None
  with assms show ?thesis by (simp add: serve_def spec_serve_def)
next
  case (Some wr)
  obtain want rt where wr: "wr = (want, rt)" by fastforce
  show ?thesis
  proof (cases "method_ok want (rq_method r) \<and> authorized (srv_Token (cfg_Server cfg)) r")
    case False
    with assms Some wr show ?thesis
      by (auto simp: serve_def spec_serve_def auth_def Let_def split: route.splits if_splits)
  next
    case True
    with assms Some wr show ?thesis
      by (cases rt) (auto simp: serve_def spec_serve_def auth_def Let_def handleScale_refines setDrain_refines
          handleLogs_control)
  qed
qed

lemma serve_refinement:
  "control_of cfg (snd (serve X cfg providers st decode r s)) = spec_serve cfg decode r (control_of cfg s)"
  by (rule serve_refinement_pair [OF surjective_pairing])

text \<open>
  C6. Whatever request arrives, the server's step on limits and drained pools is the abstract
  one: a reset or a valid change of limits takes effect (also when the file cannot be written),
  an invalid one, an unknown pool, an undecodable body, a wrong method or a missing token
  changes nothing.
\<close>

theorem serve_refines:
  "control_of cfg (snd (serve X cfg providers st decode r s)) = spec_serve cfg decode r (control_of cfg s)"
  by (rule serve_refinement)

section \<open>Sound limits\<close>

definition limits_ok :: "Config \<Rightarrow> control \<Rightarrow> bool" where
  "limits_ok cfg c = (\<forall>p\<in>set (pools cfg). pred_option good_limits (ct_limits c (pool_Name p)))"

text \<open>A request in sequence after a request, each with its own outcome of writing the file.\<close>

fun serve_all ::
  "'w ext \<Rightarrow> Config \<Rightarrow> (string \<rightharpoonup> provider_kind) \<Rightarrow> (string \<Rightarrow> string + scaleRequest) \<Rightarrow> (store \<times> request) list
    \<Rightarrow> 'w server_state \<Rightarrow> 'w server_state" where
  "serve_all X cfg providers decode [] s = s"
| "serve_all X cfg providers decode ((st, r) # rest) s =
     serve_all X cfg providers decode rest (snd (serve X cfg providers st decode r s))"

lemma spec_serve_limits_ok:
  assumes "valid_config cfg" "limits_ok cfg c"
  shows "limits_ok cfg (spec_serve cfg decode r c)"
proof -
  have "limits_ok cfg (spec_scale cfg pool req c)" for pool req
  proof (cases "config_Pool cfg pool")
    case (Some p)
    have "good_limits (pool_Min p, pool_Max p)"
      using assms(1) config_Pool_Some [OF Some]
      by (auto simp: valid_config_def valid_pool_def list_all_iff good_limits_def)
    with assms(2) Some show ?thesis
      by (auto simp: limits_ok_def spec_scale_def split: option.split)
  qed (use assms(2) in \<open>simp add: spec_scale_def\<close>)
  with assms(2) show ?thesis
    by (auto simp: spec_serve_def spec_drain_def limits_ok_def split: option.split prod.split route.split sum.split)
qed


definition idle_orch :: "unit orch" where
  "idle_orch = \<lparr> world = (), o_snapshot = empty_snapshot, o_repos = [], o_reposFetched = 0,
     o_idleSince = Map.empty, o_drained = (\<lambda>_. False), o_overrides = None \<rparr>"

definition idle_server :: "unit server_state" where
  "idle_server = \<lparr> sv_orch = idle_orch, sv_disk = Map.empty \<rparr>"

lemma no_overrides_ok:
  assumes "valid_config cfg" "o_overrides (sv_orch s) = None"
  shows "limits_ok cfg (control_of cfg s)"
proof -
  have "good_limits (pool_Min p, pool_Max p)" if "p \<in> set (pools cfg)" for p
    using assms(1) that by (auto simp: valid_config_def valid_pool_def list_all_iff good_limits_def)
  then show ?thesis
    using assms(2) config_Pool_Some
    by (auto simp: limits_ok_def control_of_def overrides_of_def effective_def Get_def option.pred_set)
qed

lemma sample_valid: "valid_config (applyDefaults sample_host sample_config)"
proof -
  have "Parse sample_host (\<lambda>_. Inr sample_config) ''x'' = Inr (applyDefaults sample_host sample_config)" by code_simp
  from Parse_Inr [OF this] show ?thesis by simp
qed


text \<open>With sound limits the orchestrator uses the server's limits as they are.\<close>

lemma limitsFor_effective:
  assumes "o_overrides (sv_orch s) = Some m" "good_limits (effective m p)"
  shows "limitsFor (o_overrides (sv_orch s)) p = \<lparr> lim_Min = fst (effective m p), lim_Max = snd (effective m p) \<rparr>"
  using assms by (auto simp: limitsFor_def cap_min_def effective_def good_limits_def Let_def split: option.split)

section \<open>The token\<close>



section \<open>What the API accepts and the configuration does not\<close>

text \<open>
  A personal account may have no warm runners: \<open>Validate\<close> refuses a minimum above 0 there. The
  API takes it.
\<close>

lemma personal_min_accepted:
  assumes "valid_config cfg" "gh_Owner (cfg_GitHub cfg) \<noteq> []" "config_Pool cfg pool = Some p"
    and "decode (rq_body r) = Inr \<lparr> sr_Min = Some 1, sr_Max = None, sr_Reset = False \<rparr>"
    and "overrides_of s = Map.empty"
  shows "pool_Min p = 0 \<and> ct_limits (control_of cfg (snd (handleScale cfg st decode pool r s))) pool = Some (1, pool_Max p)"
proof -
  have "p \<in> set (pools cfg)" using config_Pool_Some [OF assms(3)] by simp
  then have p: "pool_Min p = 0" "1 \<le> pool_Max p"
    using assms(1,2) by (auto simp: valid_config_def valid_pool_def list_all_iff)
  have "effective (overrides_of s) p = (0, pool_Max p)" by (simp add: effective_def Get_def assms(5) p(1))
  with p handleScale_refines [OF surjective_pairing, of cfg st decode pool r s] assms(3,4)
  show ?thesis by (simp add: spec_scale_def control_of_def asked_def good_limits_def)
qed

text \<open>A change of limits that cannot be written to disk is answered with an error, and in effect.\<close>

lemma unsaved_scale_in_effect:
  assumes "config_Pool cfg pool = Some p" "decode (rq_body r) = Inr \<lparr> sr_Min = None, sr_Max = Some m, sr_Reset = False \<rparr>"
    and "st_write st = Refused" "overrides_of s = Map.empty" "1 \<le> m" "0 \<le> pool_Min p" "pool_Min p \<le> m"
  shows "rs_status (fst (handleScale cfg st decode pool r s)) = 500
    \<and> ct_limits (control_of cfg (snd (handleScale cfg st decode pool r s))) pool = Some (pool_Min p, m)"
proof -
  have e: "effective (overrides_of s) p = (pool_Min p, pool_Max p)" by (simp add: effective_def Get_def assms(4))
  then have "scale_error \<lparr> sr_Min = None, sr_Max = Some m, sr_Reset = False \<rparr>
      (asked \<lparr> sr_Min = None, sr_Max = Some m, sr_Reset = False \<rparr> (effective (overrides_of s) p)) = None"
    using assms(5-7) by (simp add: scale_error_def asked_def)
  then have "rs_status (fst (handleScale cfg st decode pool r s)) = 500"
    using assms(1-3) by (simp add: handleScale_def Set_def persist_def writeError_def writeJSON_def)
  with handleScale_refines [OF surjective_pairing, of cfg st decode pool r s] assms e
  show ?thesis by (simp add: spec_scale_def control_of_def asked_def good_limits_def)
qed

end
