(* ===== verification/Webhook.thy ===== *)
theory Webhook
  imports GhJobs Reconcile
begin

text \<open>
  The webhook pipeline (\<open>internal/webhook\<close>): the receiver of GitHub's deliveries (\<open>server.go\<close>), the
  supervision of the tunnel and the registration of the hooks (\<open>manager.go\<close>), and the start of the
  tunnel (\<open>tunnel.go\<close>). HMAC-SHA-256, the JSON of the event, the tunnel process and the download
  are parameters.
\<close>

section \<open>The secret (\<open>NewServer\<close>)\<close>

text \<open>Bytes in hexadecimal: the secret of a start is the text of 32 random bytes.\<close>

definition hex_digit :: "nat \<Rightarrow> char" where
  "hex_digit n = ''0123456789abcdef'' ! n"

definition hex_encode :: "nat list \<Rightarrow> string" where
  "hex_encode bs = concat (map (\<lambda>b. [hex_digit (b div 16), hex_digit (b mod 16)]) bs)"

definition new_secret :: "nat list \<Rightarrow> string" where
  "new_secret random = hex_encode (take 32 (random @ replicate 32 0))"

section \<open>Deliveries (\<open>server.go\<close>)\<close>

definition maxBody :: nat where "maxBody = 2 ^ 20"

record delivery =
  dl_method :: string
  dl_path :: string
  dl_signature :: string
  dl_event :: string
  dl_body :: "string option"

text \<open>\<open>mac secret body\<close> is the digest in hexadecimal.\<close>

definition validSignature :: "(string \<Rightarrow> string \<Rightarrow> string) \<Rightarrow> string \<Rightarrow> string \<Rightarrow> string \<Rightarrow> bool" where
  "validSignature mac secret header data =
     (if length header \<le> length ''sha256='' then False else header = ''sha256='' @ mac secret data)"

text \<open>The status of the answer, and whether the orchestrator is poked; \<open>action\<close> decodes the event.\<close>

definition handle ::
  "(string \<Rightarrow> string \<Rightarrow> string) \<Rightarrow> (string \<Rightarrow> string option) \<Rightarrow> string \<Rightarrow> delivery \<Rightarrow> int \<times> bool" where
  "handle mac action secret d =
     (case dl_body d of
        None \<Rightarrow> (400, False)
      | Some full \<Rightarrow>
          (let data = take maxBody full
           in if \<not> validSignature mac secret (dl_signature d) data then (401, False)
              else if dl_event d = ''ping'' then (200, False)
              else if dl_event d \<noteq> ''workflow_job'' then (200, False)
              else (case action data of
                      None \<Rightarrow> (400, False)
                    | Some a \<Rightarrow> (200, a = ''queued'' \<or> a = ''completed''))))"

text \<open>The multiplexer: \<open>POST\<close> on the path itself and below it.\<close>

definition webhook_serve ::
  "(string \<Rightarrow> string \<Rightarrow> string) \<Rightarrow> (string \<Rightarrow> string option) \<Rightarrow> string \<Rightarrow> delivery \<Rightarrow> int \<times> bool" where
  "webhook_serve mac action secret d =
     (if dl_path d = WebhookPath \<or> has_prefix (dl_path d) (WebhookPath @ ''/'')
      then (if dl_method d = ''POST'' then handle mac action secret d else (405, False))
      else (404, False))"

definition deliver ::
  "(string \<Rightarrow> string \<Rightarrow> string) \<Rightarrow> (string \<Rightarrow> string option) \<Rightarrow> string \<Rightarrow> delivery \<Rightarrow> 'w loop \<Rightarrow> int \<times> 'w loop" where
  "deliver mac action secret d l =
     (let (status, poke) = webhook_serve mac action secret d in (status, if poke then Poke l else l))"

section \<open>Registration\<close>

definition hook_url :: "string \<Rightarrow> string \<Rightarrow> string" where
  "hook_url host_id tunnelURL = tunnelURL @ WebhookPath @ ''/'' @ host_id"

text \<open>Every repository gets its hook; the errors are collected.\<close>

fun register_repos ::
  "'w http \<Rightarrow> Settings \<Rightarrow> string \<Rightarrow> string \<Rightarrow> Repo list \<Rightarrow> ('w, gherr list) cl" where
  "register_repos H c url secret [] = ret []"
| "register_repos H c url secret (r # rs) = do {
     e \<leftarrow> EnsureWebhook H c (repo_Name r) url secret;
     es \<leftarrow> register_repos H c url secret rs;
     ret (case e of None \<Rightarrow> es | Some x \<Rightarrow> Wrapped (repo_Name r) x # es) }"

definition register ::
  "'w http \<Rightarrow> Settings \<Rightarrow> RepoFilterOpts \<Rightarrow> string \<Rightarrow> string \<Rightarrow> string \<Rightarrow> ('w, gherr list) cl" where
  "register H c f host_id secret tunnelURL = do {
     let url = hook_url host_id tunnelURL;
     if cl_owner c = [] then do {
       e \<leftarrow> EnsureWebhook H c [] url secret;
       ret (case e of None \<Rightarrow> [] | Some x \<Rightarrow> [Wrapped ''org webhook'' x]) }
     else do {
       l \<leftarrow> ListRepos H c f;
       case l of
         Inl e \<Rightarrow> ret [e]
       | Inr repos \<Rightarrow> register_repos H c url secret repos } }"

section \<open>The tunnel (\<open>tunnel.go\<close>)\<close>

definition host_char :: "char \<Rightarrow> bool" where
  "host_char c = (is_lower_alpha c \<or> is_digit c \<or> c = CHR ''-'')"

text \<open>A match of the URL's pattern at the head of a line: the host part is a longest run.\<close>

definition tunnel_url_at :: "string \<Rightarrow> string option" where
  "tunnel_url_at s =
     (if has_prefix s ''https://'' then
        (let r = drop 8 s; h = takeWhile host_char r; t = drop (length h) r
         in if h \<noteq> [] \<and> has_prefix t ''.trycloudflare.com'' then Some (''https://'' @ h @ ''.trycloudflare.com'') else None)
      else None)"

fun find_tunnel_url :: "string \<Rightarrow> string option" where
  "find_tunnel_url [] = None"
| "find_tunnel_url (c # s) = (case tunnel_url_at (c # s) of Some u \<Rightarrow> Some u | None \<Rightarrow> find_tunnel_url s)"

definition cloudflaredAsset :: "string \<Rightarrow> string \<Rightarrow> string \<times> bool" where
  "cloudflaredAsset goos goarch =
     (if goos = ''darwin'' then (''cloudflared-darwin-'' @ goarch @ ''.tgz'', True)
      else if goos = ''windows'' then (''cloudflared-windows-'' @ goarch @ ''.exe'', False)
      else (''cloudflared-linux-'' @ goarch, False))"

text \<open>
  \<open>ensureCloudflared\<close> on the directory of the binary: what is at the final path (nothing, a part of
  the file, the file without the right to run it, a binary that runs) and whether the download's
  temporary file is there. A run is its result and the states it passes, the last one final; the
  environment says how each step goes. The temporary file is created without the right to run,
  the files of the macOS archive have it when the archive says so.
\<close>

datatype binary = Absent | PartialFile | NotExecutable | Runnable

record bin_dir =
  bd_dest :: binary
  bd_temp :: bool

record fetch_env =
  fe_LookPath :: "string option"
  fe_home :: "string + string"
  fe_mkdir :: "string option"
  fe_temp :: "string option"
  fe_get :: "string + int"
  fe_copy :: "string option"
  fe_bytes :: int
  fe_close :: "string option"
  fe_tar :: "string option"
  fe_archive_exec :: bool
  fe_rename :: "string option"
  fe_chmod :: "string option"

definition bin_path :: "string \<Rightarrow> string \<Rightarrow> string" where
  "bin_path goos home =
     filepath_join [home, ''.arc'', ''bin'', if goos = ''windows'' then ''cloudflared.exe'' else ''cloudflared'']"

text \<open>From the archive or the file that was downloaded to the binary at its path.\<close>

definition place_binary :: "fetch_env \<Rightarrow> bool \<Rightarrow> string \<Rightarrow> bin_dir \<Rightarrow> (string + string) \<times> bin_dir list" where
  "place_binary env packaged dest d =
     (let finish = (\<lambda>dirs. case fe_chmod env of
            Some e \<Rightarrow> (Inl e, dirs)
          | None \<Rightarrow> (Inr dest, dirs @ [(last dirs)\<lparr>bd_dest := Runnable\<rparr>]))
      in if packaged then
           (case fe_tar env of
              Some e \<Rightarrow> (Inl (''extract cloudflared: '' @ e), [d\<lparr>bd_dest := PartialFile\<rparr>])
            | None \<Rightarrow> finish [d\<lparr>bd_dest := PartialFile\<rparr>,
                d\<lparr>bd_dest := if fe_archive_exec env then Runnable else NotExecutable\<rparr>])
         else (case fe_rename env of
              Some e \<Rightarrow> (Inl e, [])
            | None \<Rightarrow> finish [\<lparr> bd_dest = NotExecutable, bd_temp = False \<rparr>]))"

text \<open>The download into the temporary file \<open>d\<close> has; \<open>None\<close> when it is whole.\<close>

definition download :: "fetch_env \<Rightarrow> string option" where
  "download env =
     (case fe_get env of
        Inl e \<Rightarrow> Some e
      | Inr status \<Rightarrow>
          if status \<noteq> 200 then Some (''download: '' @ itoa status)
          else (let err = (case fe_copy env of None \<Rightarrow> fe_close env | Some e \<Rightarrow> Some e)
                in if err \<noteq> None \<or> fe_bytes env = 0 then Some ''download failed'' else None))"

definition ensureCloudflared ::
  "fetch_env \<Rightarrow> string \<Rightarrow> string \<Rightarrow> bin_dir \<Rightarrow> (string + string) \<times> bin_dir list" where
  "ensureCloudflared env goos goarch d =
     (case fe_LookPath env of
        Some p \<Rightarrow> (Inr p, [d])
      | None \<Rightarrow> (case fe_home env of
          Inl e \<Rightarrow> (Inl e, [d])
        | Inr home \<Rightarrow>
            (let dest = bin_path goos home
             in if bd_dest d \<noteq> Absent then (Inr dest, [d])
                else case fe_mkdir env of
                  Some e \<Rightarrow> (Inl e, [d])
                | None \<Rightarrow> (case fe_temp env of
                    Some e \<Rightarrow> (Inl e, [d])
                  | None \<Rightarrow>
                      (let t = d\<lparr>bd_temp := True\<rparr>;
                           (res, dirs) = (case download env of
                              Some e \<Rightarrow> (Inl e, [t])
                            | None \<Rightarrow> (let (r, ds) = place_binary env (snd (cloudflaredAsset goos goarch)) dest t
                                       in (r, t # ds)))
                       in (res, d # dirs @ [(last dirs)\<lparr>bd_temp := False\<rparr>]))))))"

section \<open>Starting and stopping the tunnel (\<open>StartTunnel\<close>, \<open>Stop\<close>)\<close>

text \<open>
  The tunnel processes of this program that run, by number, and the number of the next one;
  \<open>StartTunnel\<close> waits for the first of: a URL in a line of the process's output, its end, a
  minute, the context. The list is what its \<open>select\<close> meets, in that order.
\<close>

record procs =
  pr_running :: "nat list"
  pr_next :: nat

definition start_proc :: "procs \<Rightarrow> nat \<times> procs" where
  "start_proc p = (pr_next p, p\<lparr>pr_running := pr_running p @ [pr_next p], pr_next := Suc (pr_next p)\<rparr>)"

text \<open>The process is gone, killed by \<open>Stop\<close> or of itself; to stop one that is gone does nothing.\<close>

definition end_proc :: "nat \<Rightarrow> procs \<Rightarrow> procs" where
  "end_proc n p = p\<lparr>pr_running := filter (\<lambda>k. k \<noteq> n) (pr_running p)\<rparr>"

datatype tunnel_event = Line string | Exited string | TimedOut | Cancelled

datatype tunnel_error =
    NoCloudflared string
  | NoPipe string
  | NotStarted string
  | ExitedEarly string
  | NoURL
  | ContextDone

definition tunnel_args :: "string \<Rightarrow> string list" where
  "tunnel_args localAddr = [''tunnel'', ''--url'', ''http://'' @ localAddr, ''--no-autoupdate'']"

fun await_url :: "nat \<Rightarrow> tunnel_event list \<Rightarrow> procs \<Rightarrow> (tunnel_error + string) \<times> procs" where
  "await_url n [] p = (Inl NoURL, end_proc n p)"
| "await_url n (Line l # rest) p =
     (case find_tunnel_url l of Some u \<Rightarrow> (Inr u, p) | None \<Rightarrow> await_url n rest p)"
| "await_url n (Exited e # rest) p = (Inl (ExitedEarly e), end_proc n p)"
| "await_url n (TimedOut # rest) p = (Inl NoURL, end_proc n p)"
| "await_url n (Cancelled # rest) p = (Inl ContextDone, end_proc n p)"

record tunnel_env =
  te_binary :: "string + string"
  te_pipe :: "string option"
  te_start :: "string option"
  te_events :: "tunnel_event list"

text \<open>The public URL and the number of the process.\<close>

definition StartTunnel :: "tunnel_env \<Rightarrow> procs \<Rightarrow> (tunnel_error + string \<times> nat) \<times> procs" where
  "StartTunnel t p =
     (case te_binary t of
        Inl e \<Rightarrow> (Inl (NoCloudflared e), p)
      | Inr bin \<Rightarrow> (case te_pipe t of
          Some e \<Rightarrow> (Inl (NoPipe e), p)
        | None \<Rightarrow> (case te_start t of
            Some e \<Rightarrow> (Inl (NotStarted e), p)
          | None \<Rightarrow>
              (let (n, p1) = start_proc p; (r, p2) = await_url n (te_events t) p1
               in (case r of Inl e \<Rightarrow> Inl e | Inr u \<Rightarrow> Inr (u, n), p2)))))"

section \<open>Supervision (\<open>manager.go\<close>)\<close>

text \<open>
  What a round of the loop of \<open>Run\<close> meets: the start of a tunnel; whether the context is done when
  that fails, or ends during the wait; how a tunnel that came up ends.
\<close>

datatype tunnel_end = TunnelExit string | CtxDone

record tunnel_round =
  rd_tunnel :: tunnel_env
  rd_ctx_done :: bool
  rd_cancel_wait :: bool
  rd_end :: tunnel_end

datatype manager_action = Registered string "gherr list" | WaitFor int

definition first_backoff :: int where "first_backoff = Second"

definition next_backoff :: "int \<Rightarrow> int" where
  "next_backoff b = (if b < 2 * Minute then b * 2 else b)"

text \<open>Where the loop is after these rounds: returned, or still running.\<close>

record manager_result =
  mr_actions :: "manager_action list"
  mr_procs :: procs
  mr_returned :: bool

definition first_action :: "manager_action \<Rightarrow> manager_result \<Rightarrow> manager_result" where
  "first_action a r = r\<lparr>mr_actions := a # mr_actions r\<rparr>"

text \<open>\<open>register\<close> is \<open>m.register\<close> at a tunnel's URL.\<close>

fun supervise ::
  "(string \<Rightarrow> ('w, gherr list) cl) \<Rightarrow> int \<Rightarrow> tunnel_round list \<Rightarrow> procs \<Rightarrow> ('w, manager_result) cl" where
  "supervise reg b [] p = ret \<lparr> mr_actions = [], mr_procs = p, mr_returned = False \<rparr>"
| "supervise reg b (r # rs) p =
     (case StartTunnel (rd_tunnel r) p of
        (Inl e, p1) \<Rightarrow>
          if rd_ctx_done r \<or> e = ContextDone then ret \<lparr> mr_actions = [], mr_procs = p1, mr_returned = True \<rparr>
          else if rd_cancel_wait r then ret \<lparr> mr_actions = [WaitFor b], mr_procs = p1, mr_returned = True \<rparr>
          else do { m \<leftarrow> supervise reg (next_backoff b) rs p1; ret (first_action (WaitFor b) m) }
      | (Inr (url, n), p1) \<Rightarrow> do {
          es \<leftarrow> reg url;
          m \<leftarrow> (case rd_end r of
                 CtxDone \<Rightarrow> ret \<lparr> mr_actions = [], mr_procs = end_proc n p1, mr_returned = True \<rparr>
               | TunnelExit e \<Rightarrow> supervise reg first_backoff rs (end_proc n p1));
          ret (first_action (Registered url es) m) })"

text \<open>\<open>Run\<close>, once it listens; \<open>Inl\<close> when it cannot.\<close>

definition manager_Run ::
  "'w http \<Rightarrow> Settings \<Rightarrow> RepoFilterOpts \<Rightarrow> string \<Rightarrow> string \<Rightarrow> string option \<Rightarrow> tunnel_round list
    \<Rightarrow> procs \<Rightarrow> ('w, string + manager_result) cl" where
  "manager_Run H c f host_id secret listen rounds p =
     (case listen of
        Some e \<Rightarrow> ret (Inl e)
      | None \<Rightarrow> do { m \<leftarrow> supervise (register H c f host_id secret) first_backoff rounds p; ret (Inr m) })"

end
