(* ===== verification/WebhookProps.thy ===== *)
theory WebhookProps
  imports Webhook LoopProps
begin

text \<open>
  Only a delivery signed with the secret wakes the orchestrator, and such a wake-up leads to a
  pass; the supervision of the tunnel waits within bounds; the registration reaches every
  repository; the tunnel's URL is one; and where the download of the tunnel's binary is atomic.
\<close>

section \<open>Deliveries\<close>

definition signed_with :: "(string \<Rightarrow> string \<Rightarrow> string) \<Rightarrow> string \<Rightarrow> delivery \<Rightarrow> bool" where
  "signed_with mac secret d =
     (case dl_body d of None \<Rightarrow> False | Some full \<Rightarrow> dl_signature d = ''sha256='' @ mac secret (take maxBody full))"

text \<open>A queued or completed job, delivered to the hook's path.\<close>

definition job_event :: "(string \<Rightarrow> string option) \<Rightarrow> delivery \<Rightarrow> bool" where
  "job_event action d =
     (dl_method d = ''POST'' \<and> (dl_path d = WebhookPath \<or> has_prefix (dl_path d) (WebhookPath @ ''/''))
      \<and> dl_event d = ''workflow_job''
      \<and> (case dl_body d of None \<Rightarrow> False | Some full \<Rightarrow> action (take maxBody full) \<in> {Some ''queued'', Some ''completed''}))"

lemma serve_pokes:
  assumes "\<And>x. mac secret x \<noteq> []"
  shows "snd (webhook_serve mac action secret d) \<longleftrightarrow> signed_with mac secret d \<and> job_event action d"
  using assms
  by (auto simp: webhook_serve_def handle_def validSignature_def signed_with_def job_event_def Let_def split: option.split)

lemma serve_refuses:
  assumes "\<not> signed_with mac secret d"
  shows "fst (webhook_serve mac action secret d) \<in> {400, 401, 404, 405}"
  using assms
  by (auto simp: webhook_serve_def handle_def validSignature_def signed_with_def Let_def split: option.split)

text \<open>
  C20. A delivery whose signature is not the MAC of its body under the secret is refused and
  changes nothing; a signed one for a queued or completed job is followed by a reconcile pass,
  or still pending, whatever the loop does in between; and no delivery changes the orchestrator
  itself.
\<close>

theorem delivery_wakes:
  assumes "\<And>x. mac secret x \<noteq> []" and "run_steps X cfg m (snd (deliver mac action secret d l)) es l'"
  shows "(signed_with mac secret d \<and> job_event action d \<longrightarrow> EvStart \<in> set es \<or> lp_poke l')
     \<and> (\<not> signed_with mac secret d \<longrightarrow>
          snd (deliver mac action secret d l) = l \<and> fst (deliver mac action secret d l) \<in> {400, 401, 404, 405})
     \<and> lp_orch (snd (deliver mac action secret d l)) = lp_orch l"
proof -
  have d: "snd (deliver mac action secret d l) = (if signed_with mac secret d \<and> job_event action d then Poke l else l)"
    using serve_pokes [of mac secret action d] assms(1) by (simp add: deliver_def split_beta)
  have "fst (deliver mac action secret d l) = fst (webhook_serve mac action secret d)"
    by (simp add: deliver_def split_beta)
  with d serve_refuses [of mac secret d action] run_steps_keeps_poke [OF assms(2)] show ?thesis
    by (auto simp: Poke_def split: if_splits)
qed

theorem delivery_wakes_witness:
  "lp_poke (snd (deliver (\<lambda>k b. ''d'' @ k) (\<lambda>_. Some ''queued'') ''s''
     \<lparr> dl_method = ''POST'', dl_path = ''/arc/webhook/abc'', dl_signature = ''sha256=ds'', dl_event = ''workflow_job'',
       dl_body = Some ''{}'' \<rparr> (start_loop (demo_orch demo_world))))"
proof -
  let ?d = "\<lparr> dl_method = ''POST'', dl_path = ''/arc/webhook/abc'', dl_signature = ''sha256=ds'',
    dl_event = ''workflow_job'', dl_body = Some ''{}'' \<rparr>"
  have "signed_with (\<lambda>k b. ''d'' @ k) ''s'' ?d" "job_event (\<lambda>_. Some ''queued'') ?d"
    by (simp_all add: signed_with_def job_event_def WebhookPath_def has_prefix_def)
  with delivery_wakes [OF _ run_steps.none, of "\<lambda>k b. ''d'' @ k" "''s''"] show ?thesis by fastforce
qed

section \<open>The tunnel's URL\<close>

text \<open>What is taken for the tunnel's address is an https URL of the tunnel domain, found in the line.\<close>

lemma find_tunnel_url_sound:
  "find_tunnel_url s = Some u \<Longrightarrow>
     \<exists>h a b. u = ''https://'' @ h @ ''.trycloudflare.com'' \<and> h \<noteq> [] \<and> list_all host_char h \<and> s = a @ u @ b"
proof (induction s)
  case (Cons c s)
  show ?case
  proof (cases "tunnel_url_at (c # s)")
    case (Some v)
    then have v: "v = u" using Cons.prems by simp
    obtain r where r: "c # s = ''https://'' @ r"
      using Some by (auto simp: tunnel_url_at_def has_prefix_iff split: if_splits)
    obtain t where t: "drop (length (takeWhile host_char r)) r = ''.trycloudflare.com'' @ t"
      and u: "u = ''https://'' @ takeWhile host_char r @ ''.trycloudflare.com''" "takeWhile host_char r \<noteq> []"
      using Some v unfolding r
      by (auto simp: tunnel_url_at_def has_prefix_iff Let_def split: if_splits)
    have "r = takeWhile host_char r @ drop (length (takeWhile host_char r)) r"
      by (metis append_take_drop_id takeWhile_eq_take)
    with t have "c # s = [] @ u @ t" using r u(1) by (metis append.assoc append_Nil)
    moreover have "list_all host_char (takeWhile host_char r)" by (auto simp: list_all_iff dest: set_takeWhileD)
    ultimately show ?thesis using u by blast
  next
    case None
    with Cons obtain h a b where "u = ''https://'' @ h @ ''.trycloudflare.com''" "h \<noteq> []" "list_all host_char h"
      "s = a @ u @ b" by auto
    then show ?thesis by (metis append_Cons)
  qed
qed simp

section \<open>Supervision\<close>

text \<open>What is taken for the tunnel's address: an https URL of the tunnel domain.\<close>

definition tunnel_url :: "string \<Rightarrow> bool" where
  "tunnel_url u = (\<exists>h. u = ''https://'' @ h @ ''.trycloudflare.com'' \<and> h \<noteq> [] \<and> list_all host_char h)"

definition action_ok :: "manager_action \<Rightarrow> bool" where
  "action_ok a = (case a of WaitFor d \<Rightarrow> Second \<le> d \<and> d \<le> 128 * Second | Registered u _ \<Rightarrow> tunnel_url u)"

lemma await_url_procs:
  "await_url n es p = (r, p') \<Longrightarrow> (case r of Inl _ \<Rightarrow> p' = end_proc n p | Inr u \<Rightarrow> p' = p \<and> tunnel_url u)"
  by (induction n es p rule: await_url.induct)
    (auto simp: tunnel_url_def dest!: find_tunnel_url_sound split: option.splits)

text \<open>A start that fails leaves no process; one that succeeds leaves one, with the address it printed.\<close>

lemma StartTunnel_procs:
  assumes "pr_running p = []" and "StartTunnel t p = (r, p')"
  shows "case r of Inl _ \<Rightarrow> pr_running p' = [] | Inr (u, n) \<Rightarrow> pr_running p' = [n] \<and> tunnel_url u"
proof -
  obtain q p1 where q: "await_url (pr_next p) (te_events t) (snd (start_proc p)) = (q, p1)" by fastforce
  have "case q of Inl _ \<Rightarrow> pr_running p1 = [] | Inr u \<Rightarrow> pr_running p1 = [pr_next p] \<and> tunnel_url u"
    using await_url_procs [OF q] assms(1) by (auto simp: end_proc_def start_proc_def split: sum.splits)
  with q assms show ?thesis
    by (auto simp: StartTunnel_def start_proc_def split: sum.splits option.splits prod.splits)
qed

lemma end_last [simp]: "pr_running p = [n] \<Longrightarrow> pr_running (end_proc n p) = []"
  by (simp add: end_proc_def)

text \<open>The waits the loop can be in.\<close>

definition backoff_ok :: "int \<Rightarrow> bool" where
  "backoff_ok b = (\<exists>k\<le>7. b = 2 ^ k * Second)"

lemma backoff_ok_next: "backoff_ok b \<Longrightarrow> backoff_ok (next_backoff b)"
proof -
  assume "backoff_ok b"
  then obtain k :: nat where k: "k \<le> 7" "b = 2 ^ k * Second" by (auto simp: backoff_ok_def)
  show "backoff_ok (next_backoff b)"
  proof (cases "k = 7")
    case True
    with k show ?thesis by (auto simp: backoff_ok_def next_backoff_def duration_defs)
  next
    case False
    with k have "next_backoff b = (if b < 2 * Minute then 2 ^ Suc k * Second else 2 ^ k * Second)" "Suc k \<le> 7"
      by (auto simp: next_backoff_def)
    with k show ?thesis unfolding backoff_ok_def by (metis (full_types))
  qed
qed

lemma backoff_ok_bounds: "backoff_ok b \<Longrightarrow> Second \<le> b \<and> b \<le> 128 * Second"
proof -
  assume "backoff_ok b"
  then obtain k :: nat where k: "k \<le> 7" "b = 2 ^ k * Second" by (auto simp: backoff_ok_def)
  have "(2::int) ^ k \<le> 2 ^ 7" using k(1) by (intro power_increasing) auto
  moreover have "(1::int) \<le> 2 ^ k" by simp
  ultimately show ?thesis using k(2) by (simp add: duration_defs)
qed

lemma backoff_ok_first: "backoff_ok first_backoff"
  by (auto simp: backoff_ok_def first_backoff_def intro: exI [of _ 0])

definition result_ok :: "manager_result \<Rightarrow> bool" where
  "result_ok m = (pr_running (mr_procs m) = [] \<and> list_all action_ok (mr_actions m))"

lemma result_ok_first: "action_ok a \<Longrightarrow> result_ok m \<Longrightarrow> result_ok (first_action a m)"
  by (simp add: result_ok_def first_action_def)

lemma supervise_ok:
  "backoff_ok b \<Longrightarrow> pr_running p = [] \<Longrightarrow> yields (supervise reg b rs p) result_ok"
proof (induction rs arbitrary: b p)
  case Nil
  then show ?case by (auto simp: result_ok_def)
next
  case (Cons r rs)
  obtain q p1 where q: "StartTunnel (rd_tunnel r) p = (q, p1)" by fastforce
  note procs = StartTunnel_procs [OF Cons.prems(2) q]
  show ?case
  proof (cases q)
    case (Inl e)
    with procs have p1: "pr_running p1 = []" by simp
    have w: "action_ok (WaitFor b)" using backoff_ok_bounds [OF Cons.prems(1)] by (simp add: action_ok_def)
    have "yields (do { m \<leftarrow> supervise reg (next_backoff b) rs p1; ret (first_action (WaitFor b) m) }) result_ok"
      by (rule yields_bind [OF Cons.IH [OF backoff_ok_next [OF Cons.prems(1)] p1]]) (auto intro: result_ok_first w)
    moreover have "result_ok \<lparr> mr_actions = [], mr_procs = p1, mr_returned = True \<rparr>"
        "result_ok \<lparr> mr_actions = [WaitFor b], mr_procs = p1, mr_returned = True \<rparr>"
      using p1 w by (simp_all add: result_ok_def)
    ultimately show ?thesis using q Inl by (simp add: yields_ret)
  next
    case (Inr un)
    then obtain u n where un: "q = Inr (u, n)" by (cases un) auto
    with procs have p1: "pr_running p1 = [n]" and u: "tunnel_url u" by simp_all
    have "yields (case rd_end r of CtxDone \<Rightarrow> ret \<lparr> mr_actions = [], mr_procs = end_proc n p1, mr_returned = True \<rparr>
        | TunnelExit e \<Rightarrow> supervise reg first_backoff rs (end_proc n p1)) result_ok"
    proof (cases "rd_end r")
      case CtxDone
      with p1 show ?thesis by (auto simp: result_ok_def intro!: yields_ret)
    next
      case (TunnelExit e)
      with p1 Cons.IH [OF backoff_ok_first] show ?thesis by simp
    qed
    then have "yields (do {
        es \<leftarrow> reg u;
        m \<leftarrow> (case rd_end r of CtxDone \<Rightarrow> ret \<lparr> mr_actions = [], mr_procs = end_proc n p1, mr_returned = True \<rparr>
               | TunnelExit e \<Rightarrow> supervise reg first_backoff rs (end_proc n p1));
        ret (first_action (Registered u es) m) }) result_ok"
      by (intro yields_bind [where S = "\<lambda>_. True"] yields_bind)
        (auto simp: yields_def action_ok_def u intro: result_ok_first)
    with q un show ?thesis by simp
  qed
qed



text \<open>After a tunnel was up there is no wait: one that comes up and exits at once is restarted at once.\<close>

lemma restart_at_once:
  assumes "StartTunnel (rd_tunnel r) p = (Inr (u, n), p1)" and "rd_end r = TunnelExit e"
  shows "supervise reg b (r # rs) p
    = do { es \<leftarrow> reg u; m \<leftarrow> supervise reg first_backoff rs (end_proc n p1); ret (first_action (Registered u es) m) }"
  using assms by simp

section \<open>The tunnel's binary\<close>

text \<open>What is at the binary's path is ordered by how far it has come.\<close>

fun stage :: "binary \<Rightarrow> nat" where
  "stage Absent = 0"
| "stage PartialFile = 1"
| "stage NotExecutable = 2"
| "stage Runnable = 3"

instantiation binary :: linorder
begin

definition less_eq_binary :: "binary \<Rightarrow> binary \<Rightarrow> bool" where
  "less_eq_binary a b = (stage a \<le> stage b)"

definition less_binary :: "binary \<Rightarrow> binary \<Rightarrow> bool" where
  "less_binary a b = (stage a < stage b)"

instance
proof
  fix a b :: binary
  show "a \<le> b \<Longrightarrow> b \<le> a \<Longrightarrow> a = b" by (cases a; cases b) (simp_all add: less_eq_binary_def)
qed (auto simp: less_eq_binary_def less_binary_def)

end

text \<open>A run only ever adds to what is there, and clears its temporary file away.\<close>

lemma ensureCloudflared_progress:
  assumes "\<not> bd_temp d"
  shows "sorted (map bd_dest (snd (ensureCloudflared env goos goarch d)))"
    and "\<not> bd_temp (last (snd (ensureCloudflared env goos goarch d)))"
  using assms
  by (cases "bd_dest d"; auto simp: ensureCloudflared_def place_binary_def less_eq_binary_def Let_def split: sum.split option.split)+

text \<open>
  Outside macOS the file appears at its path whole or not at all, at every moment of the
  download, so that a download that was interrupted is repeated by the next start; and what a
  start that downloads returns can be run.
\<close>

lemma ensureCloudflared_atomic:
  assumes "goos \<noteq> ''darwin''" and "bd_dest d = Absent" and "ensureCloudflared env goos goarch d = (r, ds)"
  shows "PartialFile \<notin> bd_dest ` set ds"
    and "r = Inr path \<Longrightarrow> fe_LookPath env = Some path \<or> bd_dest (last ds) = Runnable"
  using assms
  by (auto simp: ensureCloudflared_def place_binary_def download_def cloudflaredAsset_def Let_def
      split: sum.splits option.splits if_splits)

text \<open>On macOS the archive is unpacked in place: what an interrupted run leaves is used by the next.\<close>

definition fetch_ok :: fetch_env where
  "fetch_ok = \<lparr> fe_LookPath = None, fe_home = Inr ''/home/u'', fe_mkdir = None, fe_temp = None, fe_get = Inr 200,
     fe_copy = None, fe_bytes = 7, fe_close = None, fe_tar = None, fe_archive_exec = True, fe_rename = None, fe_chmod = None \<rparr>"

lemma darwin_partial_used:
  "bd_dest (last (snd (ensureCloudflared (fetch_ok\<lparr>fe_tar := Some ''killed''\<rparr>) ''darwin'' arch \<lparr> bd_dest = Absent, bd_temp = False \<rparr>)))
     = PartialFile
   \<and> ensureCloudflared fetch_ok ''darwin'' arch \<lparr> bd_dest = PartialFile, bd_temp = False \<rparr>
     = (Inr (bin_path ''darwin'' ''/home/u''), [\<lparr> bd_dest = PartialFile, bd_temp = False \<rparr>])"
  by (simp add: ensureCloudflared_def place_binary_def download_def cloudflaredAsset_def fetch_ok_def)

text \<open>
  The right to run is given after the file is at its path: a start that ends between the two (or
  whose \<open>chmod\<close> fails) leaves a file that every later start takes for the binary.
\<close>

lemma chmod_window:
  "\<lparr> bd_dest = NotExecutable, bd_temp = False \<rparr>
     \<in> set (snd (ensureCloudflared fetch_ok ''linux'' arch \<lparr> bd_dest = Absent, bd_temp = False \<rparr>))
   \<and> ensureCloudflared fetch_ok ''linux'' arch \<lparr> bd_dest = NotExecutable, bd_temp = False \<rparr>
     = (Inr (bin_path ''linux'' ''/home/u''), [\<lparr> bd_dest = NotExecutable, bd_temp = False \<rparr>])"
  by (simp add: ensureCloudflared_def place_binary_def download_def cloudflaredAsset_def fetch_ok_def)

end
