(* ===== verification/HookProps.thy ===== *)
theory HookProps
  imports Webhook GhProps
begin

text \<open>
  The registration of the hooks against a GitHub that keeps the laws of its hooks API: a host has
  one hook per repository (or organization) whatever address its tunnel gets, and never touches
  the hooks of another host.
\<close>

section \<open>Requests and the world they change\<close>

text \<open>
  What an exchange may leave: \<open>I\<close>, unless it is answered with a 2xx, and then \<open>F\<close> of the data and the
  next link.
\<close>

definition left_by :: "('w \<Rightarrow> bool) \<Rightarrow> (string \<Rightarrow> string \<Rightarrow> 'w \<Rightarrow> bool) \<Rightarrow> string + Response \<Rightarrow> 'w \<Rightarrow> bool" where
  "left_by I F r w =
     (case r of
        Inl _ \<Rightarrow> I w
      | Inr resp \<Rightarrow>
          if 200 \<le> rs_Status resp \<and> rs_Status resp < 300
          then (case rs_Body resp of Inl _ \<Rightarrow> False | Inr b \<Rightarrow> F (take max_body b) (nextLink (rs_Header resp ''Link'')) w)
          else I w)"

text \<open>
  A request without a cache key whose exchanges are so and whose waits keep \<open>I\<close>: it returns data only
  with \<open>F\<close>, whatever was tried before.
\<close>

definition exchange_ok ::
  "'w http \<Rightarrow> ('w \<Rightarrow> bool) \<Rightarrow> (string \<Rightarrow> string \<Rightarrow> 'w \<Rightarrow> bool) \<Rightarrow> string \<Rightarrow> string \<Rightarrow> string option \<Rightarrow> bool" where
  "exchange_ok H I F meth url payload =
     ((\<forall>d w. I w \<longrightarrow> I (snd (h_Sleep H d w))) \<and> (\<forall>w. I w \<longrightarrow> I (snd (h_Token H w)))
      \<and> (\<forall>token w. I w \<longrightarrow>
           (let (r, w') = h_Do H \<lparr> rq_Method = meth, rq_URL = url, rq_Token = token, rq_IfNoneMatch = None,
                                    rq_Payload = payload \<rparr> w
            in left_by I F r w')))"

definition settled :: "('w \<Rightarrow> bool) \<Rightarrow> (string \<Rightarrow> string \<Rightarrow> 'w \<Rightarrow> bool) \<Rightarrow> gherr + string \<times> string \<Rightarrow> 'w client \<Rightarrow> bool" where
  "settled I F x s = (case x of Inl _ \<Rightarrow> I (world s) | Inr (d, n) \<Rightarrow> F d n (world s))"

definition round_settled ::
  "('w \<Rightarrow> bool) \<Rightarrow> (string \<Rightarrow> string \<Rightarrow> 'w \<Rightarrow> bool) \<Rightarrow> (gherr + string \<times> string) round \<Rightarrow> 'w client \<Rightarrow> bool" where
  "round_settled I F r s = (case r of Return x \<Rightarrow> settled I F x s | Again _ \<Rightarrow> I (world s))"

lemmas settled_defs = settled_def round_settled_def

lemma hoare_failure_world:
  assumes "exchange_ok H I F meth url payload"
  shows "hoare (\<lambda>s. I (world s)) (failure H u attempt resp data) (round_settled I F)"
  using assms unfolding failure_def exchange_ok_def
  by (auto simp: hoare_def settled_defs Let_def run_call split_beta split: option.splits if_splits)

lemma outcome_world:
  assumes "exchange_ok H I F meth url payload" and "left_by I F r (world s)"
  shows "round_settled I F (fst (run_state (outcome H u [] attempt r) s)) (snd (run_state (outcome H u [] attempt r) s))"
proof (cases r)
  case (Inl e)
  with assms(2) show ?thesis by (simp add: outcome_def left_by_def settled_defs)
next
  case (Inr resp)
  obtain rl where rec: "run_state (recordRateLimit H resp) s = ((), s\<lparr>c_rate := rl\<rparr>)"
    by (simp add: recordRateLimit_def)
  let ?ok = "200 \<le> rs_Status resp \<and> rs_Status resp < 300"
  have fail: "round_settled I F (fst (run_state (failure H u attempt resp data) (s\<lparr>c_rate := rl\<rparr>)))
      (snd (run_state (failure H u attempt resp data) (s\<lparr>c_rate := rl\<rparr>)))" if "I (world s)" for data
    using hoare_failure_world [OF assms(1), unfolded hoare_def, rule_format, of "s\<lparr>c_rate := rl\<rparr>"] that by simp
  show ?thesis
  proof (cases "rs_Body resp")
    case body: (Inl e)
    with assms(2) Inr have "\<not> ?ok" "I (world s)" by (auto simp: left_by_def split: if_splits)
    with Inr body rec show ?thesis by (simp add: outcome_def handle_response_def Let_def settled_defs)
  next
    case body: (Inr b)
    show ?thesis
    proof (cases ?ok)
      case True
      with assms(2) Inr body have "F (take max_body b) (nextLink (rs_Header resp ''Link'')) (world s)"
        by (simp add: left_by_def)
      with Inr body rec True show ?thesis
        by (simp add: outcome_def handle_response_def success_def Let_def settled_defs)
    next
      case False
      with assms(2) Inr have "I (world s)" by (auto simp: left_by_def)
      with False Inr body rec fail show ?thesis
        by (auto simp: outcome_def handle_response_def Let_def)
    qed
  qed
qed

lemma hoare_send_world:
  assumes "exchange_ok H I F meth url payload"
  shows "hoare (\<lambda>s. I (world s)) (send H meth url payload [] attempt token) (round_settled I F)"
  unfolding hoare_def
proof (intro allI impI)
  fix s :: "'a client"
  assume I: "I (world s)"
  let ?rq = "\<lparr> rq_Method = meth, rq_URL = url, rq_Token = token, rq_IfNoneMatch = None, rq_Payload = payload \<rparr>"
  obtain r w where d: "h_Do H ?rq (world s) = (r, w)" by fastforce
  have run: "run_state (send H meth url payload [] attempt token) s = run_state (outcome H url [] attempt r) (s\<lparr>world := w\<rparr>)"
    by (simp add: send_def run_call d)
  have "case h_Do H ?rq (world s) of (r, w') \<Rightarrow> left_by I F r w'"
    using conjunct2 [OF conjunct2 [OF assms [unfolded exchange_ok_def Let_def]], rule_format, OF I] .
  then have "left_by I F r (world (s\<lparr>world := w\<rparr>))" by (simp add: d)
  from outcome_world [OF assms this] run
  show "round_settled I F (fst (run_state (send H meth url payload [] attempt token) s))
      (snd (run_state (send H meth url payload [] attempt token) s))" by simp
qed

lemma hoare_one_round_world:
  assumes ok: "exchange_ok H I F meth url payload"
  shows "hoare (\<lambda>s. I (world s)) (one_round H meth url payload [] attempt) (round_settled I F)"
proof -
  have sleep: "hoare (\<lambda>s. I (world s)) (if 0 < attempt then call (h_Sleep H (backoff attempt)) else ret False)
      (\<lambda>_ s. I (world s))"
    using ok by (simp add: hoare_def run_call exchange_ok_def)
  have token: "hoare (\<lambda>s. I (world s)) (call (h_Token H)) (\<lambda>_ s. I (world s))"
    using ok by (simp add: hoare_def run_call exchange_ok_def)
  have stop: "hoare (\<lambda>s. I (world s)) (ret (Return (Inl e))) (round_settled I F)" for e
    by (simp add: hoare_def settled_defs)
  show ?thesis
    unfolding one_round_def
    by (intro hoare_bind [OF sleep] hoare_if hoare_bind [OF token] stop)
      (auto intro: stop hoare_send_world [OF ok] split: sum.split option.split)
qed

lemma hoare_request_world:
  assumes "exchange_ok H I F meth (full_url c path) (map_option (js_marshal H) body)"
  shows "hoare (\<lambda>s. I (world s)) (request H c meth path body []) (settled I F)"
proof -
  have "hoare (\<lambda>s. I (world s)) (request_loop H meth (full_url c path) (map_option (js_marshal H) body) [] left lastErr)
      (settled I F)" for left lastErr
  proof (induction left arbitrary: lastErr)
    case 0
    show ?case by (simp add: hoare_def settled_def)
  next
    case (Suc left)
    show ?case unfolding request_loop.simps
    proof (rule hoare_bind [OF hoare_one_round_world [OF assms]])
      show "hoare (round_settled I F r) (case r of Return x \<Rightarrow> ret x
          | Again e \<Rightarrow> request_loop H meth (full_url c path) (map_option (js_marshal H) body) [] left
              (case e of None \<Rightarrow> lastErr | Some _ \<Rightarrow> e)) (settled I F)" for r
      proof (cases r)
        case (Return x)
        then show ?thesis by (simp add: hoare_def round_settled_def)
      next
        case (Again e)
        show ?thesis unfolding Again round.case
          by (rule hoare_strengthen [OF Suc.IH]) (simp add: round_settled_def)
      qed
    qed
  qed
  then show ?thesis unfolding request_def .
qed

section \<open>The hooks of GitHub\<close>

text \<open>
  \<open>hooks w base\<close> are the hooks (id and URL) under the path \<open>base\<close>. The laws: only a 2xx answer changes
  them; a list shows them all on one page; a POST adds one under a new id, with the URL of its
  payload; a PATCH of a hook replaces its URL. \<open>url_of\<close> reads the URL from a payload.
\<close>

definition hooks_answer ::
  "'w http \<Rightarrow> Settings \<Rightarrow> (string \<Rightarrow> string option) \<Rightarrow> Request \<Rightarrow> (string \<Rightarrow> (int \<times> string) list) \<Rightarrow> string \<Rightarrow> string
    \<Rightarrow> (string \<Rightarrow> (int \<times> string) list) \<Rightarrow> string \<Rightarrow> bool" where
  "hooks_answer H c url_of rq hs d n hs' base =
     ((rq_Method rq = ''GET'' \<and> rq_URL rq = full_url c (base @ ''?per_page=100'')
         \<longrightarrow> hs' = hs \<and> js_hooks H d = Some (hs base) \<and> n = [])
      \<and> (\<forall>p url. rq_Payload rq = Some p \<and> url_of p = Some url \<longrightarrow>
           (rq_Method rq = ''POST'' \<and> rq_URL rq = full_url c base
              \<longrightarrow> (\<exists>i. i \<notin> fst ` set (hs base) \<and> hs' = hs(base := hs base @ [(i, url)])))
           \<and> (\<forall>i. rq_Method rq = ''PATCH'' \<and> rq_URL rq = full_url c (base @ ''/'' @ itoa i)
              \<longrightarrow> hs' = hs(base := map (\<lambda>h. if fst h = i then (i, url) else h) (hs base)))))"

definition hooks_api ::
  "'w http \<Rightarrow> Settings \<Rightarrow> (string \<Rightarrow> string option) \<Rightarrow> ('w \<Rightarrow> string \<Rightarrow> (int \<times> string) list) \<Rightarrow> bool" where
  "hooks_api H c url_of hooks =
     ((\<forall>d w. hooks (snd (h_Sleep H d w)) = hooks w) \<and> (\<forall>w. hooks (snd (h_Token H w)) = hooks w)
      \<and> (\<forall>url secret extra. url_of (js_marshal H (JObj (hook_body url secret @ extra))) = Some url)
      \<and> (\<forall>rq w. let (r, w') = h_Do H rq w
           in left_by (\<lambda>w'. hooks w' = hooks w)
                (\<lambda>d n w'. \<forall>base. has_prefix base ''/'' \<longrightarrow> hooks_answer H c url_of rq (hooks w) d n (hooks w') base) r w'))"

lemma hooks_exchange:
  assumes api: "hooks_api H c url_of hooks" and base: "has_prefix base ''/''"
    and F: "\<And>token d n w w'. hooks w = h0 \<Longrightarrow>
      hooks_answer H c url_of \<lparr> rq_Method = meth, rq_URL = url, rq_Token = token, rq_IfNoneMatch = None, rq_Payload = payload \<rparr>
        (hooks w) d n (hooks w') base \<Longrightarrow> F d n w'"
  shows "exchange_ok H (\<lambda>w. hooks w = h0) F meth url payload"
proof -
  let ?rq = "\<lambda>token. \<lparr> rq_Method = meth, rq_URL = url, rq_Token = token, rq_IfNoneMatch = None, rq_Payload = payload \<rparr>"
  have "left_by (\<lambda>w. hooks w = h0) F r w'" if w: "hooks w = h0" and d: "h_Do H (?rq token) w = (r, w')" for token w r w'
  proof -
    have "case h_Do H (?rq token) w of (r, w') \<Rightarrow> left_by (\<lambda>w'. hooks w' = hooks w)
        (\<lambda>d n w'. \<forall>base. has_prefix base ''/'' \<longrightarrow> hooks_answer H c url_of (?rq token) (hooks w) d n (hooks w') base) r w'"
      using conjunct2 [OF conjunct2 [OF conjunct2 [OF api [unfolded hooks_api_def Let_def]]], rule_format] .
    with d have l: "left_by (\<lambda>w'. hooks w' = hooks w)
        (\<lambda>d n w'. \<forall>base. has_prefix base ''/'' \<longrightarrow> hooks_answer H c url_of (?rq token) (hooks w) d n (hooks w') base) r w'"
      by simp
    show ?thesis
    proof (cases r)
      case (Inl e)
      with l w show ?thesis by (simp add: left_by_def)
    next
      case (Inr resp)
      with l w base show ?thesis by (auto simp: left_by_def split: sum.splits if_splits intro!: F [OF w])
    qed
  qed
  with api show ?thesis by (auto simp: exchange_ok_def hooks_api_def split: prod.split)
qed

text \<open>A hook of this host: its URL ends in the path of this host, whatever the address before it.\<close>

definition own :: "string \<Rightarrow> int \<times> string \<Rightarrow> bool" where
  "own url h = has_suffix (snd h) (hook_marker url)"

definition one_hook :: "string \<Rightarrow> (int \<times> string) list \<Rightarrow> bool" where
  "one_hook url hs = (\<exists>i. filter (own url) hs = [(i, url)])"

text \<open>Ids identify hooks, and this host has at most one under every path.\<close>

definition tidy :: "string \<Rightarrow> (string \<Rightarrow> (int \<times> string) list) \<Rightarrow> bool" where
  "tidy url hs = (\<forall>b. distinct (map fst (hs b)) \<and> length (filter (own url) (hs b)) \<le> 1)"

definition others :: "string \<Rightarrow> (string \<Rightarrow> (int \<times> string) list) \<Rightarrow> string \<Rightarrow> (int \<times> string) list" where
  "others url hs b = filter (\<lambda>h. \<not> own url h) (hs b)"

text \<open>What a registration may do to the hooks.\<close>

definition registration :: "string \<Rightarrow> (string \<Rightarrow> (int \<times> string) list) \<Rightarrow> (string \<Rightarrow> (int \<times> string) list) \<Rightarrow> bool" where
  "registration url hs hs' =
     (tidy url hs' \<and> others url hs' = others url hs \<and> (\<forall>b. one_hook url (hs b) \<longrightarrow> one_hook url (hs' b)))"

lemma registration_refl: "tidy url hs \<Longrightarrow> registration url hs hs"
  by (simp add: registration_def)

lemma registration_trans: "registration url a b \<Longrightarrow> registration url b d \<Longrightarrow> registration url a d"
  by (simp add: registration_def)

lemma own_url: "own url (i, url)"
  unfolding own_def hook_marker_def by (auto simp: has_suffix_iff split: option.split intro: exI [of _ "take n url" for n])
    (metis append_take_drop_id)

lemma registration_add:
  assumes "tidy url hs" "i \<notin> fst ` set (hs b)" "filter (own url) (hs b) = []"
  shows "registration url hs (hs(b := hs b @ [(i, url)])) \<and> one_hook url (hs b @ [(i, url)])"
  using assms own_url [of url i] by (auto simp: registration_def tidy_def others_def one_hook_def)

lemma filter_single:
  assumes "length (filter P xs) \<le> 1" "x \<in> set xs" "P x"
  shows "filter P xs = [x]"
proof -
  have "x \<in> set (filter P xs)" using assms(2,3) by simp
  with assms(1) show ?thesis by (cases "filter P xs") auto
qed

lemma update_hook:
  assumes "distinct (map fst xs)" "(i, u) \<in> set xs" "P (i, u)" "P (i, v)"
  shows "map fst (map (\<lambda>h. if fst h = i then (i, v) else h) xs) = map fst xs"
    and "filter (\<lambda>h. \<not> P h) (map (\<lambda>h. if fst h = i then (i, v) else h) xs) = filter (\<lambda>h. \<not> P h) xs"
    and "filter P (map (\<lambda>h. if fst h = i then (i, v) else h) xs) = map (\<lambda>h. if fst h = i then (i, v) else h) (filter P xs)"
proof -
  have eq: "h = (i, u)" if "h \<in> set xs" "fst h = i" for h
    using assms(1,2) that by (metis eq_key_imp_eq_value prod.collapse)
  show "map fst (map (\<lambda>h. if fst h = i then (i, v) else h) xs) = map fst xs" by (induction xs) auto
  let ?f = "\<lambda>h. if fst h = i then (i, v) else h"
  have same: "filter (\<lambda>h. P (?f h)) xs = filter P xs" "filter (\<lambda>h. \<not> P (?f h)) xs = filter (\<lambda>h. \<not> P h) xs"
    using eq assms(3,4) by (auto intro!: filter_cong)
  show "filter P (map ?f xs) = map ?f (filter P xs)"
    by (simp only: filter_map comp_def same)
  have "map ?f (filter (\<lambda>h. \<not> P h) xs) = filter (\<lambda>h. \<not> P h) xs"
    using eq assms(3) by (intro map_idI) auto
  then show "filter (\<lambda>h. \<not> P h) (map ?f xs) = filter (\<lambda>h. \<not> P h) xs"
    by (simp only: filter_map comp_def same)
qed

lemma registration_update:
  assumes "tidy url hs" "(i, u) \<in> set (hs b)" "own url (i, u)"
  shows "registration url hs (hs(b := map (\<lambda>h. if fst h = i then (i, url) else h) (hs b)))
     \<and> one_hook url (map (\<lambda>h. if fst h = i then (i, url) else h) (hs b))"
proof -
  have d: "distinct (map fst (hs b))" and l: "length (filter (own url) (hs b)) \<le> 1"
    using assms(1) by (simp_all add: tidy_def)
  note up = update_hook [OF d assms(2), of "own url" url, OF assms(3) own_url]
  have "filter (own url) (map (\<lambda>h. if fst h = i then (i, url) else h) (hs b)) = [(i, url)]"
    unfolding up(3) filter_single [OF l assms(2,3)] by simp
  moreover have "distinct (map fst (map (\<lambda>h. if fst h = i then (i, url) else h) (hs b)))" unfolding up(1) by (rule d)
  ultimately show ?thesis using assms(1) up(2) by (auto simp: registration_def tidy_def others_def one_hook_def)
qed

section \<open>One registration\<close>

definition hooks_base :: "Settings \<Rightarrow> string \<Rightarrow> string" where
  "hooks_base c repo = (if repo \<noteq> [] then ''/repos/'' @ entity c @ ''/'' @ repo @ ''/hooks'' else ''/orgs/'' @ cl_org c @ ''/hooks'')"

lemma hooks_base_path: "has_prefix (hooks_base c repo) ''/''"
  by (simp add: hooks_base_def has_prefix_def)

lemma paginate_loop_page:
  assumes "url \<noteq> []" "left \<noteq> 0"
  shows "paginate_loop H c path [] fn (Suc left) url acc = do {
      r \<leftarrow> request H c ''GET'' url None [];
      case r of
        Inl e \<Rightarrow> ret (Inl e)
      | Inr (data, next_url) \<Rightarrow> (case fn acc data of
          Inl e \<Rightarrow> ret (Inl e) | Inr acc' \<Rightarrow> paginate_loop H c path [] fn left next_url acc') }"
  using assms by (subst paginate_loop.simps) (simp add: Let_def cong: sum.case_cong prod.case_cong)

text \<open>The list of hooks is one page.\<close>

lemma hoare_list_hooks:
  assumes "hooks_api H c url_of hooks" "has_prefix base ''/''"
  shows "hoare (\<lambda>s. hooks (world s) = h0)
    (paginate H c (base @ ''?per_page=100'') []
       (\<lambda>hs page. case js_hooks H page of None \<Rightarrow> Inl (OtherError ''decode hooks'') | Some new \<Rightarrow> Inr (hs @ new)) [])
    (\<lambda>r s. hooks (world s) = h0 \<and> (case r of Inl _ \<Rightarrow> True | Inr hs \<Rightarrow> hs = h0 base))"
proof -
  let ?F = "\<lambda>d n w. hooks w = h0 \<and> js_hooks H d = Some (h0 base) \<and> n = []"
  have "exchange_ok H (\<lambda>w. hooks w = h0) ?F ''GET'' (full_url c (base @ ''?per_page=100'')) (map_option (js_marshal H) None)"
    by (rule hooks_exchange [OF assms]) (simp add: hooks_answer_def)
  then have req: "hoare (\<lambda>s. hooks (world s) = h0) (request H c ''GET'' (base @ ''?per_page=100'') None [])
      (settled (\<lambda>w. hooks w = h0) ?F)" by (rule hoare_request_world)
  let ?fn = "\<lambda>hs page. case js_hooks H page of None \<Rightarrow> Inl (OtherError ''decode hooks'') | Some new \<Rightarrow> Inr (hs @ new)"
  have "paginate H c (base @ ''?per_page=100'') [] ?fn [] = do {
      r \<leftarrow> request H c ''GET'' (base @ ''?per_page=100'') None [];
      case r of
        Inl e \<Rightarrow> ret (Inl e)
      | Inr (data, next_url) \<Rightarrow> (case ?fn [] data of
          Inl e \<Rightarrow> ret (Inl e)
        | Inr acc' \<Rightarrow> paginate_loop H c (base @ ''?per_page=100'') [] ?fn 200 next_url acc') }"
    unfolding paginate_def page_limit_def Suc_eq_plus1 [symmetric] by (rule paginate_loop_page) simp_all
  then show ?thesis
    by (simp only:) (rule hoare_bind [OF req],
      auto simp: hoare_def settled_def paginate_loop.simps [of _ _ _ _ _ _ "[]"] split: sum.split)
qed

lemma hoare_change:
  assumes "hooks_api H c url_of hooks" "has_prefix base ''/''"
    and "\<And>token d n hs'. hooks_answer H c url_of
        \<lparr> rq_Method = meth, rq_URL = full_url c path, rq_Token = token, rq_IfNoneMatch = None,
          rq_Payload = Some (js_marshal H (JObj (hook_body url secret @ extra))) \<rparr> h0 d n hs' base \<Longrightarrow>
        registration url h0 hs' \<and> one_hook url (hs' base)"
    and "tidy url h0"
  shows "hoare (\<lambda>s. hooks (world s) = h0) (request H c meth path (Some (JObj (hook_body url secret @ extra))) [])
    (\<lambda>r s. registration url h0 (hooks (world s)) \<and> (case r of Inl _ \<Rightarrow> True | Inr _ \<Rightarrow> one_hook url (hooks (world s) base)))"
proof -
  have "exchange_ok H (\<lambda>w. hooks w = h0) (\<lambda>_ _ w. registration url h0 (hooks w) \<and> one_hook url (hooks w base))
      meth (full_url c path) (map_option (js_marshal H) (Some (JObj (hook_body url secret @ extra))))"
    by (rule hooks_exchange [OF assms(1,2)]) (use assms(3) in simp)
  from hoare_request_world [OF this] show ?thesis
    by (rule hoare_weaken) (use assms(4) in \<open>auto simp: settled_def registration_refl split: sum.splits\<close>)
qed

lemma hoare_EnsureWebhook:
  assumes api: "hooks_api H c url_of hooks" and tidy: "tidy url h0"
  shows "hoare (\<lambda>s. hooks (world s) = h0) (EnsureWebhook H c repo url secret)
    (\<lambda>r s. registration url h0 (hooks (world s)) \<and> (r = None \<longrightarrow> one_hook url (hooks (world s) (hooks_base c repo))))"
    (is "hoare ?P _ ?Q")
proof -
  let ?base = "hooks_base c repo"
  note base = hooks_base_path [of c repo]
  have url: "url_of (js_marshal H (JObj (hook_body url secret @ extra))) = Some url" for extra
    using api by (simp add: hooks_api_def)
  have add: "hoare ?P (do { r \<leftarrow> request H c ''POST'' ?base (Some (JObj (hook_body url secret @ [(''name'', JStr ''web'')]))) [];
        ret (case r of Inl e \<Rightarrow> Some (Wrapped ''create hook'' e) | Inr _ \<Rightarrow> None) }) ?Q"
    if "filter (own url) (h0 ?base) = []"
  proof (rule hoare_bind [OF hoare_change [OF api base _ tidy]])
    fix token d n hs'
    assume "hooks_answer H c url_of \<lparr> rq_Method = ''POST'', rq_URL = full_url c ?base, rq_Token = token, rq_IfNoneMatch = None,
        rq_Payload = Some (js_marshal H (JObj (hook_body url secret @ [(''name'', JStr ''web'')]))) \<rparr> h0 d n hs' ?base"
    then obtain i where "i \<notin> fst ` set (h0 ?base)" "hs' = h0(?base := h0 ?base @ [(i, url)])"
      by (auto simp: hooks_answer_def url)
    with registration_add [OF tidy _ that] show "registration url h0 hs' \<and> one_hook url (hs' ?base)" by simp
  qed (auto simp: hoare_def split: sum.splits)
  have change: "hoare ?P (do { r \<leftarrow> request H c ''PATCH'' (?base @ ''/'' @ itoa (fst h)) (Some (JObj (hook_body url secret))) [];
        ret (case r of Inl e \<Rightarrow> Some (Wrapped (''update hook '' @ itoa (fst h)) e) | Inr _ \<Rightarrow> None) }) ?Q"
    if h: "h \<in> set (h0 ?base)" "own url h" for h
  proof -
    have step: "registration url h0 hs' \<and> one_hook url (hs' ?base)"
      if "hooks_answer H c url_of \<lparr> rq_Method = ''PATCH'', rq_URL = full_url c (?base @ ''/'' @ itoa (fst h)), rq_Token = token,
        rq_IfNoneMatch = None, rq_Payload = Some (js_marshal H (JObj (hook_body url secret @ []))) \<rparr> h0 d n hs' ?base"
      for token d n hs'
    proof -
      from that have "hs' = h0(?base := map (\<lambda>k. if fst k = fst h then (fst h, url) else k) (h0 ?base))"
        using url [of "[]"] by (simp add: hooks_answer_def)
      with registration_update [OF tidy, of "fst h" "snd h" ?base] h show ?thesis by simp
    qed
    have "hoare ?P (request H c ''PATCH'' (?base @ ''/'' @ itoa (fst h)) (Some (JObj (hook_body url secret))) [])
      (\<lambda>r s. registration url h0 (hooks (world s)) \<and> (case r of Inl _ \<Rightarrow> True | Inr _ \<Rightarrow> one_hook url (hooks (world s) ?base)))"
      using hoare_change [where secret = secret and extra = "[]", OF api base step tidy] by (simp only: append_Nil2)
    then show ?thesis by (rule hoare_bind) (auto simp: hoare_def split: sum.splits)
  qed
  show ?thesis
    unfolding EnsureWebhook_def hooks_base_def [symmetric] Let_def
  proof (rule hoare_bind [OF hoare_list_hooks [OF api base]])
    fix l
    show "hoare (\<lambda>s. hooks (world s) = h0 \<and> (case l of Inl _ \<Rightarrow> True | Inr hs \<Rightarrow> hs = h0 ?base))
       (case l of
          Inl e \<Rightarrow> ret (Some (Wrapped ''list hooks'' e))
        | Inr existing \<Rightarrow> (case find (\<lambda>h. has_suffix (snd h) (hook_marker url)) existing of
            None \<Rightarrow> do { r \<leftarrow> request H c ''POST'' ?base (Some (JObj (hook_body url secret @ [(''name'', JStr ''web'')]))) [];
                ret (case r of Inl e \<Rightarrow> Some (Wrapped ''create hook'' e) | Inr _ \<Rightarrow> None) }
          | Some h \<Rightarrow> do { r \<leftarrow> request H c ''PATCH'' (?base @ ''/'' @ itoa (fst h)) (Some (JObj (hook_body url secret))) [];
                ret (case r of Inl e \<Rightarrow> Some (Wrapped (''update hook '' @ itoa (fst h)) e) | Inr _ \<Rightarrow> None) })) ?Q"
    proof (cases l)
      case (Inl e)
      then show ?thesis using tidy by (simp add: hoare_def registration_refl)
    next
      case (Inr hs)
      show ?thesis
      proof (cases "hs = h0 ?base")
        case True
        show ?thesis
        proof (cases "find (\<lambda>h. has_suffix (snd h) (hook_marker url)) hs")
          case None
          then have "filter (own url) (h0 ?base) = []"
            using True by (auto simp: find_None_iff filter_empty_conv own_def)
          from add [OF this] show ?thesis using Inr True None by simp
        next
          case (Some h)
          then have "h \<in> set (h0 ?base)" "own url h" using True by (auto simp: find_Some_iff own_def)
          from change [OF this] show ?thesis using Inr True Some by simp
        qed
      qed (simp add: Inr hoare_def)
    qed
  qed
qed

section \<open>Every repository\<close>

lemma hoare_register_repos:
  assumes api: "hooks_api H c url_of hooks"
  shows "tidy url h0 \<Longrightarrow> hoare (\<lambda>s. hooks (world s) = h0) (register_repos H c url secret rs)
    (\<lambda>es s. registration url h0 (hooks (world s))
       \<and> (\<forall>r\<in>set rs. (\<exists>x. Wrapped (repo_Name r) x \<in> set es) \<or> one_hook url (hooks (world s) (hooks_base c (repo_Name r)))))"
proof (induction rs arbitrary: h0)
  case Nil
  then show ?case by (simp add: hoare_def registration_refl)
next
  case (Cons r rs)
  show ?case
    unfolding hoare_def
  proof (intro allI impI)
    fix s :: "'a client"
    assume s: "hooks (world s) = h0"
    obtain e s1 where 1: "run_state (EnsureWebhook H c (repo_Name r) url secret) s = (e, s1)" by fastforce
    obtain es s2 where 2: "run_state (register_repos H c url secret rs) s1 = (es, s2)" by fastforce
    have a: "registration url h0 (hooks (world s1))" "e = None \<longrightarrow> one_hook url (hooks (world s1) (hooks_base c (repo_Name r)))"
      using hoareD [OF hoare_EnsureWebhook [OF api Cons.prems] s 1] by blast+
    then have "tidy url (hooks (world s1))" by (simp add: registration_def)
    from hoareD [OF Cons.IH [OF this] refl 2]
    have b: "registration url (hooks (world s1)) (hooks (world s2))"
      "\<forall>r\<in>set rs. (\<exists>x. Wrapped (repo_Name r) x \<in> set es) \<or> one_hook url (hooks (world s2) (hooks_base c (repo_Name r)))"
      by blast+
    have "registration url h0 (hooks (world s2))" using registration_trans [OF a(1) b(1)] .
    moreover have "e = None \<longrightarrow> one_hook url (hooks (world s2) (hooks_base c (repo_Name r)))"
      using a(2) b(1) by (simp add: registration_def)
    ultimately show "registration url h0 (hooks (world (snd (run_state (register_repos H c url secret (r # rs)) s))))
        \<and> (\<forall>q\<in>set (r # rs). (\<exists>x. Wrapped (repo_Name q) x \<in> set (fst (run_state (register_repos H c url secret (r # rs)) s)))
             \<or> one_hook url (hooks (world (snd (run_state (register_repos H c url secret (r # rs)) s))) (hooks_base c (repo_Name q))))"
      using 1 2 b(2) by (auto split: option.split)
  qed
qed


section \<open>A GitHub with one repository\<close>

text \<open>Its world is the URL of the repository's hook, whose id is 7; the payload is the URL itself.\<close>

definition demo_base :: string where "demo_base = ''/repos/me/app/hooks''"

definition demo_api :: string where "demo_api = ''https://api.github.com''"

definition demo_settings :: Settings where
  "demo_settings = \<lparr> cl_apiURL = demo_api, cl_webURL = [], cl_org = [], cl_owner = ''me'' \<rparr>"

definition demo_marshal :: "json \<Rightarrow> string" where
  "demo_marshal j = (case j of JObj (_ # _ # (_, JObj ((_, JStr u) # _)) # _) \<Rightarrow> u | _ \<Rightarrow> [])"

definition storable :: "string option \<Rightarrow> bool" where
  "storable w = (case w of None \<Rightarrow> True | Some u \<Rightarrow> u \<noteq> [] \<and> length u \<le> max_body)"

definition plain_response :: "int \<Rightarrow> string \<Rightarrow> Response" where
  "plain_response st b = \<lparr> rs_Status = st, rs_Header = (\<lambda>_. []), rs_Body = Inr b \<rparr>"

definition demo_Do :: "Request \<Rightarrow> string option \<Rightarrow> (string + Response) \<times> string option" where
  "demo_Do rq w =
     (if rq_Method rq = ''GET'' \<and> rq_URL rq = demo_api @ demo_base @ ''?per_page=100'' \<and> storable w
      then (Inr (plain_response 200 (case w of None \<Rightarrow> [] | Some u \<Rightarrow> u)), w)
      else if rq_Method rq = ''POST'' \<and> rq_URL rq = demo_api @ demo_base \<and> w = None \<and> rq_Payload rq \<noteq> None
      then (Inr (plain_response 201 []), rq_Payload rq)
      else if rq_Method rq = ''PATCH'' \<and> rq_URL rq = demo_api @ demo_base @ ''/7'' \<and> w \<noteq> None \<and> rq_Payload rq \<noteq> None
      then (Inr (plain_response 200 []), rq_Payload rq)
      else (Inr (plain_response 404 []), w))"

definition demo_http :: "string option http" where
  "demo_http = \<lparr> h_now = (\<lambda>_. 0), h_cancelled = (\<lambda>_. False), h_Sleep = (\<lambda>d w. (False, w)),
     h_Token = (\<lambda>w. (Inr ''t'', w)), h_badURL = (\<lambda>_. None), h_Do = demo_Do,
     js_error = (\<lambda>_. None), js_marshal = demo_marshal, js_runners = (\<lambda>_. None), js_jit = (\<lambda>_. None),
     js_groups = (\<lambda>_. None), js_repos = (\<lambda>_. None), js_runs = (\<lambda>_. None), js_jobs = (\<lambda>_. None),
     js_hooks = (\<lambda>b. Some (if b = [] then [] else [(7, b)])), js_type = (\<lambda>_. None) \<rparr>"

definition demo_hooks :: "string option \<Rightarrow> string \<Rightarrow> (int \<times> string) list" where
  "demo_hooks w base = (if base = demo_base then (case w of None \<Rightarrow> [] | Some u \<Rightarrow> [(7, u)]) else [])"

lemma last_segment:
  assumes "a @ CHR ''/'' # x = b @ CHR ''/'' # y" "CHR ''/'' \<notin> set x" "CHR ''/'' \<notin> set y"
  shows "a = b \<and> x = y"
proof -
  have seg: "takeWhile (\<lambda>c. c \<noteq> CHR ''/'') (rev (d @ CHR ''/'' # z)) = rev z" if "CHR ''/'' \<notin> set z" for d z :: string
    using that by (simp add: takeWhile_tail) (metis (mono_tags, lifting) set_rev takeWhile_append2 takeWhile.simps(2) append_Nil2)
  have "rev x = rev y" using seg [OF assms(2), of a] seg [OF assms(3), of b] assms(1) by simp
  with assms(1) show ?thesis by simp
qed

lemma itoa_no_slash: "CHR ''/'' \<notin> set (itoa i)"
proof -
  have "c \<noteq> CHR ''/''" if "c \<in> set (digits_of n)" for c n
    using digits_of_digits [of n] that by (auto simp: list_all_iff is_digit_def Let_def)
  then show ?thesis by (auto simp: itoa_def)
qed

lemma digits_of_inj: "digits_of a = digits_of b \<Longrightarrow> a = b"
  by (metis digits_of_value)

lemma itoa_seven: "itoa i = ''7'' \<Longrightarrow> i = 7"
proof -
  assume i: "itoa i = ''7''"
  have seven: "digits_of 7 = ''7''"
  proof -
    have "char_of (55 :: nat) = CHR ''7''" by (rule trans [OF _ char_of_char [of "CHR ''7''"]]) simp
    then show ?thesis by (simp add: digits_of.simps [of 7])
  qed
  have "\<not> i < 0" using i by (auto simp: itoa_def)
  with i seven have "digits_of (nat i) = digits_of 7" by (simp add: itoa_def)
  with \<open>\<not> i < 0\<close> digits_of_inj show "i = 7" by fastforce
qed

lemma demo_url:
  "has_prefix base ''/'' \<Longrightarrow> full_url demo_settings (base @ p) = demo_api @ q \<longleftrightarrow> base @ p = q"
  by (auto simp: full_url_def demo_settings_def has_prefix_iff)

lemma demo_patch:
  assumes "has_prefix base ''/''" "full_url demo_settings (base @ ''/'' @ itoa i) = demo_api @ demo_base @ ''/7''"
  shows "base = demo_base \<and> i = 7"
proof -
  have "base @ CHR ''/'' # itoa i = demo_base @ CHR ''/'' # ''7''" using demo_url [OF assms(1)] assms(2) by simp
  from last_segment [OF this itoa_no_slash] have "base = demo_base" "itoa i = ''7''" by simp_all
  then show ?thesis using itoa_seven by blast
qed

lemma demo_api_lawful: "hooks_api demo_http demo_settings Some demo_hooks"
proof -
  have payload: "demo_marshal (JObj (hook_body url secret @ extra)) = url" for url secret extra
    by (simp add: demo_marshal_def hook_body_def)
  have list: "hooks_answer demo_http demo_settings Some rq (demo_hooks w) d [] (demo_hooks w) base"
    if "rq_Method rq = ''GET''" "rq_URL rq = demo_api @ demo_base @ ''?per_page=100''" "storable w"
      "has_prefix base ''/''" "d = take max_body (case w of None \<Rightarrow> [] | Some u \<Rightarrow> u)" for rq w d base
  proof -
    have "js_hooks demo_http d = Some (demo_hooks w demo_base)"
      using that(3,5) by (auto simp: demo_http_def demo_hooks_def storable_def max_body_def split: option.splits)
    moreover have "rq_URL rq = full_url demo_settings (base @ ''?per_page=100'') \<Longrightarrow> base = demo_base"
      using that(2) demo_url [OF that(4), of "''?per_page=100''" "demo_base @ ''?per_page=100''"] by auto
    ultimately show ?thesis using that(1) by (auto simp: hooks_answer_def)
  qed
  have post: "hooks_answer demo_http demo_settings Some rq (demo_hooks None) d n (demo_hooks q) base"
    if "rq_Method rq = ''POST''" "rq_URL rq = demo_api @ demo_base" "has_prefix base ''/''" "rq_Payload rq = q" for rq d n base q
  proof -
    have "rq_URL rq = full_url demo_settings base \<Longrightarrow> base = demo_base"
      using that(2) demo_url [OF that(3), of "[]" demo_base] by auto
    then show ?thesis using that(1,4) by (auto simp: hooks_answer_def demo_hooks_def fun_eq_iff intro!: exI [of _ 7])
  qed
  have patch: "hooks_answer demo_http demo_settings Some rq (demo_hooks (Some v)) d n (demo_hooks q) base"
    if "rq_Method rq = ''PATCH''" "rq_URL rq = demo_api @ demo_base @ ''/7''" "has_prefix base ''/''" "rq_Payload rq = q" for rq d n base v q
  proof -
    have step: "demo_hooks (Some u)
        = (demo_hooks (Some v))(demo_base := map (\<lambda>h. if fst h = 7 then (7, u) else h) (demo_hooks (Some v) demo_base))" for u
      by (rule ext) (simp add: demo_hooks_def)
    have "demo_hooks q
        = (demo_hooks (Some v))(base := map (\<lambda>h. if fst h = i then (i, u) else h) (demo_hooks (Some v) base))"
      if u: "rq_Payload rq = Some p" "Some p = Some u" and url: "rq_URL rq = full_url demo_settings (base @ ''/'' @ itoa i)" for p u i
    proof -
      have "base = demo_base \<and> i = 7"
        using demo_patch [OF \<open>has_prefix base ''/''\<close>, of i] url \<open>rq_URL rq = demo_api @ demo_base @ ''/7''\<close> by metis
      then show ?thesis using step [of u] u \<open>rq_Payload rq = q\<close> by (simp only: option.inject)
    qed
    with \<open>rq_Method rq = ''PATCH''\<close> show ?thesis by (simp add: hooks_answer_def)
  qed
  have do: "left_by (\<lambda>w'. demo_hooks w' = demo_hooks w)
      (\<lambda>d n w'. \<forall>base. has_prefix base ''/'' \<longrightarrow> hooks_answer demo_http demo_settings Some rq (demo_hooks w) d n (demo_hooks w') base)
      (fst (demo_Do rq w)) (snd (demo_Do rq w))" for rq w
    using list post patch
    by (auto simp: demo_Do_def left_by_def plain_response_def)
  have fields: "h_Do demo_http = demo_Do" "js_marshal demo_http = demo_marshal"
    "h_Sleep demo_http = (\<lambda>d w. (False, w))" "h_Token demo_http = (\<lambda>w. (Inr ''t'', w))"
    by (simp_all add: demo_http_def)
  show ?thesis
    unfolding hooks_api_def fields using payload do by (auto simp: split_beta)
qed

definition demo_repo :: Repo where
  "demo_repo = \<lparr> repo_Name = ''app'', repo_FullName = ''me/app'', repo_Archived = False, repo_Disabled = False,
     repo_Fork = False, repo_PushedAt = 0, repo_OwnerLogin = ''me'' \<rparr>"

text \<open>The hook of an earlier start is there.\<close>

definition demo_client :: "string option client" where
  "demo_client = \<lparr> world = Some ''https://old.trycloudflare.com/arc/webhook/h1'', c_etags = Map.empty,
     c_rate = \<lparr> rl_Limit = 0, rl_Remaining = 0, rl_Reset = 0, rl_Seen = 0 \<rparr>, c_groups = Map.empty \<rparr>"

definition demo_hook_url :: string where
  "demo_hook_url = hook_url ''h1'' ''https://new.trycloudflare.com''"

lemma hook_demo_request:
  assumes "demo_Do \<lparr> rq_Method = meth, rq_URL = full_url demo_settings path, rq_Token = ''t'', rq_IfNoneMatch = None,
      rq_Payload = map_option demo_marshal body \<rparr> (world s) = (Inr (plain_response st b), w)"
    and "200 \<le> st" "st < 300" "length b \<le> max_body"
  shows "run_state (request demo_http demo_settings meth path body []) s = (Inr (b, []), s\<lparr>world := w\<rparr>)"
proof -
  have fields: "h_Do demo_http = demo_Do" "js_marshal demo_http = demo_marshal" "h_badURL demo_http = (\<lambda>_. None)"
    "h_now demo_http = (\<lambda>_. 0)" "h_cancelled demo_http = (\<lambda>_. False)" "h_Token demo_http = (\<lambda>w. (Inr ''t'', w))"
    by (simp_all add: demo_http_def)
  have resp: "rs_Status (plain_response st b) = st" "rs_Body (plain_response st b) = Inr b" "rs_Header (plain_response st b) h = []" for h
    by (simp_all add: plain_response_def)
  have "run_state (one_round demo_http meth (full_url demo_settings path) (map_option demo_marshal body) [] 0) s
      = (Return (Inr (b, [])), s\<lparr>world := w\<rparr>)"
    using assms
    by (simp add: one_round_def send_def outcome_def handle_response_def recordRateLimit_def success_def fields run_call resp
        rate_of_def Let_def)
  moreover have "maxRetries + 1 = Suc 4" "maxRetries - 4 = 0" by (simp_all add: maxRetries_def)
  ultimately show ?thesis unfolding request_def fields by (simp only: request_loop.simps run_state_bind prod.case round.case run_state_return)
qed

lemma demo_run: "fst (run_state (register_repos demo_http demo_settings demo_hook_url ''s'' [demo_repo]) demo_client) = []"
proof -
  let ?old = "''https://old.trycloudflare.com/arc/webhook/h1''"
  let ?body = "Some (JObj (hook_body demo_hook_url ''s''))"
  have base: "hooks_base demo_settings ''app'' = demo_base" by code_simp
  have urls: "full_url demo_settings (demo_base @ ''?per_page=100'') = demo_api @ demo_base @ ''?per_page=100''"
      "full_url demo_settings (demo_base @ ''/'' @ itoa 7) = demo_api @ demo_base @ ''/7''" by code_simp+
  have payload: "map_option demo_marshal ?body = Some demo_hook_url" by (simp add: demo_marshal_def hook_body_def)
  have list: "run_state (request demo_http demo_settings ''GET'' (demo_base @ ''?per_page=100'') None []) demo_client
      = (Inr (?old, []), demo_client)"
    by (subst hook_demo_request [where b = ?old and st = 200 and w = "Some ?old"])
      (simp_all add: urls demo_Do_def demo_client_def storable_def max_body_def)
  have patch: "run_state (request demo_http demo_settings ''PATCH'' (demo_base @ ''/'' @ itoa 7) ?body []) demo_client
      = (Inr ([], []), demo_client\<lparr>world := Some demo_hook_url\<rparr>)"
    by (rule hook_demo_request [where st = 200], unfold urls payload) (simp_all add: demo_Do_def demo_client_def)
  have demo_js_hooks: "js_hooks demo_http = (\<lambda>b. Some (if b = [] then [] else [(7, b)]))" by (simp add: demo_http_def)
  have own: "has_suffix ?old (hook_marker demo_hook_url)" by code_simp
  have "run_state (EnsureWebhook demo_http demo_settings ''app'' demo_hook_url ''s'') demo_client
      = (None, demo_client\<lparr>world := Some demo_hook_url\<rparr>)"
    using list patch own
    unfolding EnsureWebhook_def hooks_base_def [symmetric] base Let_def paginate_def page_limit_def Suc_eq_plus1 [symmetric]
    by (simp add: paginate_loop_page paginate_loop.simps [of _ _ _ _ _ _ "[]"] demo_js_hooks)
  then show ?thesis by (simp add: demo_repo_def)
qed

lemma demo_tidy: "tidy url (demo_hooks w)"
proof -
  have "length (filter (own url) (demo_hooks w b)) \<le> length (demo_hooks w b)" for b by (rule length_filter_le)
  moreover have "length (demo_hooks w b) \<le> 1 \<and> distinct (map fst (demo_hooks w b))" for b
    by (cases w) (simp_all add: demo_hooks_def)
  ultimately show ?thesis unfolding tidy_def by (meson le_trans)
qed


end
