(* ===== verification/Wizard.thy ===== *)
theory Wizard
  imports ConfigLoad GhJobs Duration
begin

text \<open>
  The configuration wizard (\<open>cmd/arc/configcmd.go\<close>): the helpers that ask, the questions about the
  account and the pools, the verification against GitHub and the writing of the file. The input is
  the list of its lines; the output is the list of what was printed, newest first, a prompt with
  the value it shows. The YAML codec and what the \<open>gh\<close> tool answers are parameters.
\<close>

section \<open>The stream (\<open>wizard\<close>)\<close>

datatype printed = Prompt string string | Note string "string list" | Newline

record wizard =
  wz_in :: "string list"
  wz_err :: bool
  wz_out :: "printed list"

definition say :: "printed \<Rightarrow> wizard \<Rightarrow> wizard" where
  "say p w = w\<lparr>wz_out := p # wz_out w\<rparr>"

text \<open>\<open>wizard.read\<close>: the input that ends sets the error, for good.\<close>

definition read :: "wizard \<Rightarrow> string option \<times> wizard" where
  "read w =
     (if wz_err w then (None, w)
      else case wz_in w of
          [] \<Rightarrow> (None, say Newline (w\<lparr>wz_err := True\<rparr>))
        | l # rest \<Rightarrow> (Some (trim_space l), w\<lparr>wz_in := rest\<rparr>))"

definition ask :: "string \<Rightarrow> string \<Rightarrow> wizard \<Rightarrow> string \<times> wizard" where
  "ask label current w =
     (if wz_err w then (current, w)
      else case read (say (Prompt label current) w) of
          (None, w') \<Rightarrow> (current, w')
        | (Some s, w') \<Rightarrow> if s = [] then (current, w') else if s = ''-'' then ([], w') else (s, w'))"

text \<open>Every question that is asked takes a line or meets the end: the measure of the loops below.\<close>

definition fuel :: "wizard \<Rightarrow> nat" where
  "fuel w = (if wz_err w then 0 else Suc (length (wz_in w)))"

lemma fuel_say [simp]: "fuel (say p w) = fuel w" "wz_err (say p w) = wz_err w" "wz_in (say p w) = wz_in w"
  by (simp_all add: fuel_def say_def)

lemma fuel_read: "read w = (r, w') \<Longrightarrow> \<not> wz_err w \<Longrightarrow> fuel w' < fuel w"
  by (auto simp: read_def fuel_def say_def split: list.splits if_splits)

lemma fuel_ask: "ask label current w = (r, w') \<Longrightarrow> \<not> wz_err w \<Longrightarrow> fuel w' < fuel w"
  by (auto simp: ask_def split: prod.splits option.splits if_splits dest!: fuel_read)

lemma read_stopped [simp]: "wz_err w \<Longrightarrow> read w = (None, w)"
  by (simp add: read_def)

lemma ask_stopped [simp]: "wz_err w \<Longrightarrow> ask label current w = (current, w)"
  by (simp add: ask_def)

text \<open>The loops read on until an answer will do; \<open>fuel\<close> falls with each turn.\<close>

function askRequired :: "string \<Rightarrow> string \<Rightarrow> wizard \<Rightarrow> string \<times> wizard" where
  "askRequired label current w =
     (let (v, w') = ask label current w
      in if v \<noteq> [] \<or> wz_err w' then (v, w')
         else askRequired label current (say (Note ''    a value is required'' []) w'))"
  by pat_completeness auto
termination
  by (relation "measure (\<lambda>(_, _, w). fuel w)") (auto, metis ask_stopped fuel_ask prod.sel(2))

text \<open>The three bytes of the ellipsis.\<close>

definition ellipsis :: string where "ellipsis = [CHR 0xE2, CHR 0x80, CHR 0xA6]"

definition maskSecret :: "string \<Rightarrow> string" where
  "maskSecret s = (if length s > 8 then take 4 s @ ellipsis @ drop (length s - 4) s else ellipsis)"

definition display_secret :: "string \<Rightarrow> string" where
  "display_secret current = (if current \<noteq> [] \<and> \<not> IsEnvRef current then maskSecret current else current)"

function askSecret :: "string \<Rightarrow> string \<Rightarrow> wizard \<Rightarrow> string \<times> wizard" where
  "askSecret label current w =
     (case read (say (Prompt label (display_secret current)) w) of
        (None, w') \<Rightarrow> (current, w')
      | (Some s, w') \<Rightarrow>
          if s = [] \<or> s = ''-'' then
            (if current \<noteq> [] \<and> s = [] then (current, w')
             else askSecret label current (say (Note ''    a value is required'' []) w'))
          else (s, w'))"
  by pat_completeness auto
termination
  by (relation "measure (\<lambda>(_, _, w). fuel w)")
    (auto simp: read_def fuel_def say_def split: if_splits list.splits)

function askInt :: "string \<Rightarrow> int \<Rightarrow> wizard \<Rightarrow> int \<times> wizard" where
  "askInt label current w =
     (let (s, w') = ask label (itoa current) w
      in if wz_err w' then (current, w')
         else case atoi s of
             Some n \<Rightarrow> (n, w')
           | None \<Rightarrow> askInt label current (say (Note ''    not a number: '' [s]) w'))"
  by pat_completeness auto
termination
  by (relation "measure (\<lambda>(_, _, w). fuel w)") (auto, metis ask_stopped fuel_ask prod.sel(2))

definition int64_text :: "int \<Rightarrow> string" where
  "int64_text current = (if current \<noteq> 0 then itoa current else [])"

function askInt64 :: "string \<Rightarrow> int \<Rightarrow> wizard \<Rightarrow> int \<times> wizard" where
  "askInt64 label current w =
     (let (s, w') = ask label (int64_text current) w
      in if wz_err w' then (current, w')
         else if s = [] then askInt64 label current (say (Note ''    a value is required'' []) w')
         else case atoi s of
             Some n \<Rightarrow> (n, w')
           | None \<Rightarrow> askInt64 label current (say (Note ''    not a number: '' [s]) w'))"
  by pat_completeness auto
termination
  by (relation "measure (\<lambda>(_, _, w). fuel w)") (auto, (metis ask_stopped fuel_ask prod.sel(2))+)

definition bool_text :: "bool \<Rightarrow> string" where
  "bool_text current = (if current then ''Y/n'' else ''y/N'')"

function askBool :: "string \<Rightarrow> bool \<Rightarrow> wizard \<Rightarrow> bool \<times> wizard" where
  "askBool label current w =
     (case read (say (Prompt label (bool_text current)) w) of
        (None, w') \<Rightarrow> (current, w')
      | (Some s, w') \<Rightarrow>
          if s = [] then (current, w')
          else if to_lower s = ''y'' \<or> to_lower s = ''yes'' then (True, w')
          else if to_lower s = ''n'' \<or> to_lower s = ''no'' then (False, w')
          else askBool label current (say (Note ''    answer y or n'' []) w'))"
  by pat_completeness auto
termination
  by (relation "measure (\<lambda>(_, _, w). fuel w)")
    (auto simp: read_def fuel_def say_def split: if_splits list.splits)

definition choice_prompt :: "string \<Rightarrow> string list \<Rightarrow> string" where
  "choice_prompt label options = label @ '' ('' @ join_str ''|'' options @ '')''"

function askChoice :: "string \<Rightarrow> string list \<Rightarrow> string \<Rightarrow> wizard \<Rightarrow> string \<times> wizard" where
  "askChoice label options current w =
     (let (s, w') = ask (choice_prompt label options) current w
      in if wz_err w' then (current, w')
         else case find (equal_fold s) options of
             Some c \<Rightarrow> (c, w')
           | None \<Rightarrow> askChoice label options current (say (Note ''    choose one of: '' options) w'))"
  by pat_completeness auto
termination
  by (relation "measure (\<lambda>(_, _, _, w). fuel w)") (auto, metis ask_stopped fuel_ask prod.sel(2))

definition askList :: "string \<Rightarrow> string list \<Rightarrow> wizard \<Rightarrow> string list \<times> wizard" where
  "askList label current w =
     (let (s, w') = ask (label @ '' (comma-separated)'') (join_str '', '' current) w
      in (filter (\<lambda>p. p \<noteq> []) (map trim_space (split_char CHR '','' s)), w'))"

declare askRequired.simps [simp del] askSecret.simps [simp del] askInt.simps [simp del]
  askInt64.simps [simp del] askBool.simps [simp del] askChoice.simps [simp del]

definition duration_current :: "int \<Rightarrow> int \<Rightarrow> int" where
  "duration_current current fallback = (if current = 0 then fallback else current)"

function ask_duration :: "string \<Rightarrow> int \<Rightarrow> wizard \<Rightarrow> int \<times> wizard" where
  "ask_duration label current w =
     (let (s, w') = ask label (duration_String current) w
      in if wz_err w' then (current, w')
         else case ParseDuration s of
             Inr d \<Rightarrow> (d, w')
           | Inl _ \<Rightarrow> ask_duration label current (say (Note ''    not a duration (like 15s or 5m): '' [s]) w'))"
  by pat_completeness auto
termination
  by (relation "measure (\<lambda>(_, _, w). fuel w)") (auto, metis ask_stopped fuel_ask prod.sel(2))

declare ask_duration.simps [simp del]

definition askDuration :: "string \<Rightarrow> int \<Rightarrow> int \<Rightarrow> wizard \<Rightarrow> int \<times> wizard" where
  "askDuration label current fallback w = ask_duration label (duration_current current fallback) w"

text \<open>What the wizard meets: the machine, the \<open>gh\<close> tool, the codecs.\<close>

record wizard_env =
  we_host :: host
  we_orgs :: "string list"
  we_login :: string
  we_marshal :: "Config \<Rightarrow> string + string"
  we_decode :: "string \<Rightarrow> string + Config"

text \<open>
  What the \<open>gh\<close> tool says of the user (\<open>ghOrgsLive\<close>, \<open>ghLoginLive\<close>), from whether it is there and the
  output or the error of its run; \<open>strings.Fields\<close> are the words between spaces.
\<close>

function fields :: "string \<Rightarrow> string list" where
  "fields s =
     (let r = dropWhile is_space s
      in if r = [] then [] else takeWhile (\<lambda>c. \<not> is_space c) r # fields (dropWhile (\<lambda>c. \<not> is_space c) r))"
  by pat_completeness auto
termination
proof (relation "measure length")
  fix s r :: string
  assume r: "r = dropWhile is_space s" "r \<noteq> []"
  then obtain c t where c: "r = c # t" "\<not> is_space c"
    by (metis hd_Cons_tl hd_dropWhile)
  have "length (dropWhile (\<lambda>c. \<not> is_space c) r) \<le> length t" using c by (simp add: length_dropWhile_le)
  also have "\<dots> < length r" using c by simp
  also have "\<dots> \<le> length s" unfolding r(1) by (rule length_dropWhile_le)
  finally show "(dropWhile (\<lambda>c. \<not> is_space c) r, s) \<in> measure length" by simp
qed simp

declare fields.simps [simp del]

definition ghOrgsLive :: "bool \<Rightarrow> string + string \<Rightarrow> string list" where
  "ghOrgsLive installed run = (if \<not> installed then [] else case run of Inl e \<Rightarrow> [] | Inr out \<Rightarrow> fields out)"

definition ghLoginLive :: "bool \<Rightarrow> string + string \<Rightarrow> string" where
  "ghLoginLive installed run = (if \<not> installed then [] else case run of Inl e \<Rightarrow> [] | Inr out \<Rightarrow> trim_space out)"

text \<open>No word is empty or holds a space, so no organization that is offered is.\<close>

lemma fields_words: "x \<in> set (fields s) \<Longrightarrow> x \<noteq> [] \<and> list_all (\<lambda>c. \<not> is_space c) x"
proof (induction s rule: fields.induct)
  case (1 s)
  let ?r = "dropWhile is_space s"
  have ne: "?r \<noteq> []" using "1.prems" by (subst (asm) fields.simps) (auto simp: Let_def split: if_splits)
  then have "takeWhile (\<lambda>c. \<not> is_space c) ?r \<noteq> []" by (metis hd_Cons_tl hd_dropWhile list.distinct(1) takeWhile.simps(2))
  moreover have "fields s = takeWhile (\<lambda>c. \<not> is_space c) ?r # fields (dropWhile (\<lambda>c. \<not> is_space c) ?r)"
    by (subst fields.simps) (simp only: Let_def ne if_False)
  with "1.prems" have "x = takeWhile (\<lambda>c. \<not> is_space c) ?r \<or> x \<in> set (fields (dropWhile (\<lambda>c. \<not> is_space c) ?r))"
    by simp
  moreover have "list_all (\<lambda>c. \<not> is_space c) (takeWhile (\<lambda>c. \<not> is_space c) ?r)"
    by (auto simp: list_all_iff dest: set_takeWhileD)
  ultimately show ?case using "1.IH" [OF refl ne] by metis
qed

section \<open>The account\<close>

definition zero_app :: AppAuth where
  "zero_app = \<lparr> app_AppID = 0, app_InstallationID = 0, app_PrivateKey = [], app_PrivateKeyPath = [] \<rparr>"

definition ask_credential :: "GitHub \<Rightarrow> wizard \<Rightarrow> GitHub \<times> wizard" where
  "ask_credential g w =
     (let method = (if gh_App g \<noteq> None then ''app'' else ''token'');
          (c, w1) = askChoice ''  auth method'' [''token'', ''app''] method w
      in if c = ''token'' then
           (let tok = (if gh_Token g = [] then ''${GITHUB_TOKEN}'' else gh_Token g);
                (t, w2) = askSecret ''  token (a PAT with admin:org, or ${GITHUB_TOKEN} to read the environment)'' tok w1
            in (g\<lparr>gh_App := None, gh_Token := t\<rparr>, w2))
         else if c = ''app'' then
           (let a = (case gh_App g of Some a \<Rightarrow> a | None \<Rightarrow> zero_app);
                (i, w2) = askInt64 ''  app id'' (app_AppID a) w1;
                (j, w3) = askInt64 ''  installation id'' (app_InstallationID a) w2;
                (k, w4) = (if app_PrivateKey a = [] then askRequired ''  private key path (PEM)'' (app_PrivateKeyPath a) w3
                           else (app_PrivateKeyPath a, w3))
            in (g\<lparr>gh_Token := [], gh_App := Some (a\<lparr>app_AppID := i, app_InstallationID := j, app_PrivateKeyPath := k\<rparr>)\<rparr>, w4))
         else (g, w1))"

definition ask_account :: "wizard_env \<Rightarrow> GitHub \<Rightarrow> wizard \<Rightarrow> GitHub \<times> wizard" where
  "ask_account E g w =
     (let (c, w1) = askChoice ''  runners belong to'' [''organization'', ''personal'']
                      (if gh_Owner g \<noteq> [] then ''personal'' else ''organization'') w
      in if c = ''organization'' then
           (let prefill = (gh_Org g = [] \<and> we_orgs E \<noteq> []);
                w2 = (if prefill \<and> length (we_orgs E) > 1
                      then say (Note ''  your organizations (from gh): '' (we_orgs E)) w1 else w1);
                (v, w3) = askRequired ''  organization'' (if prefill then hd (we_orgs E) else gh_Org g) w2
            in (g\<lparr>gh_Owner := [], gh_Org := v\<rparr>, w3))
         else if c = ''personal'' then
           (let (v, w2) = askRequired ''  username'' (if gh_Owner g = [] then we_login E else gh_Owner g) w1
            in (g\<lparr>gh_Org := [], gh_Owner := v\<rparr>, w2))
         else (g, w1))"

definition askGitHubAuth :: "wizard_env \<Rightarrow> Config \<Rightarrow> wizard \<Rightarrow> Config \<times> wizard" where
  "askGitHubAuth E cfg w =
     (let (g, w1) = ask_credential (cfg_GitHub cfg) w; (g', w2) = ask_account E g w1
      in (cfg\<lparr>cfg_GitHub := g'\<rparr>, w2))"

section \<open>The pools\<close>

definition empty_pool :: Pool where
  "empty_pool = \<lparr> pool_Name = [], pool_Labels = [], pool_Provider = [], pool_Min = 0, pool_Max = 0,
     pool_IdleTimeout = 0, pool_JobTimeout = 0, pool_RunnerGroup = [], pool_Docker = None, pool_Process = None \<rparr>"

definition defaultLabels :: "host \<Rightarrow> string \<Rightarrow> string list" where
  "defaultLabels h prov =
     (if prov = ProviderProcess \<and> GOOS h = ''darwin'' then [''self-hosted'', ''macos'', ''arm64'']
      else if prov = ProviderProcess \<and> GOOS h = ''windows'' then [''self-hosted'', ''windows'', ''x64'']
      else [''self-hosted'', ''linux'', ''x64''])"

definition orgPlaceholder :: "Config \<Rightarrow> string" where
  "orgPlaceholder cfg =
     (let e = Entity (cfg_GitHub cfg) in if e \<noteq> [] \<and> \<not> IsEnvRef e then e else ''OWNER'')"

definition suggested_image :: "Config \<Rightarrow> string" where
  "suggested_image cfg = ''ghcr.io/'' @ orgPlaceholder cfg @ ''/arc-runner:linux''"

definition defaultPool :: "host \<Rightarrow> Config \<Rightarrow> Pool" where
  "defaultPool h cfg =
     (if GOOS h = ''darwin'' then
        empty_pool\<lparr>pool_Name := ''macos'', pool_Labels := defaultLabels h ProviderProcess,
          pool_Provider := ProviderProcess, pool_Min := 0, pool_Max := 4\<rparr>
      else if GOOS h = ''windows'' then
        empty_pool\<lparr>pool_Name := ''windows'', pool_Labels := defaultLabels h ProviderProcess,
          pool_Provider := ProviderProcess, pool_Min := 0, pool_Max := 2\<rparr>
      else
        empty_pool\<lparr>pool_Name := ''linux'', pool_Labels := defaultLabels h ProviderDocker,
          pool_Provider := ProviderDocker, pool_Min := 0, pool_Max := 4,
          pool_Docker := Some (empty_docker\<lparr>d_Image := suggested_image cfg, d_Pull := ''missing''\<rparr>)\<rparr>)"

function ask_labels :: "string list \<Rightarrow> string list \<Rightarrow> wizard \<Rightarrow> string list \<times> wizard" where
  "ask_labels dflt current w =
     (let (ls, w') = askList ''    labels'' current w
      in if ls \<noteq> [] \<or> wz_err w' then (ls, w')
         else ask_labels dflt dflt (say (Note ''    at least one label is required'' []) w'))"
  by pat_completeness auto
termination
  by (relation "measure (\<lambda>(_, _, w). fuel w)")
    (auto simp: askList_def split: prod.splits, metis ask_stopped fuel_ask prod.sel(2))

declare ask_labels.simps [simp del]

definition ask_docker :: "Config \<Rightarrow> Pool \<Rightarrow> wizard \<Rightarrow> Pool \<times> wizard" where
  "ask_docker cfg p w =
     (let d = (case pool_Docker p of Some d \<Rightarrow> d | None \<Rightarrow> empty_docker\<lparr>d_Pull := ''missing''\<rparr>);
          (img, w1) = askRequired ''    image'' (if d_Image d = [] then suggested_image cfg else d_Image d) w
      in (p\<lparr>pool_Process := None, pool_Docker := Some (d\<lparr>d_Image := img\<rparr>)\<rparr>, w1))"

definition ask_process :: "host \<Rightarrow> Pool \<Rightarrow> wizard \<Rightarrow> Pool \<times> wizard" where
  "ask_process h p w =
     (let s = (case pool_Process p of Some s \<Rightarrow> s | None \<Rightarrow> empty_process);
          tpl = (if p_TemplateDir s \<noteq> [] then p_TemplateDir s
                 else case UserHomeDir h of Some home \<Rightarrow> filepath_join [home, ''.arc'', ''runner-template''] | None \<Rightarrow> []);
          (t, w1) = ask ''    runner template dir'' tpl w
      in (p\<lparr>pool_Docker := None, pool_Process := Some (s\<lparr>p_TemplateDir := t\<rparr>)\<rparr>, w1))"

definition initial_provider :: "host \<Rightarrow> Pool \<Rightarrow> string" where
  "initial_provider h p = or_default [] (default_provider h) (pool_Provider p)"

definition editPool :: "wizard_env \<Rightarrow> Config \<Rightarrow> Pool \<Rightarrow> wizard \<Rightarrow> Pool \<times> wizard" where
  "editPool E cfg p w =
     (let (name, w1) = askRequired ''    name'' (pool_Name p) w;
          (prov, w2) = askChoice ''    provider (docker = containers; process = bare processes, required for macOS)''
                         [ProviderDocker, ProviderProcess] (initial_provider (we_host E) p) w1;
          dflt = defaultLabels (we_host E) prov;
          (labels, w3) = ask_labels dflt (or_default [] dflt (pool_Labels p)) w2;
          (mn, w4) = askInt ''    min warm runners'' (pool_Min p) w3;
          (mx, w5) = askInt ''    max runners'' (or_default 0 4 (pool_Max p)) w4;
          q = p\<lparr>pool_Name := name, pool_Provider := prov, pool_Labels := labels, pool_Min := mn, pool_Max := mx\<rparr>
      in if prov = ProviderDocker then ask_docker cfg q w5
         else if prov = ProviderProcess then ask_process (we_host E) q w5
         else (q, w5))"

definition pool_label :: "Pool \<Rightarrow> string" where
  "pool_label p =
     ''  pool '' @ [CHR 0x22] @ pool_Name p @ [CHR 0x22] @ '' ('' @ pool_Provider p @ '', labels '' @ join_str ''/'' (pool_Labels p)
     @ '', min '' @ itoa (pool_Min p) @ '' max '' @ itoa (pool_Max p) @ '')''"

text \<open>The pools there are: keep, edit or delete each; nil entries go.\<close>

fun walk_pools :: "wizard_env \<Rightarrow> Config \<Rightarrow> Pool option list \<Rightarrow> wizard \<Rightarrow> Pool option list \<times> wizard" where
  "walk_pools E cfg [] w = ([], w)"
| "walk_pools E cfg (None # ps) w = walk_pools E cfg ps w"
| "walk_pools E cfg (Some p # ps) w =
     (let (c, w1) = askChoice (pool_label p) [''keep'', ''edit'', ''delete''] ''keep'' w
      in if c = ''keep'' then (let (kept, w2) = walk_pools E cfg ps w1 in (Some p # kept, w2))
         else if c = ''edit'' then
           (let (p', w2) = editPool E cfg p w1; (kept, w3) = walk_pools E cfg ps w2 in (Some p' # kept, w3))
         else walk_pools E cfg ps w1)"

section \<open>Every question costs input\<close>

named_theorems fuel_le \<open>no question gives input back\<close>

lemma fuel_le_ask [fuel_le]: "fuel (snd (ask label current w)) \<le> fuel w"
  by (cases "wz_err w") (simp_all add: less_imp_le [OF fuel_ask [OF surjective_pairing]])

lemma fuel_le_read [fuel_le]: "fuel (snd (read w)) \<le> fuel w"
  by (cases "wz_err w") (simp_all add: less_imp_le [OF fuel_read [OF surjective_pairing]])

lemma fuel_le_say_read: "fuel (snd (read (say p w))) \<le> fuel w"
  using fuel_le_read [of "say p w"] by simp

lemma fuel_le_askRequired [fuel_le]: "fuel (snd (askRequired label current w)) \<le> fuel w"
proof (induction label current w rule: askRequired.induct)
  case (1 label current w)
  note le = order_trans [OF "1.IH" [OF refl prod.collapse]]
  show ?case
    by (subst askRequired.simps) (auto simp: split_beta Let_def split: option.split intro!: le fuel_le_ask)
qed

lemma fuel_le_askInt [fuel_le]: "fuel (snd (askInt label current w)) \<le> fuel w"
proof (induction label current w rule: askInt.induct)
  case (1 label current w)
  note le = order_trans [OF "1.IH" [OF refl prod.collapse]]
  show ?case
    by (subst askInt.simps) (auto simp: split_beta Let_def split: option.split intro!: le fuel_le_ask)
qed

lemma fuel_le_askChoice [fuel_le]: "fuel (snd (askChoice label options current w)) \<le> fuel w"
proof (induction label options current w rule: askChoice.induct)
  case (1 label options current w)
  note le = order_trans [OF "1.IH" [OF refl prod.collapse]]
  show ?case
    by (subst askChoice.simps) (auto simp: split_beta Let_def split: option.split intro!: le fuel_le_ask)
qed

lemma fuel_le_ask_duration [fuel_le]: "fuel (snd (ask_duration label current w)) \<le> fuel w"
proof (induction label current w rule: ask_duration.induct)
  case (1 label current w)
  note le = order_trans [OF "1.IH" [OF refl prod.collapse]]
  show ?case
    by (subst ask_duration.simps) (auto simp: split_beta Let_def split: sum.split intro!: le fuel_le_ask)
qed

lemma fuel_le_askList [fuel_le]: "fuel (snd (askList label current w)) \<le> fuel w"
  by (simp add: askList_def split_beta Let_def fuel_le_ask)

lemma fuel_le_ask_labels [fuel_le]: "fuel (snd (ask_labels dflt current w)) \<le> fuel w"
proof (induction dflt current w rule: ask_labels.induct)
  case (1 dflt current w)
  note le = order_trans [OF "1.IH" [OF refl prod.collapse]]
  show ?case
    by (subst ask_labels.simps) (auto simp: split_beta Let_def split: option.split intro!: le fuel_le_askList)
qed

lemma fuel_le_askInt64 [fuel_le]: "fuel (snd (askInt64 label current w)) \<le> fuel w"
proof (induction label current w rule: askInt64.induct)
  case (1 label current w)
  note le = order_trans [OF "1.IH"(1) [OF refl prod.collapse]] order_trans [OF "1.IH"(2) [OF refl prod.collapse]]
  show ?case
    by (subst askInt64.simps) (auto simp: split_beta Let_def split: option.split intro!: le fuel_le_ask)
qed

lemma fuel_le_askBool [fuel_le]: "fuel (snd (askBool label current w)) \<le> fuel w"
proof (induction label current w rule: askBool.induct)
  case (1 label current w)
  note le = order_trans [OF "1.IH" [OF prod.collapse]]
  show ?case
    by (subst askBool.simps) (auto simp: split_beta split: option.split intro!: le fuel_le_say_read)
qed

lemma fuel_le_askSecret [fuel_le]: "fuel (snd (askSecret label current w)) \<le> fuel w"
proof (induction label current w rule: askSecret.induct)
  case (1 label current w)
  obtain r w1 where a: "read (say (Prompt label (display_secret current)) w) = (r, w1)" by fastforce
  have le: "fuel w1 \<le> fuel w" using fuel_le_say_read [of "Prompt label (display_secret current)" w] a by simp
  show ?case
  proof (cases r)
    case None
    with a le show ?thesis by (subst askSecret.simps) simp
  next
    case (Some s)
    note again = order_trans [OF "1.IH" [OF a [symmetric] Some]]
    show ?thesis
      by (subst askSecret.simps, unfold a Some prod.case option.case)
        (cases "s = [] \<or> s = ''-''"; cases "current \<noteq> [] \<and> s = []"; simp add: le again)
  qed
qed

text \<open>The first question of a group is a real one: what it takes is strictly less.\<close>

lemma fuel_askRequired: "\<not> wz_err w \<Longrightarrow> fuel (snd (askRequired label current w)) < fuel w"
  using fuel_ask [OF surjective_pairing, of w label current]
  by (subst askRequired.simps)
    (auto simp: split_beta Let_def intro: le_less_trans [OF fuel_le_askRequired])

lemma fuel_askChoice: "\<not> wz_err w \<Longrightarrow> fuel (snd (askChoice label options current w)) < fuel w"
  using fuel_ask [OF surjective_pairing, of w "choice_prompt label options" current]
  by (subst askChoice.simps)
    (auto simp: split_beta Let_def split: option.split intro: le_less_trans [OF fuel_le_askChoice])

lemma fuel_askBool: "\<not> wz_err w \<Longrightarrow> fuel (snd (askBool label current w)) < fuel w"
  using fuel_read [OF surjective_pairing, of "say (Prompt label (bool_text current)) w"]
  by (subst askBool.simps)
    (auto simp: split_beta split: option.split intro: le_less_trans [OF fuel_le_askBool])

lemma fuel_le_askRequired_eq: "askRequired label current w = (r, w') \<Longrightarrow> fuel w' \<le> fuel w"
  by (metis fuel_le_askRequired snd_conv)

lemma fuel_le_ask_docker: "fuel (snd (ask_docker cfg p w)) \<le> fuel w"
  by (auto simp: ask_docker_def split_beta Let_def fuel_le)

lemma fuel_le_ask_process: "fuel (snd (ask_process h p w)) \<le> fuel w"
  by (auto simp: ask_process_def split_beta Let_def fuel_le)

lemma fuel_editPool: "fuel (snd (editPool E cfg p w)) \<le> fuel (snd (askRequired ''    name'' (pool_Name p) w))"
proof -
  obtain name w1 where 1: "askRequired ''    name'' (pool_Name p) w = (name, w1)" by fastforce
  obtain prov w2 where 2: "askChoice ''    provider (docker = containers; process = bare processes, required for macOS)''
      [ProviderDocker, ProviderProcess] (initial_provider (we_host E) p) w1 = (prov, w2)" by fastforce
  let ?dflt = "defaultLabels (we_host E) prov"
  obtain labels w3 where 3: "ask_labels ?dflt (or_default [] ?dflt (pool_Labels p)) w2 = (labels, w3)" by fastforce
  obtain mn w4 where 4: "askInt ''    min warm runners'' (pool_Min p) w3 = (mn, w4)" by fastforce
  obtain mx w5 where 5: "askInt ''    max runners'' (or_default 0 4 (pool_Max p)) w4 = (mx, w5)" by fastforce
  have "fuel w2 \<le> fuel w1" "fuel w3 \<le> fuel w2" "fuel w4 \<le> fuel w3" "fuel w5 \<le> fuel w4"
    using fuel_le 2 3 4 5 by (metis snd_conv)+
  then have "fuel w5 \<le> fuel w1" by simp
  then show ?thesis
    by (auto simp: editPool_def 1 2 3 4 5 Let_def intro: order_trans [OF fuel_le_ask_docker] order_trans [OF fuel_le_ask_process])
qed

lemma fuel_less_editPool: "\<not> wz_err w \<Longrightarrow> fuel (snd (editPool E cfg p w)) < fuel w"
  by (rule le_less_trans [OF fuel_editPool fuel_askRequired])

section \<open>Adding pools\<close>

function add_pools :: "wizard_env \<Rightarrow> Config \<Rightarrow> Pool option list \<Rightarrow> wizard \<Rightarrow> Pool option list \<times> wizard" where
  "add_pools E cfg ps w =
     (if wz_err w then (ps, w)
      else if ps = [] then
        (let (p, w1) = editPool E cfg empty_pool (say (Note ''  at least one pool is required'' []) w)
         in add_pools E cfg [Some p] w1)
      else
        (let (more, w1) = askBool ''  add another pool?'' False w
         in if more then (let (p, w2) = editPool E cfg empty_pool w1 in add_pools E cfg (ps @ [Some p]) w2)
            else (ps, w1)))"
  by pat_completeness auto
termination
proof (relation "measure (\<lambda>(_, _, _, w). fuel w)", goal_cases)
  case 1
  show ?case by simp
next
  case (2 E cfg ps w x p w1)
  have "w1 = snd (editPool E cfg empty_pool (say (Note ''  at least one pool is required'' []) w))"
    using 2(3,4) by (metis snd_conv)
  then show ?case
    using fuel_less_editPool [of "say (Note ''  at least one pool is required'' []) w" E cfg empty_pool] 2(1) by simp
next
  case (3 E cfg ps w x more w1 y p w2)
  have "w1 = snd (askBool ''  add another pool?'' False w)" "w2 = snd (editPool E cfg empty_pool w1)"
    using 3(3,4,6,7) by (metis snd_conv)+
  then show ?case
    using fuel_askBool [of w "''  add another pool?''" False] 3(1)
      le_trans [OF fuel_editPool fuel_le_askRequired, of E cfg empty_pool w1] by simp
qed

declare add_pools.simps [simp del]

definition customize :: "wizard_env \<Rightarrow> Config \<Rightarrow> wizard \<Rightarrow> Config \<times> wizard" where
  "customize E cfg w =
     (let (d, w1) = askDuration ''  poll interval'' (gh_PollInterval (cfg_GitHub cfg)) DefaultPollInterval w;
          (g, w2) = ask ''  runner group (empty = Default)'' (gh_RunnerGroup (cfg_GitHub cfg)) w1;
          cfg1 = cfg\<lparr>cfg_GitHub := (cfg_GitHub cfg)\<lparr>gh_PollInterval := d, gh_RunnerGroup := g\<rparr>\<rparr>;
          (kept, w3) = walk_pools E cfg1 (cfg_Pools cfg1) w2;
          (ps, w4) = add_pools E cfg1 kept w3
      in (cfg1\<lparr>cfg_Pools := ps\<rparr>, w4))"

section \<open>Verification\<close>

datatype verify_failure = BadCredential string | NoAccess gherr | ApiFailure gherr

datatype verification = VerifyOk nat nat | VerifySkipped string | VerifyFailed verify_failure

text \<open>\<open>Config.Resolve\<close>: the configuration through its text form and the normal load.\<close>

definition Resolve :: "wizard_env \<Rightarrow> Config \<Rightarrow> string + Config" where
  "Resolve E cfg =
     (case we_marshal E cfg of
        Inl e \<Rightarrow> Inl e
      | Inr raw \<Rightarrow> (case Parse (we_host E) (we_decode E) raw of Inl _ \<Rightarrow> Inl ''resolve'' | Inr c \<Rightarrow> Inr c))"

definition classify_failure :: "gherr \<Rightarrow> verification" where
  "classify_failure e =
     (case cause e of
        APIError _ _ _ \<Rightarrow>
          if IsNotFound e \<or> IsForbidden e then VerifyFailed (NoAccess e) else VerifyFailed (ApiFailure e)
      | _ \<Rightarrow> VerifySkipped ''cannot reach GitHub'')"

text \<open>
  \<open>verifyGitHubLive\<close>: the client for the resolved credentials is \<open>H\<close>, unless it cannot be made.
\<close>

definition verifyGitHubLive ::
  "wizard_env \<Rightarrow> (GitHub \<Rightarrow> string + 'w http) \<Rightarrow> Config \<Rightarrow> ('w, verification) cl" where
  "verifyGitHubLive E H cfg =
     (case Resolve E cfg of
            Inl e \<Rightarrow> ret (VerifySkipped e)
          | Inr resolved \<Rightarrow>
              (let g = cfg_GitHub resolved; c = settings_of g; rf = gh_Repos g
               in case H g of
                    Inl e \<Rightarrow> ret (VerifyFailed (BadCredential e))
                  | Inr h \<Rightarrow> do {
                      rs \<leftarrow> ListRepos h c \<lparr> fo_Include = rf_Include rf, fo_Exclude = rf_Exclude rf,
                               fo_ActiveWithin = rf_ActiveWithin rf, fo_Archived = rf_Archived rf \<rparr>;
                      case rs of
                        Inl e \<Rightarrow> ret (classify_failure e)
                      | Inr repos \<Rightarrow> do {
                          us \<leftarrow> ListRunners h c repos;
                          ret (case us of Inl e \<Rightarrow> classify_failure e
                                 | Inr runners \<Rightarrow> VerifyOk (length repos) (length runners)) } }))"

lemma fuel_le_askGitHubAuth: "fuel (snd (askGitHubAuth E cfg w)) \<le> fuel w"
proof -
  have c: "fuel (snd (ask_credential g w)) \<le> fuel w" for g w
  proof -
    obtain m w1 where 1: "askChoice ''  auth method'' [''token'', ''app'']
        (if gh_App g \<noteq> None then ''app'' else ''token'') w = (m, w1)" by fastforce
    let ?a = "case gh_App g of Some a \<Rightarrow> a | None \<Rightarrow> zero_app"
    obtain i w2 where 2: "askInt64 ''  app id'' (app_AppID ?a) w1 = (i, w2)" by fastforce
    obtain j w3 where 3: "askInt64 ''  installation id'' (app_InstallationID ?a) w2 = (j, w3)" by fastforce
    have "fuel w1 \<le> fuel w" "fuel w2 \<le> fuel w1" "fuel w3 \<le> fuel w2" using fuel_le 1 2 3 by (metis snd_conv)+
    with 1 2 3 show ?thesis
      by (auto simp: ask_credential_def Let_def split_beta intro: order_trans [OF fuel_le_askSecret]
          order_trans [OF fuel_le_askRequired])
  qed
  have a: "fuel (snd (ask_account E g w)) \<le> fuel w" for g w
  proof -
    obtain m w1 where 1: "askChoice ''  runners belong to'' [''organization'', ''personal'']
        (if gh_Owner g \<noteq> [] then ''personal'' else ''organization'') w = (m, w1)" by fastforce
    have "fuel w1 \<le> fuel w" using fuel_le 1 by (metis snd_conv)
    with 1 show ?thesis
      by (auto simp: ask_account_def Let_def split_beta intro!: order_trans [OF fuel_le_askRequired])
  qed
  show ?thesis
    by (simp add: askGitHubAuth_def split_beta Let_def order_trans [OF a c])
qed

text \<open>
  \<open>confirmGitHub\<close>: \<open>verify n\<close> is what the n-th verification answers; \<open>False\<close> when the user aborts.
\<close>

function confirmGitHub ::
  "wizard_env \<Rightarrow> (nat \<Rightarrow> Config \<Rightarrow> verification) \<Rightarrow> nat \<Rightarrow> Config \<Rightarrow> wizard \<Rightarrow> (bool \<times> Config) \<times> wizard" where
  "confirmGitHub E verify n cfg w =
     (if wz_err w then ((True, cfg), w)
      else case verify n cfg of
          VerifyOk _ _ \<Rightarrow> ((True, cfg), say (Note ''verified'' []) w)
        | VerifySkipped why \<Rightarrow> ((True, cfg), say (Note ''verification skipped'' [why]) w)
        | VerifyFailed _ \<Rightarrow>
            (let (c, w1) = askChoice ''  github verification failed'' [''retry'', ''write-anyway'', ''abort''] ''retry''
                             (say (Note ''verification failed'' []) w)
             in if c = ''write-anyway'' then ((True, cfg), w1)
                else if c = ''abort'' then ((False, cfg), w1)
                else (let (cfg', w2) = (if c = ''retry'' then askGitHubAuth E cfg w1 else (cfg, w1))
                      in confirmGitHub E verify (Suc n) cfg' w2)))"
  by pat_completeness auto
termination
proof (relation "measure (\<lambda>(_, _, _, _, w). fuel w)", goal_cases)
  case 1
  show ?case by simp
next
  case (2 E verify n cfg w v x c w1 y cfg' w2)
  let ?ask = "askChoice ''  github verification failed'' [''retry'', ''write-anyway'', ''abort''] ''retry''
    (say (Note ''verification failed'' []) w)"
  have "fuel w2 \<le> fuel w1"
    using 2(7,8) fuel_le_askGitHubAuth [of E cfg w1] by (metis order_refl snd_conv)
  moreover have "w1 = snd ?ask" using 2(3,4) by (metis snd_conv)
  moreover have "fuel (snd ?ask) < fuel w"
    using fuel_askChoice [of "say (Note ''verification failed'' []) w"] 2(1) by simp
  ultimately show ?case by simp
qed

declare confirmGitHub.simps [simp del]

section \<open>The session (\<open>runConfigWizard\<close>)\<close>

datatype start = Existing string | Missing | Unreadable string

definition new_config :: Config where
  "new_config = empty_config\<lparr>
     cfg_GitHub := empty_github\<lparr>gh_Token := ''${GITHUB_TOKEN}'', gh_PollInterval := DefaultPollInterval\<rparr>,
     cfg_Server := \<lparr> srv_Addr = DefaultAddr, srv_StateDir = [], srv_Token = [] \<rparr>,
     cfg_Log := \<lparr> log_Level = ''info'', log_Format = ''text'' \<rparr>\<rparr>"

definition initial_config :: "wizard_env \<Rightarrow> start \<Rightarrow> string + Config" where
  "initial_config E st =
     (case st of
        Existing raw \<Rightarrow> (case we_decode E raw of
            Inl e \<Rightarrow> Inl (''exists but does not parse: '' @ e)
          | Inr cfg \<Rightarrow> Inr cfg)
      | Missing \<Rightarrow> Inr new_config
      | Unreadable e \<Rightarrow> Inl (''read: '' @ e))"

text \<open>The questions, up to the verification.\<close>

definition questions :: "wizard_env \<Rightarrow> Config \<Rightarrow> wizard \<Rightarrow> Config \<times> wizard" where
  "questions E cfg w =
     (let (cfg1, w1) = askGitHubAuth E cfg w;
          (more, w2) = askBool ''customize the configuration (poll interval, runner group, pools)?'' False w1
      in if more then customize E cfg1 w2
         else if cfg_Pools cfg1 = [] then
           (let p = defaultPool (we_host E) cfg1
            in (cfg1\<lparr>cfg_Pools := [Some p]\<rparr>, say (Note ''  default pool '' [pool_Name p]) w2))
         else (cfg1, w2))"

text \<open>What is to be written, or why nothing is.\<close>

definition assemble ::
  "wizard_env \<Rightarrow> (nat \<Rightarrow> Config \<Rightarrow> verification) \<Rightarrow> Config \<Rightarrow> string list \<Rightarrow> string + string" where
  "assemble E verify cfg0 lines =
     (let (cfg, w) = questions E cfg0 \<lparr> wz_in = lines, wz_err = False, wz_out = [] \<rparr>
      in if wz_err w then Inl ''aborted (input ended); nothing was written''
         else (let ((ok, cfg'), w') = confirmGitHub E verify 0 cfg w
           in if \<not> ok then Inl ''aborted after failed GitHub verification; nothing was written''
              else if wz_err w' then Inl ''aborted (input ended); nothing was written''
              else case we_marshal E cfg' of
                  Inl e \<Rightarrow> Inl e
                | Inr rendered \<Rightarrow> (case CheckBytes (we_host E) (we_decode E) rendered of
                      Some _ \<Rightarrow> Inl ''the assembled config does not validate; nothing was written''
                    | None \<Rightarrow> Inr rendered)))"

text \<open>
  The file afterwards: \<open>mkdir\<close> is the error of making the directory, \<open>written\<close> what the write of
  the file does: it succeeds, or fails and leaves the file with some content.
\<close>

definition runConfigWizard ::
  "wizard_env \<Rightarrow> (nat \<Rightarrow> Config \<Rightarrow> verification) \<Rightarrow> string option \<Rightarrow> (string \<times> start) option \<Rightarrow> start \<Rightarrow> string list
    \<Rightarrow> string option \<times> start" where
  "runConfigWizard E verify mkdir write_fails st lines =
     (case initial_config E st of
        Inl e \<Rightarrow> (Some e, st)
      | Inr cfg0 \<Rightarrow> (case assemble E verify cfg0 lines of
            Inl e \<Rightarrow> (Some e, st)
          | Inr rendered \<Rightarrow> (case mkdir of
                Some e \<Rightarrow> (Some e, st)
              | None \<Rightarrow> (case write_fails of
                    Some (e, left) \<Rightarrow> (Some e, left)
                  | None \<Rightarrow> (None, Existing rendered)))))"

text \<open>The path of \<open>cmdConfig\<close>; \<open>None\<close> when there is none.\<close>

definition config_path :: "string \<Rightarrow> string \<Rightarrow> string option \<Rightarrow> string option" where
  "config_path flag env home =
     (if flag \<noteq> [] then Some flag
      else if env \<noteq> [] then Some env
      else DefaultUserPath home)"

end
