(* ===== verification/WizardProps.thy ===== *)
theory WizardProps
  imports Wizard ConfigProps DurationProps
begin

text \<open>
  A session of the configuration wizard writes a file only when the input lasted, and then one
  that loads; pressing Enter throughout changes nothing; an edited pool is well formed; a secret
  that is already there reaches the screen through its mask only.
\<close>

section \<open>A session that ends early\<close>

lemma err_fuel: "wz_err w \<longleftrightarrow> fuel w = 0"
  by (simp add: fuel_def)

text \<open>Two states of a session, the second after \<open>n\<close> more answers, if it has not ended.\<close>

definition took :: "nat \<Rightarrow> wizard \<Rightarrow> wizard \<Rightarrow> bool" where
  "took n w w' = (fuel w' \<noteq> 0 \<longrightarrow> fuel w' + n \<le> fuel w)"

lemma took_trans: "took n w w1 \<Longrightarrow> took k w1 w2 \<Longrightarrow> took (n + k) w w2"
  by (auto simp: took_def)

lemma took_0: "fuel w' \<le> fuel w \<Longrightarrow> took 0 w w'"
  by (simp add: took_def)

text \<open>
  The contract of a question: it never gives input back, and while the input lasts it takes a line
  or meets the end.
\<close>

locale question =
  fixes q :: "wizard \<Rightarrow> 'a \<times> wizard"
  assumes costs: "\<not> wz_err w \<Longrightarrow> fuel (snd (q w)) < fuel w"
    and keeps: "fuel (snd (q w)) \<le> fuel w"
begin

lemma took: "took 1 w (snd (q w))"
  using costs [of w] keeps [of w] by (cases "wz_err w") (auto simp: took_def err_fuel)

end

lemma fuel_askSecret: "\<not> wz_err w \<Longrightarrow> fuel (snd (askSecret label current w)) < fuel w"
  using fuel_read [OF surjective_pairing, of "say (Prompt label (display_secret current)) w"]
  by (subst askSecret.simps)
    (auto simp: split_beta le_less_trans [OF fuel_le_askSecret] split: option.split)

lemma fuel_askInt64: "\<not> wz_err w \<Longrightarrow> fuel (snd (askInt64 label current w)) < fuel w"
  using fuel_ask [OF surjective_pairing, of w label "int64_text current"]
  by (subst askInt64.simps)
    (simp add: split_beta Let_def le_less_trans [OF fuel_le_askInt64] split: option.split)

interpretation choice: question "askChoice label options current" for label options current
  by unfold_locales (simp_all add: fuel_askChoice fuel_le_askChoice)

interpretation required: question "askRequired label current" for label current
  by unfold_locales (simp_all add: fuel_askRequired fuel_le_askRequired)

interpretation bool: question "askBool label current" for label current
  by unfold_locales (simp_all add: fuel_askBool fuel_le_askBool)

interpretation secret: question "askSecret label current" for label current
  by unfold_locales (simp_all add: fuel_askSecret fuel_le_askSecret)

interpretation number: question "askInt64 label current" for label current
  by unfold_locales (simp_all add: fuel_askInt64 fuel_le_askInt64)

interpretation pool_edit: question "editPool E cfg p" for E cfg p
  by unfold_locales (simp_all add: fuel_less_editPool le_trans [OF fuel_editPool fuel_le_askRequired])

text \<open>A choice that was made is one of the options.\<close>

lemma askChoice_options:
  "\<not> wz_err (snd (askChoice label options current w)) \<Longrightarrow> fst (askChoice label options current w) \<in> set options"
proof (induction label options current w rule: askChoice.induct)
  case (1 label options current w)
  obtain s w1 where a: "ask (choice_prompt label options) current w = (s, w1)" by fastforce
  show ?case
  proof (cases "wz_err w1")
    case True
    with "1.prems" a show ?thesis by (simp add: askChoice.simps [of label options current w])
  next
    case False
    show ?thesis
    proof (cases "find (equal_fold s) options")
      case None
      with "1.IH" [OF a [symmetric] refl False None] "1.prems" a False show ?thesis
        by (simp add: askChoice.simps [of label options current w])
    next
      case (Some c)
      then have "c \<in> set options" by (auto simp: find_Some_iff)
      with Some a False show ?thesis by (simp add: askChoice.simps [of label options current w])
    qed
  qed
qed

lemma took_credential: "took 2 w (snd (ask_credential g w))"
proof -
  obtain m w1 where 1: "askChoice ''  auth method'' [''token'', ''app'']
      (if gh_App g \<noteq> None then ''app'' else ''token'') w = (m, w1)" by fastforce
  let ?a = "case gh_App g of Some a \<Rightarrow> a | None \<Rightarrow> zero_app"
  obtain i w2 where 2: "askInt64 ''  app id'' (app_AppID ?a) w1 = (i, w2)" by fastforce
  obtain j w3 where 3: "askInt64 ''  installation id'' (app_InstallationID ?a) w2 = (j, w3)" by fastforce
  have t1: "took 1 w w1" using choice.took 1 by (metis snd_conv)
  have t2: "took 1 w1 w2" using number.took 2 by (metis snd_conv)
  have t3: "took 1 w2 w3" using number.took 3 by (metis snd_conv)
  have c: "fuel w1 \<noteq> 0 \<Longrightarrow> m = ''token'' \<or> m = ''app''"
    using askChoice_options [of "''  auth method''" "[''token'', ''app'']" "if gh_App g \<noteq> None then ''app'' else ''token''" w] 1
    by (auto simp: err_fuel)
  show ?thesis
  proof (cases "m = ''token''")
    case True
    with 1 have "snd (ask_credential g w)
        = snd (askSecret ''  token (a PAT with admin:org, or ${GITHUB_TOKEN} to read the environment)''
            (if gh_Token g = [] then ''${GITHUB_TOKEN}'' else gh_Token g) w1)"
      by (simp add: ask_credential_def Let_def split_beta)
    with took_trans [OF t1 secret.took] show ?thesis by (metis one_add_one)
  next
    case False
    show ?thesis
    proof (cases "m = ''app''")
      case True
      have "took 0 w3 (snd (ask_credential g w))"
        using 1 2 3 True by (auto simp: ask_credential_def Let_def split_beta intro!: took_0 fuel_le_askRequired)
      with took_trans [OF t1 took_trans [OF t2 took_trans [OF t3]]] show ?thesis
        by (fastforce simp: took_def)
    next
      case False
      with \<open>m \<noteq> ''token''\<close> c 1 show ?thesis by (auto simp: ask_credential_def Let_def split_beta took_def)
    qed
  qed
qed

lemma took_account: "took 2 w (snd (ask_account E g w))"
proof -
  obtain m w1 where 1: "askChoice ''  runners belong to'' [''organization'', ''personal'']
      (if gh_Owner g \<noteq> [] then ''personal'' else ''organization'') w = (m, w1)" by fastforce
  have t1: "took 1 w w1" using choice.took 1 by (metis snd_conv)
  have c: "fuel w1 \<noteq> 0 \<Longrightarrow> m = ''organization'' \<or> m = ''personal''"
    using askChoice_options [of "''  runners belong to''" "[''organization'', ''personal'']"
        "if gh_Owner g \<noteq> [] then ''personal'' else ''organization''" w] 1
    by (auto simp: err_fuel)
  have t2: "took 1 w1 (snd (askRequired l v w1))" "took 1 w1 (snd (askRequired l v (say p w1)))" for l v p
    using required.took [of w1 l v] required.took [of "say p w1" l v] by (simp_all add: took_def)
  have two: "took 2 w w2" if "took 1 w1 w2" for w2 using took_trans [OF t1 that] by (metis one_add_one)
  consider "m = ''organization''" | "m = ''personal''" | "fuel w1 = 0" "m \<noteq> ''organization''" "m \<noteq> ''personal''"
    using c by blast
  then show ?thesis
  proof cases
    case 1
    have "took 1 w1 (snd (ask_account E g w))"
      using 1 \<open>askChoice _ _ _ w = _\<close> t2 by (simp add: ask_account_def Let_def split_beta)
    then show ?thesis by (rule two)
  next
    case 2
    have "took 1 w1 (snd (ask_account E g w))"
      using 2 \<open>askChoice _ _ _ w = _\<close> t2 by (simp add: ask_account_def Let_def split_beta)
    then show ?thesis by (rule two)
  next
    case 3
    with \<open>askChoice _ _ _ w = _\<close> show ?thesis by (simp add: ask_account_def Let_def split_beta took_def)
  qed
qed

lemma fuel_le_walk_pools: "fuel (snd (walk_pools E cfg ps w)) \<le> fuel w"
proof (induction E cfg ps w rule: walk_pools.induct)
  case (3 E cfg p ps w)
  obtain c w1 where 1: "askChoice (pool_label p) [''keep'', ''edit'', ''delete''] ''keep'' w = (c, w1)" by fastforce
  obtain p' w2 where 2: "editPool E cfg p w1 = (p', w2)" by fastforce
  have "fuel w1 \<le> fuel w" using fuel_le_askChoice 1 by (metis snd_conv)
  moreover have "fuel w2 \<le> fuel w1"
    using pool_edit.keeps [of E cfg p w1] 2 by simp
  ultimately show ?case
    using "3.IH"(1) [OF 1 [symmetric] refl] "3.IH"(2) [OF 1 [symmetric] refl _ _ 2 [symmetric] refl] "3.IH"(3) [OF 1 [symmetric] refl] 1 2
    by (cases "c = ''keep''"; cases "c = ''edit''") (auto simp: split_beta Let_def)
qed auto

lemma fuel_le_add_pools: "fuel (snd (add_pools E cfg ps w)) \<le> fuel w"
proof (induction E cfg ps w rule: add_pools.induct)
  case (1 E cfg ps w)
  let ?w = "say (Note ''  at least one pool is required'' []) w"
  obtain p w1 where 1: "editPool E cfg empty_pool ?w = (p, w1)" by fastforce
  obtain more w2 where 2: "askBool ''  add another pool?'' False w = (more, w2)" by fastforce
  obtain q w3 where 3: "editPool E cfg empty_pool w2 = (q, w3)" by fastforce
  have e: "fuel (snd (editPool E cfg empty_pool w')) \<le> fuel w'" for w'
    by (rule pool_edit.keeps)
  have "fuel w1 \<le> fuel w" "fuel w3 \<le> fuel w2" using e [of ?w] e [of w2] 1 3 by simp_all
  moreover have "fuel w2 \<le> fuel w" using fuel_le_askBool 2 by (metis snd_conv)
  ultimately show ?case
    using "1.IH"(1) [OF _ _ 1 [symmetric] refl] "1.IH"(2) [OF _ _ 2 [symmetric] refl _ 3 [symmetric] refl] 1 2 3
    by (subst add_pools.simps) (auto simp: split_beta Let_def)
qed

lemma fuel_le_customize: "fuel (snd (customize E cfg w)) \<le> fuel w"
proof -
  obtain d w1 where 1: "askDuration ''  poll interval'' (gh_PollInterval (cfg_GitHub cfg)) DefaultPollInterval w = (d, w1)"
    by fastforce
  obtain g w2 where 2: "ask ''  runner group (empty = Default)'' (gh_RunnerGroup (cfg_GitHub cfg)) w1 = (g, w2)" by fastforce
  let ?cfg = "cfg\<lparr>cfg_GitHub := (cfg_GitHub cfg)\<lparr>gh_PollInterval := d, gh_RunnerGroup := g\<rparr>\<rparr>"
  obtain kept w3 where 3: "walk_pools E ?cfg (cfg_Pools ?cfg) w2 = (kept, w3)" by fastforce
  have "fuel w1 \<le> fuel w" using fuel_le_ask_duration 1 unfolding askDuration_def by (metis snd_conv)
  moreover have "fuel w2 \<le> fuel w1" using fuel_le_ask 2 by (metis snd_conv)
  moreover have "fuel w3 \<le> fuel w2" using fuel_le_walk_pools 3 by (metis snd_conv)
  ultimately show ?thesis
    using 1 2 3 fuel_le_add_pools [of E ?cfg kept w3] by (simp add: customize_def Let_def split_beta)
qed

lemma questions_took: "took 5 w (snd (questions E cfg w))"
proof -
  obtain g w1 where 1: "ask_credential (cfg_GitHub cfg) w = (g, w1)" by fastforce
  obtain g' w2 where 2: "ask_account E g w1 = (g', w2)" by fastforce
  let ?label = "''customize the configuration (poll interval, runner group, pools)?''"
  have "took 2 w w1" "took 2 w1 w2" using took_credential 1 took_account 2 by (metis snd_conv)+
  from took_trans [OF took_trans [OF this] bool.took]
  have "took 5 w (snd (askBool ?label False w2))" by simp
  moreover have "fuel (snd (questions E cfg w)) \<le> fuel (snd (askBool ?label False w2))"
    using 1 2 fuel_le_customize
    by (auto simp: questions_def askGitHubAuth_def Let_def split_beta split: prod.splits)
  ultimately show ?thesis by (auto simp: took_def)
qed

lemma fuel_le_confirmGitHub: "fuel (snd (confirmGitHub E verify n cfg w)) \<le> fuel w"
proof (induction E verify n cfg w rule: confirmGitHub.induct)
  case (1 E verify n cfg w)
  let ?w = "say (Note ''verification failed'' []) w"
  obtain c w1 where 1: "askChoice ''  github verification failed'' [''retry'', ''write-anyway'', ''abort''] ''retry'' ?w = (c, w1)"
    by fastforce
  obtain cfg' w2 where 2: "(if c = ''retry'' then askGitHubAuth E cfg w1 else (cfg, w1)) = (cfg', w2)" by fastforce
  have "fuel w1 \<le> fuel w" using fuel_le_askChoice 1 by (metis fuel_say(1) snd_conv)
  moreover have "fuel w2 \<le> fuel w1" using 2 fuel_le_askGitHubAuth [of E cfg w1] by (auto split: if_splits)
  ultimately show ?case
    using "1.IH" [OF _ _ 1 [symmetric] refl _ _ 2 [symmetric] refl] 1 2
    by (subst confirmGitHub.simps) (auto simp: split_beta Let_def split: verification.split)
qed

section \<open>What is written loads\<close>

lemma CheckBytes_None:
  "CheckBytes h decode c = None \<longleftrightarrow> (\<exists>cfg. decode c = Inr cfg \<and> valid_config (applyDefaults h cfg))"
  by (auto simp: CheckBytes_def Let_def Validate_valid split: sum.splits if_splits)

lemma CheckBytes_Parse:
  "CheckBytes h decode c = None \<Longrightarrow> CHR ''$'' \<notin> set c \<Longrightarrow> \<exists>cfg. Parse h decode c = Inr cfg \<and> valid_config cfg"
  by (auto simp: CheckBytes_None Parse_def expandEnv_identity Let_def Validate_valid)

lemma assemble_Inr:
  assumes "assemble E verify cfg0 lines = Inr c"
  shows "CheckBytes (we_host E) (we_decode E) c = None \<and> 5 \<le> length lines"
proof -
  let ?w = "\<lparr> wz_in = lines, wz_err = False, wz_out = [] \<rparr>"
  obtain cfg w where q: "questions E cfg0 ?w = (cfg, w)" by fastforce
  from assms q have "\<not> wz_err w" "CheckBytes (we_host E) (we_decode E) c = None"
    by (auto simp: assemble_def split_beta Let_def split: sum.splits option.splits if_splits)
  moreover have "took 5 ?w w" using questions_took q by (metis snd_conv)
  ultimately show ?thesis by (auto simp: took_def fuel_def)
qed


section \<open>Enter keeps everything\<close>

lemma trim_space_Nil [simp]: "trim_space [] = []"
  by (simp add: trim_space_def)

text \<open>The input goes on with \<open>n\<close> empty lines, and then \<open>rest\<close>.\<close>

definition enters :: "string list \<Rightarrow> nat \<Rightarrow> wizard \<Rightarrow> bool" where
  "enters rest n w = (\<not> wz_err w \<and> wz_in w = replicate n [] @ rest)"

lemma enters_say [simp]: "enters rest n (say p w) = enters rest n w"
  by (simp add: enters_def)

lemma enters_shift: "enters rest (m + n) w = enters (replicate n [] @ rest) m w"
  by (simp add: enters_def replicate_add)

lemma read_line: "\<not> wz_err w \<Longrightarrow> wz_in w = l # ls \<Longrightarrow> read w = (Some (trim_space l), w\<lparr>wz_in := ls\<rparr>)"
  by (simp add: read_def)

lemma read_enter:
  assumes "enters rest (Suc n) w"
  shows "\<exists>w'. read w = (Some [], w') \<and> enters rest n w'"
  using read_line [of w "[]" "replicate n [] @ rest"] assms by (simp add: enters_def)

lemma ask_enter:
  assumes "enters rest (Suc n) w"
  shows "\<exists>w'. ask label current w = (current, w') \<and> enters rest n w'"
proof -
  have "enters rest (Suc n) (say (Prompt label current) w)" using assms by simp
  then obtain w' where "read (say (Prompt label current) w) = (Some [], w')" "enters rest n w'"
    using read_enter by blast
  moreover have "\<not> wz_err w" using assms by (simp add: enters_def)
  ultimately show ?thesis by (simp add: ask_def)
qed

lemma itoa_nonempty [simp]: "itoa i \<noteq> []"
  by (simp add: itoa_def)

lemma enter_keeps_value:
  assumes "enters rest (Suc n) w"
  shows "current \<noteq> [] \<Longrightarrow> \<exists>w'. askRequired label current w = (current, w') \<and> enters rest n w'"
    and "current \<noteq> [] \<Longrightarrow> \<exists>w'. askSecret label current w = (current, w') \<and> enters rest n w'"
    and "current \<in> set options \<Longrightarrow> \<forall>x\<in>set options. equal_fold current x \<longrightarrow> x = current \<Longrightarrow>
      \<exists>w'. askChoice label options current w = (current, w') \<and> enters rest n w'"
    and "\<exists>w'. askBool label b w = (b, w') \<and> enters rest n w'"
    and "in_int64 d \<Longrightarrow> \<exists>w'. ask_duration label d w = (d, w') \<and> enters rest n w'"
    and "i \<noteq> 0 \<Longrightarrow> in_int64 i \<Longrightarrow> \<exists>w'. askInt64 label i w = (i, w') \<and> enters rest n w'"
proof -
  note ask = ask_enter [OF assms]
  note read = read_enter [of rest n "say p w" for p, simplified, OF assms]
  show "current \<noteq> [] \<Longrightarrow> \<exists>w'. askRequired label current w = (current, w') \<and> enters rest n w'"
    using ask [of label current] by (subst askRequired.simps) auto
  show "current \<noteq> [] \<Longrightarrow> \<exists>w'. askSecret label current w = (current, w') \<and> enters rest n w'"
    using read [of "Prompt label (display_secret current)"] by (subst askSecret.simps) auto
  show "\<exists>w'. askBool label b w = (b, w') \<and> enters rest n w'"
    using read [of "Prompt label (bool_text b)"] by (subst askBool.simps) auto
  show "i \<noteq> 0 \<Longrightarrow> in_int64 i \<Longrightarrow> \<exists>w'. askInt64 label i w = (i, w') \<and> enters rest n w'"
    using ask [of label "int64_text i"]
    by (subst askInt64.simps) (auto simp: int64_text_def atoi_itoa enters_def)
  show "in_int64 d \<Longrightarrow> \<exists>w'. ask_duration label d w = (d, w') \<and> enters rest n w'"
    using ask [of label "duration_String d"]
    by (subst ask_duration.simps) (auto simp: ParseDuration_String enters_def)
  assume o: "current \<in> set options" "\<forall>x\<in>set options. equal_fold current x \<longrightarrow> x = current"
  have "find (equal_fold current) options = Some current"
    using o by (induction options) auto
  then show "\<exists>w'. askChoice label options current w = (current, w') \<and> enters rest n w'"
    using ask [of "choice_prompt label options" current] by (subst askChoice.simps) (auto simp: enters_def)
qed

text \<open>The numbers of a GitHub App fit the type they have in the program.\<close>

definition account_ok :: "GitHub \<Rightarrow> bool" where
  "account_ok g =
     ((gh_Org g = []) \<noteq> (gh_Owner g = []) \<and> (gh_Token g = []) \<noteq> (gh_App g = None) \<and> pred_option valid_app (gh_App g))"

lemma account_ok_defaults: "valid_github (github_defaults g) \<Longrightarrow> account_ok g"
  by (simp add: valid_github_def github_defaults_def account_ok_def)

definition app_ids_fit :: "GitHub \<Rightarrow> bool" where
  "app_ids_fit g = pred_option (\<lambda>a. in_int64 (app_AppID a) \<and> in_int64 (app_InstallationID a)) (gh_App g)"

text \<open>The lines the credential asks for.\<close>

definition credential_lines :: "GitHub \<Rightarrow> nat" where
  "credential_lines g = (case gh_App g of None \<Rightarrow> 2 | Some a \<Rightarrow> if app_PrivateKey a = [] then 4 else 3)"

lemma credential_enter:
  assumes "enters rest (credential_lines g + n) w" "account_ok g" "app_ids_fit g"
  shows "\<exists>w'. ask_credential g w = (g, w') \<and> enters rest n w'"
proof (cases "gh_App g")
  case None
  with assms(2) have t: "gh_Token g \<noteq> []" by (simp add: account_ok_def)
  have e: "enters rest (Suc (Suc n)) w" using assms(1) None by (simp add: credential_lines_def)
  obtain w1 where 1: "askChoice ''  auth method'' [''token'', ''app''] ''token'' w = (''token'', w1)" "enters rest (Suc n) w1"
    using enter_keeps_value(3) [OF e, of "''token''" "[''token'', ''app'']" "''  auth method''"]
    by (auto simp: equal_fold_def to_lower_def lower_char_def enters_def)
  obtain w2 where 2: "askSecret ''  token (a PAT with admin:org, or ${GITHUB_TOKEN} to read the environment)''
      (gh_Token g) w1 = (gh_Token g, w2)" "enters rest n w2"
    using enter_keeps_value(2) [OF 1(2) t] by blast
  with None t 1 show ?thesis by (simp add: ask_credential_def)
next
  case (Some a)
  with assms(2,3) have v: "gh_Token g = []" "app_AppID a \<noteq> 0" "app_InstallationID a \<noteq> 0"
      "app_PrivateKey a = [] \<Longrightarrow> app_PrivateKeyPath a \<noteq> []" "in_int64 (app_AppID a)" "in_int64 (app_InstallationID a)"
    by (auto simp: account_ok_def valid_app_def app_ids_fit_def)
  let ?k = "(if app_PrivateKey a = [] then Suc n else n)"
  have e: "enters rest (Suc (Suc (Suc ?k))) w" using assms(1) Some by (auto simp: credential_lines_def numeral_eq_Suc split: if_splits)
  obtain w1 where 1: "askChoice ''  auth method'' [''token'', ''app''] ''app'' w = (''app'', w1)" "enters rest (Suc (Suc ?k)) w1"
    using enter_keeps_value(3) [OF e, of "''app''" "[''token'', ''app'']" "''  auth method''"]
    by (auto simp: equal_fold_def to_lower_def lower_char_def)
  obtain w2 where 2: "askInt64 ''  app id'' (app_AppID a) w1 = (app_AppID a, w2)" "enters rest (Suc ?k) w2"
    using enter_keeps_value(6) [OF 1(2) v(2,5)] by blast
  obtain w3 where 3: "askInt64 ''  installation id'' (app_InstallationID a) w2 = (app_InstallationID a, w3)" "enters rest ?k w3"
    using enter_keeps_value(6) [OF 2(2) v(3,6)] by blast
  obtain w4 where 4: "(if app_PrivateKey a = [] then askRequired ''  private key path (PEM)'' (app_PrivateKeyPath a) w3
      else (app_PrivateKeyPath a, w3)) = (app_PrivateKeyPath a, w4)" "enters rest n w4"
  proof (cases "app_PrivateKey a = []")
    case True
    with 3(2) have e: "enters rest (Suc n) w3" by simp
    obtain w4 where "askRequired ''  private key path (PEM)'' (app_PrivateKeyPath a) w3 = (app_PrivateKeyPath a, w4)"
        "enters rest n w4"
      using enter_keeps_value(1) [OF e v(4) [OF True]] by blast
    with True that show thesis by simp
  next
    case False
    with 3(2) show thesis using that by simp
  qed
  from Some v 1 2 3 4 show ?thesis by (simp add: ask_credential_def Let_def)
qed

lemma account_enter:
  assumes "enters rest (Suc (Suc n)) w" "account_ok g"
  shows "\<exists>w'. ask_account E g w = (g, w') \<and> enters rest n w'"
proof (cases "gh_Owner g = []")
  case True
  with assms(2) have t: "gh_Org g \<noteq> []" by (simp add: account_ok_def)
  obtain w1 where 1: "askChoice ''  runners belong to'' [''organization'', ''personal''] ''organization'' w = (''organization'', w1)"
      "enters rest (Suc n) w1"
    using enter_keeps_value(3) [OF assms(1), of "''organization''" "[''organization'', ''personal'']" "''  runners belong to''"]
    by (auto simp: equal_fold_def to_lower_def lower_char_def)
  obtain w2 where "askRequired ''  organization'' (gh_Org g) w1 = (gh_Org g, w2)" "enters rest n w2"
    using enter_keeps_value(1) [OF 1(2) t] by blast
  with True t 1 show ?thesis by (simp add: ask_account_def)
next
  case False
  with assms(2) have t: "gh_Org g = []" by (simp add: account_ok_def)
  obtain w1 where 1: "askChoice ''  runners belong to'' [''organization'', ''personal''] ''personal'' w = (''personal'', w1)"
      "enters rest (Suc n) w1"
    using enter_keeps_value(3) [OF assms(1), of "''personal''" "[''organization'', ''personal'']" "''  runners belong to''"]
    by (auto simp: equal_fold_def to_lower_def lower_char_def)
  obtain w2 where "askRequired ''  username'' (gh_Owner g) w1 = (gh_Owner g, w2)" "enters rest n w2"
    using enter_keeps_value(1) [OF 1(2) False] by blast
  with False t 1 show ?thesis by (simp add: ask_account_def)
qed

lemma Some_notin_pools: "valid_config (applyDefaults h cfg) \<Longrightarrow> cfg_Pools cfg \<noteq> []"
  by (auto simp: valid_config_def applyDefaults_def Let_def)

lemma auth_enter:
  assumes "enters rest (credential_lines (cfg_GitHub cfg) + Suc (Suc n)) w"
    and "valid_config (applyDefaults h cfg)" "app_ids_fit (cfg_GitHub cfg)"
  shows "\<exists>w'. askGitHubAuth E cfg w = (cfg, w') \<and> enters rest n w'"
proof -
  have ok: "account_ok (cfg_GitHub cfg)"
    using assms(2) by (auto simp: valid_config_def applyDefaults_def Let_def intro: account_ok_defaults)
  obtain w1 where 1: "ask_credential (cfg_GitHub cfg) w = (cfg_GitHub cfg, w1)" "enters rest (Suc (Suc n)) w1"
    using credential_enter [OF assms(1) ok assms(3)] by blast
  then show ?thesis using account_enter [OF 1(2) ok, of E] by (auto simp: askGitHubAuth_def)
qed

lemma walk_pools_enter:
  "enters rest (length ps + n) w \<Longrightarrow> None \<notin> set ps \<Longrightarrow> \<exists>w'. walk_pools E cfg ps w = (ps, w') \<and> enters rest n w'"
proof (induction E cfg ps w rule: walk_pools.induct)
  case (3 E cfg p ps w)
  obtain w1 where 1: "askChoice (pool_label p) [''keep'', ''edit'', ''delete''] ''keep'' w = (''keep'', w1)"
      "enters rest (length ps + n) w1"
    using enter_keeps_value(3) [of rest "length ps + n" w "''keep''" "[''keep'', ''edit'', ''delete'']" "pool_label p"] 3(4)
    by (auto simp: equal_fold_def to_lower_def lower_char_def)
  then show ?case using "3.IH"(1) [OF 1(1) [symmetric] refl refl 1(2)] "3.prems"(2) by auto
qed auto

text \<open>A configuration whose further questions have their answers: no empty entry among the pools, an interval.\<close>

definition editable :: "Config \<Rightarrow> bool" where
  "editable cfg =
     (cfg_Pools cfg \<noteq> [] \<and> None \<notin> set (cfg_Pools cfg)
      \<and> gh_PollInterval (cfg_GitHub cfg) \<noteq> 0 \<and> in_int64 (gh_PollInterval (cfg_GitHub cfg)))"

lemma customize_enter:
  assumes "enters rest (Suc (Suc (length (cfg_Pools cfg) + Suc n))) w" "editable cfg"
  shows "\<exists>w'. customize E cfg w = (cfg, w') \<and> enters rest n w'"
proof -
  let ?g = "cfg_GitHub cfg"
  have d: "duration_current (gh_PollInterval ?g) DefaultPollInterval = gh_PollInterval ?g" "in_int64 (gh_PollInterval ?g)"
    using assms(2) by (simp_all add: duration_current_def editable_def)
  obtain w1 where 1: "ask_duration ''  poll interval'' (gh_PollInterval ?g) w = (gh_PollInterval ?g, w1)"
      "enters rest (Suc (length (cfg_Pools cfg) + Suc n)) w1"
    using enter_keeps_value(5) [OF assms(1) d(2)] by blast
  obtain w2 where 2: "ask ''  runner group (empty = Default)'' (gh_RunnerGroup ?g) w1 = (gh_RunnerGroup ?g, w2)"
      "enters rest (length (cfg_Pools cfg) + Suc n) w2"
    using ask_enter [OF 1(2)] by blast
  obtain w3 where 3: "walk_pools E cfg (cfg_Pools cfg) w2 = (cfg_Pools cfg, w3)" "enters rest (Suc n) w3"
    using walk_pools_enter [OF 2(2), of E cfg] assms(2) by (auto simp: editable_def)
  obtain w4 where 4: "askBool ''  add another pool?'' False w3 = (False, w4)" "enters rest n w4"
    using enter_keeps_value(4) [OF 3(2)] by blast
  have "add_pools E cfg (cfg_Pools cfg) w3 = (cfg_Pools cfg, w4)"
    using 3(2) 4(1) assms(2) by (subst add_pools.simps) (simp add: enters_def editable_def)
  with 1 2 3 4 d show ?thesis by (simp add: customize_def askDuration_def Let_def)
qed

lemma askBool_yes:
  "\<not> wz_err w \<Longrightarrow> wz_in w = ''y'' # rest \<Longrightarrow> \<exists>w'. askBool label b w = (True, w') \<and> \<not> wz_err w' \<and> wz_in w' = rest"
  using read_line [of "say (Prompt label (bool_text b)) w" "''y''" rest]
  by (subst askBool.simps) (simp add: to_lower_def lower_char_def trim_space_def is_space_def)

text \<open>A session that keeps the configuration: Enter throughout, with or without the further questions.\<close>

definition keeping_lines :: "Config \<Rightarrow> bool \<Rightarrow> string list" where
  "keeping_lines cfg further =
     replicate (credential_lines (cfg_GitHub cfg) + 2) []
     @ (if further then ''y'' # replicate (length (cfg_Pools cfg) + 3) [] else [[]])"

lemma questions_enter:
  assumes "\<not> wz_err w" "wz_in w = keeping_lines cfg further @ rest"
    and "valid_config (applyDefaults h cfg)" "app_ids_fit (cfg_GitHub cfg)" "further \<longrightarrow> editable cfg"
  shows "\<exists>w'. questions E cfg w = (cfg, w') \<and> \<not> wz_err w'"
proof -
  let ?rest = "(if further then ''y'' # replicate (length (cfg_Pools cfg) + 3) [] else [[]]) @ rest"
  have "enters ?rest (credential_lines (cfg_GitHub cfg) + Suc (Suc 0)) w"
    using assms(1,2) by (simp add: enters_def keeping_lines_def)
  then obtain w1 where 1: "askGitHubAuth E cfg w = (cfg, w1)" "enters ?rest 0 w1"
    using auth_enter [OF _ assms(3,4), of ?rest 0 w E] by auto
  let ?l = "''customize the configuration (poll interval, runner group, pools)?''"
  show ?thesis
  proof (cases further)
    case True
    with 1(2) obtain w2 where 2: "askBool ?l False w1 = (True, w2)"
        "enters rest (Suc (Suc (length (cfg_Pools cfg) + Suc 0))) w2"
      using askBool_yes [of w1 "replicate (length (cfg_Pools cfg) + 3) [] @ rest" ?l False]
      by (auto simp: enters_def numeral_3_eq_3)
    with customize_enter [OF 2(2), of E] True assms(5) 1(1) show ?thesis
      by (auto simp: questions_def enters_def)
  next
    case False
    with 1(2) have "enters rest (Suc 0) w1" by (simp add: enters_def)
    with enter_keeps_value(4) obtain w2 where 2: "askBool ?l False w1 = (False, w2)" "enters rest 0 w2" by blast
    with 1(1) Some_notin_pools [OF assms(3)] show ?thesis by (simp add: questions_def enters_def)
  qed
qed

lemma enter_keeps:
  assumes "we_decode E raw = Inr cfg" "valid_config (applyDefaults (we_host E) cfg)" "app_ids_fit (cfg_GitHub cfg)"
    and "we_marshal E cfg = Inr rendered" "we_decode E rendered = Inr cfg"
    and "\<forall>e. verify 0 cfg \<noteq> VerifyFailed e" and "further \<longrightarrow> editable cfg"
  shows "runConfigWizard E verify None None (Existing raw) (keeping_lines cfg further @ rest) = (None, Existing rendered)"
proof -
  let ?w = "\<lparr> wz_in = keeping_lines cfg further @ rest, wz_err = False, wz_out = [] \<rparr>"
  obtain w where q: "questions E cfg ?w = (cfg, w)" "\<not> wz_err w"
    using questions_enter [of ?w cfg further rest, OF _ _ assms(2,3,7)] by auto
  have c: "\<exists>w'. confirmGitHub E verify 0 cfg w = ((True, cfg), w') \<and> \<not> wz_err w'"
    using q(2) assms(6) by (subst confirmGitHub.simps) (auto split: verification.split)
  have "CheckBytes (we_host E) (we_decode E) rendered = None"
    using assms(2,5) by (simp add: CheckBytes_None)
  with q c assms(4) have "assemble E verify cfg (keeping_lines cfg further @ rest) = Inr rendered"
    by (auto simp: assemble_def)
  with assms(1) show ?thesis by (simp add: runConfigWizard_def initial_config_def)
qed

definition demo_env :: wizard_env where
  "demo_env = \<lparr> we_host = sample_host, we_orgs = [], we_login = [],
     we_marshal = (\<lambda>_. Inr ''new''), we_decode = (\<lambda>_. Inr sample_config) \<rparr>"

definition demo_verify :: "nat \<Rightarrow> Config \<Rightarrow> verification" where
  "demo_verify n cfg = VerifyOk 1 0"

lemma demo_fit: "app_ids_fit (cfg_GitHub sample_config)"
  by (simp add: app_ids_fit_def sample_config_def empty_github_def empty_config_def)

lemma demo_valid: "valid_config (applyDefaults sample_host sample_config)"
  unfolding Validate_valid [symmetric] by code_simp

lemma demo_codec: "we_decode demo_env raw = Inr sample_config" "we_marshal demo_env cfg = Inr ''new''"
  "we_host demo_env = sample_host" "\<forall>e. demo_verify n cfg \<noteq> VerifyFailed e"
  by (simp_all add: demo_env_def demo_verify_def)



definition edit_config :: Config where
  "edit_config = sample_config\<lparr>cfg_GitHub := (cfg_GitHub sample_config)\<lparr>gh_PollInterval := 90 * Second\<rparr>\<rparr>"

definition edit_env :: wizard_env where
  "edit_env = demo_env\<lparr>we_decode := (\<lambda>_. Inr edit_config)\<rparr>"

lemma edit_config_good: "editable edit_config" "app_ids_fit (cfg_GitHub edit_config)"
proof -
  show "editable edit_config" by code_simp
  show "app_ids_fit (cfg_GitHub edit_config)"
    by (simp add: app_ids_fit_def edit_config_def sample_config_def empty_github_def empty_config_def)
qed

lemma edit_config_valid: "valid_config (applyDefaults sample_host edit_config)"
  unfolding Validate_valid [symmetric] by code_simp


section \<open>Secrets stay off the screen\<close>

lemma askSecret_masked:
  assumes "display_secret s1 = display_secret s2" "s1 \<noteq> []" "s2 \<noteq> []"
  shows "snd (askSecret label s1 w) = snd (askSecret label s2 w)"
  using assms
proof (induction label s1 w rule: askSecret.induct)
  case (1 label s1 w)
  obtain r w1 where a: "read (say (Prompt label (display_secret s1)) w) = (r, w1)" by fastforce
  have b: "read (say (Prompt label (display_secret s2)) w) = (r, w1)" using a "1.prems"(1) by simp
  show ?case
  proof (cases r)
    case None
    with a b show ?thesis by (simp add: askSecret.simps [of label s1 w] askSecret.simps [of label s2 w])
  next
    case (Some s)
    note again = "1.IH" [OF a [symmetric] Some _ _ "1.prems"]
    with a b Some "1.prems" show ?thesis
      by (simp add: askSecret.simps [of label s1 w] askSecret.simps [of label s2 w])
  qed
qed

text \<open>
  A credential that is already in the file reaches the screen through its mask only: two
  sessions whose secrets have the same mask (the first and last four bytes of a long one, nothing
  of a short one) print the same and go on from the same state, whatever is typed.
\<close>

lemma askSecret_hides:
  assumes "s1 \<noteq> []" "s2 \<noteq> []" "\<not> IsEnvRef s1" "\<not> IsEnvRef s2" "maskSecret s1 = maskSecret s2"
  shows "snd (askSecret label s1 w) = snd (askSecret label s2 w)"
  using assms askSecret_masked by (simp add: display_secret_def)

lemma askSecret_hides_witness:
  "snd (askSecret ''token'' ''ghp_aaaaaaaaXYZW'' \<lparr> wz_in = [[]], wz_err = False, wz_out = [] \<rparr>)
   = snd (askSecret ''token'' ''ghp_bbbbbbbbbbXYZW'' \<lparr> wz_in = [[]], wz_err = False, wz_out = [] \<rparr>)"
  by (rule askSecret_hides) code_simp+

text \<open>The mask of a secret of nine bytes shows eight of them.\<close>

lemma maskSecret_nine: "maskSecret ''abcdefghi'' = ''abcd'' @ ellipsis @ ''fghi''"
  by code_simp

section \<open>An edited pool is well formed\<close>

lemma askRequired_nonempty:
  "\<not> wz_err (snd (askRequired label current w)) \<Longrightarrow> fst (askRequired label current w) \<noteq> []"
proof (induction label current w rule: askRequired.induct)
  case (1 label current w)
  obtain v w1 where a: "ask label current w = (v, w1)" by fastforce
  show ?case
  proof (cases "v \<noteq> [] \<or> wz_err w1")
    case True
    with "1.prems" a show ?thesis by (auto simp: askRequired.simps [of label current w])
  next
    case False
    with "1.IH" [OF a [symmetric] refl False] "1.prems" a show ?thesis
      by (simp add: askRequired.simps [of label current w])
  qed
qed

lemma dropWhile_rev_last: "dropWhile P (rev xs) \<noteq> [] \<Longrightarrow> \<not> P (hd (dropWhile P (rev xs)))"
  by (simp add: hd_dropWhile)

lemma trim_space_label: "trim_space s \<noteq> [] \<Longrightarrow> label_ok (trim_space s)"
proof -
  assume ne: "trim_space s \<noteq> []"
  let ?a = "dropWhile is_space s"
  obtain t where t: "?a = trim_space s @ t" "list_all is_space t"
  proof -
    have "rev ?a = takeWhile is_space (rev ?a) @ dropWhile is_space (rev ?a)" by simp
    then have "?a = rev (dropWhile is_space (rev ?a)) @ rev (takeWhile is_space (rev ?a))"
      by (metis rev_append rev_rev_ident)
    then show thesis
      by (intro that [of "rev (takeWhile is_space (rev ?a))"])
        (auto simp: trim_space_def list_all_iff dest: set_takeWhileD)
  qed
  have "\<not> is_space (hd (trim_space s))"
    using ne t hd_dropWhile [of is_space s] by (metis append_is_Nil_conv hd_append2)
  then have h: "dropWhile is_space (trim_space s) = trim_space s"
    using ne by (cases "trim_space s") auto
  have "\<not> is_space (hd (rev (trim_space s)))"
    using ne hd_dropWhile [of is_space "rev ?a"] by (simp add: trim_space_def)
  then have "dropWhile is_space (rev (trim_space s)) = rev (trim_space s)"
    using ne by (cases "rev (trim_space s)") auto
  with h ne show ?thesis by (simp add: label_ok_def trim_space_def [of "trim_space s"])
qed

definition labels_good :: "string list \<Rightarrow> bool" where
  "labels_good ls = (ls \<noteq> [] \<and> list_all label_ok ls)"

lemma ask_labels_good:
  "\<not> wz_err (snd (ask_labels dflt current w)) \<Longrightarrow> labels_good (fst (ask_labels dflt current w))"
proof (induction dflt current w rule: ask_labels.induct)
  case (1 dflt current w)
  obtain ls w1 where a: "askList ''    labels'' current w = (ls, w1)" by fastforce
  then have ok: "list_all label_ok ls"
    by (auto simp: askList_def split_beta Let_def list_all_iff intro: trim_space_label)
  show ?case
  proof (cases "ls \<noteq> [] \<or> wz_err w1")
    case True
    with "1.prems" a ok show ?thesis by (auto simp: ask_labels.simps [of dflt current w] labels_good_def)
  next
    case False
    with "1.IH" [OF a [symmetric] refl False] "1.prems" a show ?thesis
      by (simp add: ask_labels.simps [of dflt current w])
  qed
qed

text \<open>What the questions alone promise of a pool; the limits are checked when the file is written.\<close>

definition well_formed_pool :: "Pool \<Rightarrow> bool" where
  "well_formed_pool p =
     (pool_Name p \<noteq> [] \<and> labels_good (pool_Labels p)
      \<and> (pool_Provider p = ProviderDocker \<and> pool_Process p = None \<and> (\<exists>d. pool_Docker p = Some d \<and> d_Image d \<noteq> [])
         \<or> pool_Provider p = ProviderProcess \<and> pool_Docker p = None \<and> pool_Process p \<noteq> None))"

lemma err_mono: "fuel w' \<le> fuel w \<Longrightarrow> \<not> wz_err w' \<Longrightarrow> \<not> wz_err w"
  by (auto simp: err_fuel)

lemma editPool_well_formed:
  assumes "editPool E cfg p w = (q, w')" "\<not> wz_err w'"
  shows "well_formed_pool q"
proof -
  obtain name w1 where 1: "askRequired ''    name'' (pool_Name p) w = (name, w1)" by fastforce
  obtain prov w2 where 2: "askChoice ''    provider (docker = containers; process = bare processes, required for macOS)''
      [ProviderDocker, ProviderProcess] (initial_provider (we_host E) p) w1 = (prov, w2)" by fastforce
  let ?dflt = "defaultLabels (we_host E) prov"
  obtain labels w3 where 3: "ask_labels ?dflt (or_default [] ?dflt (pool_Labels p)) w2 = (labels, w3)" by fastforce
  obtain mn w4 where 4: "askInt ''    min warm runners'' (pool_Min p) w3 = (mn, w4)" by fastforce
  obtain mx w5 where 5: "askInt ''    max runners'' (or_default 0 4 (pool_Max p)) w4 = (mx, w5)" by fastforce
  let ?q = "p\<lparr>pool_Name := name, pool_Provider := prov, pool_Labels := labels, pool_Min := mn, pool_Max := mx\<rparr>"
  have last: "(if prov = ProviderDocker then ask_docker cfg ?q w5
      else if prov = ProviderProcess then ask_process (we_host E) ?q w5 else (?q, w5)) = (q, w')"
    using assms(1) by (simp add: editPool_def Let_def 1 2 3 4 5)
  then have "fuel w' \<le> fuel w5"
    using fuel_le_ask_docker [of cfg ?q w5] fuel_le_ask_process [of "we_host E" ?q w5] by (auto split: if_splits)
  then have e5: "\<not> wz_err w5" using assms(2) by (rule err_mono)
  have "fuel w5 \<le> fuel w4" "fuel w4 \<le> fuel w3" "fuel w3 \<le> fuel w2" "fuel w2 \<le> fuel w1"
    using fuel_le 2 3 4 5 by (metis snd_conv)+
  with e5 have e: "\<not> wz_err w1" "\<not> wz_err w2" "\<not> wz_err w3" using err_mono by blast+
  have opt: "prov \<in> set [ProviderDocker, ProviderProcess]" using askChoice_options 2 e(2) by (metis fst_conv snd_conv)
  have "name \<noteq> []" using askRequired_nonempty 1 e(1) by (metis fst_conv snd_conv)
  moreover have "labels_good labels" using ask_labels_good 3 e(3) by (metis fst_conv snd_conv)
  moreover have "prov = ProviderDocker \<or> prov = ProviderProcess"
    using opt by simp
  moreover have "ProviderDocker \<noteq> ProviderProcess" by (simp add: ProviderDocker_def ProviderProcess_def)
  ultimately show ?thesis
    using last assms(2) askRequired_nonempty [of "''    image''" _ w5]
    by (auto simp: well_formed_pool_def ask_docker_def ask_process_def Let_def split_beta split: if_splits)
qed

text \<open>
  C32. Whatever pool was there and whatever is typed, a pool that was edited to the end has a name,
  at least one label, no blank or padded label, and exactly the block of its provider, with an
  image when that is docker.
\<close>

theorem editPool_typed:
  assumes "editPool E cfg p w = (q, w')" "\<not> wz_err w'"
  shows "well_formed_pool q"
  using assms by (rule editPool_well_formed)

definition demo_answers :: wizard where
  "demo_answers = \<lparr> wz_in = [''ci'', ''PROCESS'', '' , '', ''a, b'', ''0'', ''2'', []], wz_err = False, wz_out = [] \<rparr>"

lemma demo_edit_ends: "\<not> wz_err (snd (editPool demo_env sample_config empty_pool demo_answers))"
  by code_simp

theorem editPool_typed_witness:
  "well_formed_pool (fst (editPool demo_env sample_config empty_pool demo_answers))"
  by (rule editPool_typed [OF surjective_pairing demo_edit_ends])

end
