(* ===== verification/Cli.thy ===== *)
theory Cli
  imports ConfigLoad GhTypes Scale
begin

text \<open>
  The command line (\<open>cmd/arc\<close>): arguments in any order, the client of the control API
  (\<open>client.go\<close>), where the configuration comes from (\<open>run.go\<close>, \<open>internal/opconfig\<close>), and the small
  computations of \<open>status.go\<close> and \<open>doctor.go\<close>. Files, processes, GitHub and the JSON codecs are
  parameters.
\<close>

section \<open>Flags\<close>

text \<open>
  The part of Go's \<open>flag\<close> package the commands use: a flag set knows its flags and which of them
  are boolean; \<open>valid\<close> is the parser of a flag's value. The settings made are kept in order.
\<close>

type_synonym settings = "(string \<times> string) list"

record flagset =
  fs_bool :: "string \<rightharpoonup> bool"
  fs_valid :: "string \<Rightarrow> string \<Rightarrow> bool"

datatype flag_error = BadSyntax string | NotDefined string | NeedsArgument string | BadValue string string | HelpAsked

text \<open>Every flag set is made with \<open>flag.ExitOnError\<close>: the status the program then exits with.\<close>

definition flag_exit :: "flag_error \<Rightarrow> int" where
  "flag_exit e = (if e = HelpAsked then 0 else 2)"

text \<open>
  \<open>strconv.ParseInt(s, 0, 64)\<close>, the parser of an integer flag: the base is told by the prefix (a
  leading zero is octal), and underscores may separate digits.
\<close>

definition base_digit :: "char \<Rightarrow> nat option" where
  "base_digit c =
     (if is_digit c then Some (digit_val c)
      else if is_lower_alpha c then Some (of_char c - 87)
      else if is_upper_alpha c then Some (of_char c - 55) else None)"

fun base_digits :: "nat \<Rightarrow> nat \<Rightarrow> string \<Rightarrow> nat option" where
  "base_digits b n [] = Some n"
| "base_digits b n (c # s) =
     (if c = CHR ''_'' then base_digits b n s
      else case base_digit c of
          None \<Rightarrow> None
        | Some d \<Rightarrow> if d \<ge> b \<or> n * b + d \<ge> 2 ^ 64 then None else base_digits b (n * b + d) s)"

definition base_prefix :: "string \<Rightarrow> nat \<times> string" where
  "base_prefix s =
     (case s of
        c # x # r \<Rightarrow>
          (if c \<noteq> CHR ''0'' then (10, s)
           else if r \<noteq> [] \<and> x \<in> set ''bB'' then (2, r)
           else if r \<noteq> [] \<and> x \<in> set ''oO'' then (8, r)
           else if r \<noteq> [] \<and> x \<in> set ''xX'' then (16, r)
           else (8, x # r))
      | [c] \<Rightarrow> if c = CHR ''0'' then (8, []) else (10, s)
      | [] \<Rightarrow> (10, []))"

text \<open>\<open>underscoreOK\<close> on digits and underscores: the flag says that a digit, or the prefix, was last.\<close>

fun underscores_ok :: "bool \<Rightarrow> string \<Rightarrow> bool" where
  "underscores_ok digit [] = True"
| "underscores_ok digit (c # s) =
     (if c = CHR ''_'' then digit \<and> s \<noteq> [] \<and> hd s \<noteq> CHR ''_'' \<and> underscores_ok False s else underscores_ok True s)"

definition ParseUint0 :: "string \<Rightarrow> nat option" where
  "ParseUint0 s =
     (if s = [] then None
      else let (b, r) = base_prefix s; prefixed = (length s = length r + 2)
        in if underscores_ok prefixed (if prefixed then r else s) then base_digits b 0 r else None)"

definition ParseInt0 :: "string \<Rightarrow> int option" where
  "ParseInt0 s =
     (case s of
        [] \<Rightarrow> None
      | c # r \<Rightarrow>
          (let neg = (c = CHR ''-'')
           in case ParseUint0 (if c \<in> set ''+-'' then r else s) of
                None \<Rightarrow> None
              | Some n \<Rightarrow> if neg then (if n > 2 ^ 63 then None else Some (- int n))
                          else if n \<ge> 2 ^ 63 then None else Some (int n)))"

text \<open>A leading zero means octal, on the command line as in the source of a program.\<close>

lemma ParseInt0_octal: "ParseInt0 ''010'' = Some 8" "ParseInt0 ''-0x1_F'' = Some (- 31)" "ParseInt0 ''1__0'' = None"
  by (simp_all add: ParseInt0_def ParseUint0_def base_prefix_def base_digit_def is_digit_def digit_val_def
      is_lower_alpha_def is_upper_alpha_def Let_def)

text \<open>The name and, after the first \<open>=\<close> behind its first byte, the value of a flag token.\<close>

definition split_flag :: "string \<Rightarrow> string \<times> string option" where
  "split_flag s =
     (case s of
        [] \<Rightarrow> ([], None)
      | c # r \<Rightarrow> (let n = takeWhile (\<lambda>x. x \<noteq> CHR ''='') r; t = drop (length n) r
                  in (c # n, case t of [] \<Rightarrow> None | _ # v \<Rightarrow> Some v)))"

text \<open>One flag, with the settings so far and the arguments behind it.\<close>

definition set_flag :: "flagset \<Rightarrow> string \<Rightarrow> string option \<Rightarrow> string list \<Rightarrow> settings \<Rightarrow> flag_error + settings \<times> string list" where
  "set_flag f name val args st =
     (case fs_bool f name of
        None \<Rightarrow> Inl (if name = ''help'' \<or> name = ''h'' then HelpAsked else NotDefined name)
      | Some True \<Rightarrow>
          (let v = (case val of Some v \<Rightarrow> v | None \<Rightarrow> ''true'')
           in if fs_valid f name v then Inr (st @ [(name, v)], args) else Inl (BadValue name v))
      | Some False \<Rightarrow>
          (case (val, args) of
             (Some v, _) \<Rightarrow> if fs_valid f name v then Inr (st @ [(name, v)], args) else Inl (BadValue name v)
           | (None, []) \<Rightarrow> Inl (NeedsArgument name)
           | (None, v # rest) \<Rightarrow> if fs_valid f name v then Inr (st @ [(name, v)], rest) else Inl (BadValue name v)))"

text \<open>\<open>FlagSet.Parse\<close>: what is left is the arguments from the first one that is no flag.\<close>

function (sequential) flag_Parse :: "flagset \<Rightarrow> string list \<Rightarrow> settings \<Rightarrow> flag_error + settings \<times> string list" where
  "flag_Parse f [] st = Inr (st, [])"
| "flag_Parse f (s # args) st =
     (if length s < 2 \<or> hd s \<noteq> CHR ''-'' then Inr (st, s # args)
      else if s = ''--'' then Inr (st, args)
      else let name = (if has_prefix s ''--'' then drop 2 s else drop 1 s)
        in if name = [] \<or> hd name = CHR ''-'' \<or> hd name = CHR ''='' then Inl (BadSyntax s)
           else (let (n, v) = split_flag name
             in case set_flag f n v args st of
                  Inl e \<Rightarrow> Inl e
                | Inr (st', args') \<Rightarrow> if length args' \<le> length args then flag_Parse f args' st' else Inr (st', args')))"
  by pat_completeness auto
termination by (relation "measure (\<lambda>(f, args, st). length args)") auto

declare flag_Parse.simps [simp del]

lemma set_flag_length: "set_flag f n v args st = Inr (st', args') \<Longrightarrow> length args' \<le> length args"
  by (auto simp: set_flag_def Let_def split: option.splits bool.splits list.splits if_splits)

text \<open>\<open>parsePositional\<close>: positionals and flags in any order.\<close>

function parsePositional :: "flagset \<Rightarrow> string list \<Rightarrow> string list \<Rightarrow> settings \<Rightarrow> flag_error + string list \<times> settings" where
  "parsePositional f args positional st =
     (let here = takeWhile (\<lambda>a. \<not> has_prefix a ''-'') args; args1 = drop (length here) args; pos = positional @ here
      in if args1 = [] then Inr (pos, st)
         else case flag_Parse f args1 st of
             Inl e \<Rightarrow> Inl e
           | Inr (st', args2) \<Rightarrow>
               if length args2 \<ge> length args1 then Inr (pos @ args2, st') else parsePositional f args2 pos st')"
  by pat_completeness auto
termination
  by (relation "measure (\<lambda>(f, args, pos, st). length args)") (auto simp: less_diff_conv)

declare parsePositional.simps [simp del]

section \<open>The control client (\<open>client.go\<close>)\<close>

text \<open>\<open>strings.Replace\<close> with a count of one.\<close>

definition replace_first :: "string \<Rightarrow> string \<Rightarrow> string \<Rightarrow> string" where
  "replace_first s old new =
     (case index_of s old of None \<Rightarrow> s | Some i \<Rightarrow> take i s @ new @ drop (i + length old) s)"

definition control_addr :: "string \<Rightarrow> string" where
  "control_addr addr =
     (let a = (if has_prefix addr '':'' then ''127.0.0.1'' @ addr else addr)
      in replace_first a ''0.0.0.0:'' ''127.0.0.1:'')"

record controlClient =
  cc_base :: string
  cc_token :: string

definition newControlClient :: "Config \<Rightarrow> controlClient" where
  "newControlClient cfg =
     \<lparr> cc_base = ''http://'' @ control_addr (srv_Addr (cfg_Server cfg)), cc_token = srv_Token (cfg_Server cfg) \<rparr>"

definition control_headers :: "controlClient \<Rightarrow> bool \<Rightarrow> (string \<times> string) list" where
  "control_headers c has_body =
     (if has_body then [(''Content-Type'', ''application/json'')] else [])
     @ (if cc_token c \<noteq> [] then [(''Authorization'', ''Bearer '' @ cc_token c)] else [])"

text \<open>
  The body of a good answer, or the error the caller sees; \<open>message\<close> decodes the error's JSON. An
  answer has its status as a number and as text (\<open>404 Not Found\<close>).
\<close>

definition control_result ::
  "(string \<Rightarrow> string option) \<Rightarrow> controlClient \<Rightarrow> string + int \<times> string \<times> string \<Rightarrow> string + string" where
  "control_result message c r =
     (case r of
        Inl e \<Rightarrow> Inl (''cannot reach the orchestrator at '' @ cc_base c @ '': '' @ e @ [CHR 0x0A] @ ''Is `arc run` running?'')
      | Inr (code, status, full) \<Rightarrow>
          (let data = take (16 * 2 ^ 20) full; plain = Inl (status @ '': '' @ trim_space data)
           in if code < 200 \<or> code \<ge> 300 then
                (case message data of Some m \<Rightarrow> if m \<noteq> [] then Inl m else plain | None \<Rightarrow> plain)
              else Inr data))"

section \<open>The vault item (\<open>opconfig.go\<close>)\<close>

record item =
  it_Token :: string
  it_Login :: string
  it_AccountType :: string
  it_FetchedAt :: int

text \<open>The fields of the item in order, the last of each label counting.\<close>

definition item_fields :: "(string \<times> string) list \<Rightarrow> item" where
  "item_fields fs = foldl (\<lambda>it (label, val).
       if label = ''credential'' then it\<lparr>it_Token := val\<rparr>
       else if label = ''username'' then it\<lparr>it_Login := val\<rparr> else it)
     \<lparr> it_Token = [], it_Login = [], it_AccountType = [], it_FetchedAt = 0 \<rparr> fs"

text \<open>
  \<open>execOP\<close>: whether the tool is there, and what running it gives, its output or its error, with
  what it wrote to its error stream when that error is an exit status.
\<close>

definition execOP :: "bool \<Rightarrow> (string \<times> string option) + string \<Rightarrow> string + string" where
  "execOP installed run =
     (if \<not> installed then Inl ''the 1Password CLI (op) is not installed''
      else case run of
          Inr out \<Rightarrow> Inr out
        | Inl (e, Some stderr) \<Rightarrow> if stderr \<noteq> [] then Inl (''op: '' @ trim_space stderr) else Inl e
        | Inl (e, None) \<Rightarrow> Inl e)"

definition op_Load :: "(string \<Rightarrow> (string \<times> string) list option) \<Rightarrow> string + string \<Rightarrow> int \<Rightarrow> string + item" where
  "op_Load decode out now =
     (case out of
        Inl e \<Rightarrow> Inl (''read 1Password item: '' @ e)
      | Inr raw \<Rightarrow> (case decode raw of
            None \<Rightarrow> Inl ''parse op output''
          | Some fs \<Rightarrow>
              (let it = item_fields fs
               in if it_Token it = [] then Inl ''1Password item arc/github has no credential field value''
                  else if it_Login it = [] then Inl ''1Password item arc/github has no username field value''
                  else Inr (it\<lparr>it_FetchedAt := now\<rparr>))))"

text \<open>The cache: \<open>None\<close> for a path that is not known or a file that is not there.\<close>

definition ReadCache :: "(string \<Rightarrow> item option) \<Rightarrow> string option \<Rightarrow> item option" where
  "ReadCache decode content =
     (case content of
        None \<Rightarrow> None
      | Some raw \<Rightarrow> (case decode raw of
            None \<Rightarrow> None
          | Some it \<Rightarrow> if it_Token it = [] \<or> it_Login it = [] then None else Some it))"

text \<open>
  \<open>WriteCache\<close>: the content and the mode of the file; a file that is there keeps its mode;
  a write that fails says what it leaves.
\<close>

record cache_file =
  cf_content :: string
  cf_mode :: int

definition WriteCache ::
  "(item \<Rightarrow> string + string) \<Rightarrow> string option \<Rightarrow> string option \<Rightarrow> (string \<times> cache_file option) option \<Rightarrow> item
    \<Rightarrow> cache_file option
    \<Rightarrow> string option \<times> cache_file option" where
  "WriteCache encode path mkdir_error write_error it f =
     (case path of
        None \<Rightarrow> (Some ''no home directory for the credentials cache'', f)
      | Some _ \<Rightarrow> (case mkdir_error of
            Some e \<Rightarrow> (Some e, f)
          | None \<Rightarrow> (case encode it of
                Inl e \<Rightarrow> (Some e, f)
              | Inr raw \<Rightarrow> (case write_error of
                    Some (e, left) \<Rightarrow> (Some e, left)
                  | None \<Rightarrow> (None, Some \<lparr> cf_content = raw, cf_mode = (case f of None \<Rightarrow> 384 | Some g \<Rightarrow> cf_mode g) \<rparr>)))))"

text \<open>A cache that was readable by others stays so with the token in it.\<close>

lemma WriteCache_keeps_mode:
  "WriteCache (\<lambda>_. Inr raw) (Some p) None None it (Some \<lparr> cf_content = old, cf_mode = 420 \<rparr>)
     = (None, Some \<lparr> cf_content = raw, cf_mode = 420 \<rparr>)"
  by (simp add: WriteCache_def)

section \<open>Where the configuration comes from (\<open>run.go\<close>)\<close>

datatype config_source = FromFile string | FromVault | NoConfigAt string

definition resolve_config :: "(string \<Rightarrow> bool) \<Rightarrow> string \<Rightarrow> string \<Rightarrow> string \<Rightarrow> config_source" where
  "resolve_config exists_file path0 env_path user_path =
     (let path1 = (if path0 = [] then env_path else path0);
          explicit = (path1 \<noteq> []);
          path = (if path1 \<noteq> [] then path1
                  else if exists_file ''arc.yaml'' then ''arc.yaml''
                  else if user_path \<noteq> [] \<and> exists_file user_path then user_path
                  else ''arc.yaml'')
      in if exists_file path then FromFile path
         else if explicit then NoConfigAt path
         else FromVault)"

definition isAuthError :: "gherr \<Rightarrow> bool" where
  "isAuthError e = (case cause e of APIError s _ _ \<Rightarrow> s = 401 \<or> s = 403 | _ \<Rightarrow> False)"

text \<open>
  \<open>autoConfig\<close> up to the item it settles on: \<open>vault\<close> is what reading the vault gives, \<open>probe\<close> the
  account type of a login as GitHub answers it for the item's token. With the result comes
  whether it is the cached one, and how often the vault was read.
\<close>

definition settle_item ::
  "item option \<Rightarrow> string + item \<Rightarrow> (item \<Rightarrow> gherr + string) \<Rightarrow> (string + item \<times> bool) \<times> nat" where
  "settle_item cached vault probe =
     (case cached of
        None \<Rightarrow>
          (case vault of
             Inl e \<Rightarrow> (Inl e, 1)
           | Inr it \<Rightarrow> (case probe it of
               Inl _ \<Rightarrow> (Inl ''verify account'', 1)
             | Inr t \<Rightarrow> (Inr (it\<lparr>it_AccountType := t\<rparr>, False), 1)))
      | Some it \<Rightarrow>
          (case probe it of
             Inr t \<Rightarrow> (Inr (it\<lparr>it_AccountType := t\<rparr>, True), 0)
           | Inl e \<Rightarrow>
               if isAuthError e then
                 (case vault of
                    Inl _ \<Rightarrow> (Inl ''cached credentials were rejected by GitHub and the 1Password refresh failed'', 1)
                  | Inr fresh \<Rightarrow> (case probe fresh of
                      Inl _ \<Rightarrow> (Inl ''verify account'', 1)
                    | Inr t \<Rightarrow> (Inr (fresh\<lparr>it_AccountType := t\<rparr>, False), 1)))
               else if it_AccountType it \<noteq> [] then (Inr (it, True), 0)
               else (Inl ''verify account'', 0)))"

definition auto_config :: "host \<Rightarrow> int \<Rightarrow> item \<Rightarrow> Config" where
  "auto_config h maxRunners it =
     empty_config\<lparr>cfg_GitHub := (let g = empty_github\<lparr>gh_Token := it_Token it, gh_Webhook := True\<rparr>
          in if it_AccountType it = ''Organization'' then g\<lparr>gh_Org := it_Login it\<rparr> else g\<lparr>gh_Owner := it_Login it\<rparr>),
        cfg_Pools := [Some (HostPool h maxRunners)]\<rparr>"

text \<open>
  The configuration goes through the text form and back, with the item that is to be cached. What
  the cache makes of it (\<open>WriteCache\<close>) does not matter here: a failure is a warning.
\<close>

definition autoConfig ::
  "host \<Rightarrow> (Config \<Rightarrow> string + string) \<Rightarrow> (string \<Rightarrow> string + Config) \<Rightarrow> int \<Rightarrow> item option \<Rightarrow> string + item
    \<Rightarrow> (item \<Rightarrow> gherr + string) \<Rightarrow> (string + Config) \<times> item option" where
  "autoConfig h marshal decode maxRunners cached vault probe =
     (case fst (settle_item cached vault probe) of
        Inl e \<Rightarrow> (Inl e, None)
      | Inr (it, fromCache) \<Rightarrow>
          (case marshal (auto_config h maxRunners it) of
             Inl e \<Rightarrow> (Inl e, Some it)
           | Inr raw \<Rightarrow> (case Parse h decode raw of
               Inl _ \<Rightarrow> (Inl ''parse'', Some it)
             | Inr c \<Rightarrow> (Inr (c\<lparr>cfg_Path := ''1Password op://arc/github'' @ (if fromCache then '' (cached)'' else [])\<rparr>), Some it))))"

datatype start_failure = NoLoad load_failure | NoConfig string | VaultFailed string

text \<open>\<open>None\<close> when the home directory is not known.\<close>

definition CachePath :: "string option \<Rightarrow> string option" where
  "CachePath home = map_option (\<lambda>d. filepath_join [d, ''.arc'', ''credentials.json'']) home"

text \<open>What a start meets: the files, the environment, the vault and GitHub.\<close>

record start_env =
  sa_host :: host
  sa_home :: "string option"
  sa_arc_config :: string
  sa_exists :: "string \<Rightarrow> bool"
  sa_read :: "string \<Rightarrow> string + string"
  sa_abs :: "string \<Rightarrow> string option"
  sa_decode :: "string \<Rightarrow> string + Config"
  sa_marshal :: "Config \<Rightarrow> string + string"
  sa_item :: "string \<Rightarrow> item option"
  sa_vault :: "string + item"
  sa_probe :: "item \<Rightarrow> gherr + string"

definition start_cache :: "start_env \<Rightarrow> item option" where
  "start_cache A =
     ReadCache (sa_item A)
       (case CachePath (sa_home A) of
          None \<Rightarrow> None
        | Some path \<Rightarrow> (case sa_read A path of Inl e \<Rightarrow> None | Inr raw \<Rightarrow> Some raw))"

definition loadConfigMax :: "start_env \<Rightarrow> string \<Rightarrow> int \<Rightarrow> start_failure + Config" where
  "loadConfigMax A path maxRunners =
     (case resolve_config (sa_exists A) path (sa_arc_config A)
             (case DefaultUserPath (sa_home A) of None \<Rightarrow> [] | Some p \<Rightarrow> p) of
        FromFile p \<Rightarrow> (case config_Load (sa_host A) (sa_read A) (sa_abs A) (sa_decode A) p of
            Inl e \<Rightarrow> Inl (NoLoad e) | Inr cfg \<Rightarrow> Inr cfg)
      | NoConfigAt p \<Rightarrow> Inl (NoConfig p)
      | FromVault \<Rightarrow>
          (case fst (autoConfig (sa_host A) (sa_marshal A) (sa_decode A) maxRunners (start_cache A) (sa_vault A) (sa_probe A)) of
             Inl e \<Rightarrow> Inl (VaultFailed e)
           | Inr cfg \<Rightarrow> Inr cfg))"

definition loadConfig :: "start_env \<Rightarrow> string \<Rightarrow> start_failure + Config" where
  "loadConfig A path = loadConfigMax A path DefaultMaxRunners"

text \<open>\<open>newLogger\<close>: the level and whether the format is JSON; anything else is the default.\<close>

datatype log_level = LevelDebug | LevelInfo | LevelWarn | LevelError

definition newLogger :: "Log \<Rightarrow> log_level \<times> bool" where
  "newLogger l =
     (if log_Level l = ''debug'' then LevelDebug
      else if log_Level l = ''warn'' then LevelWarn
      else if log_Level l = ''error'' then LevelError else LevelInfo,
      log_Format l = ''json'')"

text \<open>The configuration \<open>probeAccountType\<close> asks GitHub with.\<close>

definition probe_config :: "item \<Rightarrow> Config" where
  "probe_config it = empty_config\<lparr>cfg_GitHub := empty_github\<lparr>gh_Owner := it_Login it, gh_Token := it_Token it,
     gh_APIURL := ''https://api.github.com''\<rparr>\<rparr>"

section \<open>Status and doctor\<close>

definition shortID :: "string \<Rightarrow> string" where
  "shortID ident = (if length ident > 12 then take 12 ident else ident)"

text \<open>The ellipsis is three bytes.\<close>

definition truncate_text :: "string \<Rightarrow> nat \<Rightarrow> string" where
  "truncate_text s n = (if length s \<le> n then s else take (n - 1) s @ [CHR 0xE2, CHR 0x80, CHR 0xA6])"

text \<open>The checks of \<open>doctor\<close>: all run, the failures are counted.\<close>

fun run_checks :: "(string \<times> (string + string)) list \<Rightarrow> nat \<Rightarrow> nat" where
  "run_checks [] failures = failures"
| "run_checks ((name, Inl e) # rest) failures = run_checks rest (Suc failures)"
| "run_checks ((name, Inr detail) # rest) failures = run_checks rest failures"

definition estimateHourlyRequests :: "Config \<Rightarrow> int" where
  "estimateHourlyRequests cfg =
     (let interval = gh_PollInterval (cfg_GitHub cfg)
      in if interval \<le> 0 then 0 else (Hour div interval) * (1 + 2 * 20))"

end
