(* ===== verification/Commands.thy ===== *)
theory Commands
  imports Api Cli
begin

text \<open>
  The commands that talk to a running orchestrator (\<open>cmd/arc/status.go\<close>), the report of \<open>doctor\<close>
  (\<open>doctor.go\<close>) and the start-up sequence of \<open>run\<close> (\<open>run.go\<close>). What a command sends is given as the
  server's multiplexer receives it.
\<close>

text \<open>How a command ends early: the program exits within the parser of its flags, or it fails.\<close>

datatype stop = Exits int | Fails string

section \<open>Paths of the control API\<close>

text \<open>\<open>url.PathEscape\<close>, and the unescaping of a path's segments by the server.\<close>

definition segment_char :: "char \<Rightarrow> bool" where
  "segment_char c = (is_lower_alpha c \<or> is_upper_alpha c \<or> is_digit c \<or> c \<in> set ''-_.~$&+=:@'')"

definition url_hex_digit :: "nat \<Rightarrow> char" where
  "url_hex_digit n = (if n < 10 then char_of (48 + n) else char_of (55 + n))"

definition PathEscape :: "string \<Rightarrow> string" where
  "PathEscape s = concat (map (\<lambda>c. if segment_char c then [c]
     else [CHR ''%'', url_hex_digit (of_char c div 16), url_hex_digit (of_char c mod 16)]) s)"

definition url_hex_value :: "char \<Rightarrow> nat" where
  "url_hex_value c = (if is_digit c then of_char c - 48 else if is_upper_alpha c then of_char c - 55 else of_char c - 87)"

fun unescape :: "string \<Rightarrow> string" where
  "unescape (c # a # b # s) =
     (if c = CHR ''%'' then char_of (16 * url_hex_value a + url_hex_value b) # unescape s else c # unescape (a # b # s))"
| "unescape s = s"

definition received :: "string \<Rightarrow> string \<Rightarrow> (string \<times> string) list \<Rightarrow> string \<Rightarrow> string \<Rightarrow> request" where
  "received method path headers lines payload =
     \<lparr> rq_method = method, rq_path = map unescape (split_char CHR ''/'' (drop 1 path)),
       rq_authorization = (case map_of headers ''Authorization'' of Some v \<Rightarrow> v | None \<Rightarrow> []),
       rq_lines = lines, rq_body = payload \<rparr>"

definition pool_path :: "string \<Rightarrow> string \<Rightarrow> string" where
  "pool_path pool verb = ''/v1/pools/'' @ PathEscape pool @ ''/'' @ verb"

section \<open>\<open>arc scale\<close>\<close>

definition parse_bool :: "string \<Rightarrow> bool option" where
  "parse_bool s =
     (if s \<in> set [''1'', ''t'', ''T'', ''true'', ''TRUE'', ''True''] then Some True
      else if s \<in> set [''0'', ''f'', ''F'', ''false'', ''FALSE'', ''False''] then Some False else None)"

definition scale_flags :: flagset where
  "scale_flags = \<lparr> fs_bool = [''config'' \<mapsto> False, ''min'' \<mapsto> False, ''max'' \<mapsto> False, ''reset'' \<mapsto> True],
     fs_valid = (\<lambda>n v. n = ''reset'' \<longrightarrow> parse_bool v \<noteq> None) \<rparr>"

text \<open>The value of a flag: the last one given, or the default.\<close>

definition setting :: "settings \<Rightarrow> string \<Rightarrow> string \<Rightarrow> string" where
  "setting st name dflt = (case map_of (rev st) name of Some v \<Rightarrow> v | None \<Rightarrow> dflt)"

definition limit_setting :: "settings \<Rightarrow> string \<Rightarrow> string + int option" where
  "limit_setting st name =
     (let v = setting st name [] in if v = [] then Inr None
      else case atoi v of Some n \<Rightarrow> Inr (Some n) | None \<Rightarrow> Inl (''-'' @ name))"

definition scale_body :: "settings \<Rightarrow> string + scaleRequest" where
  "scale_body st =
     (let reset = (parse_bool (setting st ''reset'' ''false'') = Some True)
      in case limit_setting st ''min'' of
           Inl e \<Rightarrow> Inl e
         | Inr mn \<Rightarrow> (case limit_setting st ''max'' of
               Inl e \<Rightarrow> Inl e
             | Inr mx \<Rightarrow>
                 if \<not> reset \<and> mn = None \<and> mx = None then Inl ''specify -min, -max, or -reset''
                 else Inr \<lparr> sr_Min = mn, sr_Max = mx, sr_Reset = reset \<rparr>))"

definition cmdScale :: "string list \<Rightarrow> stop + string \<times> scaleRequest" where
  "cmdScale args =
     (case parsePositional scale_flags args [] [] of
        Inl e \<Rightarrow> Inl (Exits (flag_exit e))
      | Inr (positional, st) \<Rightarrow>
          (case positional of
             [pool] \<Rightarrow> (case scale_body st of Inl e \<Rightarrow> Inl (Fails e) | Inr req \<Rightarrow> Inr (pool, req))
           | _ \<Rightarrow> Inl (Fails ''expected exactly one pool name'')))"

definition scale_call :: "controlClient \<Rightarrow> (scaleRequest \<Rightarrow> string) \<Rightarrow> string \<Rightarrow> scaleRequest \<Rightarrow> request" where
  "scale_call c encode pool req = received ''POST'' (pool_path pool ''scale'') (control_headers c True) [] (encode req)"

text \<open>What is printed of the answer, or the error; \<open>decode\<close> reads the pool, the limits and their source.\<close>

definition scale_outcome ::
  "(string \<Rightarrow> string option) \<Rightarrow> (string \<Rightarrow> string + string \<times> int \<times> int \<times> string) \<Rightarrow> controlClient
    \<Rightarrow> string + int \<times> string \<times> string \<Rightarrow> string + string" where
  "scale_outcome message decode c r =
     (case control_result message c r of
        Inl e \<Rightarrow> Inl e
      | Inr data \<Rightarrow> (case decode data of
            Inl e \<Rightarrow> Inl e
          | Inr (pool, mn, mx, source) \<Rightarrow>
              Inr (''pool '' @ pool @ '': min='' @ itoa mn @ '' max='' @ itoa mx @ '' ('' @ source @ '')'' @ [CHR 0x0A])))"

section \<open>\<open>arc drain\<close>, \<open>arc resume\<close>, \<open>arc logs\<close>\<close>

definition drain_flags :: flagset where
  "drain_flags = \<lparr> fs_bool = [''config'' \<mapsto> False], fs_valid = (\<lambda>n v. True) \<rparr>"

definition drain_verb :: "bool \<Rightarrow> string" where
  "drain_verb drain = (if drain then ''drain'' else ''resume'')"

definition cmdDrain :: "string list \<Rightarrow> bool \<Rightarrow> stop + string" where
  "cmdDrain args drain =
     (case parsePositional drain_flags args [] [] of
        Inl e \<Rightarrow> Inl (Exits (flag_exit e))
      | Inr (positional, st) \<Rightarrow>
          (case positional of [pool] \<Rightarrow> Inr pool | _ \<Rightarrow> Inl (Fails (''usage: arc '' @ drain_verb drain @ '' <pool>''))))"

definition drain_call :: "controlClient \<Rightarrow> string \<Rightarrow> bool \<Rightarrow> request" where
  "drain_call c pool drain = received ''POST'' (pool_path pool (drain_verb drain)) (control_headers c False) [] []"

definition drain_outcome ::
  "(string \<Rightarrow> string option) \<Rightarrow> controlClient \<Rightarrow> string \<Rightarrow> bool \<Rightarrow> string + int \<times> string \<times> string \<Rightarrow> string + string" where
  "drain_outcome message c pool drain r =
     (case control_result message c r of
        Inl e \<Rightarrow> Inl e
      | Inr data \<Rightarrow>
          Inr (if drain then ''pool '' @ pool @ '' drained: no new runners will be created. ''
                 @ ''Jobs already running are left to finish.'' @ [CHR 0x0A]
               else ''pool '' @ pool @ '' resumed.'' @ [CHR 0x0A]))"

definition logs_flags :: flagset where
  "logs_flags = \<lparr> fs_bool = [''config'' \<mapsto> False, ''n'' \<mapsto> False], fs_valid = (\<lambda>n v. n = ''n'' \<longrightarrow> ParseInt0 v \<noteq> None) \<rparr>"

definition cmdLogs :: "string list \<Rightarrow> stop + string \<times> string \<times> string" where
  "cmdLogs args =
     (case parsePositional logs_flags args [] [] of
        Inl e \<Rightarrow> Inl (Exits (flag_exit e))
      | Inr (positional, st) \<Rightarrow>
          (case positional of
             [pool, ident] \<Rightarrow> Inr (pool, ident, case ParseInt0 (setting st ''n'' ''200'') of Some n \<Rightarrow> itoa n | None \<Rightarrow> ''200'')
           | _ \<Rightarrow> Inl (Fails ''expected a pool and an instance id'')))"

definition logs_call :: "controlClient \<Rightarrow> string \<Rightarrow> string \<Rightarrow> string \<Rightarrow> request" where
  "logs_call c pool ident n =
     received ''GET'' (pool_path pool (''instances/'' @ PathEscape ident @ ''/logs'')) (control_headers c False) n []"

definition logs_outcome ::
  "(string \<Rightarrow> string option) \<Rightarrow> controlClient \<Rightarrow> string + int \<times> string \<times> string \<Rightarrow> string + string" where
  "logs_outcome message c r =
     (case control_result message c r of Inl e \<Rightarrow> Inl e | Inr data \<Rightarrow> Inr (data @ [CHR 0x0A]))"

section \<open>\<open>arc doctor\<close>\<close>

text \<open>
  What each part of the installation answers. The checks run in order; a check that needs what an
  earlier one failed to get is left out.
\<close>

record doctor_env =
  dr_config :: "string + Config"
  dr_client :: "string + string"
  dr_repos :: "gherr + Repo list"
  dr_runners :: "gherr + Runner list"
  dr_group :: "string \<Rightarrow> gherr + int"
  dr_overrides :: "string option"
  dr_orchestrator :: "string option"
  dr_preflight :: "string \<Rightarrow> string option"
  dr_reach :: "string + string"
  dr_text :: "gherr \<Rightarrow> string"

type_synonym checks = "(string \<times> (string + string)) list"

definition repos_check :: "doctor_env \<Rightarrow> string + string" where
  "repos_check D =
     (case dr_repos D of
        Inl e \<Rightarrow> Inl (dr_text D e)
      | Inr repos \<Rightarrow>
          if repos = [] then Inl ''no repos matched the filter''
          else Inr (itoa (int (length repos)) @ '' repo(s): '' @ join_str '', '' (map repo_Name (take 3 repos))
                @ (if length repos > 3 then '', +'' @ itoa (int (length repos) - 3) @ '' more'' else [])))"

definition runners_check :: "doctor_env \<Rightarrow> Config \<Rightarrow> string + string" where
  "runners_check D cfg =
     (case dr_runners D of
        Inl e \<Rightarrow>
          (if gh_Owner (cfg_GitHub cfg) \<noteq> [] then
             (if IsNotFound e \<or> IsForbidden e then Inl (''cannot administer runners: '' @ dr_text D e) else Inl (dr_text D e))
           else if IsNotFound e then Inl ''org not found, or the credential cannot see it''
           else if IsForbidden e then Inl (''permission denied: '' @ dr_text D e)
           else Inl (dr_text D e))
      | Inr runners \<Rightarrow> Inr (itoa (int (length runners)) @ '' registered, ''
          @ itoa (int (length (filter r_Busy runners))) @ '' busy''))"

definition group_checks :: "doctor_env \<Rightarrow> Config \<Rightarrow> checks" where
  "group_checks D cfg =
     map (\<lambda>p. (''runner group '' @ EffectiveRunnerGroup cfg p @ '' resolves (pool '' @ pool_Name p @ '')'',
               case dr_group D (EffectiveRunnerGroup cfg p) of Inl e \<Rightarrow> Inl (dr_text D e) | Inr i \<Rightarrow> Inr (''id '' @ itoa i)))
       (filter (\<lambda>p. EffectiveRunnerGroup cfg p \<noteq> []) (pools cfg))"

definition github_checks :: "doctor_env \<Rightarrow> Config \<Rightarrow> checks" where
  "github_checks D cfg =
     (''credentials load'', dr_client D) #
     (case dr_client D of
        Inl _ \<Rightarrow> []
      | Inr _ \<Rightarrow>
          [(''can enumerate repos to poll'', repos_check D),
           (if gh_Owner (cfg_GitHub cfg) \<noteq> [] then ''can list repo runners (repo scope)'' else ''can list org runners (admin:org)'',
            runners_check D cfg)]
          @ group_checks D cfg)"

definition pool_checks :: "doctor_env \<Rightarrow> Config \<Rightarrow> checks" where
  "pool_checks D cfg =
     map (\<lambda>p. (''pool '' @ pool_Name p @ '' ('' @ pool_Provider p @ '')'',
               case dr_preflight D (pool_Name p) of
                 Some e \<Rightarrow> Inl e
               | None \<Rightarrow> Inr (''min '' @ itoa (pool_Min p) @ '', max '' @ itoa (pool_Max p) @ '', labels [''
                   @ join_str '', '' (pool_Labels p) @ '']'')))
       (pools cfg)"

definition provider_checks :: "doctor_env \<Rightarrow> Config \<Rightarrow> checks" where
  "provider_checks D cfg =
     (''state directory'', case dr_overrides D of Some e \<Rightarrow> Inl e | None \<Rightarrow> Inr (srv_StateDir (cfg_Server cfg))) #
     (if isl (dr_client D) \<or> dr_overrides D \<noteq> None then []
      else case dr_orchestrator D of
          Some e \<Rightarrow> [(''providers construct'', Inl e)]
        | None \<Rightarrow> pool_checks D cfg)"

definition reach_check :: "doctor_env \<Rightarrow> string + string" where
  "reach_check D = (case dr_reach D of Inl e \<Rightarrow> Inl (''not running (this is fine if you have not started it yet): '' @ e) | Inr d \<Rightarrow> Inr d)"

text \<open>\<open>cmdDoctor\<close>: the error it ends with and the checks that ran.\<close>

definition cmdDoctor :: "doctor_env \<Rightarrow> string option \<times> checks" where
  "cmdDoctor D =
     (let name = ''config file parses and validates''
      in case dr_config D of
           Inl e \<Rightarrow> (Some ''cannot continue without a valid config'', [(name, Inl e)])
         | Inr cfg \<Rightarrow>
             (let cs = (name, Inr (cfg_Path cfg @ '', '' @ itoa (int (length (cfg_Pools cfg))) @ '' pool(s)''))
                       # github_checks D cfg @ provider_checks D cfg @ [(''orchestrator reachable'', reach_check D)];
                  failures = run_checks cs 0
              in (if failures > 0 then Some (itoa (int failures) @ '' check(s) failed'') else None, cs)))"

section \<open>\<open>arc run\<close>\<close>

text \<open>
  The start-up: what each step answers, and what was started. A failed preflight ends it unless
  it is to be skipped; the webhook pipeline runs only when it is configured.
\<close>

record run_env =
  rn_config :: "string \<Rightarrow> int \<Rightarrow> string + Config"
  rn_client :: "string option"
  rn_overrides :: "string option"
  rn_orchestrator :: "string option"
  rn_preflight :: "string option"
  rn_listen :: "string option"
  rn_loop :: "string option"

datatype started = ApiStarted string | WebhookStarted | LoopRan | ApiStopped

definition with_addr :: "string \<Rightarrow> Config \<Rightarrow> Config" where
  "with_addr addr cfg = (if addr = [] then cfg else cfg\<lparr>cfg_Server := (cfg_Server cfg)\<lparr>srv_Addr := addr\<rparr>\<rparr>)"

definition run_flags :: flagset where
  "run_flags = \<lparr> fs_bool = [''config'' \<mapsto> False, ''addr'' \<mapsto> False, ''max'' \<mapsto> False, ''skip-preflight'' \<mapsto> True],
     fs_valid = (\<lambda>n v. (n = ''max'' \<longrightarrow> ParseInt0 v \<noteq> None) \<and> (n = ''skip-preflight'' \<longrightarrow> parse_bool v \<noteq> None)) \<rparr>"

definition int_setting :: "settings \<Rightarrow> string \<Rightarrow> int \<Rightarrow> int" where
  "int_setting st name dflt =
     (case map_of (rev st) name of None \<Rightarrow> dflt | Some v \<Rightarrow> (case ParseInt0 v of Some n \<Rightarrow> n | None \<Rightarrow> dflt))"

definition switch :: "settings \<Rightarrow> string \<Rightarrow> bool" where
  "switch st name = (parse_bool (setting st name ''false'') = Some True)"

text \<open>Once the orchestrator is built: the preflight, the control API, the webhooks, the loop.\<close>

definition bring_up :: "run_env \<Rightarrow> Config \<Rightarrow> bool \<Rightarrow> string option \<times> started list" where
  "bring_up R cfg skip =
     (if rn_preflight R \<noteq> None \<and> \<not> skip
      then (map_option (\<lambda>e. e @ [CHR 0x0A, CHR 0x0A] @ ''Run `arc doctor` for detail, or start with ''
              @ ''-skip-preflight to bring up the pools that do work'') (rn_preflight R), [])
      else (case rn_listen R of
          Some e \<Rightarrow> (Some e, [])
        | None \<Rightarrow> (rn_loop R, ApiStarted (srv_Addr (cfg_Server cfg))
            # (if gh_Webhook (cfg_GitHub cfg) then [WebhookStarted] else []) @ [LoopRan, ApiStopped])))"

definition cmdRun :: "run_env \<Rightarrow> string list \<Rightarrow> stop option \<times> started list" where
  "cmdRun R args =
     (case flag_Parse run_flags args [] of
        Inl e \<Rightarrow> (Some (Exits (flag_exit e)), [])
      | Inr (st, _) \<Rightarrow>
          (let (e, ps) =
             (case rn_config R (setting st ''config'' []) (int_setting st ''max'' DefaultMaxRunners) of
                Inl e \<Rightarrow> (Some e, [])
              | Inr cfg0 \<Rightarrow>
                  (let cfg = with_addr (setting st ''addr'' []) cfg0
                   in case rn_client R of
                        Some e \<Rightarrow> (Some e, [])
                      | None \<Rightarrow> (case rn_overrides R of
                          Some e \<Rightarrow> (Some e, [])
                        | None \<Rightarrow> (case rn_orchestrator R of
                            Some e \<Rightarrow> (Some e, [])
                          | None \<Rightarrow> bring_up R cfg (switch st ''skip-preflight'')))))
           in (map_option Fails e, ps)))"

section \<open>The program (\<open>main.go\<close>)\<close>

datatype command =
  CRun | CInstall | CStartStop string | CConfig | CStatus | CScale | CDrain bool | CLogs | CDoctor | CUpdate

datatype invocation = Usage | Version | Help | Unknown string | Invoke command "string list"

definition dispatch :: "string list \<Rightarrow> invocation" where
  "dispatch argv =
     (case argv of
        [] \<Rightarrow> Usage
      | c # args \<Rightarrow>
          if c = ''run'' then Invoke CRun args
          else if c = ''install'' then Invoke CInstall args
          else if c = ''start'' \<or> c = ''stop'' then Invoke (CStartStop c) []
          else if c = ''config'' then Invoke CConfig args
          else if c = ''status'' then Invoke CStatus args
          else if c = ''scale'' then Invoke CScale args
          else if c = ''drain'' then Invoke (CDrain True) args
          else if c = ''resume'' then Invoke (CDrain False) args
          else if c = ''logs'' then Invoke CLogs args
          else if c = ''doctor'' then Invoke CDoctor args
          else if c = ''update'' then Invoke CUpdate args
          else if c \<in> set [''version'', ''--version'', ''-v''] then Version
          else if c \<in> set [''help'', ''-h'', ''--help''] then Help
          else Unknown c)"

text \<open>The exit status, given how a command ends.\<close>

definition exit_status :: "(command \<Rightarrow> string list \<Rightarrow> stop option) \<Rightarrow> string list \<Rightarrow> int" where
  "exit_status ends argv =
     (case dispatch argv of
        Usage \<Rightarrow> 2
      | Unknown c \<Rightarrow> 2
      | Version \<Rightarrow> 0
      | Help \<Rightarrow> 0
      | Invoke c args \<Rightarrow> (case ends c args of Some (Exits n) \<Rightarrow> n | Some (Fails e) \<Rightarrow> 1 | None \<Rightarrow> 0))"

end
