(* ===== verification/CommandProps.thy ===== *)
theory CommandProps
  imports Commands ApiProps
begin

text \<open>
  Arguments may come in any order; a change of limits on the command line is the change of the
  server's state; the doctor runs every check it can; the credentials that are used were never
  refused; a start without a file gives a valid configuration.
\<close>

section \<open>Arguments in any order\<close>

text \<open>One argument of a command: a positional one, or a flag in one of its spellings.\<close>

datatype arg = Positional string | Switch string string | Separate string string string | Joined string string string

fun arg_tokens :: "arg \<Rightarrow> string list" where
  "arg_tokens (Positional s) = [s]"
| "arg_tokens (Switch d n) = [d @ n]"
| "arg_tokens (Separate d n v) = [d @ n, v]"
| "arg_tokens (Joined d n v) = [d @ n @ ''='' @ v]"

fun arg_positional :: "arg \<Rightarrow> string list" where
  "arg_positional (Positional s) = [s]"
| "arg_positional _ = []"

fun arg_setting :: "arg \<Rightarrow> settings" where
  "arg_setting (Positional s) = []"
| "arg_setting (Switch d n) = [(n, ''true'')]"
| "arg_setting (Separate d n v) = [(n, v)]"
| "arg_setting (Joined d n v) = [(n, v)]"

definition flag_name_ok :: "string \<Rightarrow> string \<Rightarrow> bool" where
  "flag_name_ok d n = (d \<in> {''-'', ''--''} \<and> n \<noteq> [] \<and> hd n \<noteq> CHR ''-'' \<and> CHR ''='' \<notin> set n)"

fun arg_ok :: "flagset \<Rightarrow> arg \<Rightarrow> bool" where
  "arg_ok f (Positional s) = (\<not> has_prefix s ''-'')"
| "arg_ok f (Switch d n) = (flag_name_ok d n \<and> fs_bool f n = Some True \<and> fs_valid f n ''true'')"
| "arg_ok f (Separate d n v) = (flag_name_ok d n \<and> fs_bool f n = Some False \<and> fs_valid f n v)"
| "arg_ok f (Joined d n v) = (flag_name_ok d n \<and> fs_bool f n \<noteq> None \<and> fs_valid f n v)"

fun is_flag :: "arg \<Rightarrow> bool" where
  "is_flag (Positional s) = False"
| "is_flag _ = True"

definition tokens :: "arg list \<Rightarrow> string list" where "tokens xs = concat (map arg_tokens xs)"
definition positionals :: "arg list \<Rightarrow> string list" where "positionals xs = concat (map arg_positional xs)"
definition arg_settings :: "arg list \<Rightarrow> settings" where "arg_settings xs = concat (map arg_setting xs)"

lemma tokens_append: "tokens (us @ vs) = tokens us @ tokens vs"
  by (simp add: tokens_def)

lemma arg_tokens_nonempty [simp]: "arg_tokens x \<noteq> []"
  by (cases x) simp_all

lemma flag_text:
  assumes "flag_name_ok d n"
  shows "\<not> length (d @ n @ t) < 2" "hd (d @ n @ t) = CHR ''-''" "d @ n @ t \<noteq> ''--''"
    "(if has_prefix (d @ n @ t) ''--'' then drop 2 (d @ n @ t) else drop 1 (d @ n @ t)) = n @ t"
    "n @ t \<noteq> []" "hd (n @ t) \<noteq> CHR ''-''" "hd (n @ t) \<noteq> CHR ''=''" "has_prefix (d @ n @ t) ''-''"
proof -
  obtain c r where n: "n = c # r" "c \<noteq> CHR ''-''" "c \<noteq> CHR ''=''"
    using assms by (cases n) (auto simp: flag_name_ok_def)
  have d: "d = ''-'' \<or> d = ''--''" using assms by (simp add: flag_name_ok_def)
  show "\<not> length (d @ n @ t) < 2" using d n by (elim disjE) simp_all
  show "hd (d @ n @ t) = CHR ''-''" using d by (elim disjE) simp_all
  show "d @ n @ t \<noteq> ''--''" using d n by (elim disjE) simp_all
  show "(if has_prefix (d @ n @ t) ''--'' then drop 2 (d @ n @ t) else drop 1 (d @ n @ t)) = n @ t"
    using d n by (elim disjE) (simp_all add: has_prefix_def)
  show "n @ t \<noteq> []" "hd (n @ t) \<noteq> CHR ''-''" "hd (n @ t) \<noteq> CHR ''=''" using n by simp_all
  show "has_prefix (d @ n @ t) ''-''" using d by (elim disjE) (simp_all add: has_prefix_def)
qed

lemma split_flag_name: "flag_name_ok d n \<Longrightarrow> split_flag n = (n, None)"
  "flag_name_ok d n \<Longrightarrow> split_flag (n @ ''='' @ v) = (n, Some v)"
proof -
  assume a: "flag_name_ok d n"
  obtain c r where n: "n = c # r" "CHR ''='' \<notin> set r" using a by (cases n) (auto simp: flag_name_ok_def)
  have t: "takeWhile (\<lambda>x. x \<noteq> CHR ''='') r = r" using n(2) by (subst takeWhile_eq_all_conv) auto
  have u: "takeWhile (\<lambda>x. x \<noteq> CHR ''='') (r @ CHR ''='' # v) = r" using n(2) by (subst takeWhile_append2) auto
  show "split_flag n = (n, None)" using n(1) by (simp only: split_flag_def list.case Let_def t drop_all [OF order_refl])
  show "split_flag (n @ ''='' @ v) = (n, Some v)" using n(1) by (simp add: split_flag_def Let_def u)
qed

text \<open>One flag in front is one setting more.\<close>

lemma flag_Parse_flag:
  assumes "arg_ok f x" "is_flag x"
  shows "flag_Parse f (arg_tokens x @ rest) st = flag_Parse f rest (st @ arg_setting x)"
proof -
  have step: "flag_Parse f ((d @ n @ t) # args) st
      = (case set_flag f (fst (split_flag (n @ t))) (snd (split_flag (n @ t))) args st of
           Inl e \<Rightarrow> Inl e
         | Inr (st', args') \<Rightarrow> if length args' \<le> length args then flag_Parse f args' st' else Inr (st', args'))"
    if "flag_name_ok d n" for d n t args
    using flag_text [OF that, of t]
    by (subst flag_Parse.simps) (simp only: Let_def if_False if_True simp_thms split_beta)
  show ?thesis
  proof (cases x)
    case (Positional s)
    with assms show ?thesis by simp
  next
    case (Switch d n)
    with assms step [of d n "[]"] split_flag_name [of d n] show ?thesis by (simp add: set_flag_def)
  next
    case (Separate d n v)
    with assms step [of d n "[]"] split_flag_name [of d n] show ?thesis by (simp add: set_flag_def)
  next
    case (Joined d n v)
    with assms have ok: "flag_name_ok d n" "fs_valid f n v" and b: "fs_bool f n = Some True \<or> fs_bool f n = Some False"
      by auto
    then show ?thesis
      using Joined step [OF ok(1), of "''='' @ v"] split_flag_name(2) [OF ok(1), of v] by (auto simp: set_flag_def)
  qed
qed

lemma flag_Parse_tokens:
  assumes "list_all (arg_ok f) xs"
  shows "flag_Parse f (tokens xs) st = Inr (st @ arg_settings (takeWhile is_flag xs), tokens (dropWhile is_flag xs))"
  using assms
proof (induction xs arbitrary: st)
  case Nil
  show ?case by (simp add: tokens_def arg_settings_def flag_Parse.simps)
next
  case (Cons x xs)
  show ?case
  proof (cases "is_flag x")
    case True
    with Cons.prems have "flag_Parse f (tokens (x # xs)) st = flag_Parse f (tokens xs) (st @ arg_setting x)"
      using flag_Parse_flag [of f x "tokens xs" st] by (simp add: tokens_def)
    with Cons.IH [of "st @ arg_setting x"] Cons.prems True show ?thesis by (simp add: arg_settings_def tokens_def)
  next
    case False
    then obtain s where s: "x = Positional s" by (cases x) auto
    with Cons.prems have "length s < 2 \<or> hd s \<noteq> CHR ''-''" by (cases s) (auto simp: has_prefix_def)
    with s show ?thesis by (simp add: tokens_def arg_settings_def flag_Parse.simps)
  qed
qed

lemma flag_token: "arg_ok f x \<Longrightarrow> is_flag x \<Longrightarrow> \<exists>t ts. arg_tokens x = t # ts \<and> has_prefix t ''-''"
proof (cases x)
  case (Switch d n)
  then show "arg_ok f x \<Longrightarrow> ?thesis" using flag_text(8) [of d n "[]"] by simp
next
  case (Separate d n v)
  then show "arg_ok f x \<Longrightarrow> ?thesis" using flag_text(8) [of d n "[]"] by simp
next
  case (Joined d n v)
  then show "arg_ok f x \<Longrightarrow> ?thesis" using flag_text(8) [of d n "''='' @ v"] by simp
qed simp

lemma tokens_here:
  assumes "list_all (arg_ok f) xs"
  shows "takeWhile (\<lambda>a. \<not> has_prefix a ''-'') (tokens xs) = positionals (takeWhile (\<lambda>x. \<not> is_flag x) xs)"
    and "drop (length (positionals (takeWhile (\<lambda>x. \<not> is_flag x) xs))) (tokens xs) = tokens (dropWhile (\<lambda>x. \<not> is_flag x) xs)"
proof -
  have "takeWhile (\<lambda>a. \<not> has_prefix a ''-'') (tokens xs) = positionals (takeWhile (\<lambda>x. \<not> is_flag x) xs)
      \<and> drop (length (positionals (takeWhile (\<lambda>x. \<not> is_flag x) xs))) (tokens xs) = tokens (dropWhile (\<lambda>x. \<not> is_flag x) xs)"
    using assms
  proof (induction xs)
    case Nil
    show ?case by (simp add: tokens_def positionals_def)
  next
    case (Cons x xs)
    show ?case
    proof (cases "is_flag x")
      case True
      with Cons.prems flag_token [of f x] show ?thesis by (auto simp: tokens_def positionals_def)
    next
      case False
      then obtain s where "x = Positional s" by (cases x) auto
      with Cons show ?thesis by (simp add: tokens_def positionals_def)
    qed
  qed
  then show "takeWhile (\<lambda>a. \<not> has_prefix a ''-'') (tokens xs) = positionals (takeWhile (\<lambda>x. \<not> is_flag x) xs)"
    "drop (length (positionals (takeWhile (\<lambda>x. \<not> is_flag x) xs))) (tokens xs) = tokens (dropWhile (\<lambda>x. \<not> is_flag x) xs)"
    by blast+
qed

lemma parts:
  "positionals xs = positionals (takeWhile (\<lambda>x. \<not> is_flag x) xs) @ positionals (dropWhile is_flag (dropWhile (\<lambda>x. \<not> is_flag x) xs))"
  "arg_settings xs = arg_settings (takeWhile is_flag (dropWhile (\<lambda>x. \<not> is_flag x) xs))
     @ arg_settings (dropWhile is_flag (dropWhile (\<lambda>x. \<not> is_flag x) xs))"
proof -
  have p: "positionals (takeWhile is_flag ys) = []" "arg_settings (takeWhile (\<lambda>x. \<not> is_flag x) ys) = []" for ys
    by (induction ys) (auto simp: positionals_def arg_settings_def elim!: is_flag.elims)
  have a: "positionals (us @ vs) = positionals us @ positionals vs" "arg_settings (us @ vs) = arg_settings us @ arg_settings vs"
    for us vs by (simp_all add: positionals_def arg_settings_def)
  let ?d = "dropWhile (\<lambda>x. \<not> is_flag x) xs"
  have "xs = takeWhile (\<lambda>x. \<not> is_flag x) xs @ takeWhile is_flag ?d @ dropWhile is_flag ?d" by simp
  then show "positionals xs = positionals (takeWhile (\<lambda>x. \<not> is_flag x) xs) @ positionals (dropWhile is_flag ?d)"
    "arg_settings xs = arg_settings (takeWhile is_flag ?d) @ arg_settings (dropWhile is_flag ?d)"
    using p a by (metis append_Nil)+
qed

lemma parsePositional_tokens:
  assumes "list_all (arg_ok f) xs"
  shows "parsePositional f (tokens xs) pos st = Inr (pos @ positionals xs, st @ arg_settings xs)"
  using assms
proof (induction xs arbitrary: pos st rule: length_induct)
  case (1 xs)
  let ?d = "dropWhile (\<lambda>x. \<not> is_flag x) xs"
  let ?r = "dropWhile is_flag ?d"
  let ?here = "positionals (takeWhile (\<lambda>x. \<not> is_flag x) xs)"
  have okd: "list_all (arg_ok f) ?d" "list_all (arg_ok f) ?r"
    using "1.prems" by (auto simp: list_all_iff dest!: set_dropWhileD)
  note here = tokens_here [OF "1.prems"]
  show ?case
  proof (cases "?d = []")
    case True
    then have t: "tokens ?d = []" unfolding True by (simp add: tokens_def)
    from parts [of xs] have "positionals xs = ?here" "arg_settings xs = []"
      unfolding True by (simp_all add: positionals_def arg_settings_def)
    with t here show ?thesis by (subst parsePositional.simps) (simp add: Let_def)
  next
    case False
    then obtain x ys where x: "?d = x # ys" by (cases ?d) auto
    then have fx: "is_flag x" using hd_dropWhile [of "\<lambda>x. \<not> is_flag x" xs] by auto
    then have shorter: "length ?r \<le> length ys" using x by (simp add: length_dropWhile_le)
    have ne: "tokens ?d \<noteq> []" using x fx by (cases x) (auto simp: tokens_def)
    have len: "length (tokens ?r) < length (tokens ?d)"
    proof -
      obtain zs where "?d = zs @ ?r" "x \<in> set zs"
        using x fx by (metis list.set_intros(1) takeWhile.simps(2) takeWhile_dropWhile_id)
      then have "tokens ?d = tokens zs @ tokens ?r" "tokens zs \<noteq> []"
        by (metis tokens_append, auto simp: tokens_def)
      then show ?thesis by simp
    qed
    have "length ?r < length xs"
      using shorter x length_dropWhile_le [of "\<lambda>x. \<not> is_flag x" xs] by simp
    with "1.IH" okd(2) have IH: "parsePositional f (tokens ?r) (pos @ ?here) (st @ arg_settings (takeWhile is_flag ?d))
        = Inr (pos @ ?here @ positionals ?r, st @ arg_settings (takeWhile is_flag ?d) @ arg_settings ?r)"
      by simp
    have more: "\<not> length (tokens xs) \<le> length ?here" using here(2) ne by (metis drop_all)
    show ?thesis
      using more len IH parts [of xs]
      by (subst parsePositional.simps) (simp add: Let_def here flag_Parse_tokens [OF okd(1)])
  qed
qed

text \<open>
  Flags and positional arguments may come in any order and spelling: the positional ones are
  collected in order, and every flag is set, in order, none of them silently ignored.
\<close>

lemma parsePositional_any_order:
  assumes "list_all (arg_ok f) xs"
  shows "parsePositional f (tokens xs) [] [] = Inr (positionals xs, arg_settings xs)"
  using parsePositional_tokens [OF assms, of "[]" "[]"] by simp

definition demo_args :: "arg list" where
  "demo_args = [Positional ''linux'', Separate ''-'' ''max'' ''12'', Joined ''--'' ''min'' ''1'']"

lemma demo_args_ok: "list_all (arg_ok scale_flags) demo_args"
  by (simp add: demo_args_def scale_flags_def flag_name_ok_def has_prefix_def)

lemma parsePositional_any_order_witness:
  "parsePositional scale_flags [''linux'', ''-max'', ''12'', ''--min=1''] [] []
     = Inr ([''linux''], [(''max'', ''12''), (''min'', ''1'')])"
  using parsePositional_any_order [OF demo_args_ok]
  by (simp add: demo_args_def tokens_def positionals_def arg_settings_def)

section \<open>The path of a pool\<close>

lemma url_hex_value_digit: "n < 16 \<Longrightarrow> url_hex_value (url_hex_digit n) = n"
  by (auto simp: url_hex_value_def url_hex_digit_def is_digit_def is_upper_alpha_def Let_def)

lemma unescape_char: "c \<noteq> CHR ''%'' \<Longrightarrow> unescape (c # s) = c # unescape s"
  by (cases "(c # s)" rule: unescape.cases) auto

lemma unescape_PathEscape: "unescape (PathEscape s) = s"
proof (induction s)
  case Nil
  show ?case by (simp add: PathEscape_def)
next
  case (Cons c s)
  have "segment_char c \<Longrightarrow> c \<noteq> CHR ''%''"
    by (auto simp: segment_char_def is_lower_alpha_def is_upper_alpha_def is_digit_def Let_def)
  moreover have "char_of (16 * url_hex_value (url_hex_digit (of_char c div 16)) + url_hex_value (url_hex_digit (of_char c mod 16))) = c"
    by (simp add: url_hex_value_digit less_mult_imp_div_less)
  ultimately show ?case
    using Cons by (simp add: PathEscape_def unescape_char)
qed

lemma PathEscape_no_slash: "CHR ''/'' \<notin> set (PathEscape s)"
proof -
  have hex: "CHR ''/'' \<noteq> url_hex_digit n" if "n < 16" for n
  proof
    assume a: "CHR ''/'' = url_hex_digit n"
    then have "url_hex_value CHR ''/'' = n" using url_hex_value_digit [OF that] by simp
    then have "n = 0" by (simp add: url_hex_value_def is_digit_def is_upper_alpha_def)
    moreover have "(of_char CHR ''/'' :: nat) = of_char (url_hex_digit n)" using a by simp
    ultimately show False by (simp add: url_hex_digit_def)
  qed
  have "CHR ''/'' \<notin> set (if segment_char c then [c]
      else [CHR ''%'', url_hex_digit (of_char c div 16), url_hex_digit (of_char c mod 16)])" for c
    using hex [of "of_char c div 16"] hex [of "of_char c mod 16"]
    by (auto simp: less_mult_imp_div_less segment_char_def is_lower_alpha_def is_upper_alpha_def is_digit_def)
  then show ?thesis unfolding PathEscape_def set_concat set_map by blast
qed

lemma split_char_append:
  "d \<notin> set a \<Longrightarrow> split_char d (a @ d # b) = a # split_char d b"
  by (induction a) (auto split: list.split)

text \<open>The server sees the very name the client was given, whatever its bytes.\<close>

lemma received_pool_path:
  "rq_path (received m (pool_path pool verb) hs ls b)
     = [''v1'', ''pools'', pool] @ map unescape (split_char CHR ''/'' verb)"
proof -
  have "drop 1 (pool_path pool verb) = ''v1'' @ CHR ''/'' # (''pools'' @ CHR ''/'' # (PathEscape pool @ CHR ''/'' # verb))"
    by (simp add: pool_path_def)
  moreover have "split_char CHR ''/'' (''v1'' @ CHR ''/'' # (''pools'' @ CHR ''/'' # (PathEscape pool @ CHR ''/'' # verb)))
      = ''v1'' # ''pools'' # PathEscape pool # split_char CHR ''/'' verb"
  proof -
    have "split_char CHR ''/'' (''v1'' @ CHR ''/'' # x) = ''v1'' # split_char CHR ''/'' x"
      "split_char CHR ''/'' (''pools'' @ CHR ''/'' # x) = ''pools'' # split_char CHR ''/'' x" for x
      by (rule split_char_append, simp)+
    then show ?thesis by (simp only: split_char_append [OF PathEscape_no_slash])
  qed
  ultimately show ?thesis by (simp only: received_def request.simps) (simp add: unescape_PathEscape)
qed

section \<open>A change of limits, end to end\<close>

lemma client_authorized:
  "authorized (srv_Token (cfg_Server cfg)) (received m p (control_headers (newControlClient cfg) b) ls d)"
  using trim_prefix_append [of "''Bearer ''" "srv_Token (cfg_Server cfg)"]
  by (simp add: authorized_def received_def control_headers_def newControlClient_def)

lemma scale_route:
  "route_path (rq_path (scale_call c enc pool req)) = Some (''POST'', RScale pool)"
  by (simp add: scale_call_def received_pool_path route_path_def)

lemma scale_call_spec:
  "spec_serve cfg decode (scale_call (newControlClient cfg) enc pool req) c
     = (case decode (enc req) of Inr r \<Rightarrow> spec_scale cfg pool r c | Inl _ \<Rightarrow> c)"
  using client_authorized [of cfg]
  by (simp add: spec_serve_def scale_route method_ok_def) (simp add: scale_call_def received_def)

text \<open>
  C8. A change of limits typed at the command line, its arguments in any order, is the change of
  the orchestrator's limits: the client and the server read the same configuration, the pool
  exists and the new limits are good, and the codec of the request reads back what it writes.
\<close>

theorem scale_takes_effect:
  assumes "list_all (arg_ok scale_flags) xs" "positionals xs = [pool]" "scale_body (arg_settings xs) = Inr req"
    and "config_Pool cfg pool = Some p" "\<not> sr_Reset req" "decode (encode req) = Inr req"
    and "good_limits (asked req (effective (overrides_of s) p))"
  shows "cmdScale (tokens xs) = Inr (pool, req)
     \<and> ct_limits (control_of cfg (snd (serve X cfg providers st decode
           (scale_call (newControlClient cfg) encode pool req) s))) pool
         = Some (asked req (effective (overrides_of s) p))"
proof -
  have "cmdScale (tokens xs) = Inr (pool, req)"
    using parsePositional_tokens [OF assms(1), of "[]" "[]"] assms(2,3) by (simp add: cmdScale_def)
  moreover have given: "sr_Min req \<noteq> None \<or> sr_Max req \<noteq> None"
    using assms(3,5) by (auto simp: scale_body_def Let_def split: sum.splits if_splits)
  have "ct_limits (spec_scale cfg pool req (control_of cfg s)) pool = Some (asked req (effective (overrides_of s) p))"
    using assms(4,5,7) given by (simp add: spec_scale_def control_of_def)
  then have "ct_limits (control_of cfg (snd (serve X cfg providers st decode
      (scale_call (newControlClient cfg) encode pool req) s))) pool = Some (asked req (effective (overrides_of s) p))"
    unfolding serve_refinement scale_call_spec assms(6) by simp
  ultimately show ?thesis by blast
qed

definition demo_scale :: "arg list" where
  "demo_scale = [Separate ''-'' ''max'' ''12'', Positional ''linux'']"

theorem scale_takes_effect_witness:
  "\<forall>X providers st. ct_limits (control_of (applyDefaults sample_host sample_config)
      (snd (serve X (applyDefaults sample_host sample_config) providers st
         (\<lambda>_. Inr \<lparr> sr_Min = None, sr_Max = Some 12, sr_Reset = False \<rparr>)
         (scale_call (newControlClient (applyDefaults sample_host sample_config)) (\<lambda>_. ''{}'') ''linux''
            \<lparr> sr_Min = None, sr_Max = Some 12, sr_Reset = False \<rparr>) idle_server))) ''linux'' = Some (0, 12)"
proof -
  let ?C = "applyDefaults sample_host sample_config" and ?R = "\<lparr> sr_Min = None, sr_Max = Some 12, sr_Reset = False \<rparr>"
  have "map_option (\<lambda>p. (pool_Name p, pool_Min p, pool_Max p)) (config_Pool ?C ''linux'') = Some (''linux'', 0, 2)" by code_simp
  then obtain p where p: "config_Pool ?C ''linux'' = Some p" "pool_Min p = 0" "pool_Max p = 2" by auto
  have a: "asked ?R (effective (overrides_of idle_server) p) = (0, 12)"
    using p by (simp add: asked_def effective_def overrides_of_def idle_server_def idle_orch_def Get_def)
  have ok: "list_all (arg_ok scale_flags) demo_scale" "positionals demo_scale = [''linux'']"
    "scale_body (arg_settings demo_scale) = Inr ?R"
    by (simp add: demo_scale_def scale_flags_def flag_name_ok_def has_prefix_def) code_simp+
  have g: "good_limits (asked ?R (effective (overrides_of idle_server) p))" by (simp add: a good_limits_def)
  show ?thesis
    using scale_takes_effect [OF ok p(1) _ _ g, of "\<lambda>_. Inr ?R" "\<lambda>_. ''{}''"] a by simp
qed

section \<open>Starting without a file\<close>

text \<open>
  What settles which credentials are used: \<open>verified\<close> when GitHub answered for them now, or they are
  the cached ones, answered for earlier, and GitHub has not refused them.
\<close>

definition settled :: "item option \<Rightarrow> (item \<Rightarrow> gherr + string) \<Rightarrow> item \<Rightarrow> bool \<Rightarrow> bool" where
  "settled cached probe it from_cache =
     ((\<exists>it0 t. probe it0 = Inr t \<and> it = it0\<lparr>it_AccountType := t\<rparr> \<and> (from_cache \<longrightarrow> cached = Some it0))
      \<or> (from_cache \<and> cached = Some it \<and> it_AccountType it \<noteq> [] \<and> (\<exists>e. probe it = Inl e \<and> \<not> isAuthError e)))"

text \<open>
  C30. The vault is read at most once, and never while the cached credentials authenticate or
  GitHub cannot be asked; credentials that GitHub refuses are not used: those a start goes on with
  were just verified, or are the cached ones, verified by an earlier start.
\<close>

theorem settle_item_sound:
  assumes "settle_item cached vault probe = (r, reads)"
  shows "reads \<le> 1
     \<and> (reads = 1 \<longleftrightarrow> cached = None \<or> (\<exists>it e. cached = Some it \<and> probe it = Inl e \<and> isAuthError e))
     \<and> (case r of Inl _ \<Rightarrow> True | Inr (it, from_cache) \<Rightarrow> settled cached probe it from_cache)"
  using assms
  by (auto simp: settle_item_def settled_def split: option.splits sum.splits if_splits)

definition demo_item :: item where
  "demo_item = \<lparr> it_Token = ''t'', it_Login = ''acme'', it_AccountType = ''User'', it_FetchedAt = 0 \<rparr>"

theorem settle_item_sound_witness:
  "snd (settle_item (Some demo_item) (Inl ''op'') (\<lambda>_. Inl (OtherError ''offline''))) \<le> 1"
  by (rule conjunct1 [OF settle_item_sound [OF surjective_pairing]])

lemma is_space_host: "label_ok ''self-hosted''" "label_ok ''macos''" "label_ok ''windows''" "label_ok ''linux''" "label_ok ''x64''"
  by code_simp+

lemma auto_config_valid:
  assumes "it_Token it \<noteq> []" "it_Login it \<noteq> []" "label_ok (GOARCH h)"
  shows "valid_config (applyDefaults h (auto_config h n it))"
proof -
  let ?c = "applyDefaults h (auto_config h n it)" and ?p = "HostPool h n"
  obtain g sd where p: "pools ?c = [pool_defaults h g sd ?p]" "None \<notin> set (cfg_Pools ?c)" "cfg_Pools ?c \<noteq> []"
    by (auto simp: pools_def applyDefaults_def auto_config_def Let_def map_filter_simps)
  have "label_ok (if GOARCH h = ''amd64'' then ''x64'' else GOARCH h)" using assms(3) is_space_host by simp
  then have l: "list_all label_ok (pool_Labels ?p)" "pool_Labels ?p \<noteq> []" "pool_name_ok (pool_Name ?p)"
    using is_space_host by (auto simp: HostPool_def Let_def) code_simp+
  have "valid_pool owner (pool_defaults h g sd ?p)" for owner
    using l by (auto simp: valid_pool_def pool_defaults_def HostPool_def Let_def valid_provider_def or_default_def
        ProviderProcess_def DefaultMaxRunners_def)
  moreover have "valid_github (cfg_GitHub ?c)"
    using assms(1,2) by (auto simp: valid_github_def applyDefaults_def auto_config_def github_defaults_def or_default_def
        empty_github_def empty_config_def empty_repos_def default_defs DefaultWebhookPoll_def duration_defs Let_def)
  ultimately show ?thesis using p by (simp add: valid_config_def)
qed

definition has_login :: "item \<Rightarrow> bool" where
  "has_login it = (it_Token it \<noteq> [] \<and> it_Login it \<noteq> [])"

lemma has_login_type [simp]: "has_login (it\<lparr>it_AccountType := t\<rparr>) = has_login it"
  by (simp add: has_login_def)

lemma ReadCache_login: "ReadCache jd content = Some it \<Longrightarrow> has_login it"
  by (auto simp: ReadCache_def has_login_def split: option.splits if_splits)

lemma op_Load_login: "op_Load jd out now = Inr it \<Longrightarrow> has_login it"
  by (auto simp: op_Load_def has_login_def Let_def split: sum.splits option.splits if_splits)

lemma settle_login:
  "settle_item cached vault probe = (Inr (it, b), n) \<Longrightarrow> (\<And>i. cached = Some i \<Longrightarrow> has_login i)
    \<Longrightarrow> (\<And>i. vault = Inr i \<Longrightarrow> has_login i) \<Longrightarrow> has_login it"
  by (auto simp: settle_item_def split: option.splits sum.splits if_splits)

text \<open>
  C29. A start without a configuration file, once its credentials are settled, has a valid
  configuration: one pool for this machine from zero to the asked maximum, for the account of the
  vault; the YAML codec reads back what it writes and writes no reference to the environment.
\<close>

theorem autoConfig_starts:
  assumes "sa_arc_config A = []" and "\<forall>p. \<not> sa_exists A p"
    and "sa_vault A = op_Load od out now" and "fst (settle_item (start_cache A) (sa_vault A) (sa_probe A)) = Inr (it, b)"
    and "label_ok (GOARCH (sa_host A))" and "sa_marshal A (auto_config (sa_host A) n it) = Inr raw"
    and "sa_decode A raw = Inr (auto_config (sa_host A) n it)" and "CHR ''$'' \<notin> set raw"
  shows "\<exists>c p. loadConfigMax A [] n = Inr c
     \<and> valid_config c \<and> pools c = [p] \<and> pool_Min p = 0 \<and> pool_Max p = (if n < 1 then 4 else n)
     \<and> Entity (cfg_GitHub c) = it_Login it \<and> gh_Token (cfg_GitHub c) = it_Token it"
proof -
  let ?h = "sa_host A"
  let ?auto = "auto_config ?h n it"
  let ?res = "(applyDefaults ?h ?auto)\<lparr>cfg_Path := ''1Password op://arc/github'' @ (if b then '' (cached)'' else [])\<rparr>"
  obtain k where "settle_item (start_cache A) (op_Load od out now) (sa_probe A) = (Inr (it, b), k)"
    using assms(3,4) by (metis prod.collapse)
  then have "has_login it" by (rule settle_login) (auto simp: start_cache_def dest: ReadCache_login op_Load_login)
  then have it: "it_Token it \<noteq> []" "it_Login it \<noteq> []" by (simp_all add: has_login_def)
  note valid = auto_config_valid [OF it assms(5), of n]
  have "Parse ?h (sa_decode A) raw = Inr (applyDefaults ?h ?auto)"
    using valid assms(7,8) by (simp add: Parse_def expandEnv_identity Let_def Validate_valid)
  then have run: "loadConfigMax A [] n = Inr ?res"
    using assms(1,2,4,6) by (simp add: loadConfigMax_def resolve_config_def autoConfig_def)
  obtain g sd where p: "pools (applyDefaults ?h ?auto) = [pool_defaults ?h g sd (HostPool ?h n)]"
    by (auto simp: pools_def applyDefaults_def auto_config_def Let_def map_filter_simps)
  then have "pools ?res = [pool_defaults ?h g sd (HostPool ?h n)]" "valid_config ?res"
    using valid by (simp_all add: pools_def valid_config_def)
  moreover have "pool_Min (pool_defaults ?h g sd (HostPool ?h n)) = 0"
    "pool_Max (pool_defaults ?h g sd (HostPool ?h n)) = (if n < 1 then 4 else n)"
    by (simp_all add: pool_defaults_def HostPool_def Let_def DefaultMaxRunners_def)
  moreover have "Entity (cfg_GitHub ?res) = it_Login it" "gh_Token (cfg_GitHub ?res) = it_Token it"
    using it by (auto simp: Entity_def applyDefaults_def auto_config_def github_defaults_def Let_def empty_github_def empty_config_def)
  ultimately show ?thesis using run by blast
qed

definition demo_start :: start_env where
  "demo_start = \<lparr> sa_host = sample_host, sa_home = Some ''/home/me'', sa_arc_config = [], sa_exists = (\<lambda>_. False),
     sa_read = (\<lambda>p. if p = ''/home/me/.arc/credentials.json'' then Inr ''json'' else Inl ''no such file''), sa_abs = Some,
     sa_decode = (\<lambda>_. Inr (auto_config sample_host 2 demo_item)), sa_marshal = (\<lambda>_. Inr ''yaml''),
     sa_item = (\<lambda>_. Some demo_item), sa_vault = op_Load (\<lambda>_. None) (Inl ''op'') 0, sa_probe = (\<lambda>_. Inr ''User'') \<rparr>"

theorem autoConfig_starts_witness:
  "\<exists>c p. loadConfigMax demo_start [] 2 = Inr c
   \<and> valid_config c \<and> pools c = [p] \<and> pool_Min p = 0 \<and> pool_Max p = (if (2::int) < 1 then 4 else 2)
   \<and> Entity (cfg_GitHub c) = it_Login demo_item \<and> gh_Token (cfg_GitHub c) = it_Token demo_item"
proof (rule autoConfig_starts)
  show "label_ok (GOARCH (sa_host demo_start))" unfolding demo_start_def by code_simp
  have path: "CachePath (sa_home demo_start) = Some ''/home/me/.arc/credentials.json''" unfolding demo_start_def by code_simp
  have "sa_read demo_start ''/home/me/.arc/credentials.json'' = Inr ''json''" by (simp add: demo_start_def)
  then have "start_cache demo_start = Some demo_item"
    by (simp add: start_cache_def path) (simp add: demo_start_def ReadCache_def demo_item_def)
  then show "fst (settle_item (start_cache demo_start) (sa_vault demo_start) (sa_probe demo_start)) = Inr (demo_item, True)"
    by (simp add: settle_item_def) (simp add: demo_start_def demo_item_def)
  show "CHR ''$'' \<notin> set ''yaml''" by code_simp
qed (simp_all add: demo_start_def)

text \<open>A file that is found is the only source: neither the vault, its cache nor GitHub has a say.\<close>

lemma file_wins:
  assumes "sa_exists A path" "path \<noteq> []"
  shows "loadConfigMax A path n = loadConfigMax (A\<lparr>sa_item := i, sa_vault := v, sa_probe := pr, sa_arc_config := ac\<rparr>) path m"
  using assms by (simp add: loadConfigMax_def resolve_config_def split: config_source.split)

text \<open>An explicit path that does not exist is an error; nothing else is tried.\<close>

lemma explicit_or_error:
  assumes "\<not> sa_exists A path" "path \<noteq> []"
  shows "loadConfigMax A path n = Inl (NoConfig path)"
  using assms by (simp add: loadConfigMax_def resolve_config_def)

section \<open>What the commands take too lightly\<close>

text \<open>The replacement of the listen address looks anywhere in it, not at its front only.\<close>

lemma control_addr_inside: "control_addr ''10.0.0.0:8730'' = ''1127.0.0.1:8730''"
  by code_simp

text \<open>A refusal for want of quota counts as a refusal of the credentials.\<close>

lemma rate_limit_is_auth_error: "isAuthError (APIError 403 ''API rate limit exceeded'' u)"
  by (simp add: isAuthError_def)

section \<open>The doctor and the start-up\<close>

lemma run_checks_count: "run_checks cs k = k + length (filter (\<lambda>c. isl (snd c)) cs)"
  by (induction cs k rule: run_checks.induct) auto

text \<open>The doctor's verdict is bad exactly when a check failed, and it does not stop at the first one.\<close>

lemma doctor_verdict: "fst (cmdDoctor D) = None \<longleftrightarrow> list_all (\<lambda>c. \<not> isl (snd c)) (snd (cmdDoctor D))"
  by (auto simp: cmdDoctor_def Let_def run_checks_count list_all_iff filter_empty_conv split: sum.split)

lemma doctor_checks_every_pool:
  assumes "dr_config D = Inr cfg" "\<not> isl (dr_client D)" "dr_overrides D = None" "dr_orchestrator D = None"
    and "p \<in> set (pools cfg)" "dr_preflight D (pool_Name p) = Some e"
  shows "(''pool '' @ pool_Name p @ '' ('' @ pool_Provider p @ '')'', Inl e) \<in> set (snd (cmdDoctor D))"
  using assms by (force simp: cmdDoctor_def provider_checks_def pool_checks_def Let_def)

text \<open>Nothing is started before every preflight passed, unless that was asked for.\<close>

lemma run_preflight_gate:
  "flag_Parse run_flags args [] = Inr (st, rest) \<Longrightarrow> snd (cmdRun R args) \<noteq> []
    \<Longrightarrow> rn_preflight R = None \<or> switch st ''skip-preflight''"
  by (auto simp: cmdRun_def bring_up_def Let_def split: sum.splits option.splits if_splits)

end
