(* ===== verification/Status.thy ===== *)
theory Status
  imports Commands Duration
begin

text \<open>
  \<open>arc status\<close> (\<open>cmd/arc/status.go\<close>): the report as the bytes that are printed, with the table writer
  of \<open>text/tabwriter\<close> (padding 2, no flags), and the command with its flags and its watch loop. The
  JSON codec of the snapshot is a parameter.
\<close>

section \<open>The width of a text\<close>

text \<open>\<open>utf8.RuneCount\<close>: the bytes of the rune in front, 1 for a byte that begins none.\<close>

definition byte_in :: "nat \<Rightarrow> nat \<Rightarrow> char \<Rightarrow> bool" where
  "byte_in lo hi c = (lo \<le> of_char c \<and> of_char c \<le> hi)"

definition rune_size :: "string \<Rightarrow> nat" where
  "rune_size s =
     (case s of
        c # c1 # c2 # c3 # _ \<Rightarrow>
          if byte_in 0xC2 0xDF c \<and> byte_in 0x80 0xBF c1 then 2
          else if (c = CHR 0xE0 \<and> byte_in 0xA0 0xBF c1 \<or> c = CHR 0xED \<and> byte_in 0x80 0x9F c1
                   \<or> (byte_in 0xE1 0xEC c \<or> byte_in 0xEE 0xEF c) \<and> byte_in 0x80 0xBF c1) \<and> byte_in 0x80 0xBF c2 then 3
          else if (c = CHR 0xF0 \<and> byte_in 0x90 0xBF c1 \<or> c = CHR 0xF4 \<and> byte_in 0x80 0x8F c1
                   \<or> byte_in 0xF1 0xF3 c \<and> byte_in 0x80 0xBF c1) \<and> byte_in 0x80 0xBF c2 \<and> byte_in 0x80 0xBF c3 then 4
          else 1
      | _ \<Rightarrow> 1)"

text \<open>The text is read with three bytes behind it that belong to no rune.\<close>

fun rune_count :: "string \<Rightarrow> nat" where
  "rune_count [] = 0"
| "rune_count (c # s) = Suc (rune_count (drop (rune_size (c # s @ replicate 3 (CHR 0x00)) - 1) s))"

section \<open>The table writer\<close>

text \<open>
  The text is lines of cells, each cell but the last of a line ended by a tab. A column is a run of
  lines that all have a cell there; its width is that of its widest cell and the padding.
\<close>

definition cell_width :: "nat \<Rightarrow> string list list \<Rightarrow> nat" where
  "cell_width column block = foldl (\<lambda>w line. max w (rune_count (line ! column) + 2)) 0 block"

text \<open>\<open>writeLines\<close> for one line: the columns up to here pad their cells, the last cell stays as it is.\<close>

fun write_cells :: "nat list \<Rightarrow> string list \<Rightarrow> string" where
  "write_cells widths [] = [CHR 0x0A]"
| "write_cells [] (c # cells) = c @ write_cells [] cells"
| "write_cells (w # widths) (c # cells) = c @ replicate (w - rune_count c) (CHR '' '') @ write_cells widths cells"

definition in_column :: "nat list \<Rightarrow> string list \<Rightarrow> bool" where
  "in_column widths line = (Suc (length widths) < length line)"

text \<open>\<open>format\<close>: the lines of a column are set with the columns to its right, the others as they are.\<close>

lemma sum_takeWhile: "sum_list (map f (takeWhile P xs)) \<le> sum_list (map (f :: _ \<Rightarrow> nat) xs)"
  by (induction xs) auto

lemma sum_dropWhile: "sum_list (map f (dropWhile P xs)) \<le> sum_list (map (f :: _ \<Rightarrow> nat) xs)"
  by (induction xs) auto

function format_lines :: "nat list \<Rightarrow> string list list \<Rightarrow> string" where
  "format_lines widths [] = []"
| "format_lines widths (line # lines) =
     (if in_column widths line then
        (let block = takeWhile (in_column widths) (line # lines);
             w = cell_width (length widths) block
         in format_lines (widths @ [w]) block @ format_lines widths (dropWhile (in_column widths) lines))
      else write_cells widths line @ format_lines widths lines)"
  by pat_completeness auto
termination
proof (relation "measure (\<lambda>(widths, lines). length lines + (\<Sum>line\<leftarrow>lines. length line - length widths))")
  fix widths line and lines :: "string list list" and block w
  assume c: "in_column widths line" and b: "block = takeWhile (in_column widths) (line # lines)"
  let ?f = "\<lambda>l :: string list. length l - Suc (length widths)"
  let ?g = "\<lambda>l :: string list. length l - length widths"
  have "(\<Sum>l\<leftarrow>takeWhile (in_column widths) lines. ?f l) \<le> (\<Sum>l\<leftarrow>lines. ?g l)"
    by (rule order_trans [OF sum_takeWhile sum_list_mono]) simp
  moreover have "?f line < ?g line" using c by (simp add: in_column_def)
  moreover have "(\<Sum>l\<leftarrow>block. ?f l) = ?f line + (\<Sum>l\<leftarrow>takeWhile (in_column widths) lines. ?f l)" "length block \<le> Suc (length lines)"
    using c b length_takeWhile_le [of "in_column widths" lines] by simp_all
  ultimately have "length block + (\<Sum>l\<leftarrow>block. ?f l) < Suc (length lines) + (?g line + (\<Sum>l\<leftarrow>lines. ?g l))" by linarith
  then show "((widths @ [w], block), (widths, line # lines))
      \<in> measure (\<lambda>(widths, lines). length lines + (\<Sum>line\<leftarrow>lines. length line - length widths))"
    by simp
next
  fix widths line and lines :: "string list list" and block w
  assume c: "in_column widths line" and b: "block = takeWhile (in_column widths) (line # lines)"
  show "((widths, dropWhile (in_column widths) lines), (widths, line # lines))
      \<in> measure (\<lambda>(widths, lines). length lines + (\<Sum>line\<leftarrow>lines. length line - length widths))"
    using length_dropWhile_le [of "in_column widths" lines]
      sum_dropWhile [of "\<lambda>l. length l - length widths" "in_column widths" lines]
    by simp
qed (auto simp: in_column_def)

declare format_lines.simps(2) [simp del]

text \<open>What was written, through to the flush; cells with a form feed or a vertical tab are left out.\<close>

definition tabulate :: "string \<Rightarrow> string" where
  "tabulate txt = format_lines [] (map (split_char (CHR 0x09)) (butlast (split_char (CHR 0x0A) txt)))"

section \<open>The report\<close>

fun reason_text :: "reason \<Rightarrow> string" where
  "reason_text NoReason = []"
| "reason_text ScalingUp = ''scaling up for queued jobs''"
| "reason_text ToppingUp = ''topping up to minimum''"
| "reason_text CullingIdle = ''culling idle surplus''"
| "reason_text AtTarget = ''at target''"

fun state_text :: "State \<Rightarrow> string" where
  "state_text StateStarting = ''starting''"
| "state_text StateRunning = ''running''"
| "state_text StateExited = ''exited''"
| "state_text StateUnknown = ''unknown''"

definition pool_state_text :: "PoolSnapshot \<Rightarrow> string" where
  "pool_state_text p =
     (if ps_Error p \<noteq> [] then ''ERROR: '' @ truncate_text (ps_Error p) 48
      else if ps_Drained p then ''drained'' else reason_text (ps_Reason p))"

definition instance_state_text :: "InstanceSnapshot \<Rightarrow> string" where
  "instance_state_text i = (if is_Busy i then ''busy'' else if is_Online i then ''idle'' else state_text (is_State i))"

text \<open>One line of a table, its cells ended by tabs but for the last.\<close>

definition row_text :: "string list \<Rightarrow> string" where
  "row_text cells = join_str [CHR 0x09] cells @ [CHR 0x0A]"

definition pool_row :: "PoolSnapshot \<Rightarrow> string list" where
  "pool_row p = [ps_Name p, ps_Provider p, itoa (ps_Min p), itoa (ps_Max p), itoa (ps_Live p), itoa (ps_Busy p),
     itoa (ps_Idle p), itoa (ps_Starting p), itoa (ps_Queued p), itoa (ps_Desired p), pool_state_text p]"

definition instance_row :: "InstanceSnapshot \<Rightarrow> string list" where
  "instance_row i = [''  '' @ is_Name i, shortID (is_ID i), instance_state_text i, duration_String (is_Age i), is_Detail i]"

definition pool_header :: "string list" where
  "pool_header = [''POOL'', ''PROVIDER'', ''MIN'', ''MAX'', ''LIVE'', ''BUSY'', ''IDLE'', ''STARTING'', ''QUEUED'', ''DESIRED'', ''STATE'']"

definition instance_header :: "string list" where
  "instance_header = [''  RUNNER'', ''INSTANCE'', ''STATE'', ''AGE'', ''DETAIL'']"

definition line_feed :: string where "line_feed = [CHR 0x0A]"

text \<open>The middle dot between the parts of a line.\<close>

definition dot :: string where "dot = [CHR '' '', CHR 0xC2, CHR 0xB7, CHR '' '']"

definition head_lines :: "int \<Rightarrow> int \<Rightarrow> Snapshot \<Rightarrow> string" where
  "head_lines now updated snap =
     ''org '' @ sn_Org snap @ dot @ itoa (sn_ReposWatched snap) @ '' repos watched'' @ dot
       @ ''updated '' @ duration_String (round_second (since now updated)) @ '' ago'' @ line_feed
     @ (let rl = sn_RateLimit snap
        in if rl_Limit rl > 0
           then ''github rate limit: '' @ itoa (rl_Remaining rl) @ ''/'' @ itoa (rl_Limit rl) @ '' remaining, resets ''
             @ duration_String (round_second (since (rl_Reset rl) now)) @ line_feed
           else [])
     @ line_feed"

definition pool_table :: "PoolSnapshot list \<Rightarrow> string" where
  "pool_table ps = tabulate (concat (map row_text (pool_header # map pool_row ps)))"

definition instance_table :: "PoolSnapshot \<Rightarrow> string" where
  "instance_table p =
     (if ps_Instances p = [] then []
      else line_feed @ ps_Name p @ '' ('' @ join_str '', '' (ps_Labels p) @ '')'' @ line_feed
        @ tabulate (concat (map row_text (instance_header # map instance_row (ps_Instances p)))))"

definition unassigned_lines :: "Job list \<Rightarrow> string" where
  "unassigned_lines js =
     (if js = [] then []
      else line_feed @ itoa (int (length js)) @ '' queued job(s) match no pool:'' @ line_feed
        @ concat (map (\<lambda>j. ''  '' @ job_Repo j @ dot @ job_Name j @ dot @ ''runs-on: ['' @ join_str '', '' (job_Labels j) @ '']'' @ line_feed) js)
        @ line_feed @ ''Add a pool whose labels cover these, or fix the workflow'' @ [CHR 0x27] @ ''s runs-on.'' @ line_feed)"

definition printStatus :: "int \<Rightarrow> Snapshot \<Rightarrow> bool \<Rightarrow> string" where
  "printStatus now snap wide =
     (case sn_UpdatedAt snap of
        None \<Rightarrow> ''No reconcile has completed yet.'' @ line_feed
      | Some updated \<Rightarrow>
          head_lines now updated snap
          @ pool_table (sn_Pools snap)
          @ (if wide then concat (map instance_table (sn_Pools snap)) else [])
          @ unassigned_lines (sn_Unassigned snap)
          @ (if sn_LastError snap \<noteq> [] then line_feed @ ''last error: '' @ sn_LastError snap @ line_feed else []))"

section \<open>The command\<close>

definition status_flags :: flagset where
  "status_flags = \<lparr> fs_bool = [''config'' \<mapsto> False, ''json'' \<mapsto> True, ''wide'' \<mapsto> True, ''watch'' \<mapsto> False],
     fs_valid = (\<lambda>n v. (n = ''json'' \<or> n = ''wide'' \<longrightarrow> parse_bool v \<noteq> None)
                  \<and> (n = ''watch'' \<longrightarrow> \<not> isl (ParseDuration v))) \<rparr>"

record status_options =
  so_json :: bool
  so_wide :: bool
  so_watch :: int

definition status_options :: "settings \<Rightarrow> status_options" where
  "status_options st =
     \<lparr> so_json = switch st ''json'', so_wide = switch st ''wide'',
       so_watch = (case map_of (rev st) ''watch'' of
          None \<Rightarrow> 0 | Some v \<Rightarrow> (case ParseDuration v of Inr d \<Rightarrow> d | Inl e \<Rightarrow> 0)) \<rparr>"

definition status_call :: "controlClient \<Rightarrow> request" where
  "status_call c = received ''GET'' ''/v1/status'' (control_headers c False) [] []"

text \<open>What decodes an error's message and a snapshot, and writes a snapshot as JSON.\<close>

record status_codec =
  sc_message :: "string \<Rightarrow> string option"
  sc_decode :: "string \<Rightarrow> string + Snapshot"
  sc_encode :: "Snapshot \<Rightarrow> string + string"

text \<open>\<open>show\<close>, on the time and the answer the server gives.\<close>

type_synonym answer = "string + int \<times> string \<times> string"

definition status_show :: "status_codec \<Rightarrow> controlClient \<Rightarrow> status_options \<Rightarrow> int \<times> answer \<Rightarrow> string + string" where
  "status_show C c opts na =
     (case control_result (sc_message C) c (snd na) of
        Inl e \<Rightarrow> Inl e
      | Inr data \<Rightarrow> (case sc_decode C data of
            Inl e \<Rightarrow> Inl e
          | Inr snap \<Rightarrow> if so_json opts then sc_encode C snap else Inr (printStatus (fst na) snap (so_wide opts))))"

text \<open>
  What is printed and how it ends, \<open>None\<close> while the watch goes on: the answers are those the
  server gives one after the other, a watch interval apart.
\<close>

definition clear_screen :: string where
  "clear_screen = [CHR 0x1B] @ ''[H'' @ [CHR 0x1B] @ ''[2J''"

fun watch_status :: "status_codec \<Rightarrow> controlClient \<Rightarrow> status_options \<Rightarrow> (int \<times> answer) list \<Rightarrow> string \<times> stop option" where
  "watch_status C c opts [] = ([], None)"
| "watch_status C c opts (na # nas) =
     (case status_show C c opts na of
        Inl e \<Rightarrow> (clear_screen, Some (Fails e))
      | Inr out \<Rightarrow> (let (more, end) = watch_status C c opts nas in (clear_screen @ out @ more, end)))"

datatype status_run =
    NotRun stop
  | Shown "string + string"
  | Watched string "stop option"

definition cmdStatus ::
  "(string \<Rightarrow> string + Config) \<Rightarrow> status_codec \<Rightarrow> string list \<Rightarrow> int \<times> answer \<Rightarrow> (int \<times> answer) list \<Rightarrow> status_run" where
  "cmdStatus load C args na nas =
     (case flag_Parse status_flags args [] of
        Inl e \<Rightarrow> NotRun (Exits (flag_exit e))
      | Inr (st, _) \<Rightarrow> (case load (setting st ''config'' []) of
            Inl e \<Rightarrow> NotRun (Fails e)
          | Inr cfg \<Rightarrow>
              (let c = newControlClient cfg; opts = status_options st
               in if so_watch opts \<le> 0 then Shown (status_show C c opts na)
                  else (let (out, end) = watch_status C c opts (na # nas) in Watched out end))))"

end
