(* ===== verification/StatusProps.thy ===== *)
theory StatusProps
  imports Status CommandProps
begin

text \<open>
  The report of \<open>arc status\<close>: its tables are aligned, the watch ends with a failure only, and what is
  shown is what the server holds.
\<close>

section \<open>Tables\<close>

lemma format_plain: "list_all (\<lambda>l. \<not> in_column ws l) ls \<Longrightarrow> format_lines ws ls = concat (map (write_cells ws) ls)"
  by (induction ls) (simp_all add: format_lines.simps)

text \<open>In a table whose lines have the same number of cells, every column has one width.\<close>

lemma format_table:
  assumes "list_all (\<lambda>l. length l = Suc k) ls" and "length ws \<le> k"
  shows "format_lines ws ls
    = concat (map (write_cells (ws @ map (\<lambda>j. cell_width j ls) [length ws..<k])) ls)"
  using assms
proof (induction "k - length ws" arbitrary: ws)
  case 0
  then show ?case by (auto simp: in_column_def list_all_iff intro!: format_plain)
next
  case (Suc n)
  then have all: "takeWhile (in_column ws) ls = ls" and less: "length ws < k"
    by (auto simp: takeWhile_eq_all_conv in_column_def list_all_iff)
  show ?case
  proof (cases ls)
    case Nil
    then show ?thesis by simp
  next
    case (Cons l rest)
    then have rest: "in_column ws l" "dropWhile (in_column ws) rest = []"
      using Suc.prems less by (auto simp: in_column_def list_all_iff dropWhile_eq_Nil_conv)
    have "format_lines ws ls = format_lines (ws @ [cell_width (length ws) ls]) ls"
      using rest all unfolding Cons by (subst format_lines.simps(2)) (simp only: Let_def if_True format_lines.simps(1) append_Nil2)
    also have "\<dots> = concat (map (write_cells ((ws @ [cell_width (length ws) ls])
        @ map (\<lambda>j. cell_width j ls) [length (ws @ [cell_width (length ws) ls])..<k])) ls)"
      using Suc less by (intro Suc.hyps(1)) auto
    also have "(ws @ [cell_width (length ws) ls]) @ map (\<lambda>j. cell_width j ls) [length (ws @ [cell_width (length ws) ls])..<k]
        = ws @ map (\<lambda>j. cell_width j ls) [length ws..<k]"
      using upt_conv_Cons [OF less] by simp
    finally show ?thesis .
  qed
qed

definition plain_cell :: "string \<Rightarrow> bool" where
  "plain_cell s = (CHR 0x09 \<notin> set s \<and> CHR 0x0A \<notin> set s)"

lemma split_char_plain: "d \<notin> set s \<Longrightarrow> split_char d s = [s]"
  by (induction s) auto

lemma split_join: "cells \<noteq> [] \<Longrightarrow> list_all (\<lambda>c. d \<notin> set c) cells \<Longrightarrow> split_char d (join_str [d] cells) = cells"
  by (induction "[d]" cells rule: join_str.induct) (simp_all add: split_char_plain split_char_append)

lemma join_plain: "e \<notin> set d \<Longrightarrow> list_all (\<lambda>c. e \<notin> set c) cells \<Longrightarrow> e \<notin> set (join_str d cells)"
  by (induction d cells rule: join_str.induct) auto

lemma tabulate_rows:
  assumes "list_all (\<lambda>cells. cells \<noteq> [] \<and> list_all plain_cell cells) rows"
  shows "tabulate (concat (map row_text rows)) = format_lines [] rows"
proof -
  have "split_char (CHR 0x0A) (concat (map row_text rows)) = map (join_str [CHR 0x09]) rows @ [[]]"
    using assms
  proof (induction rows)
    case (Cons cells rows)
    then have "CHR 0x0A \<notin> set (join_str [CHR 0x09] cells)"
      by (intro join_plain) (auto simp: plain_cell_def list_all_iff)
    with Cons show ?case by (simp add: row_text_def split_char_append)
  qed simp
  moreover have "map (split_char (CHR 0x09)) (map (join_str [CHR 0x09]) rows) = rows"
    using assms by (auto simp: list_all_iff plain_cell_def intro!: map_idI split_join)
  ultimately show ?thesis by (simp add: tabulate_def)
qed

lemma foldl_max:
  "w \<le> foldl (\<lambda>w line. max w (f line)) w rs \<and> (row \<in> set rs \<longrightarrow> f row \<le> foldl (\<lambda>w line. max w (f line :: nat)) w rs)"
proof (induction rs arbitrary: w)
  case (Cons r rs)
  show ?case using Cons [of "max w (f r)"] by auto
qed simp

lemma cell_width_covers: "row \<in> set rows \<Longrightarrow> rune_count (row ! j) + 2 \<le> cell_width j rows"
  using foldl_max [of 0 "\<lambda>line. rune_count (line ! j) + 2" rows row] by (simp add: cell_width_def)

text \<open>The table of the pools: one line each, under its headers, every column as wide as its widest cell and two.\<close>

lemma pool_table_aligned:
  assumes "\<forall>p\<in>set ps. list_all plain_cell (pool_row p)"
  shows "\<exists>widths. length widths = 10
    \<and> pool_table ps = concat (map (write_cells widths) (pool_header # map pool_row ps))
    \<and> (\<forall>row\<in>set (pool_header # map pool_row ps). \<forall>j<10. rune_count (row ! j) + 2 \<le> widths ! j)"
proof -
  let ?rows = "pool_header # map pool_row ps"
  let ?ws = "map (\<lambda>j. cell_width j ?rows) [0..<10]"
  have "list_all plain_cell pool_header" by (simp add: pool_header_def plain_cell_def)
  then have "list_all (\<lambda>cells. cells \<noteq> [] \<and> list_all plain_cell cells) ?rows"
    using assms by (auto simp: list_all_iff pool_row_def pool_header_def)
  moreover have "list_all (\<lambda>l. length l = Suc 10) ?rows" by (auto simp: list_all_iff pool_row_def pool_header_def)
  ultimately have "pool_table ps = concat (map (write_cells ?ws) ?rows)"
    using format_table [of 10 ?rows "[]"] by (simp only: pool_table_def tabulate_rows) simp
  then show ?thesis using cell_width_covers by (intro exI [of _ ?ws]) auto
qed

section \<open>The watch\<close>

text \<open>The watch goes on while the server answers, and what it printed are the single reports.\<close>

lemma watch_status_good:
  assumes "\<forall>na\<in>set nas. status_show C c opts na = Inr (out na)"
  shows "watch_status C c opts nas = (concat (map (\<lambda>na. clear_screen @ out na) nas), None)"
  using assms by (induction nas) simp_all

lemma watch_status_ends:
  assumes "\<forall>na\<in>set nas. status_show C c opts na = Inr (out na)" and "status_show C c opts na = Inl e"
  shows "watch_status C c opts (nas @ na # later)
    = (concat (map (\<lambda>na. clear_screen @ out na) nas) @ clear_screen, Some (Fails e))"
  using assms by (induction nas) simp_all

section \<open>From the arguments to the report\<close>

definition answer_to :: "(body \<Rightarrow> string) \<Rightarrow> response \<Rightarrow> answer" where
  "answer_to render r = Inr (rs_status r, itoa (rs_status r), render (rs_body r))"

lemma status_served:
  "serve X cfg providers st decode (status_call (newControlClient cfg)) s = (handleStatus s, s)"
proof -
  have "rq_path (status_call c) = [''v1'', ''status'']" "rq_method (status_call c) = ''GET''" for c
    by (simp_all add: status_call_def received_def)
  moreover have "authorized (srv_Token (cfg_Server cfg)) (status_call (newControlClient cfg))"
    by (simp add: status_call_def client_authorized)
  ultimately show ?thesis by (simp add: serve_def route_path_def method_ok_def auth_def)
qed

text \<open>
  What \<open>arc status\<close> prints is the report of the snapshot the orchestrator holds, whatever flags
  are given in whatever order, and asking changes nothing; client and server read the same
  configuration, and the JSON codec reads back what it writes.
\<close>

lemma status_reports:
  assumes "list_all (arg_ok status_flags) xs" "list_all is_flag xs"
    and "so_watch (status_options (arg_settings xs)) \<le> 0" "\<not> so_json (status_options (arg_settings xs))"
    and "load (setting (arg_settings xs) ''config'' []) = Inr cfg"
    and "sc_decode C (render (StatusBody (o_snapshot (sv_orch s)))) = Inr (o_snapshot (sv_orch s))"
    and "length (render (StatusBody (o_snapshot (sv_orch s)))) \<le> 16 * 2 ^ 20"
    and "serve X cfg providers st decode (status_call (newControlClient cfg)) s = (resp, s')"
  shows "cmdStatus load C (tokens xs) (now, answer_to render resp) nas
      = Shown (Inr (printStatus now (o_snapshot (sv_orch s)) (so_wide (status_options (arg_settings xs))))) \<and> s' = s"
proof -
  have "takeWhile is_flag xs = xs" "dropWhile is_flag xs = []"
    using assms(2) by (auto simp: list_all_iff takeWhile_eq_all_conv dropWhile_eq_Nil_conv)
  then have "flag_Parse status_flags (tokens xs) [] = Inr (arg_settings xs, [])"
    using flag_Parse_tokens [OF assms(1), of "[]"] by (simp only: append_Nil) (simp add: tokens_def)
  moreover have "resp = handleStatus s" "s' = s" using assms(8) status_served [of X cfg providers st decode s] by auto
  ultimately show ?thesis
    using assms(3-7) by (simp add: cmdStatus_def status_show_def control_result_def answer_to_def handleStatus_def writeJSON_def Let_def)
qed

section \<open>What the report and the logs take too lightly\<close>

text \<open>An error is cut at a byte: what is left of a longer character is no character.\<close>

lemma truncate_splits_rune:
  "truncate_text (replicate 46 (CHR ''x'') @ [CHR 0xC3, CHR 0xA9, CHR ''y'']) 48
     = replicate 46 (CHR ''x'') @ [CHR 0xC3, CHR 0xE2, CHR 0x80, CHR 0xA6]"
  by (simp add: truncate_text_def)

text \<open>More lines than ten thousand are asked for: two hundred are shown.\<close>

lemma logs_limit: "cmdLogs [''linux'', ''i1'', ''-n'', ''20000''] = Inr (''linux'', ''i1'', ''20000'')" "log_lines ''20000'' = 200"
proof -
  let ?xs = "[Positional ''linux'', Positional ''i1'', Separate ''-'' ''n'' ''20000'']"
  have "ParseInt0 ''20000'' = Some 20000"
    by (simp add: ParseInt0_def ParseUint0_def base_prefix_def base_digit_def is_digit_def digit_val_def Let_def)
  moreover have "tokens ?xs = [''linux'', ''i1'', ''-n'', ''20000'']" "positionals ?xs = [''linux'', ''i1'']"
    "arg_settings ?xs = [(''n'', ''20000'')]"
    by (simp_all add: tokens_def positionals_def arg_settings_def)
  moreover have "itoa 20000 = ''20000''" by (simp add: itoa_def digits_of.simps) (simp add: char_of_def bit_0)
  ultimately show "cmdLogs [''linux'', ''i1'', ''-n'', ''20000''] = Inr (''linux'', ''i1'', ''20000'')"
    using parsePositional_tokens [of logs_flags ?xs "[]" "[]"]
    by (simp add: cmdLogs_def logs_flags_def setting_def flag_name_ok_def has_prefix_def)
  show "log_lines ''20000'' = 200" by code_simp
qed

end
