(* ===== verification/Deploy.thy ===== *)
theory Deploy
  imports ConfigTypes Paths
begin

text \<open>
  Updating and installing the program: \<open>cmd/arc/update.go\<close> (which release to take, the download
  next to the binary, the swap) and \<open>cmd/arc/service.go\<close> (the service files and the commands that
  install, start and stop the service). The file system is a map from paths to contents; a run is
  the list of the states it passes, so that a crash is a prefix.
\<close>

section \<open>Which release (\<open>cmdUpdate\<close>)\<close>

record releaseAsset =
  ra_Name :: string
  ra_URL :: string

record release =
  rel_Tag :: string
  rel_Assets :: "releaseAsset list"

text \<open>\<open>latestRelease\<close>: the answer's status and body, the JSON decoded by \<open>decode\<close>.\<close>

definition latestRelease :: "(string \<Rightarrow> string + release) \<Rightarrow> string + int \<times> string \<Rightarrow> string + release" where
  "latestRelease decode r =
     (case r of
        Inl e \<Rightarrow> Inl e
      | Inr (status, body) \<Rightarrow>
          if status = 404 then Inl ''chrisle/action--runner-cluster has no releases''
          else if status \<noteq> 200 then Inl (''github responded '' @ itoa status @ '': '' @ trim_space (take 512 body))
          else decode body)"

datatype decision = UpToDate | DevelopmentBuild | ReportOnly | Install

definition update_decision :: "string \<Rightarrow> string \<Rightarrow> bool \<Rightarrow> bool \<Rightarrow> decision" where
  "update_decision version tag check force =
     (if \<not> force \<and> version = tag then UpToDate
      else if \<not> force \<and> has_prefix version (tag @ ''-'') then DevelopmentBuild
      else if check then ReportOnly
      else Install)"

definition assetName :: "string \<Rightarrow> string \<Rightarrow> string" where
  "assetName goos goarch = ''arc-'' @ goos @ ''-'' @ goarch @ (if goos = ''windows'' then ''.exe'' else [])"

text \<open>The URL of the asset: the last of that name, empty when there is none.\<close>

definition asset_url :: "string \<Rightarrow> releaseAsset list \<Rightarrow> string" where
  "asset_url name assets = foldl (\<lambda>u a. if ra_Name a = name then ra_URL a else u) [] assets"

section \<open>The swap\<close>

type_synonym files = "string \<rightharpoonup> string"

definition rename :: "string \<Rightarrow> string \<Rightarrow> files \<Rightarrow> files" where
  "rename src dst fs = fs(dst := fs src, src := None)"

definition remove :: "string \<Rightarrow> files \<Rightarrow> files" where
  "remove p fs = fs(p := None)"

text \<open>
  How the steps go: the exchange, the name of the temporary file, what reaches it, the errors of
  copying, closing and \<open>chmod\<close>, what the new binary answers to \<open>version\<close>, and which renames work.
\<close>

record install_env =
  iv_get :: "string + int"
  iv_temp :: "string + string"
  iv_copied :: string
  iv_copy_error :: "string option"
  iv_close_error :: "string option"
  iv_chmod_error :: "string option"
  iv_version :: "string \<Rightarrow> string option \<times> string"
  iv_aside_error :: "string option"
  iv_swap_error :: "string option"
  iv_rollback_ok :: bool

definition first_line :: "string \<Rightarrow> string" where
  "first_line out = trim_space (takeWhile (\<lambda>c. c \<noteq> CHR 0x0A) out)"

definition verifyNewBinary :: "string option \<times> string \<Rightarrow> string option" where
  "verifyNewBinary r =
     (let line = first_line (snd r)
      in case fst r of
           Some e \<Rightarrow> Some (''downloaded binary does not run: '' @ e @ '' ('' @ line @ '')'')
         | None \<Rightarrow> if has_prefix line ''arc '' then None else Some (''downloaded binary does not look like arc: '' @ line))"

definition old_path :: "string \<Rightarrow> string" where
  "old_path dst = dst @ ''.old''"

definition swapBinary :: "string \<Rightarrow> install_env \<Rightarrow> string \<Rightarrow> string \<Rightarrow> files \<Rightarrow> string option \<times> files list" where
  "swapBinary goos env src dst fs =
     (if goos \<noteq> ''windows'' then
        (case iv_swap_error env of
           Some e \<Rightarrow> (Some e, [fs])
         | None \<Rightarrow> (None, [fs, rename src dst fs]))
      else
        (let old = old_path dst; fs0 = remove old fs
         in case iv_aside_error env of
              Some e \<Rightarrow> (Some e, [fs, fs0])
            | None \<Rightarrow>
                (let fs1 = rename dst old fs0
                 in case iv_swap_error env of
                      Some e \<Rightarrow> (Some e, [fs, fs0, fs1] @ (if iv_rollback_ok env then [rename old dst fs1] else []))
                    | None \<Rightarrow> (None, [fs, fs0, fs1, rename src dst fs1]))))"

text \<open>\<open>installTo\<close>; the deferred removal of the temporary file is the last state.\<close>

definition installTo :: "string \<Rightarrow> install_env \<Rightarrow> string \<Rightarrow> files \<Rightarrow> string option \<times> files list" where
  "installTo goos env exe fs =
     (case iv_get env of
        Inl e \<Rightarrow> (Some e, [fs])
      | Inr status \<Rightarrow>
          if status \<noteq> 200 then (Some (''download failed: '' @ itoa status), [fs])
          else (case iv_temp env of
              Inl e \<Rightarrow> (Some (''cannot write next to '' @ exe @ '': '' @ e), [fs])
            | Inr tmp \<Rightarrow>
                (let created = fs(tmp \<mapsto> []); full = fs(tmp \<mapsto> iv_copied env);
                     fail = (\<lambda>e. (Some e, [fs, created, full, remove tmp full]))
                 in case iv_copy_error env of
                      Some e \<Rightarrow> fail (''download interrupted: '' @ e)
                    | None \<Rightarrow> (case iv_close_error env of
                        Some e \<Rightarrow> fail e
                      | None \<Rightarrow>
                          if iv_copied env = [] then fail ''download was empty''
                          else (case iv_chmod_error env of
                              Some e \<Rightarrow> fail e
                            | None \<Rightarrow> (case verifyNewBinary (iv_version env (iv_copied env)) of
                                Some e \<Rightarrow> fail e
                              | None \<Rightarrow>
                                  (let (err, states) = swapBinary goos env tmp exe full
                                   in (err, [fs, created] @ states @ [remove tmp (last states)]))))))))"

text \<open>\<open>cmdUpdate\<close> from the release on; the leftover of an earlier update goes first.\<close>

definition cmdUpdate ::
  "string \<Rightarrow> string \<Rightarrow> string \<Rightarrow> bool \<Rightarrow> bool \<Rightarrow> string + release \<Rightarrow> (string \<Rightarrow> install_env) \<Rightarrow> string \<Rightarrow> files
    \<Rightarrow> string option \<times> files list" where
  "cmdUpdate goos goarch version check force latest env exe fs =
     (case latest of
        Inl e \<Rightarrow> (Some (''look up the latest release: '' @ e), [fs])
      | Inr rel \<Rightarrow>
          if update_decision version (rel_Tag rel) check force \<noteq> Install then (None, [fs])
          else (let url = asset_url (assetName goos goarch) (rel_Assets rel)
                in if url = [] then (Some (''release '' @ rel_Tag rel @ '' has no asset '' @ assetName goos goarch), [fs])
                   else (let fs0 = remove (old_path exe) fs; (err, states) = installTo goos (env url) exe fs0
                         in (err, fs # states))))"

section \<open>What an update leaves\<close>

text \<open>A state of an update: the binary is the old one or the new one; on Windows it may have been moved aside.\<close>

definition sound_state :: "string \<Rightarrow> string \<Rightarrow> string \<Rightarrow> files \<Rightarrow> files \<Rightarrow> bool" where
  "sound_state goos exe new fs fs' =
     (fs' exe = fs exe \<or> fs' exe = Some new
      \<or> (goos = ''windows'' \<and> fs' exe = None \<and> fs' (old_path exe) = fs exe))"

lemma old_path_neq [simp]: "old_path p \<noteq> p" "p \<noteq> old_path p"
  by (simp_all add: old_path_def)

lemma swapBinary_sound:
  assumes "src \<noteq> dst" "src \<noteq> old_path dst" "fs src = Some new"
  shows "list_all (sound_state goos dst new fs) (snd (swapBinary goos env src dst fs))"
    and "fst (swapBinary goos env src dst fs) = None \<Longrightarrow> last (snd (swapBinary goos env src dst fs)) dst = Some new"
    and "snd (swapBinary goos env src dst fs) \<noteq> []"
    and "goos \<noteq> ''windows'' \<Longrightarrow> fst (swapBinary goos env src dst fs) \<noteq> None
      \<Longrightarrow> last (snd (swapBinary goos env src dst fs)) dst = fs dst"
    and "p \<notin> {src, dst, old_path dst} \<Longrightarrow> last (snd (swapBinary goos env src dst fs)) p = fs p"
  using assms
  by (auto simp: swapBinary_def sound_state_def rename_def remove_def Let_def split: option.splits)

text \<open>A successful update put a binary in place that answered like this program.\<close>

definition good_binary :: "install_env \<Rightarrow> string \<Rightarrow> bool" where
  "good_binary env new = (new \<noteq> [] \<and> verifyNewBinary (iv_version env new) = None)"

lemma sound_start: "sound_state goos exe new fs fs"
  by (simp add: sound_state_def)

lemma installTo_sound:
  assumes tmp: "\<And>t. iv_temp env = Inr t \<Longrightarrow> t \<noteq> exe \<and> t \<noteq> old_path exe \<and> fs t = None"
    and run: "installTo goos env exe fs = (err, states)"
  shows "list_all (sound_state goos exe (iv_copied env) fs) states"
    and "err = None \<Longrightarrow> last states exe = Some (iv_copied env) \<and> good_binary env (iv_copied env)"
    and "err \<noteq> None \<Longrightarrow> goos \<noteq> ''windows'' \<Longrightarrow> last states exe = fs exe"
    and "p \<noteq> exe \<Longrightarrow> p \<noteq> old_path exe \<Longrightarrow> last states p = fs p"
proof -
  have *: "list_all (sound_state goos exe (iv_copied env) fs) states
    \<and> (err = None \<longrightarrow> last states exe = Some (iv_copied env) \<and> good_binary env (iv_copied env))
    \<and> (err \<noteq> None \<longrightarrow> goos \<noteq> ''windows'' \<longrightarrow> last states exe = fs exe)
    \<and> (p \<noteq> exe \<longrightarrow> p \<noteq> old_path exe \<longrightarrow> last states p = fs p)"
  proof (cases "iv_get env = Inr 200 \<and> (\<exists>t. iv_temp env = Inr t) \<and> iv_copy_error env = None \<and> iv_close_error env = None
      \<and> iv_copied env \<noteq> [] \<and> iv_chmod_error env = None \<and> verifyNewBinary (iv_version env (iv_copied env)) = None")
    case True
    then obtain t where t: "iv_temp env = Inr t" by blast
    let ?full = "fs(t \<mapsto> iv_copied env)"
    obtain e ss where sw: "swapBinary goos env t exe ?full = (e, ss)" by fastforce
    note tt = tmp [OF t]
    note S = swapBinary_sound [where src = t and dst = exe and fs = ?full and new = "iv_copied env" and goos = goos and env = env,
        unfolded sw fst_conv snd_conv]
    have "list_all (sound_state goos exe (iv_copied env) fs) ss"
      using S(1) tt by (auto simp: list_all_iff sound_state_def)
    moreover have "err = e" "states = [fs, fs(t \<mapsto> [])] @ ss @ [remove t (last ss)]"
      using run True t sw by (auto simp: installTo_def Let_def)
    moreover have "remove t (last ss) q = last ss q" if "q \<noteq> t" for q using that by (simp add: remove_def)
    ultimately show ?thesis
      using S(2,4,5) S(1,3) tt True
      by (auto simp: sound_start sound_state_def good_binary_def remove_def list_all_iff)
  next
    case False
    then have "err \<noteq> None \<and> list_all (\<lambda>fs'. fs' exe = fs exe) states \<and> (last states) p = fs p \<and> last states exe = fs exe"
      using run tmp
      by (auto simp: installTo_def Let_def remove_def split: sum.splits option.splits if_splits; metis)
    then show ?thesis by (auto simp: sound_state_def list_all_iff)
  qed
  show "list_all (sound_state goos exe (iv_copied env) fs) states"
    and "err = None \<Longrightarrow> last states exe = Some (iv_copied env) \<and> good_binary env (iv_copied env)"
    and "err \<noteq> None \<Longrightarrow> goos \<noteq> ''windows'' \<Longrightarrow> last states exe = fs exe"
    and "p \<noteq> exe \<Longrightarrow> p \<noteq> old_path exe \<Longrightarrow> last states p = fs p"
    using * by blast+
qed


definition demo_install :: install_env where
  "demo_install = \<lparr> iv_get = Inr 200, iv_temp = Inr ''/bin/.tmp'', iv_copied = ''new'', iv_copy_error = None,
     iv_close_error = None, iv_chmod_error = None, iv_version = (\<lambda>_. (None, ''arc v2'')), iv_aside_error = None,
     iv_swap_error = None, iv_rollback_ok = True \<rparr>"


text \<open>
  On Windows the two renames are two steps: a crash between them leaves no binary at the program's
  path, and so does a swap whose rollback fails.
\<close>

lemma windows_swap_gap:
  "\<exists>fs' \<in> set (snd (installTo ''windows'' demo_install ''arc.exe'' [''arc.exe'' \<mapsto> ''old''])). fs' ''arc.exe'' = None"
  by (simp add: installTo_def demo_install_def swapBinary_def verifyNewBinary_def first_line_def trim_space_def
      is_space_def has_prefix_def Let_def rename_def remove_def old_path_def)

text \<open>A forced update installs; without force the version that runs and builds ahead of it are left alone.\<close>

lemma update_decision_Install:
  "update_decision version tag check force = Install
     \<longleftrightarrow> \<not> check \<and> (force \<or> version \<noteq> tag \<and> \<not> has_prefix version (tag @ ''-''))"
  by (simp add: update_decision_def)

end
