(* ===== verification/Service.thy ===== *)
theory Service
  imports ConfigTypes Paths
begin

text \<open>
  The program as a background service (\<open>cmd/arc/service.go\<close>): the service files it writes, the
  commands that install, start and stop the service, and in which order. Running a command is a
  parameter; the steps that were taken are the result.
\<close>

section \<open>The service files\<close>

definition launchdLabel :: string where "launchdLabel = ''com.arc.runner''"

definition qt :: string where "qt = [CHR 0x22]"

definition unlines :: "string list \<Rightarrow> string" where
  "unlines ls = concat (map (\<lambda>l. l @ [CHR 0x0A]) ls)"

definition launch_script :: "string \<Rightarrow> int \<Rightarrow> string" where
  "launch_script exe mx =
     ''export PATH='' @ qt @ ''/opt/homebrew/bin:/usr/local/bin:$PATH'' @ qt @ ''; set -a; [ -f '' @ qt @ ''$HOME/.arc/env''
     @ qt @ '' ] && . '' @ qt @ ''$HOME/.arc/env'' @ qt @ ''; set +a; exec '' @ qt @ exe @ qt @ '' run --max='' @ itoa mx"

definition launchdPlist :: "string \<Rightarrow> string \<Rightarrow> int \<Rightarrow> string" where
  "launchdPlist home exe mx = unlines
     [''<?xml version='' @ qt @ ''1.0'' @ qt @ '' encoding='' @ qt @ ''UTF-8'' @ qt @ ''?>'',
      ''<!DOCTYPE plist PUBLIC '' @ qt @ ''-//Apple//DTD PLIST 1.0//EN'' @ qt @ '' '' @ qt
        @ ''http://www.apple.com/DTDs/PropertyList-1.0.dtd'' @ qt @ ''>'',
      ''<plist version='' @ qt @ ''1.0'' @ qt @ ''>'',
      ''<dict>'',
      ''  <key>Label</key><string>'' @ launchdLabel @ ''</string>'',
      ''  <key>ProgramArguments</key>'',
      ''  <array>'',
      ''    <string>/bin/bash</string>'',
      ''    <string>-c</string>'',
      ''    <string>'' @ launch_script exe mx @ ''</string>'',
      ''  </array>'',
      ''  <key>RunAtLoad</key><true/>'',
      ''  <key>KeepAlive</key><true/>'',
      ''  <key>AbandonProcessGroup</key><true/>'',
      ''  <key>StandardOutPath</key><string>'' @ home @ ''/.arc/arc.log</string>'',
      ''  <key>StandardErrorPath</key><string>'' @ home @ ''/.arc/arc.log</string>'',
      ''</dict>'',
      ''</plist>'']"

definition systemdUnit :: "string \<Rightarrow> string \<Rightarrow> int \<Rightarrow> string" where
  "systemdUnit exe user mx = unlines
     [''[Unit]'',
      ''Description=arc GitHub Actions runner cluster'',
      ''After=network-online.target'',
      ''Wants=network-online.target'',
      [],
      ''[Service]'',
      ''User='' @ user,
      ''EnvironmentFile=-/etc/arc/env'',
      ''ExecStart='' @ exe @ '' run --max='' @ itoa mx,
      ''Restart=always'',
      ''RestartSec=5'',
      ''# Never kill runners on restart: they finish their job and exit, and arc'',
      ''# re-adopts them from on-disk state when it comes back.'',
      ''KillMode=process'',
      [],
      ''[Install]'',
      ''WantedBy=multi-user.target'']"

definition bs :: string where "bs = [CHR 0x5C]"

definition windowsLauncher :: "string \<Rightarrow> int \<Rightarrow> string" where
  "windowsLauncher exe mx = unlines
     [''$tok = '' @ qt @ ''$env:LOCALAPPDATA'' @ bs @ ''arc'' @ bs @ ''op-token.txt'' @ qt,
      ''if (Test-Path $tok) { $env:OP_SERVICE_ACCOUNT_TOKEN = (Get-Content $tok -Raw).Trim() }'',
      ''while ($true) {'',
      ''  & '' @ qt @ exe @ qt @ '' run --max='' @ itoa mx @ '' *>> '' @ qt @ ''$env:LOCALAPPDATA'' @ bs @ ''arc'' @ bs
        @ ''arc.log'' @ qt,
      ''  Start-Sleep -Seconds 30'',
      ''}'']"

section \<open>Installing\<close>

datatype step = MkdirAll string | WriteFile string string | Command "string list"

text \<open>
  A plan: the steps in order, each with whether its failure ends the plan. \<open>fails\<close> is the error of
  a step; the result is the error that ended the plan and the steps that were tried.
\<close>

fun run_plan :: "(step \<Rightarrow> string option) \<Rightarrow> (bool \<times> step) list \<Rightarrow> string option \<times> step list" where
  "run_plan fails [] = (None, [])"
| "run_plan fails ((must, s) # rest) =
     (case fails s of
        Some e \<Rightarrow> if must then (Some e, [s]) else (let (r, ss) = run_plan fails rest in (r, s # ss))
      | None \<Rightarrow> (let (r, ss) = run_plan fails rest in (r, s # ss)))"

definition launchdPlistPath :: "string \<Rightarrow> string" where
  "launchdPlistPath home = filepath_join [home, ''Library'', ''LaunchAgents'', launchdLabel @ ''.plist'']"

definition gui_target :: "int \<Rightarrow> string" where
  "gui_target uid = ''gui/'' @ itoa uid"

definition bootout :: "int \<Rightarrow> step" where
  "bootout uid = Command [''launchctl'', ''bootout'', gui_target uid @ ''/'' @ launchdLabel]"

definition bootstrap :: "int \<Rightarrow> string \<Rightarrow> step" where
  "bootstrap uid path = Command [''launchctl'', ''bootstrap'', gui_target uid, path]"

definition installLaunchd :: "string \<Rightarrow> int \<Rightarrow> string \<Rightarrow> int \<Rightarrow> (bool \<times> step) list" where
  "installLaunchd home uid exe mx =
     (let path = launchdPlistPath home
      in [(True, MkdirAll (filepath_join [home, ''.arc''])),
          (True, MkdirAll (filepath_join [home, ''Library'', ''LaunchAgents''])),
          (True, WriteFile path (launchdPlist home exe mx)),
          (False, bootout uid),
          (True, bootstrap uid path)])"

definition installSystemd :: "int \<Rightarrow> string \<Rightarrow> string \<Rightarrow> int \<Rightarrow> string + (bool \<times> step) list" where
  "installSystemd euid sudo_user exe mx =
     (if euid \<noteq> 0 then Inl ''installing the systemd service needs root: sudo arc install''
      else if sudo_user = [] \<or> sudo_user = ''root''
      then Inl ''run via sudo from the account that should own the runners (sudo arc install), not as root directly''
      else Inr [(True, WriteFile ''/etc/systemd/system/arc.service'' (systemdUnit exe sudo_user mx)),
                (True, Command [''systemctl'', ''daemon-reload'']),
                (True, Command [''systemctl'', ''enable'', ''--now'', ''arc''])])"

text \<open>\<open>filepath.Join\<close> of two clean names on Windows.\<close>

definition win_join :: "string \<Rightarrow> string \<Rightarrow> string" where
  "win_join dir name = (if dir = [] then name else dir @ bs @ name)"

definition installTask :: "string \<Rightarrow> string \<Rightarrow> int \<Rightarrow> (bool \<times> step) list" where
  "installTask dir exe mx =
     (let launcher = win_join dir ''run-arc.ps1'';
          tr = ''powershell.exe -NoProfile -WindowStyle Hidden -ExecutionPolicy Bypass -File '' @ qt @ launcher @ qt
      in [(True, MkdirAll dir),
          (True, WriteFile launcher (windowsLauncher exe mx)),
          (True, Command [''schtasks'', ''/Create'', ''/F'', ''/TN'', ''arc'', ''/SC'', ''ONLOGON'', ''/TR'', tr]),
          (True, Command [''schtasks'', ''/Run'', ''/TN'', ''arc''])])"

record service_host =
  sh_GOOS :: string
  sh_home :: "string option"
  sh_uid :: int
  sh_sudo_user :: string
  sh_localappdata :: string

definition cmdInstall :: "service_host \<Rightarrow> string \<Rightarrow> int \<Rightarrow> string + (bool \<times> step) list" where
  "cmdInstall h exe mx =
     (if sh_GOOS h = ''darwin'' then
        (case sh_home h of None \<Rightarrow> Inl ''home directory'' | Some home \<Rightarrow> Inr (installLaunchd home (sh_uid h) exe mx))
      else if sh_GOOS h = ''linux'' then installSystemd (sh_uid h) (sh_sudo_user h) exe mx
      else if sh_GOOS h = ''windows'' then Inr (installTask (win_join (sh_localappdata h) ''arc'') exe mx)
      else Inl (''no service installer for '' @ sh_GOOS h))"

definition cmdStartStop :: "service_host \<Rightarrow> string \<Rightarrow> string + step" where
  "cmdStartStop h action =
     (if sh_GOOS h = ''darwin'' then
        (if action = ''stop'' then Inr (bootout (sh_uid h))
         else Inr (bootstrap (sh_uid h) (launchdPlistPath (case sh_home h of Some d \<Rightarrow> d | None \<Rightarrow> []))))
      else if sh_GOOS h = ''linux'' then Inr (Command [''systemctl'', action, ''arc''])
      else if sh_GOOS h = ''windows'' then
        (if action = ''stop'' then Inr (Command [''schtasks'', ''/End'', ''/TN'', ''arc''])
         else Inr (Command [''schtasks'', ''/Run'', ''/TN'', ''arc'']))
      else Inl (''no service control for '' @ sh_GOOS h))"

section \<open>What they do\<close>

text \<open>A plan that succeeds tried every step, in order; one that fails stopped at a step that must work.\<close>

lemma run_plan_success: "run_plan fails ps = (None, ss) \<Longrightarrow> ss = map snd ps \<and> (\<forall>(must, s) \<in> set ps. must \<longrightarrow> fails s = None)"
  by (induction fails ps arbitrary: ss rule: run_plan.induct) (auto split: option.splits if_splits prod.splits)

text \<open>
  Starting the service uses the very step that installing it ended with, so what was installed is
  what is started; on Linux the unit is the one that was enabled.
\<close>

lemma start_is_last_install:
  assumes "cmdInstall h exe mx = Inr ps" "sh_GOOS h \<noteq> ''linux''"
  shows "cmdStartStop h ''start'' = Inr (snd (last ps))"
  using assms by (auto simp: cmdInstall_def cmdStartStop_def installLaunchd_def installTask_def Let_def
      split: if_splits option.splits)

text \<open>The property list holds the shell's conjunction as it is: two bare ampersands inside an XML text.\<close>

lemma launch_script_ampersands: "\<exists>a b. launch_script exe mx = a @ '' && '' @ b"
proof -
  have "launch_script exe mx =
     (''export PATH='' @ qt @ ''/opt/homebrew/bin:/usr/local/bin:$PATH'' @ qt @ ''; set -a; [ -f '' @ qt @ ''$HOME/.arc/env''
       @ qt @ '' ]'') @ '' && '' @ (''. '' @ qt @ ''$HOME/.arc/env'' @ qt @ ''; set +a; exec '' @ qt @ exe @ qt @ '' run --max='' @ itoa mx)"
    by (simp add: launch_script_def)
  then show ?thesis by blast
qed

lemma launchdPlist_ampersands: "\<exists>a b. launchdPlist home exe mx = a @ '' && '' @ b"
proof -
  obtain a b where s: "launch_script exe mx = a @ '' && '' @ b" using launch_script_ampersands by blast
  have elem: "x \<in> set ls \<Longrightarrow> \<exists>u v. unlines ls = u @ x @ v" for x ls
    unfolding unlines_def by (metis (no_types, lifting) append.assoc concat.simps(2) concat_append list.simps(9) map_append split_list)
  have "\<exists>u v. launchdPlist home exe mx = u @ (''    <string>'' @ launch_script exe mx @ ''</string>'') @ v"
    unfolding launchdPlist_def by (rule elem) (simp only: list.set insert_iff simp_thms)
  then obtain u v where "launchdPlist home exe mx = u @ (''    <string>'' @ (a @ '' && '' @ b) @ ''</string>'') @ v"
    unfolding s by blast
  then have "launchdPlist home exe mx = (u @ ''    <string>'' @ a) @ '' && '' @ (b @ ''</string>'' @ v)"
    by (simp only: append.assoc)
  then show ?thesis by blast
qed

end
