(* ===== verification/GhAuth.thy ===== *)
theory GhAuth
  imports GhJobs Paths
begin

text \<open>
  The GitHub credentials (\<open>internal/ghapi/auth.go\<close>): the personal token, the key of a GitHub App, the
  JWT that authenticates as the App, and the exchange that mints an installation token. Signing
  (SHA-256 and RSA), the PEM and ASN.1 decoders and the HTTP exchange are parameters.
\<close>

section \<open>Base 64\<close>

text \<open>\<open>base64.RawURLEncoding\<close>: three bytes are four characters, without padding at the end.\<close>

definition b64_alphabet :: string where
  "b64_alphabet = ''ABCDEFGHIJKLMNOPQRSTUVWXYZabcdefghijklmnopqrstuvwxyz0123456789-_''"

definition b64_char :: "nat \<Rightarrow> char" where
  "b64_char n = b64_alphabet ! n"

fun b64url :: "nat list \<Rightarrow> nat list" where
  "b64url (a # b # c # r) =
     a div 4 # ((a mod 4) * 16 + b div 16) # ((b mod 16) * 4 + c div 64) # (c mod 64) # b64url r"
| "b64url [a, b] = [a div 4, (a mod 4) * 16 + b div 16, (b mod 16) * 4]"
| "b64url [a] = [a div 4, (a mod 4) * 16]"
| "b64url [] = []"

definition RawURLEncoding :: "string \<Rightarrow> string" where
  "RawURLEncoding s = map b64_char (b64url (map of_char s))"

section \<open>The JWT (\<open>appJWT\<close>)\<close>

definition dq :: string where "dq = [CHR 0x22]"

definition jwt_header :: string where
  "jwt_header = ''{'' @ dq @ ''alg'' @ dq @ '':'' @ dq @ ''RS256'' @ dq @ '','' @ dq @ ''typ'' @ dq @ '':'' @ dq @ ''JWT'' @ dq @ ''}''"

text \<open>The claims as JSON; the keys of a map are written in order.\<close>

definition claims_json :: "(string \<times> int) list \<Rightarrow> string" where
  "claims_json cs = ''{'' @ join_str '','' (map (\<lambda>(k, v). dq @ k @ dq @ '':'' @ itoa v) (sort_key fst cs)) @ ''}''"

definition signing_input :: "int \<Rightarrow> int \<Rightarrow> string" where
  "signing_input now appID = RawURLEncoding jwt_header @ ''.'' @ RawURLEncoding (claims_json (jwt_claims now appID))"

text \<open>\<open>sign\<close> is the RSA signature of the SHA-256 digest.\<close>

definition appJWT :: "(string \<Rightarrow> string + string) \<Rightarrow> int \<Rightarrow> int \<Rightarrow> string + string" where
  "appJWT sign now appID =
     (let input = signing_input now appID
      in case sign input of
           Inl e \<Rightarrow> Inl (''sign app jwt: '' @ e)
         | Inr sig \<Rightarrow> Inr (input @ ''.'' @ RawURLEncoding sig))"

section \<open>The key\<close>

text \<open>\<open>parseRSAPrivateKey\<close>: PKCS#1 first, then PKCS#8, which may hold a key of another kind.\<close>

datatype 'k pkcs8_key = RSAKey 'k | OtherKey string

definition parseRSAPrivateKey ::
  "(string \<Rightarrow> string option) \<Rightarrow> (string \<Rightarrow> 'k option) \<Rightarrow> (string \<Rightarrow> string + 'k pkcs8_key) \<Rightarrow> string \<Rightarrow> string + 'k" where
  "parseRSAPrivateKey pem pkcs1 pkcs8 raw =
     (case pem raw of
        None \<Rightarrow> Inl ''app private key is not valid PEM''
      | Some block \<Rightarrow> (case pkcs1 block of
            Some k \<Rightarrow> Inr k
          | None \<Rightarrow> (case pkcs8 block of
                Inl e \<Rightarrow> Inl (''parse app private key: '' @ e)
              | Inr (RSAKey k) \<Rightarrow> Inr k
              | Inr (OtherKey t) \<Rightarrow> Inl (''app private key is '' @ t @ '', want RSA''))))"

text \<open>\<open>NewAppAuth\<close>: a key file, when one is named, wins over the inline key.\<close>

definition app_key_text :: "(string \<Rightarrow> string + string) \<Rightarrow> AppAuth \<Rightarrow> string + string" where
  "app_key_text read_file a =
     (if app_PrivateKeyPath a = [] then Inr (app_PrivateKey a)
      else case read_file (app_PrivateKeyPath a) of
          Inl e \<Rightarrow> Inl (''read app private key: '' @ e)
        | Inr b \<Rightarrow> Inr b)"

definition NewAppAuth ::
  "(string \<Rightarrow> string + string) \<Rightarrow> (string \<Rightarrow> string option) \<Rightarrow> (string \<Rightarrow> 'k option) \<Rightarrow> (string \<Rightarrow> string + 'k pkcs8_key)
    \<Rightarrow> AppAuth \<Rightarrow> string + 'k" where
  "NewAppAuth read_file pem pkcs1 pkcs8 a =
     (case app_key_text read_file a of Inl e \<Rightarrow> Inl e | Inr raw \<Rightarrow> parseRSAPrivateKey pem pkcs1 pkcs8 raw)"

definition Describe :: "credential \<Rightarrow> string" where
  "Describe c = (case c of
     UseToken _ \<Rightarrow> ''personal access token''
   | UseApp a \<Rightarrow> ''GitHub App '' @ itoa (app_AppID a) @ '' installation '' @ itoa (app_InstallationID a))"

section \<open>Minting a token (\<open>AppAuth.Token\<close>)\<close>

definition mint_url :: "string \<Rightarrow> int \<Rightarrow> string" where
  "mint_url api installation = api @ ''/app/installations/'' @ itoa installation @ ''/access_tokens''"

text \<open>
  \<open>post\<close> sends the request with its bearer token and gives status and body; \<open>decode\<close> reads the token
  and its expiry.
\<close>

definition mint ::
  "(string \<Rightarrow> string + string) \<Rightarrow> (string \<Rightarrow> (string \<times> string option) option) \<Rightarrow> (string \<Rightarrow> (string \<times> int) option)
    \<Rightarrow> (string \<Rightarrow> string \<Rightarrow> 'w \<Rightarrow> (string + int \<times> string) \<times> 'w) \<Rightarrow> ('w \<Rightarrow> int) \<Rightarrow> string \<Rightarrow> AppAuth
    \<Rightarrow> 'w \<Rightarrow> (string + string \<times> int) \<times> 'w" where
  "mint sign js_err decode post clock api a w =
     (case appJWT sign (clock w) (app_AppID a) of
        Inl e \<Rightarrow> (Inl e, w)
      | Inr jwt \<Rightarrow>
          (let (r, w') = post (mint_url api (app_InstallationID a)) (''Bearer '' @ jwt) w
           in case r of
                Inl e \<Rightarrow> (Inl (''mint installation token: '' @ e), w')
              | Inr (status, body) \<Rightarrow>
                  if status \<noteq> 201 then
                    (Inl (''mint installation token: '' @ itoa status @ '' '' @ extractMessage js_err (take (2 ^ 20) body)), w')
                  else (case decode body of
                      None \<Rightarrow> (Inl ''decode installation token'', w')
                    | Some (t, until) \<Rightarrow> (Inr (t, until), w'))))"

section \<open>What GitHub reads\<close>

definition b64_value :: "char \<Rightarrow> nat option" where
  "b64_value c = map_option (\<lambda>(i, _). i) (find (\<lambda>(i, x). x = c) (zip [0..<64] b64_alphabet))"

fun b64url_decode :: "nat list \<Rightarrow> nat list" where
  "b64url_decode (p # q # r # s # t) =
     (p * 4 + q div 16) # ((q mod 16) * 16 + r div 4) # ((r mod 4) * 64 + s) # b64url_decode t"
| "b64url_decode [p, q, r] = [p * 4 + q div 16, (q mod 16) * 16 + r div 4]"
| "b64url_decode [p, q] = [p * 4 + q div 16]"
| "b64url_decode _ = []"

definition segment_bytes :: "string \<Rightarrow> string" where
  "segment_bytes s = map char_of (b64url_decode (List.map_filter b64_value s))"

lemma b64_value_char: "n < 64 \<Longrightarrow> b64_value (b64_char n) = Some n"
proof -
  have "list_all (\<lambda>n. b64_value (b64_char n) = Some n) [0..<64]" by code_simp
  then show "n < 64 \<Longrightarrow> ?thesis" by (simp add: list_all_iff)
qed

lemma b64_char_no_dot: "n < 64 \<Longrightarrow> b64_char n \<noteq> CHR ''.''"
proof -
  have "list_all (\<lambda>n. b64_char n \<noteq> CHR ''.'') [0..<64]" by code_simp
  then show "n < 64 \<Longrightarrow> ?thesis" by (simp add: list_all_iff)
qed

lemma b64url_range: "list_all (\<lambda>n. n < 256) xs \<Longrightarrow> list_all (\<lambda>n. n < 64) (b64url xs)"
  by (induction xs rule: b64url.induct) auto

lemma b64_group:
  "b < 256 \<Longrightarrow> b div 16 div 16 = (0 :: nat)" "b < 256 \<Longrightarrow> b div 16 mod 16 = (b div 16 :: nat)"
  "c < 256 \<Longrightarrow> c div 64 div 4 = (0 :: nat)" "c < 256 \<Longrightarrow> c div 64 mod 4 = (c div 64 :: nat)"
  by (simp_all add: less_mult_imp_div_less)

lemma b64url_decode_encode: "list_all (\<lambda>n. n < 256) xs \<Longrightarrow> b64url_decode (b64url xs) = xs"
  by (induction xs rule: b64url.induct) (simp_all add: b64_group)

lemma bytes_range: "list_all (\<lambda>n. n < 256) (map of_char (s :: string) :: nat list)"
  by (simp add: list_all_iff)

lemma map_filter_values: "list_all (\<lambda>n. n < 64) ns \<Longrightarrow> List.map_filter b64_value (map b64_char ns) = ns"
  by (induction ns) (simp_all add: map_filter_simps b64_value_char)

lemma segment_bytes_encoding: "segment_bytes (RawURLEncoding s) = s"
  by (simp add: segment_bytes_def RawURLEncoding_def map_filter_values b64url_range bytes_range b64url_decode_encode comp_def)

lemma RawURLEncoding_no_dot: "CHR ''.'' \<notin> set (RawURLEncoding s)"
  using b64url_range [OF bytes_range, of s] b64_char_no_dot by (fastforce simp: RawURLEncoding_def list_all_iff)

text \<open>
  The JWT has three segments, which decode to the header, the claims and the signature of what
  stands before it; its life is the ten minutes GitHub allows, from a minute ago.
\<close>

lemma split_at_dot: "CHR ''.'' \<notin> set a \<Longrightarrow> split_char CHR ''.'' (a @ CHR ''.'' # b) = a # split_char CHR ''.'' b"
  by (induction a) (auto split: list.split)

lemma appJWT_segments:
  assumes "appJWT sign now appID = Inr jwt"
  shows "\<exists>sig. sign (signing_input now appID) = Inr sig
    \<and> map segment_bytes (split_char CHR ''.'' jwt) = [jwt_header, claims_json (jwt_claims now appID), sig]"
proof -
  obtain sig where s: "sign (signing_input now appID) = Inr sig"
    "jwt = signing_input now appID @ ''.'' @ RawURLEncoding sig"
    using assms by (auto simp: appJWT_def Let_def split: sum.splits)
  have "split_char CHR ''.'' jwt
      = [RawURLEncoding jwt_header, RawURLEncoding (claims_json (jwt_claims now appID)), RawURLEncoding sig]"
    using s(2) by (simp add: signing_input_def split_at_dot RawURLEncoding_no_dot split_char_id)
  with s(1) show ?thesis by (simp add: segment_bytes_encoding)
qed

lemma jwt_life: "map_of (jwt_claims now appID) ''exp'' = Some e \<Longrightarrow> map_of (jwt_claims now appID) ''iat'' = Some i \<Longrightarrow> e - i = 600"
proof -
  have "(now + 9 * Minute) div Second = (now - 60 * Second) div Second + 600"
    by (simp add: duration_defs)
  then show "map_of (jwt_claims now appID) ''exp'' = Some e \<Longrightarrow> map_of (jwt_claims now appID) ''iat'' = Some i \<Longrightarrow> e - i = 600"
    by (auto simp: jwt_claims_def GhJobs.unix_seconds_def)
qed

text \<open>A token that is handed out was minted just now or has more than a minute left.\<close>

lemma App_Token_fresh:
  assumes "run_state (App_Token clock exchange) s = (Inr t, s')"
  shows "(t = aa_token s \<and> clock (world s) + Minute < aa_expires s \<and> s' = s) \<or> (\<exists>u. fst (exchange (world s)) = Inr (t, u) \<and> aa_expires s' = u)"
  using assms
  by (auto simp: App_Token_def look_def gets_def call_def modify_def split_beta Let_def split: if_splits sum.splits)

end
