(* ===== verification/ProcWindows.thy ===== *)
theory ProcWindows
  imports Prelude
begin

text \<open>
  The process control of the process provider on Windows
  (\<open>internal/provider/processprov/proc_windows.go\<close>): the commands it runs and how it reads the
  output of \<open>tasklist\<close>; \<open>None\<close> is a command that failed.
\<close>

definition tasklist_command :: "int \<Rightarrow> string list" where
  "tasklist_command pid = [''tasklist'', ''/FI'', ''PID eq '' @ itoa pid, ''/NH'', ''/FO'', ''CSV'']"

definition win_processAlive :: "(string list \<Rightarrow> string option) \<Rightarrow> int \<Rightarrow> bool" where
  "win_processAlive run pid =
     (if pid \<le> 0 then False
      else case run (tasklist_command pid) of
          None \<Rightarrow> False
        | Some out \<Rightarrow> contains_str out ([CHR 0x22] @ itoa pid @ [CHR 0x22]))"

text \<open>The command that is run, if any: the tree of the process is asked, or forced, to end.\<close>

definition win_signalGroup :: "int \<Rightarrow> string list option" where
  "win_signalGroup pid = (if pid \<le> 0 then None else Some [''taskkill'', ''/PID'', itoa pid, ''/T''])"

definition win_killGroup :: "int \<Rightarrow> string list option" where
  "win_killGroup pid = (if pid \<le> 0 then None else Some [''taskkill'', ''/PID'', itoa pid, ''/T'', ''/F''])"

definition win_processMatches :: "(string list \<Rightarrow> string option) \<Rightarrow> int \<Rightarrow> bool" where
  "win_processMatches run pid =
     (case run (tasklist_command pid) of
        None \<Rightarrow> True
      | Some out \<Rightarrow>
          (let line = to_lower out
           in contains_str line ''runner.listener'' \<or> contains_str line ''cmd.exe'' \<or> contains_str line ''run.cmd''))"

text \<open>
  When \<open>tasklist\<close> itself fails, a process that runs counts as gone, while the other question, whether
  it is the runner's, is answered with yes.
\<close>

lemma tasklist_failure: "run (tasklist_command pid) = None \<Longrightarrow> \<not> win_processAlive run pid \<and> win_processMatches run pid"
  by (simp add: win_processAlive_def win_processMatches_def)

text \<open>A pid that now belongs to any command prompt is taken for the runner's.\<close>

lemma any_prompt_matches: "win_processMatches (\<lambda>_. Some ''cmd.exe,4711,Console,1,4.000 K'') 4711"
  by (simp add: win_processMatches_def) code_simp

text \<open>No command is run for a pid that is not one, so nothing else can be hit.\<close>

lemma no_command_for_no_pid: "pid \<le> 0 \<Longrightarrow> win_signalGroup pid = None \<and> win_killGroup pid = None \<and> \<not> win_processAlive run pid"
  by (simp add: win_signalGroup_def win_killGroup_def win_processAlive_def)

end
